(* ===== verification/Prelude.thy ===== *)
theory Prelude
  imports Main "HOL-Library.AList" "HOL-Library.Sublist" "HOL-Library.Char_ord"
    "HOL-Library.List_Lexorder"
begin

text \<open>
  The vocabulary shared by every component: Go maps and slices with their nil value, the chain of
  early error returns, loops that stop at the first error, and the functions of the packages
  \<^verbatim>\<open>strings\<close>, \<^verbatim>\<open>strconv\<close> and \<^verbatim>\<open>sort\<close> that the sources call.

  A Go string is its sequence of bytes, so it is a \<^typ>\<open>string\<close> (a list of 8-bit characters).
  A Go map is the list of its entries in the order in which a \<^verbatim>\<open>range\<close> statement visits them;
  Go leaves that order open, so a theorem about all such lists holds for every order Go may choose.
  Keys are distinct (\<open>wf_map\<close>), and the operations below keep them distinct.
\<close>

named_theorems go_simps \<open>rewrite rules for maps, slices and early returns\<close>
named_theorems str_simps \<open>definitions of the string helpers\<close>

subsection \<open>Maps and slices\<close>

type_synonym 'v entries = "(string \<times> 'v) list"
type_synonym 'v gomap = "(string \<times> 'v) list option"
type_synonym 'a slice = "'a list option"

definition entries :: "'v gomap \<Rightarrow> 'v entries" where
  "entries m = (case m of None \<Rightarrow> [] | Some es \<Rightarrow> es)"

definition elems :: "'a slice \<Rightarrow> 'a list" where
  "elems s = (case s of None \<Rightarrow> [] | Some xs \<Rightarrow> xs)"

definition lookup_map :: "'v gomap \<Rightarrow> string \<Rightarrow> 'v option" where
  "lookup_map m k = map_of (entries m) k"

definition wf_map :: "'v gomap \<Rightarrow> bool" where
  "wf_map m \<longleftrightarrow> distinct (map fst (entries m))"

text \<open>\<^verbatim>\<open>append([]T(nil), s...)\<close>: the copy of an empty slice is nil.\<close>

definition append_nil :: "'a slice \<Rightarrow> 'a slice" where
  "append_nil s = (if elems s = [] then None else Some (elems s))"

text \<open>The loop \<^verbatim>\<open>for key, value := range src { dst[key] = value }\<close>.\<close>

fun put_all :: "'v entries \<Rightarrow> 'v entries \<Rightarrow> 'v entries" where
  "put_all dst [] = dst"
| "put_all dst ((k, v) # src) = put_all (AList.update k v dst) src"

lemma entries_simps [simp, go_simps]: "entries None = []" "entries (Some es) = es"
  by (simp_all add: entries_def)

lemma elems_simps [simp, go_simps]: "elems None = []" "elems (Some xs) = xs"
  by (simp_all add: elems_def)

lemma lookup_map_simps [simp, go_simps]:
  "lookup_map None k = None" "lookup_map (Some es) k = map_of es k"
  by (simp_all add: lookup_map_def)

lemma elems_append_nil [simp, go_simps]: "elems (append_nil s) = elems s"
  by (simp add: append_nil_def)

lemma append_nil_simps [simp, go_simps]:
  "append_nil None = None" "append_nil (Some []) = None"
  "append_nil (Some (x # xs)) = Some (x # xs)"
  by (simp_all add: append_nil_def)

lemma append_nil_idem [simp]: "append_nil (append_nil s) = append_nil s"
  by (simp add: append_nil_def)

lemma append_nil_eq_None [simp]: "append_nil s = None \<longleftrightarrow> elems s = []"
  by (simp add: append_nil_def)

lemma map_of_update [simp, go_simps]:
  "map_of (AList.update k v es) x = (if x = k then Some v else map_of es x)"
  by (simp add: update_conv)

lemma map_of_put_all:
  "distinct (map fst src) \<Longrightarrow>
   map_of (put_all dst src) k = (case map_of src k of None \<Rightarrow> map_of dst k | Some v \<Rightarrow> Some v)"
proof (induction dst src rule: put_all.induct)
  case (1 dst)
  then show ?case by simp
next
  case (2 dst k' v src)
  have "map_of src k' = None" using "2.prems" by (simp add: map_of_eq_None_iff)
  with 2 show ?case by (auto split: option.splits)
qed

lemma distinct_put_all:
  "distinct (map fst dst) \<Longrightarrow> distinct (map fst (put_all dst src))"
  by (induction dst src rule: put_all.induct) (simp_all add: distinct_update)

lemma map_of_map_snd [simp]:
  "map_of (map (\<lambda>(k, v). (k, f v)) es) k = map_option f (map_of es k)"
  by (induction es) auto

lemma map_fst_map_snd [simp]: "map fst (map (\<lambda>(k, v). (k, f v)) es) = map fst es"
  by (induction es) auto

subsection \<open>Early returns and loops that stop at an error\<close>

text \<open>
  A validator returns \<^verbatim>\<open>error\<close>, here \<open>'e option\<close> with \<^const>\<open>None\<close> for nil. The statement
  \<^verbatim>\<open>if err := f(); err != nil { return err }\<close> repeated down a function body is \<open>first_err\<close> of
  the list of the calls; a \<^verbatim>\<open>range\<close> loop with such a body is \<open>each_err\<close> or \<open>each_idx_err\<close>.
\<close>

fun first_err :: "'e option list \<Rightarrow> 'e option" where
  "first_err [] = None"
| "first_err (None # es) = first_err es"
| "first_err (Some e # es) = Some e"

fun each_idx_err :: "(nat \<Rightarrow> 'a \<Rightarrow> 'e option) \<Rightarrow> nat \<Rightarrow> 'a list \<Rightarrow> 'e option" where
  "each_idx_err f i [] = None"
| "each_idx_err f i (x # xs) = (case f i x of Some e \<Rightarrow> Some e | None \<Rightarrow> each_idx_err f (Suc i) xs)"

definition each_err :: "('a \<Rightarrow> 'e option) \<Rightarrow> 'a list \<Rightarrow> 'e option" where
  "each_err f xs = each_idx_err (\<lambda>_. f) 0 xs"

definition check :: "bool \<Rightarrow> 'e \<Rightarrow> 'e option" where
  "check bad e = (if bad then Some e else None)"

definition bindE :: "'e + 'a \<Rightarrow> ('a \<Rightarrow> 'e + 'b) \<Rightarrow> 'e + 'b" where
  "bindE r f = (case r of Inl e \<Rightarrow> Inl e | Inr x \<Rightarrow> f x)"

fun map_res :: "('a \<Rightarrow> 'e + 'b) \<Rightarrow> 'a list \<Rightarrow> 'e + 'b list" where
  "map_res f [] = Inr []"
| "map_res f (x # xs) = bindE (f x) (\<lambda>y. bindE (map_res f xs) (\<lambda>ys. Inr (y # ys)))"

lemma bindE_simps [simp, go_simps]: "bindE (Inl e) f = Inl e" "bindE (Inr x) f = f x"
  by (simp_all add: bindE_def)

lemma bindE_Inr: "bindE r f = Inr y \<longleftrightarrow> (\<exists>x. r = Inr x \<and> f x = Inr y)"
  by (cases r) auto

lemma bindE_Inl: "bindE r f = Inl e \<longleftrightarrow> r = Inl e \<or> (\<exists>x. r = Inr x \<and> f x = Inl e)"
  by (cases r) auto

lemma check_simps [simp, go_simps]: "check bad e = None \<longleftrightarrow> \<not> bad"
  "check bad e = Some e' \<longleftrightarrow> bad \<and> e' = e"
  by (auto simp: check_def)

lemma first_err_None [simp, go_simps]: "first_err es = None \<longleftrightarrow> (\<forall>e \<in> set es. e = None)"
  by (induction es rule: first_err.induct) auto

lemma first_err_Some: "first_err es = Some e \<Longrightarrow> Some e \<in> set es"
  by (induction es rule: first_err.induct) auto

lemma each_idx_err_None:
  "each_idx_err f i xs = None \<longleftrightarrow> (\<forall>j < length xs. f (i + j) (xs ! j) = None)"
proof (induction xs arbitrary: i)
  case Nil
  then show ?case by simp
next
  case (Cons x xs)
  then show ?case by (auto simp: All_less_Suc2 split: option.splits)
qed

lemma each_err_None [simp, go_simps]: "each_err f xs = None \<longleftrightarrow> (\<forall>x \<in> set xs. f x = None)"
  by (simp add: each_err_def each_idx_err_None all_set_conv_all_nth)

lemma each_idx_err_Some: "each_idx_err f i xs = Some e \<Longrightarrow> \<exists>j x. x \<in> set xs \<and> f j x = Some e"
  by (induction xs arbitrary: i) (auto split: option.splits, blast+)

lemma each_idx_err_all:
  "each_idx_err f i xs = None \<Longrightarrow> x \<in> set xs \<Longrightarrow> \<exists>j. f j x = None"
  by (auto simp: each_idx_err_None in_set_conv_nth)

lemma map_res_Inr:
  "map_res f xs = Inr ys \<longleftrightarrow> list_all2 (\<lambda>x y. f x = Inr y) xs ys"
  by (induction xs arbitrary: ys) (auto simp: bindE_Inr list_all2_Cons1)

lemma map_res_Inl: "map_res f xs = Inl e \<Longrightarrow> \<exists>x \<in> set xs. f x = Inl e"
  by (induction xs) (auto simp: bindE_Inl)

subsection \<open>Strings\<close>

text \<open>
  The UTF-8 encodings of the runes for which \<^verbatim>\<open>unicode.IsSpace\<close> holds. A leading (trailing) rune
  of a string is white space exactly when one of them is a prefix (suffix) of it, so
  \<^verbatim>\<open>strings.TrimSpace\<close> and \<^verbatim>\<open>strings.Fields\<close> need no further decoding.
\<close>

definition space_seqs :: "string list" where
  "space_seqs =
     [[CHR 0x20], [CHR 0x09], [CHR 0x0A], [CHR 0x0B], [CHR 0x0C], [CHR 0x0D],
      [CHR 0xC2, CHR 0x85], [CHR 0xC2, CHR 0xA0], [CHR 0xE1, CHR 0x9A, CHR 0x80],
      [CHR 0xE2, CHR 0x80, CHR 0x80], [CHR 0xE2, CHR 0x80, CHR 0x81],
      [CHR 0xE2, CHR 0x80, CHR 0x82], [CHR 0xE2, CHR 0x80, CHR 0x83],
      [CHR 0xE2, CHR 0x80, CHR 0x84], [CHR 0xE2, CHR 0x80, CHR 0x85],
      [CHR 0xE2, CHR 0x80, CHR 0x86], [CHR 0xE2, CHR 0x80, CHR 0x87],
      [CHR 0xE2, CHR 0x80, CHR 0x88], [CHR 0xE2, CHR 0x80, CHR 0x89],
      [CHR 0xE2, CHR 0x80, CHR 0x8A], [CHR 0xE2, CHR 0x80, CHR 0xA8],
      [CHR 0xE2, CHR 0x80, CHR 0xA9], [CHR 0xE2, CHR 0x80, CHR 0xAF],
      [CHR 0xE2, CHR 0x81, CHR 0x9F], [CHR 0xE3, CHR 0x80, CHR 0x80]]"

text \<open>\<open>space_len ws s\<close>: the length of the white space rune \<open>s\<close> starts with, 0 when there is none.\<close>

fun space_len :: "string list \<Rightarrow> string \<Rightarrow> nat" where
  "space_len [] s = 0"
| "space_len (w # ws) s = (if prefix w s then length w else space_len ws s)"

lemma space_len_le: "space_len ws s \<le> length s"
  by (induction ws) (auto dest: prefix_length_le)

function trim_with :: "string list \<Rightarrow> string \<Rightarrow> string" where
  "trim_with ws s = (if space_len ws s = 0 then s else trim_with ws (drop (space_len ws s) s))"
  by pat_completeness auto
termination
proof (relation "measure (\<lambda>(ws, s). length s)")
  fix ws and s :: string
  assume "space_len ws s \<noteq> 0"
  with space_len_le [of ws s] show "((ws, drop (space_len ws s) s), (ws, s)) \<in> measure (\<lambda>(ws, s). length s)"
    by simp
qed simp

declare trim_with.simps [simp del]

definition trimSpace :: "string \<Rightarrow> string" where
  "trimSpace s = rev (trim_with (map rev space_seqs) (rev (trim_with space_seqs s)))"

text \<open>\<^verbatim>\<open>strings.Fields\<close>; \<open>acc\<close> is the field being read, reversed.\<close>

function fields_from :: "string \<Rightarrow> string \<Rightarrow> string list" where
  "fields_from acc s =
     (if s = [] then (if acc = [] then [] else [rev acc])
      else if space_len space_seqs s = 0 then fields_from (hd s # acc) (tl s)
      else (if acc = [] then [] else [rev acc]) @ fields_from [] (drop (space_len space_seqs s) s))"
  by pat_completeness auto
termination
  by (relation "measure (\<lambda>(acc, s). length s)") auto

declare fields_from.simps [simp del]

definition fields :: "string \<Rightarrow> string list" where
  "fields s = fields_from [] s"

definition containsAny :: "string \<Rightarrow> string \<Rightarrow> bool" where
  "containsAny s chars \<longleftrightarrow> list_ex (\<lambda>c. c \<in> set chars) s"

definition hasPrefix :: "string \<Rightarrow> string \<Rightarrow> bool" where
  "hasPrefix s p \<longleftrightarrow> take (length p) s = p"

definition hasSuffix :: "string \<Rightarrow> string \<Rightarrow> bool" where
  "hasSuffix s p \<longleftrightarrow> length p \<le> length s \<and> drop (length s - length p) s = p"

definition trimPrefix :: "string \<Rightarrow> string \<Rightarrow> string" where
  "trimPrefix s p = (if hasPrefix s p then drop (length p) s else s)"

fun join :: "string \<Rightarrow> string list \<Rightarrow> string" where
  "join sep [] = []"
| "join sep [s] = s"
| "join sep (s # t # ss) = s @ sep @ join sep (t # ss)"

text \<open>The text of the string before the first occurrence of \<open>c\<close> (\<^verbatim>\<open>strings.Cut\<close>).\<close>

definition before :: "char \<Rightarrow> string \<Rightarrow> string" where
  "before c s = takeWhile (\<lambda>d. d \<noteq> c) s"

fun contains :: "string \<Rightarrow> string \<Rightarrow> bool" where
  "contains [] p \<longleftrightarrow> p = []"
| "contains (c # s) p \<longleftrightarrow> prefix p (c # s) \<or> contains s p"

definition replace_char :: "char \<Rightarrow> char \<Rightarrow> string \<Rightarrow> string" where
  "replace_char a b s = map (\<lambda>c. if c = a then b else c) s"

lemma contains_iff_sublist: "contains s p \<longleftrightarrow> sublist p s"
  by (induction s) (auto simp: sublist_Cons_right)

lemma containsAny_iff: "containsAny s chars \<longleftrightarrow> set s \<inter> set chars \<noteq> {}"
  by (auto simp: containsAny_def list_ex_iff)

lemma hasPrefix_iff: "hasPrefix s p \<longleftrightarrow> prefix p s"
  by (metis append_eq_conv_conj hasPrefix_def prefixE prefixI append_take_drop_id)

lemma replace_char_free: "a \<notin> set s \<Longrightarrow> replace_char a b s = s"
  by (induction s) (auto simp: replace_char_def)

text \<open>Decimal numerals, as \<^verbatim>\<open>strconv.Itoa\<close> and \<^verbatim>\<open>%d\<close> print them.\<close>

fun nat_str :: "nat \<Rightarrow> string" where
  "nat_str n = (if n < 10 then [''0123456789'' ! n] else nat_str (n div 10) @ [''0123456789'' ! (n mod 10)])"

declare nat_str.simps [simp del]

definition int_str :: "int \<Rightarrow> string" where
  "int_str i = (if i < 0 then ''-'' @ nat_str (nat (- i)) else nat_str (nat i))"

definition bool_str :: "bool \<Rightarrow> string" where
  "bool_str b = (if b then ''true'' else ''false'')"

text \<open>
  Lower-casing and case folding. Besides the letters A to Z, exactly three runes reach an ASCII
  letter: U+0130 lower-cases to \<^verbatim>\<open>i\<close>, U+212A lower-cases and folds to \<^verbatim>\<open>k\<close>, and U+017F folds to
  \<^verbatim>\<open>s\<close>. Other non-ASCII runes stay non-ASCII, and every caller only compares the result with, or
  searches it for, ASCII text; they are left as they are.
\<close>

definition lower_char :: "char \<Rightarrow> char" where
  "lower_char c = (if CHR ''A'' \<le> c \<and> c \<le> CHR ''Z'' then char_of (of_char c + 32 :: nat) else c)"

fun toLower :: "string \<Rightarrow> string" where
  "toLower [] = []"
| "toLower (c # s) =
     (if prefix [CHR 0xC4, CHR 0xB0] (c # s) then CHR ''i'' # toLower (drop 1 s)
      else if prefix [CHR 0xE2, CHR 0x84, CHR 0xAA] (c # s) then CHR ''k'' # toLower (drop 2 s)
      else lower_char c # toLower s)"

fun fold_case :: "string \<Rightarrow> string" where
  "fold_case [] = []"
| "fold_case (c # s) =
     (if prefix [CHR 0xC5, CHR 0xBF] (c # s) then CHR ''s'' # fold_case (drop 1 s)
      else if prefix [CHR 0xE2, CHR 0x84, CHR 0xAA] (c # s) then CHR ''k'' # fold_case (drop 2 s)
      else lower_char c # fold_case s)"

text \<open>\<^verbatim>\<open>strings.EqualFold(s, t)\<close> for a lower-case ASCII literal \<open>t\<close>.\<close>

definition equalFold :: "string \<Rightarrow> string \<Rightarrow> bool" where
  "equalFold s t \<longleftrightarrow> fold_case s = t"

end
