(* ===== verification/Values.thy ===== *)
theory Values
  imports Prelude
begin

text \<open>
  Template parameter values and environment references (\<^verbatim>\<open>mappings/resolver.go\<close>). A parameter is a
  Go \<^verbatim>\<open>any\<close>; what the YAML and JSON decoders can put there is the datatype \<open>val\<close>. Values of any
  other dynamic type (floats, timestamps) are carried by the text \<^verbatim>\<open>fmt.Sprint\<close> prints for them: the
  code only moves and prints them. \<open>error\<close> lists the errors of the package \<^verbatim>\<open>mappings\<close>; the paths
  they name are lists of segments instead of formatted text.
\<close>

datatype val =
    VNil
  | VStr string
  | VBool bool
  | VInt int
  | VOther string
  | VMap "(string \<times> val) list"
  | VList "val list"
  | VStrs "string list"

type_synonym params = "val gomap"

text \<open>\<^verbatim>\<open>EnvLookup\<close>: the environment of the process, or the function a request carries.\<close>

type_synonym env_lookup = "string \<Rightarrow> string option"

datatype seg = Fld string | Key string | Idx nat

type_synonym path = "seg list"

datatype env_ref_error = EnvRefExtraKeys | EnvRefNotString

datatype error =
    ParamEnvRef path env_ref_error
  | MissingEnv path string
  | NotAString path
  | MultiplePrimary "string list"
  | TargetNotFound string
  | ManualTargetNotAllowed string
  | UnknownTopLevelKey string
  | EmptyTargetName
  | EmptyScript string
  | InvalidNetwork nat string
  | InvalidHostname nat string
  | InvalidMac nat string
  | InvalidIP nat string
  | ParseError string
  | EmptyTargets string nat
  | UnknownTarget string nat string
  | UnknownDefaultTarget string nat string
  | DefaultNotIncluded string nat string
  | UnsupportedValue path string
  | EmptyEntry path
  | NegativeValue path
  | NonPositiveValue path
  | NotHttpUrl path
  | PassphraseRequired path
  | PassphraseShape path
  | TPMNeedsEncryption path
  | ShellMetacharacters path
  | BadPCRs path
  | EmptyFilesystemName path
  | RaidLevel path
  | RaidDeviceCount path
  | RaidFirmware path
  | HasWhitespace path
  | NotUnderDev path
  | NotExplicitPath path
  | GlobPattern path
  | TooBroadPattern path
  | NotSingleLine path

subsection \<open>Printing and copying\<close>

text \<open>\<^verbatim>\<open>fmt.Sprint\<close> of one value: maps print their keys in increasing order.\<close>

primrec sprint :: "val \<Rightarrow> string" where
  "sprint VNil = ''<nil>''"
| "sprint (VStr s) = s"
| "sprint (VBool b) = bool_str b"
| "sprint (VInt i) = int_str i"
| "sprint (VOther t) = t"
| "sprint (VMap es) =
     ''map['' @ join '' '' (map (\<lambda>kt. fst kt @ '':'' @ snd kt)
        (sort_key fst (map (map_prod (\<lambda>k. k) sprint) es))) @ '']''"
| "sprint (VList vs) = ''['' @ join '' '' (map sprint vs) @ '']''"
| "sprint (VStrs ss) = ''['' @ join '' '' ss @ '']''"

primrec copyParamValue :: "val \<Rightarrow> val" where
  "copyParamValue VNil = VNil"
| "copyParamValue (VStr s) = VStr s"
| "copyParamValue (VBool b) = VBool b"
| "copyParamValue (VInt i) = VInt i"
| "copyParamValue (VOther t) = VOther t"
| "copyParamValue (VMap es) = VMap (map (map_prod (\<lambda>k. k) copyParamValue) es)"
| "copyParamValue (VList vs) = VList (map copyParamValue vs)"
| "copyParamValue (VStrs ss) = VStrs ss"

definition copyParamMap :: "params \<Rightarrow> params" where
  "copyParamMap ps = (case ps of None \<Rightarrow> None
     | Some es \<Rightarrow> Some (map (\<lambda>(k, v). (k, copyParamValue v)) es))"

definition mergeParamMap :: "val entries \<Rightarrow> params \<Rightarrow> val entries" where
  "mergeParamMap dst src = put_all dst (entries src)"

subsection \<open>Environment references\<close>

definition envReferenceFromMap :: "val entries \<Rightarrow> env_ref_error + string option" where
  "envReferenceFromMap m =
     (case map_of m ''env'' of
        None \<Rightarrow> Inr None
      | Some v \<Rightarrow>
          if length m \<noteq> 1 then Inl EnvRefExtraKeys
          else (case v of
                  VStr env \<Rightarrow> if env = '''' then Inl EnvRefNotString else Inr (Some env)
                | _ \<Rightarrow> Inl EnvRefNotString))"

definition envReference :: "val \<Rightarrow> env_ref_error + string option" where
  "envReference v = (case v of VMap m \<Rightarrow> envReferenceFromMap m | _ \<Rightarrow> Inr None)"

definition resolveParamValue :: "path \<Rightarrow> val \<Rightarrow> env_lookup \<Rightarrow> error + val" where
  "resolveParamValue key v lookup =
     (case envReference v of
        Inl e \<Rightarrow> Inl (ParamEnvRef key e)
      | Inr None \<Rightarrow> Inr v
      | Inr (Some ref) \<Rightarrow>
          (case lookup ref of None \<Rightarrow> Inl (MissingEnv key ref) | Some s \<Rightarrow> Inr (VStr s)))"

definition resolveStringValue :: "path \<Rightarrow> val \<Rightarrow> env_lookup \<Rightarrow> error + string" where
  "resolveStringValue field v lookup =
     bindE (resolveParamValue field v lookup)
       (\<lambda>r. case r of VStr s \<Rightarrow> Inr s | _ \<Rightarrow> Inl (NotAString field))"

subsection \<open>Facts\<close>

text \<open>The deep copy has the contents of the original.\<close>

lemma copyParamValue_id [simp]: "copyParamValue v = v"
proof (induction v)
  case (VMap es)
  have "map (map_prod (\<lambda>k. k) copyParamValue) es = es"
    by (rule map_idI) (use VMap in \<open>fastforce simp: prod_set_defs\<close>)
  then show ?case by simp
next
  case (VList vs)
  then show ?case by (simp add: map_idI)
qed simp_all

lemma copyParamMap_id [simp]: "copyParamMap ps = ps"
proof -
  have "map (\<lambda>(k, v). (k, copyParamValue v)) es = es" for es
    by (induction es) auto
  then show ?thesis by (simp add: copyParamMap_def split: option.splits)
qed

lemma map_of_mergeParamMap:
  "wf_map src \<Longrightarrow>
   map_of (mergeParamMap dst src) k =
     (case lookup_map src k of None \<Rightarrow> map_of dst k | Some v \<Rightarrow> Some v)"
  by (simp add: mergeParamMap_def map_of_put_all wf_map_def lookup_map_def)

lemma distinct_mergeParamMap:
  "distinct (map fst dst) \<Longrightarrow> distinct (map fst (mergeParamMap dst src))"
  by (simp add: mergeParamMap_def distinct_put_all)

text \<open>A value that is not a map is never an environment reference.\<close>

lemma resolveParamValue_scalar:
  "(\<And>m. v \<noteq> VMap m) \<Longrightarrow> resolveParamValue key v lookup = Inr v"
  by (cases v) (auto simp: resolveParamValue_def envReference_def)

text \<open>A resolved value never is an environment reference itself.\<close>

lemma resolveParamValue_no_ref:
  assumes "resolveParamValue key v lookup = Inr v'"
  shows "envReference v' = Inr None"
proof (cases "envReference v")
  case (Inl e)
  with assms show ?thesis by (simp add: resolveParamValue_def)
next
  case (Inr r)
  with assms show ?thesis
    by (cases r) (auto simp: resolveParamValue_def envReference_def split: option.splits)
qed

lemma resolveParamValue_idem:
  "resolveParamValue key v lookup = Inr v' \<Longrightarrow> resolveParamValue key v' lookup' = Inr v'"
  using resolveParamValue_no_ref by (fastforce simp: resolveParamValue_def)

lemma resolveStringValue_Inr:
  "resolveStringValue field v lookup = Inr s \<longleftrightarrow> resolveParamValue field v lookup = Inr (VStr s)"
proof
  assume "resolveStringValue field v lookup = Inr s"
  then obtain r where "resolveParamValue field v lookup = Inr r"
    and "(case r of VStr s \<Rightarrow> Inr s | _ \<Rightarrow> Inl (NotAString field)) = Inr s"
    by (auto simp: resolveStringValue_def bindE_Inr)
  then show "resolveParamValue field v lookup = Inr (VStr s)" by (cases r) auto
qed (simp add: resolveStringValue_def)

end
