(* ===== verification/Config.thy ===== *)
theory Config
  imports Values
begin

text \<open>
  The structured provisioning schema of \<^verbatim>\<open>mappings/provisioning.go\<close>: its structs, and the functions
  that merge a layer over another and copy a layer. A pointer to a scalar is an option, a slice and a
  map carry their nil value, so that the difference between an unset field and an explicit zero, which
  the merge depends on, is kept.
\<close>

subsection \<open>The schema\<close>

record LocaleConfig =
  loc_Language :: string
  loc_Keyboard :: string

record TimeConfig =
  time_Timezone :: string
  time_UTC :: "bool option"
  time_NTP :: "bool option"

record NetworkConfig =
  net_Hostname :: string
  net_Bootproto :: string
  net_Nameservers :: "string slice"

record PackagesConfig =
  pkg_Install :: "string slice"
  pkg_Groups :: "string slice"
  pkg_UpdatePolicy :: string

record StorageEncryptionTPMConfig =
  tpm_Enabled :: "bool option"
  tpm_Device :: string
  tpm_PCRs :: string
  tpm_RequireSHA256Bank :: "bool option"
  tpm_Initramfs :: string

record StorageEncryptionConfig =
  enc_Enabled :: "bool option"
  enc_Passphrase :: val
  enc_Cipher :: string
  enc_KeySize :: "int option"
  enc_Hash :: string
  enc_TPM :: StorageEncryptionTPMConfig

record RAIDConfig =
  raid_Level :: int
  raid_Devices :: "string slice"
  raid_BootDegraded :: "bool option"

record FilesystemConfig =
  fs_Absent :: "bool option"
  fs_Mountpoint :: string
  fs_FSType :: string
  fs_Size :: string
  fs_SizeMiB :: "int option"

record StorageConfig =
  st_Disk :: string
  st_Wipe :: "bool option"
  st_WipeDiskPatterns :: "string slice"
  st_Mode :: string
  st_VolumeGroup :: string
  st_RAID :: RAIDConfig
  st_Encryption :: StorageEncryptionConfig
  st_Filesystems :: "FilesystemConfig gomap"
  st_absentFilesystems :: "bool gomap"

record NetbootConfig =
  nb_Method :: string
  nb_KernelArgs :: "string slice"

record InstalledBootConfig =
  ib_Bootloader :: string
  ib_TimeoutSeconds :: "int option"
  ib_KernelArgs :: "string slice"

record BootConfig =
  boot_Firmware :: string
  boot_Netboot :: NetbootConfig
  boot_Installed :: InstalledBootConfig

record ReposConfig =
  rep_OSMirror :: string
  rep_Release :: string
  rep_Firmware :: "bool option"
  rep_Contrib :: "bool option"
  rep_NonFree :: "bool option"

record InstallerConfig =
  ins_ConfigTemplate :: string
  ins_ConfigParams :: params
  ins_LateCommands :: "string slice"
  ins_ExtraTemplate :: string

record ProvisioningConfig =
  pv_Locale :: LocaleConfig
  pv_Time :: TimeConfig
  pv_Network :: NetworkConfig
  pv_Packages :: PackagesConfig
  pv_Storage :: StorageConfig
  pv_Boot :: BootConfig
  pv_Repos :: ReposConfig
  pv_Installer :: InstallerConfig

text \<open>The zero values of the structs.\<close>

definition zero_fs :: FilesystemConfig where
  "zero_fs = \<lparr>fs_Absent = None, fs_Mountpoint = [], fs_FSType = [], fs_Size = [], fs_SizeMiB = None\<rparr>"

definition zero_storage :: StorageConfig where
  "zero_storage =
     \<lparr>st_Disk = [], st_Wipe = None, st_WipeDiskPatterns = None, st_Mode = [], st_VolumeGroup = [],
      st_RAID = \<lparr>raid_Level = 0, raid_Devices = None, raid_BootDegraded = None\<rparr>,
      st_Encryption = \<lparr>enc_Enabled = None, enc_Passphrase = VNil, enc_Cipher = [], enc_KeySize = None,
        enc_Hash = [], enc_TPM = \<lparr>tpm_Enabled = None, tpm_Device = [], tpm_PCRs = [],
          tpm_RequireSHA256Bank = None, tpm_Initramfs = []\<rparr>\<rparr>,
      st_Filesystems = None, st_absentFilesystems = None\<rparr>"

definition zero_provisioning :: ProvisioningConfig where
  "zero_provisioning =
     \<lparr>pv_Locale = \<lparr>loc_Language = [], loc_Keyboard = []\<rparr>,
      pv_Time = \<lparr>time_Timezone = [], time_UTC = None, time_NTP = None\<rparr>,
      pv_Network = \<lparr>net_Hostname = [], net_Bootproto = [], net_Nameservers = None\<rparr>,
      pv_Packages = \<lparr>pkg_Install = None, pkg_Groups = None, pkg_UpdatePolicy = []\<rparr>,
      pv_Storage = zero_storage,
      pv_Boot = \<lparr>boot_Firmware = [], boot_Netboot = \<lparr>nb_Method = [], nb_KernelArgs = None\<rparr>,
        boot_Installed = \<lparr>ib_Bootloader = [], ib_TimeoutSeconds = None, ib_KernelArgs = None\<rparr>\<rparr>,
      pv_Repos = \<lparr>rep_OSMirror = [], rep_Release = [], rep_Firmware = None, rep_Contrib = None,
        rep_NonFree = None\<rparr>,
      pv_Installer = \<lparr>ins_ConfigTemplate = [], ins_ConfigParams = None, ins_LateCommands = None,
        ins_ExtraTemplate = []\<rparr>\<rparr>"

subsection \<open>Scalars\<close>

definition boolValue :: "bool option \<Rightarrow> bool" where
  "boolValue b \<longleftrightarrow> (case b of None \<Rightarrow> False | Some x \<Rightarrow> x)"

definition copyBoolPtr :: "bool option \<Rightarrow> bool option" where
  "copyBoolPtr b = (case b of None \<Rightarrow> None | Some x \<Rightarrow> Some x)"

definition copyBoolMap :: "bool gomap \<Rightarrow> bool gomap" where
  "copyBoolMap m = (case m of None \<Rightarrow> None | Some es \<Rightarrow> Some es)"

text \<open>
  The four shapes of \<^verbatim>\<open>if override.F is set { base.F = override.F }\<close>: a string is set when it is not
  empty, a pointer, a slice and an \<^verbatim>\<open>any\<close> when they are not nil.
\<close>

definition set_str :: "string \<Rightarrow> string \<Rightarrow> string" where
  "set_str new old = (if new \<noteq> [] then new else old)"

definition set_ptr :: "'a option \<Rightarrow> 'a option \<Rightarrow> 'a option" where
  "set_ptr new old = (case new of None \<Rightarrow> old | Some x \<Rightarrow> Some x)"

definition set_slice :: "'a slice \<Rightarrow> 'a slice \<Rightarrow> 'a slice" where
  "set_slice new old = (if new \<noteq> None then append_nil new else old)"

definition set_any :: "val \<Rightarrow> val \<Rightarrow> val" where
  "set_any new old = (if new \<noteq> VNil then copyParamValue new else old)"

subsection \<open>Merging a layer over another\<close>

definition mergeLocaleConfig :: "LocaleConfig \<Rightarrow> LocaleConfig \<Rightarrow> LocaleConfig" where
  "mergeLocaleConfig b ov =
     b\<lparr>loc_Language := set_str (loc_Language ov) (loc_Language b),
       loc_Keyboard := set_str (loc_Keyboard ov) (loc_Keyboard b)\<rparr>"

definition mergeTimeConfig :: "TimeConfig \<Rightarrow> TimeConfig \<Rightarrow> TimeConfig" where
  "mergeTimeConfig b ov =
     b\<lparr>time_Timezone := set_str (time_Timezone ov) (time_Timezone b),
       time_UTC := set_ptr (time_UTC ov) (time_UTC b),
       time_NTP := set_ptr (time_NTP ov) (time_NTP b)\<rparr>"

definition mergeNetworkConfig :: "NetworkConfig \<Rightarrow> NetworkConfig \<Rightarrow> NetworkConfig" where
  "mergeNetworkConfig b ov =
     b\<lparr>net_Hostname := set_str (net_Hostname ov) (net_Hostname b),
       net_Bootproto := set_str (net_Bootproto ov) (net_Bootproto b),
       net_Nameservers := set_slice (net_Nameservers ov) (net_Nameservers b)\<rparr>"

definition mergePackagesConfig :: "PackagesConfig \<Rightarrow> PackagesConfig \<Rightarrow> PackagesConfig" where
  "mergePackagesConfig b ov =
     b\<lparr>pkg_Install := set_slice (pkg_Install ov) (pkg_Install b),
       pkg_Groups := set_slice (pkg_Groups ov) (pkg_Groups b),
       pkg_UpdatePolicy := set_str (pkg_UpdatePolicy ov) (pkg_UpdatePolicy b)\<rparr>"

definition mergeStorageEncryptionTPMConfig ::
    "StorageEncryptionTPMConfig \<Rightarrow> StorageEncryptionTPMConfig \<Rightarrow> StorageEncryptionTPMConfig" where
  "mergeStorageEncryptionTPMConfig b ov =
     b\<lparr>tpm_Enabled := set_ptr (tpm_Enabled ov) (tpm_Enabled b),
       tpm_Device := set_str (tpm_Device ov) (tpm_Device b),
       tpm_PCRs := set_str (tpm_PCRs ov) (tpm_PCRs b),
       tpm_RequireSHA256Bank := set_ptr (tpm_RequireSHA256Bank ov) (tpm_RequireSHA256Bank b),
       tpm_Initramfs := set_str (tpm_Initramfs ov) (tpm_Initramfs b)\<rparr>"

definition mergeStorageEncryptionConfig ::
    "StorageEncryptionConfig \<Rightarrow> StorageEncryptionConfig \<Rightarrow> StorageEncryptionConfig" where
  "mergeStorageEncryptionConfig b ov =
     b\<lparr>enc_Enabled := set_ptr (enc_Enabled ov) (enc_Enabled b),
       enc_Passphrase := set_any (enc_Passphrase ov) (enc_Passphrase b),
       enc_Cipher := set_str (enc_Cipher ov) (enc_Cipher b),
       enc_KeySize := set_ptr (enc_KeySize ov) (enc_KeySize b),
       enc_Hash := set_str (enc_Hash ov) (enc_Hash b),
       enc_TPM := mergeStorageEncryptionTPMConfig (enc_TPM b) (enc_TPM ov)\<rparr>"

definition mergeRAIDConfig :: "RAIDConfig \<Rightarrow> RAIDConfig \<Rightarrow> RAIDConfig" where
  "mergeRAIDConfig b ov =
     b\<lparr>raid_Level := (if raid_Level ov \<noteq> 0 then raid_Level ov else raid_Level b),
       raid_Devices := set_slice (raid_Devices ov) (raid_Devices b),
       raid_BootDegraded := set_ptr (raid_BootDegraded ov) (raid_BootDegraded b)\<rparr>"

definition mergeFilesystemConfig :: "FilesystemConfig \<Rightarrow> FilesystemConfig \<Rightarrow> FilesystemConfig" where
  "mergeFilesystemConfig b ov =
     b\<lparr>fs_Absent := set_ptr (fs_Absent ov) (fs_Absent b),
       fs_Mountpoint := set_str (fs_Mountpoint ov) (fs_Mountpoint b),
       fs_FSType := set_str (fs_FSType ov) (fs_FSType b),
       fs_Size := set_str (fs_Size ov) (fs_Size b),
       fs_SizeMiB := set_ptr (fs_SizeMiB ov) (fs_SizeMiB b)\<rparr>"

definition copyFilesystemConfig :: "FilesystemConfig \<Rightarrow> FilesystemConfig" where
  "copyFilesystemConfig f =
     f\<lparr>fs_Absent := copyBoolPtr (fs_Absent f),
       fs_SizeMiB := (case fs_SizeMiB f of None \<Rightarrow> None | Some n \<Rightarrow> Some n)\<rparr>"

definition copyFilesystemConfigMap :: "FilesystemConfig gomap \<Rightarrow> FilesystemConfig gomap" where
  "copyFilesystemConfigMap m = (case m of None \<Rightarrow> None
     | Some es \<Rightarrow> Some (map (\<lambda>(k, f). (k, copyFilesystemConfig f)) es))"

text \<open>The loop over the override entries; its state is the merged map and the suppressed names.\<close>

fun mergeFilesystemLoop ::
    "FilesystemConfig entries \<Rightarrow> bool gomap \<Rightarrow> FilesystemConfig entries \<Rightarrow>
     FilesystemConfig entries \<times> bool gomap" where
  "mergeFilesystemLoop merged absent [] = (merged, absent)"
| "mergeFilesystemLoop merged absent ((name, f) # rest) =
     (if boolValue (fs_Absent f)
      then mergeFilesystemLoop (AList.delete name merged)
             (Some (AList.update name True (entries absent))) rest
      else mergeFilesystemLoop
             (AList.update name
                (mergeFilesystemConfig (case map_of merged name of None \<Rightarrow> zero_fs | Some g \<Rightarrow> g) f) merged)
             (case absent of None \<Rightarrow> None | Some es \<Rightarrow> Some (AList.delete name es)) rest)"

definition mergeFilesystemConfigMapWithAbsent ::
    "StorageConfig \<Rightarrow> FilesystemConfig entries \<Rightarrow> StorageConfig" where
  "mergeFilesystemConfigMapWithAbsent b ov =
     (let merged = entries (copyFilesystemConfigMap (st_Filesystems b));
          r = mergeFilesystemLoop merged (copyBoolMap (st_absentFilesystems b)) ov
      in b\<lparr>st_Filesystems := Some (fst r), st_absentFilesystems := snd r\<rparr>)"

definition mergeStorageConfig :: "StorageConfig \<Rightarrow> StorageConfig \<Rightarrow> StorageConfig" where
  "mergeStorageConfig b ov =
     (let b1 = b\<lparr>st_absentFilesystems := copyBoolMap (st_absentFilesystems b),
                 st_Disk := set_str (st_Disk ov) (st_Disk b),
                 st_Wipe := set_ptr (st_Wipe ov) (st_Wipe b),
                 st_WipeDiskPatterns := set_slice (st_WipeDiskPatterns ov) (st_WipeDiskPatterns b),
                 st_Mode := set_str (st_Mode ov) (st_Mode b),
                 st_VolumeGroup := set_str (st_VolumeGroup ov) (st_VolumeGroup b),
                 st_RAID := mergeRAIDConfig (st_RAID b) (st_RAID ov),
                 st_Encryption := mergeStorageEncryptionConfig (st_Encryption b) (st_Encryption ov)\<rparr>
      in case st_Filesystems ov of None \<Rightarrow> b1 | Some es \<Rightarrow> mergeFilesystemConfigMapWithAbsent b1 es)"

definition mergeNetbootConfig :: "NetbootConfig \<Rightarrow> NetbootConfig \<Rightarrow> NetbootConfig" where
  "mergeNetbootConfig b ov =
     b\<lparr>nb_Method := set_str (nb_Method ov) (nb_Method b),
       nb_KernelArgs := set_slice (nb_KernelArgs ov) (nb_KernelArgs b)\<rparr>"

definition mergeInstalledBootConfig ::
    "InstalledBootConfig \<Rightarrow> InstalledBootConfig \<Rightarrow> InstalledBootConfig" where
  "mergeInstalledBootConfig b ov =
     b\<lparr>ib_Bootloader := set_str (ib_Bootloader ov) (ib_Bootloader b),
       ib_TimeoutSeconds := set_ptr (ib_TimeoutSeconds ov) (ib_TimeoutSeconds b),
       ib_KernelArgs := set_slice (ib_KernelArgs ov) (ib_KernelArgs b)\<rparr>"

definition mergeBootConfig :: "BootConfig \<Rightarrow> BootConfig \<Rightarrow> BootConfig" where
  "mergeBootConfig b ov =
     b\<lparr>boot_Firmware := set_str (boot_Firmware ov) (boot_Firmware b),
       boot_Netboot := mergeNetbootConfig (boot_Netboot b) (boot_Netboot ov),
       boot_Installed := mergeInstalledBootConfig (boot_Installed b) (boot_Installed ov)\<rparr>"

definition mergeReposConfig :: "ReposConfig \<Rightarrow> ReposConfig \<Rightarrow> ReposConfig" where
  "mergeReposConfig b ov =
     b\<lparr>rep_OSMirror := set_str (rep_OSMirror ov) (rep_OSMirror b),
       rep_Release := set_str (rep_Release ov) (rep_Release b),
       rep_Firmware := set_ptr (rep_Firmware ov) (rep_Firmware b),
       rep_Contrib := set_ptr (rep_Contrib ov) (rep_Contrib b),
       rep_NonFree := set_ptr (rep_NonFree ov) (rep_NonFree b)\<rparr>"

definition mergeInstallerConfig :: "InstallerConfig \<Rightarrow> InstallerConfig \<Rightarrow> InstallerConfig" where
  "mergeInstallerConfig b ov =
     b\<lparr>ins_ConfigTemplate := set_str (ins_ConfigTemplate ov) (ins_ConfigTemplate b),
       ins_ConfigParams := (if ins_ConfigParams ov \<noteq> None
          then Some (mergeParamMap (entries (copyParamMap (ins_ConfigParams b))) (ins_ConfigParams ov))
          else ins_ConfigParams b),
       ins_LateCommands := set_slice (ins_LateCommands ov) (ins_LateCommands b),
       ins_ExtraTemplate := set_str (ins_ExtraTemplate ov) (ins_ExtraTemplate b)\<rparr>"

definition mergeProvisioningConfig ::
    "ProvisioningConfig \<Rightarrow> ProvisioningConfig \<Rightarrow> ProvisioningConfig" where
  "mergeProvisioningConfig b ov =
     b\<lparr>pv_Locale := mergeLocaleConfig (pv_Locale b) (pv_Locale ov),
       pv_Time := mergeTimeConfig (pv_Time b) (pv_Time ov),
       pv_Network := mergeNetworkConfig (pv_Network b) (pv_Network ov),
       pv_Packages := mergePackagesConfig (pv_Packages b) (pv_Packages ov),
       pv_Storage := mergeStorageConfig (pv_Storage b) (pv_Storage ov),
       pv_Boot := mergeBootConfig (pv_Boot b) (pv_Boot ov),
       pv_Repos := mergeReposConfig (pv_Repos b) (pv_Repos ov),
       pv_Installer := mergeInstallerConfig (pv_Installer b) (pv_Installer ov)\<rparr>"

subsection \<open>Copying a layer\<close>

definition copyStorageEncryptionTPMConfig ::
    "StorageEncryptionTPMConfig \<Rightarrow> StorageEncryptionTPMConfig" where
  "copyStorageEncryptionTPMConfig t =
     t\<lparr>tpm_Enabled := copyBoolPtr (tpm_Enabled t),
       tpm_RequireSHA256Bank := copyBoolPtr (tpm_RequireSHA256Bank t)\<rparr>"

definition copyStorageEncryptionConfig :: "StorageEncryptionConfig \<Rightarrow> StorageEncryptionConfig" where
  "copyStorageEncryptionConfig e =
     e\<lparr>enc_Enabled := copyBoolPtr (enc_Enabled e),
       enc_Passphrase := copyParamValue (enc_Passphrase e),
       enc_KeySize := (case enc_KeySize e of None \<Rightarrow> None | Some n \<Rightarrow> Some n),
       enc_TPM := copyStorageEncryptionTPMConfig (enc_TPM e)\<rparr>"

definition copyRAIDConfig :: "RAIDConfig \<Rightarrow> RAIDConfig" where
  "copyRAIDConfig r =
     r\<lparr>raid_Devices := append_nil (raid_Devices r), raid_BootDegraded := copyBoolPtr (raid_BootDegraded r)\<rparr>"

definition copyProvisioningConfig :: "ProvisioningConfig \<Rightarrow> ProvisioningConfig" where
  "copyProvisioningConfig c =
     c\<lparr>pv_Time := (pv_Time c)\<lparr>time_UTC := copyBoolPtr (time_UTC (pv_Time c)),
         time_NTP := copyBoolPtr (time_NTP (pv_Time c))\<rparr>,
       pv_Network := (pv_Network c)\<lparr>net_Nameservers := append_nil (net_Nameservers (pv_Network c))\<rparr>,
       pv_Packages := (pv_Packages c)\<lparr>pkg_Install := append_nil (pkg_Install (pv_Packages c)),
         pkg_Groups := append_nil (pkg_Groups (pv_Packages c))\<rparr>,
       pv_Storage := (pv_Storage c)\<lparr>st_Wipe := copyBoolPtr (st_Wipe (pv_Storage c)),
         st_WipeDiskPatterns := append_nil (st_WipeDiskPatterns (pv_Storage c)),
         st_RAID := copyRAIDConfig (st_RAID (pv_Storage c)),
         st_Encryption := copyStorageEncryptionConfig (st_Encryption (pv_Storage c)),
         st_Filesystems := copyFilesystemConfigMap (st_Filesystems (pv_Storage c)),
         st_absentFilesystems := copyBoolMap (st_absentFilesystems (pv_Storage c))\<rparr>,
       pv_Boot := (pv_Boot c)\<lparr>
         boot_Netboot := (boot_Netboot (pv_Boot c))\<lparr>
           nb_KernelArgs := append_nil (nb_KernelArgs (boot_Netboot (pv_Boot c)))\<rparr>,
         boot_Installed := (boot_Installed (pv_Boot c))\<lparr>
           ib_TimeoutSeconds := (case ib_TimeoutSeconds (boot_Installed (pv_Boot c)) of
             None \<Rightarrow> None | Some n \<Rightarrow> Some n),
           ib_KernelArgs := append_nil (ib_KernelArgs (boot_Installed (pv_Boot c)))\<rparr>\<rparr>,
       pv_Repos := (pv_Repos c)\<lparr>rep_Firmware := copyBoolPtr (rep_Firmware (pv_Repos c)),
         rep_Contrib := copyBoolPtr (rep_Contrib (pv_Repos c)),
         rep_NonFree := copyBoolPtr (rep_NonFree (pv_Repos c))\<rparr>,
       pv_Installer := (pv_Installer c)\<lparr>ins_ConfigParams := copyParamMap (ins_ConfigParams (pv_Installer c)),
         ins_LateCommands := append_nil (ins_LateCommands (pv_Installer c))\<rparr>\<rparr>"

end
