(* ===== verification/Layers.thy ===== *)
theory Layers
  imports Config
begin

text \<open>
  What merging and copying provisioning layers guarantees. The field-wise rules (\<open>set_str\<close>,
  \<open>set_ptr\<close>, \<open>set_slice\<close>, \<open>set_any\<close> and the rule for the RAID level) are instances of one interface,
  an override operation with a value that means unset; the lemmas about layers are proved once in it.
\<close>

subsection \<open>The override interface\<close>

locale override =
  fixes over :: "'a \<Rightarrow> 'a \<Rightarrow> 'a" and unset :: 'a
  assumes over_unset: "over unset old = old"
    and over_assoc: "over c (over b a) = over (over c b) a"
begin

lemma over_three: "over c (over unset a) = over c a"
  by (simp add: over_unset)

lemma over_skip: "over (over unset b) a = over b a"
  by (simp add: over_unset)

end

interpretation str_over: override set_str "[]"
  by unfold_locales (auto simp: set_str_def)

interpretation ptr_over: override set_ptr None
  by unfold_locales (auto simp: set_ptr_def split: option.splits)

interpretation any_over: override set_any VNil
  by unfold_locales (auto simp: set_any_def)

lemma set_slice_assoc_copied:
  "set_slice (append_nil c) (set_slice (append_nil b) a) = set_slice (set_slice (append_nil c) (append_nil b)) a"
  by (cases "elems b"; cases "elems c"; simp add: set_slice_def append_nil_def)

lemma set_slice_unset [simp]: "set_slice None old = old"
  by (simp add: set_slice_def)

lemmas set_simps = set_str_def set_ptr_def set_slice_def set_any_def

subsection \<open>Copying\<close>

lemma copyBoolPtr_id [simp]: "copyBoolPtr b = b"
  by (simp add: copyBoolPtr_def split: option.splits)

lemma copyBoolMap_id [simp]: "copyBoolMap m = m"
  by (simp add: copyBoolMap_def split: option.splits)

lemma case_copy_option [simp]: "(case x of None \<Rightarrow> None | Some n \<Rightarrow> Some n) = x"
  by (simp split: option.splits)

lemma copyFilesystemConfig_id [simp]: "copyFilesystemConfig f = f"
  by (simp add: copyFilesystemConfig_def)

lemma copyFilesystemConfigMap_id [simp]: "copyFilesystemConfigMap m = m"
proof -
  have "map (\<lambda>(k, f). (k, copyFilesystemConfig f)) es = es" for es
    by (induction es) auto
  then show ?thesis by (simp add: copyFilesystemConfigMap_def split: option.splits)
qed

lemma copyStorageEncryptionConfig_id [simp]: "copyStorageEncryptionConfig e = e"
  by (simp add: copyStorageEncryptionConfig_def copyStorageEncryptionTPMConfig_def)

text \<open>
  The only thing a copy changes: a slice that is empty and not nil becomes nil. \<open>no_empty_slices\<close>
  says that a layer has none.
\<close>

definition no_empty_slices :: "ProvisioningConfig \<Rightarrow> bool" where
  "no_empty_slices c \<longleftrightarrow>
     list_all (\<lambda>s. s \<noteq> Some [])
       [net_Nameservers (pv_Network c), pkg_Install (pv_Packages c), pkg_Groups (pv_Packages c),
        st_WipeDiskPatterns (pv_Storage c), raid_Devices (st_RAID (pv_Storage c)),
        nb_KernelArgs (boot_Netboot (pv_Boot c)), ib_KernelArgs (boot_Installed (pv_Boot c)),
        ins_LateCommands (pv_Installer c)]"

lemma append_nil_id: "s \<noteq> Some [] \<Longrightarrow> append_nil s = s"
  by (cases s) (auto simp: append_nil_def)

lemma copyProvisioningConfig_id: "no_empty_slices c \<Longrightarrow> copyProvisioningConfig c = c"
  by (simp add: no_empty_slices_def copyProvisioningConfig_def copyRAIDConfig_def append_nil_id)

lemma copyProvisioningConfig_no_empty: "no_empty_slices (copyProvisioningConfig c)"
  by (auto simp: no_empty_slices_def copyProvisioningConfig_def copyRAIDConfig_def append_nil_def)

lemma copyProvisioningConfig_idem [simp]:
  "copyProvisioningConfig (copyProvisioningConfig c) = copyProvisioningConfig c"
  by (rule copyProvisioningConfig_id) (rule copyProvisioningConfig_no_empty)

subsection \<open>Merging filesystems\<close>

text \<open>What a name is mapped to after the loop, as a function of what it was mapped to before.\<close>

definition fs_after :: "FilesystemConfig option \<Rightarrow> FilesystemConfig option \<Rightarrow> FilesystemConfig option" where
  "fs_after old ov = (case ov of None \<Rightarrow> old
     | Some f \<Rightarrow> if boolValue (fs_Absent f) then None
                 else Some (mergeFilesystemConfig (case old of None \<Rightarrow> zero_fs | Some g \<Rightarrow> g) f))"

definition absent_after :: "bool \<Rightarrow> FilesystemConfig option \<Rightarrow> bool" where
  "absent_after old ov = (case ov of None \<Rightarrow> old | Some f \<Rightarrow> boolValue (fs_Absent f))"

text \<open>\<^verbatim>\<open>storage.absentFilesystems[name]\<close>: a missing key reads as false.\<close>

definition is_absent :: "bool gomap \<Rightarrow> string \<Rightarrow> bool" where
  "is_absent m name \<longleftrightarrow> (case lookup_map m name of None \<Rightarrow> False | Some b \<Rightarrow> b)"

lemma map_of_delete [simp]: "map_of (AList.delete k es) x = (if x = k then None else map_of es x)"
  by (simp add: delete_conv')

lemma is_absent_simps [simp]:
  "is_absent None name = False"
  "is_absent (Some (AList.update n True es)) name = (name = n \<or> is_absent (Some es) name)"
  "is_absent (Some (AList.delete n es)) name = (name \<noteq> n \<and> is_absent (Some es) name)"
  by (auto simp: is_absent_def)

lemma is_absent_one [simp]: "is_absent (Some [(n, True)]) name = (name = n)"
  by (simp add: is_absent_def)

lemma is_absent_entries: "is_absent (Some (entries m)) name = is_absent m name"
  by (simp add: is_absent_def lookup_map_def)

lemma mergeFilesystemLoop_lookup:
  assumes "distinct (map fst ov)"
  shows "map_of (fst (mergeFilesystemLoop merged absent ov)) name = fs_after (map_of merged name) (map_of ov name)"
  using assms
proof (induction merged absent ov rule: mergeFilesystemLoop.induct)
  case (1 merged absent)
  then show ?case by (simp add: fs_after_def)
next
  case (2 merged absent n f rest)
  have "map_of rest n = None" using "2.prems" by (simp add: map_of_eq_None_iff)
  with 2 show ?case by (auto simp: fs_after_def)
qed

lemma mergeFilesystemLoop_absent:
  assumes "distinct (map fst ov)"
  shows "is_absent (snd (mergeFilesystemLoop merged absent ov)) name
           = absent_after (is_absent absent name) (map_of ov name)"
  using assms
proof (induction merged absent ov rule: mergeFilesystemLoop.induct)
  case (1 merged absent)
  then show ?case by (simp add: absent_after_def)
next
  case (2 merged absent n f rest)
  have "map_of rest n = None" using "2.prems" by (simp add: map_of_eq_None_iff)
  with 2 show ?case
    by (cases absent; cases "name = n"; cases "map_of rest name")
      (simp_all add: absent_after_def is_absent_entries)
qed

lemma mergeStorageConfig_filesystem:
  assumes "wf_map (st_Filesystems ov)"
  shows "lookup_map (st_Filesystems (mergeStorageConfig b ov)) name
           = fs_after (lookup_map (st_Filesystems b) name) (lookup_map (st_Filesystems ov) name)"
  using assms
  by (cases "st_Filesystems ov")
    (auto simp: mergeStorageConfig_def mergeFilesystemConfigMapWithAbsent_def Let_def wf_map_def
       mergeFilesystemLoop_lookup fs_after_def lookup_map_def)

lemma mergeStorageConfig_absent:
  assumes "wf_map (st_Filesystems ov)"
  shows "is_absent (st_absentFilesystems (mergeStorageConfig b ov)) name
           = absent_after (is_absent (st_absentFilesystems b) name) (lookup_map (st_Filesystems ov) name)"
  using assms
  by (cases "st_Filesystems ov")
    (auto simp: mergeStorageConfig_def mergeFilesystemConfigMapWithAbsent_def Let_def wf_map_def
       mergeFilesystemLoop_absent absent_after_def)

end
