(* ===== verification/Users.thy ===== *)
theory Users
  imports Layers "HOL-Library.Multiset"
begin

text \<open>
  Accounts (\<^verbatim>\<open>mappings/users.go\<close>, and \<^verbatim>\<open>resolveUsers\<close> of \<^verbatim>\<open>mappings/resolver.go\<close>): merging the user
  entries of three layers, resolving an entry, and the projection handed to templates.
\<close>

subsection \<open>Data\<close>

record UserConfig =
  uc_Primary :: "bool option"
  uc_System :: "bool option"
  uc_Locked :: "bool option"
  uc_Absent :: "bool option"
  uc_FullName :: string
  uc_PasswordCrypted :: val
  uc_SSHAuthorizedKeys :: "val slice"
  uc_Groups :: "string slice"
  uc_Shell :: string
  uc_Sudo :: string

record ResolvedUser =
  ru_Name :: string
  ru_Primary :: bool
  ru_System :: bool
  ru_Locked :: bool
  ru_FullName :: string
  ru_PasswordCrypted :: string
  ru_SSHAuthorizedKeys :: "string slice"
  ru_Groups :: "string slice"
  ru_Shell :: string
  ru_Sudo :: string

text \<open>The embedded struct of \<^verbatim>\<open>TemplateUser\<close> is the field \<open>tu_ResolvedUser\<close>.\<close>

record TemplateUser =
  tu_ResolvedUser :: ResolvedUser
  tu_GroupsCSV :: string
  tu_HasSSHAuthorizedKeys :: bool

record TemplateUsers =
  tus_ByName :: "TemplateUser entries"
  tus_List :: "TemplateUser list"
  tus_Primary :: "TemplateUser option"
  tus_Root :: "TemplateUser option"

definition zero_user :: UserConfig where
  "zero_user = \<lparr>uc_Primary = None, uc_System = None, uc_Locked = None, uc_Absent = None,
     uc_FullName = [], uc_PasswordCrypted = VNil, uc_SSHAuthorizedKeys = None, uc_Groups = None,
     uc_Shell = [], uc_Sudo = []\<rparr>"

subsection \<open>Merging and copying\<close>

definition mergeUserConfig :: "UserConfig \<Rightarrow> UserConfig \<Rightarrow> UserConfig" where
  "mergeUserConfig b ov =
     b\<lparr>uc_Primary := set_ptr (uc_Primary ov) (uc_Primary b),
       uc_System := set_ptr (uc_System ov) (uc_System b),
       uc_Locked := set_ptr (uc_Locked ov) (uc_Locked b),
       uc_Absent := set_ptr (uc_Absent ov) (uc_Absent b),
       uc_FullName := set_str (uc_FullName ov) (uc_FullName b),
       uc_PasswordCrypted := (if uc_PasswordCrypted ov \<noteq> VNil then uc_PasswordCrypted ov
                              else uc_PasswordCrypted b),
       uc_SSHAuthorizedKeys := set_slice (uc_SSHAuthorizedKeys ov) (uc_SSHAuthorizedKeys b),
       uc_Groups := set_slice (uc_Groups ov) (uc_Groups b),
       uc_Shell := set_str (uc_Shell ov) (uc_Shell b),
       uc_Sudo := set_str (uc_Sudo ov) (uc_Sudo b)\<rparr>"

definition user_or_zero :: "UserConfig option \<Rightarrow> UserConfig" where
  "user_or_zero u = (case u of None \<Rightarrow> zero_user | Some x \<Rightarrow> x)"

fun mergeUserEntries :: "UserConfig entries \<Rightarrow> UserConfig entries \<Rightarrow> UserConfig entries" where
  "mergeUserEntries dst [] = dst"
| "mergeUserEntries dst ((name, user) # src) =
     mergeUserEntries (AList.update name (mergeUserConfig (user_or_zero (map_of dst name)) user) dst) src"

definition mergeUserConfigMap :: "UserConfig entries \<Rightarrow> UserConfig gomap \<Rightarrow> UserConfig entries" where
  "mergeUserConfigMap dst src = mergeUserEntries dst (entries src)"

definition copyUserConfig :: "UserConfig \<Rightarrow> UserConfig" where
  "copyUserConfig u =
     u\<lparr>uc_Primary := copyBoolPtr (uc_Primary u),
       uc_System := copyBoolPtr (uc_System u),
       uc_Locked := copyBoolPtr (uc_Locked u),
       uc_Absent := copyBoolPtr (uc_Absent u),
       uc_SSHAuthorizedKeys := append_nil (uc_SSHAuthorizedKeys u),
       uc_Groups := append_nil (uc_Groups u)\<rparr>"

definition copyUserConfigMap :: "UserConfig gomap \<Rightarrow> UserConfig gomap" where
  "copyUserConfigMap m = (case m of None \<Rightarrow> None
     | Some es \<Rightarrow> Some (map (\<lambda>(k, u). (k, copyUserConfig u)) es))"

subsection \<open>Resolving\<close>

definition user_field :: "string \<Rightarrow> path \<Rightarrow> path" where
  "user_field name p = [Fld ''user'', Key name] @ p"

text \<open>The loop over \<^verbatim>\<open>SSHAuthorizedKeys\<close>; \<open>i\<close> is the index in the error text.\<close>

fun resolveKeys :: "string \<Rightarrow> env_lookup \<Rightarrow> nat \<Rightarrow> val list \<Rightarrow> error + string list" where
  "resolveKeys name lookup i [] = Inr []"
| "resolveKeys name lookup i (key # keys) =
     bindE (resolveStringValue (user_field name [Fld ''sshAuthorizedKeys'', Idx i]) key lookup)
       (\<lambda>k. bindE (resolveKeys name lookup (Suc i) keys) (\<lambda>ks. Inr (k # ks)))"

definition resolveUser :: "string \<Rightarrow> UserConfig \<Rightarrow> env_lookup \<Rightarrow> error + ResolvedUser" where
  "resolveUser name user lookup =
     bindE (if uc_PasswordCrypted user = VNil then Inr []
            else resolveStringValue (user_field name [Fld ''passwordCrypted'']) (uc_PasswordCrypted user) lookup)
       (\<lambda>passwordCrypted. bindE (resolveKeys name lookup 0 (elems (uc_SSHAuthorizedKeys user)))
         (\<lambda>keys. Inr
           \<lparr>ru_Name = name,
            ru_Primary = boolValue (uc_Primary user),
            ru_System = (boolValue (uc_System user) \<or> name = ''root''),
            ru_Locked = boolValue (uc_Locked user),
            ru_FullName = uc_FullName user,
            ru_PasswordCrypted = passwordCrypted,
            ru_SSHAuthorizedKeys = append_nil (Some keys),
            ru_Groups = append_nil (uc_Groups user),
            ru_Shell = uc_Shell user,
            ru_Sudo = uc_Sudo user\<rparr>))"

text \<open>The loop over the merged accounts; its state is the result map and the list of primary users.\<close>

fun resolveUsersLoop ::
    "env_lookup \<Rightarrow> ResolvedUser entries \<Rightarrow> string list \<Rightarrow> UserConfig entries \<Rightarrow>
     error + (ResolvedUser entries \<times> string list)" where
  "resolveUsersLoop lookup resolved primaryUsers [] = Inr (resolved, primaryUsers)"
| "resolveUsersLoop lookup resolved primaryUsers ((name, user) # rest) =
     (if boolValue (uc_Absent user) then resolveUsersLoop lookup resolved primaryUsers rest
      else bindE (resolveUser name user lookup)
        (\<lambda>u. resolveUsersLoop lookup (AList.update name u resolved)
               (if name \<noteq> ''root'' \<and> ru_Primary u then primaryUsers @ [name] else primaryUsers) rest))"

definition resolveUsers ::
    "UserConfig gomap \<Rightarrow> UserConfig gomap \<Rightarrow> UserConfig gomap \<Rightarrow> env_lookup \<Rightarrow> error + ResolvedUser entries" where
  "resolveUsers defaultUsers targetUsers mappingUsers lookup =
     (let merged = mergeUserConfigMap (mergeUserConfigMap (mergeUserConfigMap [] defaultUsers) targetUsers) mappingUsers
      in bindE (resolveUsersLoop lookup [] [] merged)
           (\<lambda>(resolved, primaryUsers).
              if length primaryUsers > 1 then Inl (MultiplePrimary (sort primaryUsers)) else Inr resolved))"

subsection \<open>Template projection\<close>

definition templateUser :: "ResolvedUser \<Rightarrow> TemplateUser" where
  "templateUser u = \<lparr>tu_ResolvedUser = u,
     tu_GroupsCSV = join '','' (elems (ru_Groups u)),
     tu_HasSSHAuthorizedKeys = (length (elems (ru_SSHAuthorizedKeys u)) > 0)\<rparr>"

fun templateUsersLoop :: "ResolvedUser entries \<Rightarrow> TemplateUsers \<Rightarrow> string list \<Rightarrow> TemplateUsers" where
  "templateUsersLoop users d [] = d"
| "templateUsersLoop users d (name # names) =
     (let user = templateUser (the (map_of users name));
          d = d\<lparr>tus_ByName := AList.update name user (tus_ByName d), tus_List := tus_List d @ [user]\<rparr>;
          d = (if name = ''root'' then d\<lparr>tus_Root := Some user\<rparr> else d);
          d = (if name \<noteq> ''root'' \<and> ru_Primary (tu_ResolvedUser user)
               then d\<lparr>tus_Primary := Some user\<rparr> else d)
      in templateUsersLoop users d names)"

definition NewTemplateUsers :: "ResolvedUser entries \<Rightarrow> TemplateUsers" where
  "NewTemplateUsers users =
     templateUsersLoop users \<lparr>tus_ByName = [], tus_List = [], tus_Primary = None, tus_Root = None\<rparr>
       (sort (map fst users))"

subsection \<open>Facts: merging\<close>

lemma map_of_mergeUserEntries:
  "distinct (map fst src) \<Longrightarrow>
   map_of (mergeUserEntries dst src) k =
     (case map_of src k of None \<Rightarrow> map_of dst k
      | Some u \<Rightarrow> Some (mergeUserConfig (user_or_zero (map_of dst k)) u))"
proof (induction dst src rule: mergeUserEntries.induct)
  case (1 dst)
  then show ?case by simp
next
  case (2 dst name user src)
  have "map_of src name = None" using "2.prems" by (simp add: map_of_eq_None_iff)
  with 2 show ?case by (auto split: option.splits)
qed

lemma distinct_mergeUserEntries:
  "distinct (map fst dst) \<Longrightarrow> distinct (map fst (mergeUserEntries dst src))"
  by (induction dst src rule: mergeUserEntries.induct) (simp_all add: distinct_update)

text \<open>The account of a name after the three layers, as a function of its entry in each of them.\<close>

definition user_layer :: "UserConfig option \<Rightarrow> UserConfig option \<Rightarrow> UserConfig option" where
  "user_layer old new = (case new of None \<Rightarrow> old | Some u \<Rightarrow> Some (mergeUserConfig (user_or_zero old) u))"

definition merged_users :: "UserConfig gomap \<Rightarrow> UserConfig gomap \<Rightarrow> UserConfig gomap \<Rightarrow> UserConfig entries" where
  "merged_users d t m = mergeUserConfigMap (mergeUserConfigMap (mergeUserConfigMap [] d) t) m"

lemma map_of_mergeUserConfigMap:
  "wf_map src \<Longrightarrow> map_of (mergeUserConfigMap dst src) k = user_layer (map_of dst k) (lookup_map src k)"
  by (simp add: mergeUserConfigMap_def user_layer_def wf_map_def lookup_map_def map_of_mergeUserEntries)

lemma distinct_merged_users: "distinct (map fst (merged_users d t m))"
  by (simp add: merged_users_def mergeUserConfigMap_def distinct_mergeUserEntries)

lemma map_of_merged_users:
  assumes "wf_map d" "wf_map t" "wf_map m"
  shows "map_of (merged_users d t m) k
           = user_layer (user_layer (user_layer None (lookup_map d k)) (lookup_map t k)) (lookup_map m k)"
  using assms by (simp add: merged_users_def map_of_mergeUserConfigMap)

subsection \<open>Facts: resolving\<close>

text \<open>What one merged account contributes to the result; an absent one contributes nothing.\<close>

definition resolved_of :: "env_lookup \<Rightarrow> string \<Rightarrow> UserConfig option \<Rightarrow> ResolvedUser option" where
  "resolved_of lookup name uo = (case uo of None \<Rightarrow> None
     | Some u \<Rightarrow> if boolValue (uc_Absent u) then None
                 else (case resolveUser name u lookup of Inl _ \<Rightarrow> None | Inr r \<Rightarrow> Some r))"

definition user_fails :: "env_lookup \<Rightarrow> string \<times> UserConfig \<Rightarrow> bool" where
  "user_fails lookup e \<longleftrightarrow>
     \<not> boolValue (uc_Absent (snd e)) \<and> (case resolveUser (fst e) (snd e) lookup of Inl _ \<Rightarrow> True | Inr _ \<Rightarrow> False)"

definition primary_entry :: "string \<times> UserConfig \<Rightarrow> bool" where
  "primary_entry e \<longleftrightarrow>
     \<not> boolValue (uc_Absent (snd e)) \<and> fst e \<noteq> ''root'' \<and> boolValue (uc_Primary (snd e))"

lemma resolveUser_fields:
  assumes "resolveUser name u lookup = Inr r"
  shows "ru_Name r = name" "ru_Primary r = boolValue (uc_Primary u)"
    "ru_System r = (boolValue (uc_System u) \<or> name = ''root'')"
  using assms by (auto simp: resolveUser_def bindE_Inr)

lemma resolveUsersLoop_lookup:
  assumes "distinct (map fst es)" "resolveUsersLoop lookup r0 p0 es = Inr (r, p)"
  shows "map_of r name = (case resolved_of lookup name (map_of es name) of None \<Rightarrow> map_of r0 name | Some u \<Rightarrow> Some u)"
  using assms
proof (induction lookup r0 p0 es rule: resolveUsersLoop.induct)
  case (1 lookup r0 p0)
  then show ?case by (simp add: resolved_of_def)
next
  case (2 lookup r0 p0 n u rest)
  have fresh: "map_of rest n = None" using "2.prems"(1) by (simp add: map_of_eq_None_iff)
  show ?case
  proof (cases "boolValue (uc_Absent u)")
    case True
    with 2 fresh show ?thesis by (auto simp: resolved_of_def split: option.splits)
  next
    case False
    with "2.prems"(2) obtain x where x: "resolveUser n u lookup = Inr x" by (auto simp: bindE_Inr)
    then show ?thesis using 2 False fresh by (auto simp: resolved_of_def split: option.splits)
  qed
qed

lemma resolveUsersLoop_primary:
  "resolveUsersLoop lookup r0 p0 es = Inr (r, p) \<Longrightarrow> p = p0 @ map fst (filter primary_entry es)"
proof (induction lookup r0 p0 es rule: resolveUsersLoop.induct)
  case (2 lookup r0 p0 n u rest)
  show ?case
  proof (cases "boolValue (uc_Absent u)")
    case True
    with 2 show ?thesis by (simp add: primary_entry_def)
  next
    case False
    with "2.prems" obtain x where x: "resolveUser n u lookup = Inr x" by (auto simp: bindE_Inr)
    with "2.prems" "2.IH"(2) [OF False, of x] False show ?thesis
      by (simp add: primary_entry_def resolveUser_fields)
  qed
qed simp

lemma resolveUsersLoop_fails:
  "(\<exists>e. resolveUsersLoop lookup r0 p0 es = Inl e) \<longleftrightarrow> (\<exists>x \<in> set es. user_fails lookup x)"
proof (induction lookup r0 p0 es rule: resolveUsersLoop.induct)
  case (2 lookup r0 p0 n u rest)
  then show ?case
    by (cases "boolValue (uc_Absent u)"; cases "resolveUser n u lookup") (auto simp: user_fails_def)
qed simp

lemma resolveUsers_Inr:
  assumes "resolveUsers d t m lookup = Inr res"
  shows "map_of res name = resolved_of lookup name (map_of (merged_users d t m) name)"
    and "length (filter primary_entry (merged_users d t m)) \<le> 1"
proof -
  from assms obtain p where loop: "resolveUsersLoop lookup [] [] (merged_users d t m) = Inr (res, p)"
    and le: "\<not> length p > 1"
    by (auto simp: resolveUsers_def merged_users_def Let_def bindE_Inr split: if_splits)
  show "map_of res name = resolved_of lookup name (map_of (merged_users d t m) name)"
    using resolveUsersLoop_lookup [OF distinct_merged_users loop] by (simp split: option.splits)
  show "length (filter primary_entry (merged_users d t m)) \<le> 1"
    using resolveUsersLoop_primary [OF loop] le by simp
qed

lemma resolveUsers_fails:
  "(\<exists>e. resolveUsers d t m lookup = Inl e) \<longleftrightarrow>
     (\<exists>x \<in> set (merged_users d t m). user_fails lookup x) \<or>
     length (filter primary_entry (merged_users d t m)) > 1"
proof (cases "resolveUsersLoop lookup [] [] (merged_users d t m)")
  case (Inl e)
  then show ?thesis
    using resolveUsersLoop_fails [of lookup "[]" "[]" "merged_users d t m"]
    by (auto simp: resolveUsers_def merged_users_def Let_def)
next
  case (Inr rp)
  obtain r p where rp: "rp = (r, p)" by (cases rp)
  have "p = map fst (filter primary_entry (merged_users d t m))"
    using resolveUsersLoop_primary [of lookup "[]" "[]"] Inr rp by auto
  moreover have "\<not> (\<exists>x \<in> set (merged_users d t m). user_fails lookup x)"
    using resolveUsersLoop_fails [of lookup "[]" "[]" "merged_users d t m"] Inr by auto
  ultimately show ?thesis using Inr rp by (auto simp: resolveUsers_def merged_users_def Let_def)
qed

lemma resolved_of_Some:
  assumes "resolved_of lookup name uo = Some r"
  obtains u where "uo = Some u" "\<not> boolValue (uc_Absent u)" "resolveUser name u lookup = Inr r"
  using assms by (auto simp: resolved_of_def split: option.splits if_splits sum.splits)

text \<open>Two entries of the result that are primary and not root are the same one.\<close>

lemma filter_one: "length (filter P xs) \<le> 1 \<Longrightarrow> x \<in> set xs \<Longrightarrow> y \<in> set xs \<Longrightarrow> P x \<Longrightarrow> P y \<Longrightarrow> x = y"
  by (induction xs) (auto simp: filter_empty_conv split: if_splits)

lemma one_primary:
  assumes "resolveUsers d t m lookup = Inr res"
    and "map_of res a = Some ua" "a \<noteq> ''root''" "ru_Primary ua"
    and "map_of res b = Some ub" "b \<noteq> ''root''" "ru_Primary ub"
  shows "a = b"
proof -
  have entry: "\<exists>u. (n, u) \<in> set (merged_users d t m) \<and> primary_entry (n, u)"
    if "map_of res n = Some r" "n \<noteq> ''root''" "ru_Primary r" for n r
  proof -
    have "resolved_of lookup n (map_of (merged_users d t m) n) = Some r"
      using resolveUsers_Inr(1) [OF assms(1)] that(1) by simp
    then obtain u where "map_of (merged_users d t m) n = Some u" "\<not> boolValue (uc_Absent u)"
      "resolveUser n u lookup = Inr r"
      by (rule resolved_of_Some)
    with that show ?thesis by (auto simp: primary_entry_def resolveUser_fields dest: map_of_SomeD)
  qed
  from entry [OF assms(2-4)] entry [OF assms(5-7)]
    filter_one [OF resolveUsers_Inr(2) [OF assms(1)]]
  show ?thesis by blast
qed

text \<open>Two lists of entries with the same lookups are the same map, whatever their order.\<close>

lemma same_map_mset:
  assumes "distinct (map fst xs)" "distinct (map fst ys)" "\<And>k. map_of xs k = map_of ys k"
  shows "mset xs = mset ys"
proof -
  have "set xs = set ys" using assms by (metis map_of_inject_set ext)
  moreover have "distinct xs" "distinct ys" using assms by (simp_all add: distinct_map)
  ultimately show ?thesis by (simp add: set_eq_iff_mset_eq_distinct)
qed

lemma mset_filter_length: "mset xs = mset ys \<Longrightarrow> length (filter P xs) = length (filter P ys)"
  by (metis mset_filter size_mset)

subsection \<open>Facts: templates\<close>

lemma templateUsersLoop_list:
  "tus_List (templateUsersLoop users d names) = tus_List d @ map (\<lambda>n. templateUser (the (map_of users n))) names"
  by (induction names arbitrary: d) (simp_all add: Let_def)

lemma templateUsersLoop_byName:
  "map_of (tus_ByName (templateUsersLoop users d names)) k =
     (if k \<in> set names then Some (templateUser (the (map_of users k))) else map_of (tus_ByName d) k)"
  by (induction names arbitrary: d) (auto simp: Let_def)

lemma templateUsersLoop_root:
  "tus_Root (templateUsersLoop users d names) =
     (if ''root'' \<in> set names then Some (templateUser (the (map_of users ''root''))) else tus_Root d)"
  by (induction names arbitrary: d) (auto simp: Let_def)

lemma tu_ResolvedUser_templateUser [simp]: "tu_ResolvedUser (templateUser u) = u"
  by (simp add: templateUser_def)

lemma templateUsersLoop_primary:
  assumes "\<And>n. n \<in> set names \<Longrightarrow> n \<noteq> ''root'' \<Longrightarrow> ru_Primary (the (map_of users n)) \<Longrightarrow> n = p"
  shows "tus_Primary (templateUsersLoop users d names) =
     (if p \<in> set names \<and> p \<noteq> ''root'' \<and> ru_Primary (the (map_of users p))
      then Some (templateUser (the (map_of users p))) else tus_Primary d)"
  using assms
proof (induction names arbitrary: d)
  case (Cons n names)
  have "n \<noteq> ''root'' \<Longrightarrow> ru_Primary (the (map_of users n)) \<Longrightarrow> n = p"
    using Cons.prems by simp
  then show ?case using Cons by (auto simp: Let_def)
qed simp

lemmas NewTemplateUsers_facts =
  templateUsersLoop_list templateUsersLoop_byName templateUsersLoop_root

subsection \<open>Properties\<close>

definition layered_user ::
    "UserConfig gomap \<Rightarrow> UserConfig gomap \<Rightarrow> UserConfig gomap \<Rightarrow> string \<Rightarrow> UserConfig option" where
  "layered_user d t m name =
     user_layer (user_layer (user_layer None (lookup_map d name)) (lookup_map t name)) (lookup_map m name)"


definition sample_defaults :: "UserConfig gomap" where
  "sample_defaults = Some [(''root'', zero_user), (''ops'', zero_user\<lparr>uc_Primary := Some True\<rparr>)]"

definition sample_target :: "UserConfig gomap" where
  "sample_target = Some [(''ops'', zero_user\<lparr>uc_Absent := Some True\<rparr>),
     (''deploy'', zero_user\<lparr>uc_Primary := Some True\<rparr>)]"

lemmas user_eval = resolveUsers_def mergeUserConfigMap_def zero_user_def user_or_zero_def mergeUserConfig_def
  set_simps boolValue_def resolveUser_def sample_defaults_def sample_target_def


text \<open>
  Neither the accounts that are resolved nor whether resolving fails depends on the order in which
  Go ranges over the three maps: only which of several errors is reported does.
\<close>

theorem resolveUsers_order:
  assumes wf: "wf_map d" "wf_map t" "wf_map m" "wf_map d'" "wf_map t'" "wf_map m'"
    and same: "\<And>k. lookup_map d k = lookup_map d' k" "\<And>k. lookup_map t k = lookup_map t' k"
      "\<And>k. lookup_map m k = lookup_map m' k"
  shows "((\<exists>e. resolveUsers d t m lookup = Inl e) \<longleftrightarrow> (\<exists>e. resolveUsers d' t' m' lookup = Inl e))
    \<and> (\<forall>res res'. resolveUsers d t m lookup = Inr res \<longrightarrow> resolveUsers d' t' m' lookup = Inr res' \<longrightarrow>
         map_of res = map_of res')"
proof -
  have maps: "map_of (merged_users d t m) k = map_of (merged_users d' t' m') k" for k
    using assms by (simp add: map_of_merged_users)
  then have "mset (merged_users d t m) = mset (merged_users d' t' m')"
    by (rule same_map_mset [OF distinct_merged_users distinct_merged_users])
  then have "set (merged_users d t m) = set (merged_users d' t' m')"
    "length (filter primary_entry (merged_users d t m)) = length (filter primary_entry (merged_users d' t' m'))"
    by (auto dest: mset_eq_setD intro: mset_filter_length)
  then have "(\<exists>e. resolveUsers d t m lookup = Inl e) \<longleftrightarrow> (\<exists>e. resolveUsers d' t' m' lookup = Inl e)"
    by (simp only: resolveUsers_fails)
  moreover have "map_of res = map_of res'"
    if "resolveUsers d t m lookup = Inr res" "resolveUsers d' t' m' lookup = Inr res'" for res res'
    by (rule ext) (simp only: resolveUsers_Inr(1) [OF that(1)] resolveUsers_Inr(1) [OF that(2)] maps)
  ultimately show ?thesis by blast
qed

definition sample_ab :: "UserConfig gomap" where
  "sample_ab = Some [(''a'', zero_user), (''b'', zero_user)]"

definition sample_ba :: "UserConfig gomap" where
  "sample_ba = Some [(''b'', zero_user), (''a'', zero_user)]"

theorem resolveUsers_order_witness:
  "\<exists>res res'. resolveUsers sample_ab None None (\<lambda>_. None) = Inr res
     \<and> resolveUsers sample_ba None None (\<lambda>_. None) = Inr res'
     \<and> res \<noteq> res' \<and> map_of res = map_of res'"
proof -
  have "wf_map sample_ab" "wf_map sample_ba" "wf_map (None :: UserConfig gomap)"
    "\<And>k. lookup_map sample_ab k = lookup_map sample_ba k"
    by (auto simp: wf_map_def sample_ab_def sample_ba_def)
  note r = resolveUsers_order [OF this(1,3,3,2,3,3) this(4) refl refl, of "\<lambda>_. None"]
  have "\<exists>res res'. resolveUsers sample_ab None None (\<lambda>_. None) = Inr res
    \<and> resolveUsers sample_ba None None (\<lambda>_. None) = Inr res' \<and> res \<noteq> res'"
    by (simp add: user_eval sample_ab_def sample_ba_def)
  with r show ?thesis by blast
qed

text \<open>
  \<^verbatim>\<open>NewTemplateUsers\<close> lists every account once in increasing order of its name, finds each by its
  name, and its Root and Primary fields are the account root and the one primary account, if any.
\<close>

theorem NewTemplateUsers_spec:
  assumes "distinct (map fst users)"
    and "\<And>n u. map_of users n = Some u \<Longrightarrow> n \<noteq> ''root'' \<Longrightarrow> ru_Primary u \<Longrightarrow> n = p"
  shows "tus_List (NewTemplateUsers users)
           = map (\<lambda>n. templateUser (the (map_of users n))) (sorted_list_of_set (dom (map_of users)))
    \<and> map_of (tus_ByName (NewTemplateUsers users)) k = map_option templateUser (map_of users k)
    \<and> tus_Root (NewTemplateUsers users) = map_option templateUser (map_of users ''root'')
    \<and> tus_Primary (NewTemplateUsers users)
        = (case map_of users p of None \<Rightarrow> None
           | Some u \<Rightarrow> if p \<noteq> ''root'' \<and> ru_Primary u then Some (templateUser u) else None)"
proof -
  have names: "sort (map fst users) = sorted_list_of_set (dom (map_of users))"
    using assms(1) by (simp add: dom_map_of_conv_image_fst sorted_list_of_set_sort_remdups
        distinct_remdups_id flip: set_map)
  have dom: "n \<in> set (map fst users) \<longleftrightarrow> (\<exists>u. map_of users n = Some u)" for n
    by (metis map_of_eq_None_iff option.exhaust option.distinct(1) set_map)
  have "tus_Primary (NewTemplateUsers users) =
     (if p \<in> set (sort (map fst users)) \<and> p \<noteq> ''root'' \<and> ru_Primary (the (map_of users p))
      then Some (templateUser (the (map_of users p))) else None)"
    unfolding NewTemplateUsers_def
    by (subst templateUsersLoop_primary [where p = p]) (use assms(2) dom in force)+
  then show ?thesis using dom
    by (auto simp: NewTemplateUsers_def NewTemplateUsers_facts names [symmetric] split: option.splits
        simp del: sort_key_simps)
qed

definition sample_user :: "string \<Rightarrow> bool \<Rightarrow> ResolvedUser" where
  "sample_user name primary = \<lparr>ru_Name = name, ru_Primary = primary, ru_System = False, ru_Locked = False,
     ru_FullName = [], ru_PasswordCrypted = [], ru_SSHAuthorizedKeys = None,
     ru_Groups = Some [''sudo'', ''wheel''], ru_Shell = [], ru_Sudo = []\<rparr>"

theorem NewTemplateUsers_spec_witness:
  "tus_Primary (NewTemplateUsers [(''root'', sample_user ''root'' True), (''ops'', sample_user ''ops'' True)])
     = Some \<lparr>tu_ResolvedUser = sample_user ''ops'' True, tu_GroupsCSV = ''sudo,wheel'',
             tu_HasSSHAuthorizedKeys = False\<rparr>"
proof -
  let ?u = "[(''root'', sample_user ''root'' True), (''ops'', sample_user ''ops'' True)]"
  have "distinct (map fst ?u)"
    and "\<And>n u. map_of ?u n = Some u \<Longrightarrow> n \<noteq> ''root'' \<Longrightarrow> ru_Primary u \<Longrightarrow> n = ''ops''"
    by (auto split: if_splits)
  from NewTemplateUsers_spec [OF this] show ?thesis
    by (simp add: templateUser_def sample_user_def)
qed

end
