(* ===== verification/GoNet.thy ===== *)
theory GoNet
  imports Prelude "HOL-Library.Word"
begin

text \<open>
  What the sources use of the Go package \<^verbatim>\<open>net\<close>: hardware addresses (\<^verbatim>\<open>ParseMAC\<close> and its
  \<^verbatim>\<open>String\<close>), IP addresses (\<^verbatim>\<open>ParseIP\<close>, \<^verbatim>\<open>Equal\<close>) and networks (\<^verbatim>\<open>ParseCIDR\<close>, \<^verbatim>\<open>Contains\<close>). Addresses are
  lists of bytes; an IP address is its 16-byte form, a network keeps the 4-byte form of an IPv4 one.
\<close>

unbundle bit_operations_syntax

type_synonym byte = "8 word"

subsection \<open>Hexadecimal and decimal digits\<close>

definition hex_val :: "char \<Rightarrow> nat option" where
  "hex_val c =
     (if CHR ''0'' \<le> c \<and> c \<le> CHR ''9'' then Some (of_char c - 48)
      else if CHR ''a'' \<le> c \<and> c \<le> CHR ''f'' then Some (of_char c - 87)
      else if CHR ''A'' \<le> c \<and> c \<le> CHR ''F'' then Some (of_char c - 55)
      else None)"

definition dec_val :: "char \<Rightarrow> nat option" where
  "dec_val c = (if CHR ''0'' \<le> c \<and> c \<le> CHR ''9'' then Some (of_char c - 48) else None)"

definition hex_digit :: "nat \<Rightarrow> char" where
  "hex_digit n = ''0123456789abcdef'' ! n"

text \<open>\<^verbatim>\<open>xtoi2(s, e)\<close>: two hexadecimal digits, followed by \<open>e\<close> unless they end the string.\<close>

definition xtoi2 :: "string \<Rightarrow> char \<Rightarrow> byte option" where
  "xtoi2 s e =
     (if length s > 2 \<and> s ! 2 \<noteq> e then None
      else case take 2 s of
        [a, b] \<Rightarrow> (case (hex_val a, hex_val b) of
           (Some x, Some y) \<Rightarrow> Some (of_nat (16 * x + y)) | _ \<Rightarrow> None)
      | _ \<Rightarrow> None)"

subsection \<open>Hardware addresses\<close>

fun mac_groups :: "char \<Rightarrow> nat \<Rightarrow> string \<Rightarrow> byte list option" where
  "mac_groups sep 0 s = Some []"
| "mac_groups sep (Suc n) s =
     (case xtoi2 s sep of None \<Rightarrow> None
      | Some b \<Rightarrow> map_option (Cons b) (mac_groups sep n (drop 3 s)))"

fun mac_dotted :: "nat \<Rightarrow> string \<Rightarrow> byte list option" where
  "mac_dotted 0 s = Some []"
| "mac_dotted (Suc n) s =
     (case (xtoi2 (take 2 s) (CHR 0x00), xtoi2 (drop 2 s) (CHR ''.'')) of
        (Some a, Some b) \<Rightarrow> map_option (\<lambda>bs. a # b # bs) (mac_dotted n (drop 5 s))
      | _ \<Rightarrow> None)"

definition ParseMAC :: "string \<Rightarrow> byte list option" where
  "ParseMAC s =
     (if length s < 14 then None
      else if s ! 2 = CHR '':'' \<or> s ! 2 = CHR ''-'' then
        (let n = (length s + 1) div 3
         in if (length s + 1) mod 3 \<noteq> 0 \<or> n \<notin> {6, 8, 20} then None else mac_groups (s ! 2) n s)
      else if s ! 4 = CHR ''.'' then
        (let n = 2 * (length s + 1) div 5
         in if (length s + 1) mod 5 \<noteq> 0 \<or> n \<notin> {6, 8, 20} then None else mac_dotted (n div 2) s)
      else None)"

definition byte_hex :: "byte \<Rightarrow> string" where
  "byte_hex b = [hex_digit (unat b div 16), hex_digit (unat b mod 16)]"

definition mac_string :: "byte list \<Rightarrow> string" where
  "mac_string hw = join '':'' (map byte_hex hw)"

subsection \<open>IP addresses\<close>

text \<open>The four fields of a dotted address; \<open>digits\<close> are the digits of the current field so far.\<close>

fun parseIPv4Fields :: "byte list \<Rightarrow> nat \<Rightarrow> nat \<Rightarrow> string \<Rightarrow> byte list option" where
  "parseIPv4Fields done v digits [] =
     (if length done < 3 \<or> digits = 0 then None else Some (done @ [of_nat v]))"
| "parseIPv4Fields done v digits (c # s) =
     (case dec_val c of
        Some d \<Rightarrow>
          if digits = 1 \<and> v = 0 then None
          else if 10 * v + d > 255 then None
          else parseIPv4Fields done (10 * v + d) (digits + 1) s
      | None \<Rightarrow>
          if c \<noteq> CHR ''.'' \<or> digits = 0 \<or> length done = 3 then None
          else parseIPv4Fields (done @ [of_nat v]) 0 0 s)"

definition hex_prefix :: "string \<Rightarrow> string" where
  "hex_prefix s = takeWhile (\<lambda>c. hex_val c \<noteq> None) s"

definition hex_number :: "string \<Rightarrow> nat" where
  "hex_number s = foldl (\<lambda>acc c. 16 * acc + the (hex_val c)) 0 s"

text \<open>
  The loop of \<^verbatim>\<open>parseIPv6\<close>. Its state is the bytes read, the position of the ellipsis and the rest of
  the text; the result is that state when the loop is left.
\<close>

function parseIPv6Loop ::
    "byte list \<Rightarrow> nat option \<Rightarrow> string \<Rightarrow> (byte list \<times> nat option \<times> string) option" where
  "parseIPv6Loop ip ell s =
     (if length ip \<ge> 16 then Some (ip, ell, s)
      else let ds = hex_prefix s; rest = drop (length ds) s in
        if ds = [] \<or> length ds > 4 then None
        else if rest \<noteq> [] \<and> hd rest = CHR ''.'' then
          (if ell = None \<and> length ip \<noteq> 12 then None
           else if length ip + 4 > 16 then None
           else case parseIPv4Fields [] 0 0 s of None \<Rightarrow> None | Some v4 \<Rightarrow> Some (ip @ v4, ell, []))
        else
          let acc = hex_number ds; ip = ip @ [of_nat (acc div 256), of_nat acc] in
          case rest of
            [] \<Rightarrow> Some (ip, ell, [])
          | c # rest1 \<Rightarrow>
              if c \<noteq> CHR '':'' \<or> rest1 = [] then None
              else if hd rest1 = CHR '':'' then
                (if ell \<noteq> None then None
                 else if tl rest1 = [] then Some (ip, Some (length ip), [])
                 else parseIPv6Loop ip (Some (length ip)) (tl rest1))
              else parseIPv6Loop ip ell rest1)"
  by pat_completeness auto
termination
proof (relation "measure (\<lambda>(ip, ell, s). length s)", goal_cases)
  case 1
  then show ?case by simp
next
  case (2 ip ell s x xa xb xc x21 x22)
  then have "length x22 < length s"
    by (metis length_Cons length_drop diff_le_self less_eq_Suc_le le_trans)
  then show ?case by (cases x22) auto
next
  case (3 ip ell s x xa xb xc x21 x22)
  then have "length x22 < length s"
    by (metis length_Cons length_drop diff_le_self less_eq_Suc_le le_trans)
  then show ?case by simp
qed

declare parseIPv6Loop.simps [simp del]

definition expand_ellipsis :: "byte list \<Rightarrow> nat option \<Rightarrow> byte list option" where
  "expand_ellipsis ip ell =
     (case ell of
        None \<Rightarrow> if length ip < 16 then None else Some ip
      | Some e \<Rightarrow> if length ip < 16 then Some (take e ip @ replicate (16 - length ip) 0 @ drop e ip) else None)"

text \<open>\<^verbatim>\<open>parseIPv6\<close> without a zone: the callers refuse an address with one.\<close>

definition parseIPv6 :: "string \<Rightarrow> byte list option" where
  "parseIPv6 s =
     (if CHR ''%'' \<in> set s then None
      else
        let lead = hasPrefix s ''::''; s1 = (if lead then drop 2 s else s)
        in if lead \<and> s1 = [] then Some (replicate 16 0)
           else case parseIPv6Loop [] (if lead then Some 0 else None) s1 of
                  None \<Rightarrow> None
                | Some (ip, ell, rest) \<Rightarrow> if rest \<noteq> [] then None else expand_ellipsis ip ell)"

definition v4InV6 :: "byte list" where
  "v4InV6 = replicate 10 0 @ [255, 255]"

datatype ipaddr = V4 "byte list" | V6 "byte list"

text \<open>\<^verbatim>\<open>netip.ParseAddr\<close>: the first dot, colon or percent sign decides the form.\<close>

definition ParseAddr :: "string \<Rightarrow> ipaddr option" where
  "ParseAddr s =
     (case dropWhile (\<lambda>c. c \<notin> {CHR ''.'', CHR '':'', CHR ''%''}) s of
        [] \<Rightarrow> None
      | c # _ \<Rightarrow>
          if c = CHR ''.'' then map_option V4 (parseIPv4Fields [] 0 0 s)
          else if c = CHR '':'' then map_option V6 (parseIPv6 s)
          else None)"

fun as16 :: "ipaddr \<Rightarrow> byte list" where
  "as16 (V4 bs) = v4InV6 @ bs"
| "as16 (V6 bs) = bs"

definition ParseIP :: "string \<Rightarrow> byte list option" where
  "ParseIP s = map_option as16 (ParseAddr s)"

definition To4 :: "byte list \<Rightarrow> byte list option" where
  "To4 ip = (if length ip = 4 then Some ip
     else if length ip = 16 \<and> take 12 ip = v4InV6 then Some (drop 12 ip) else None)"

definition ip_equal :: "byte list \<Rightarrow> byte list \<Rightarrow> bool" where
  "ip_equal a b \<longleftrightarrow>
     (if length a = length b then a = b
      else if length a = 4 \<and> length b = 16 then take 12 b = v4InV6 \<and> a = drop 12 b
      else if length a = 16 \<and> length b = 4 then take 12 a = v4InV6 \<and> drop 12 a = b
      else False)"

subsection \<open>Networks\<close>

record IPNet =
  net_IP :: "byte list"
  net_Mask :: "byte list"

text \<open>\<^verbatim>\<open>dtoi\<close> of the whole text, which must be digits only; \<^verbatim>\<open>big\<close> is 0xFFFFFF.\<close>

fun dtoi :: "nat \<Rightarrow> string \<Rightarrow> nat option" where
  "dtoi n [] = Some n"
| "dtoi n (c # s) =
     (case dec_val c of None \<Rightarrow> None
      | Some d \<Rightarrow> if 10 * n + d \<ge> 16777215 then None else dtoi (10 * n + d) s)"

fun CIDRMask :: "nat \<Rightarrow> nat \<Rightarrow> byte list" where
  "CIDRMask n 0 = []"
| "CIDRMask n (Suc l) =
     (if n \<ge> 8 then 255 # CIDRMask (n - 8) l else NOT (drop_bit n 255) # CIDRMask 0 l)"

definition ip_mask :: "byte list \<Rightarrow> byte list \<Rightarrow> byte list" where
  "ip_mask ip m = map2 (AND) (if length m = 4 \<and> length ip = 16 \<and> take 12 ip = v4InV6 then drop 12 ip else ip) m"

definition ParseCIDR :: "string \<Rightarrow> IPNet option" where
  "ParseCIDR s =
     (if CHR ''/'' \<notin> set s then None
      else
        let addr = before (CHR ''/'') s; mask = drop (length addr + 1) s
        in case ParseAddr addr of
             None \<Rightarrow> None
           | Some a \<Rightarrow>
               let bits = (case a of V4 _ \<Rightarrow> 32 | V6 _ \<Rightarrow> 128)
               in case (if mask = [] then None else dtoi 0 mask) of
                    None \<Rightarrow> None
                  | Some n \<Rightarrow>
                      if n > bits then None
                      else let m = CIDRMask n (bits div 8)
                           in Some \<lparr>net_IP = ip_mask (as16 a) m, net_Mask = m\<rparr>)"

text \<open>\<^verbatim>\<open>networkNumberAndMask\<close> and \<^verbatim>\<open>IPNet.Contains\<close>.\<close>

definition networkNumberAndMask :: "IPNet \<Rightarrow> (byte list \<times> byte list) option" where
  "networkNumberAndMask n =
     (case (case To4 (net_IP n) of Some ip \<Rightarrow> Some ip
            | None \<Rightarrow> if length (net_IP n) = 16 then Some (net_IP n) else None) of
        None \<Rightarrow> None
      | Some ip \<Rightarrow>
          let m = net_Mask n
          in if length m = 4 then (if length ip \<noteq> 4 then None else Some (ip, m))
             else if length m = 16 then Some (ip, if length ip = 4 then drop 12 m else m)
             else None)"

definition Contains :: "IPNet \<Rightarrow> byte list \<Rightarrow> bool" where
  "Contains n ip \<longleftrightarrow>
     (case networkNumberAndMask n of
        None \<Rightarrow> (case To4 ip of Some x \<Rightarrow> x = [] | None \<Rightarrow> ip = [])
      | Some (nn, m) \<Rightarrow>
          let ip = (case To4 ip of Some x \<Rightarrow> x | None \<Rightarrow> ip)
          in length ip = length nn \<and> list_all2 (\<lambda>a (b, k). b AND k = a AND k) ip (zip nn m))"

subsection \<open>Facts: hardware addresses\<close>

lemma less_16_cases:
  "(n::nat) < 16 \<Longrightarrow> n \<in> {0, 1, 2, 3, 4, 5, 6, 7, 8, 9, 10, 11, 12, 13, 14, 15}"
  by (simp only: insert_iff empty_iff, arith)

lemma hex_val_hex_digit: "n < 16 \<Longrightarrow> hex_val (hex_digit n) = Some n"
  by (drule less_16_cases) (auto simp: hex_digit_def hex_val_def)

lemma xtoi2_byte_hex:
  assumes "rest = [] \<or> hd rest = e"
  shows "xtoi2 (byte_hex b @ rest) e = Some b"
proof -
  have "unat b < 256" using unsigned_less [of b, where ?'a = nat] by simp
  then have "hex_val (hex_digit (unat b div 16)) = Some (unat b div 16)"
    "hex_val (hex_digit (unat b mod 16)) = Some (unat b mod 16)"
    by (simp_all add: hex_val_hex_digit)
  moreover have "(of_nat (16 * (unat b div 16) + unat b mod 16) :: byte) = b"
    by (simp only: mult_div_mod_eq) simp
  ultimately show ?thesis using assms
    by (cases rest) (auto simp: xtoi2_def byte_hex_def)
qed

lemma mac_string_Cons:
  "mac_string (b # bs) = byte_hex b @ (if bs = [] then [] else CHR '':'' # mac_string bs)"
  by (cases bs) (simp_all add: mac_string_def)

lemma length_byte_hex [simp]: "length (byte_hex b) = 2"
  by (simp add: byte_hex_def)

lemma length_mac_string: "length (mac_string hw) = 3 * length hw - 1"
proof (induction hw)
  case (Cons b bs)
  then show ?case by (cases bs) (auto simp: mac_string_Cons)
qed (simp add: mac_string_def)

lemma mac_groups_mac_string: "mac_groups CHR '':'' (length hw) (mac_string hw) = Some hw"
proof (induction hw)
  case (Cons b bs)
  then show ?case by (simp add: mac_string_Cons xtoi2_byte_hex)
qed simp

lemma ParseMAC_mac_string:
  assumes "length hw \<in> {6, 8, 20}"
  shows "ParseMAC (mac_string hw) = Some hw"
proof -
  obtain b c bs where hw: "hw = b # c # bs" using assms by (cases hw; cases "tl hw") auto
  then have "mac_string hw ! 2 = CHR '':''" by (simp add: mac_string_Cons byte_hex_def)
  moreover have "(length (mac_string hw) + 1) div 3 = length hw" "(length (mac_string hw) + 1) mod 3 = 0"
    "length (mac_string hw) \<ge> 14"
    using assms by (auto simp: length_mac_string)
  ultimately show ?thesis using assms mac_groups_mac_string [of hw]
    by (simp add: ParseMAC_def Let_def)
qed

lemma mac_groups_length: "mac_groups sep n s = Some hw \<Longrightarrow> length hw = n"
  by (induction sep n s arbitrary: hw rule: mac_groups.induct) (auto split: option.splits)

lemma mac_dotted_length: "mac_dotted n s = Some hw \<Longrightarrow> length hw = 2 * n"
  by (induction n s arbitrary: hw rule: mac_dotted.induct) (auto split: option.splits)

lemma ParseMAC_length:
  assumes "ParseMAC s = Some hw"
  shows "length hw \<in> {6, 8, 20}"
  using assms
  by (auto simp: ParseMAC_def Let_def split: if_splits dest!: mac_groups_length mac_dotted_length)

subsection \<open>Facts: IP addresses and networks\<close>

lemma parseIPv4Fields_length: "parseIPv4Fields bs v n s = Some r \<Longrightarrow> length bs \<le> 3 \<Longrightarrow> length r = 4"
  by (induction bs v n s rule: parseIPv4Fields.induct) (auto split: option.splits if_splits)

lemma parseIPv6Loop_length:
  "parseIPv6Loop ip ell s = Some (ip', ell', rest) \<Longrightarrow> length ip \<le> 16 \<Longrightarrow> even (length ip) \<Longrightarrow>
   length ip' \<le> 16"
proof (induction "length s" arbitrary: ip ell s rule: less_induct)
  case less
  have even16: "length ip < 16 \<Longrightarrow> length ip + 2 \<le> 16" using less.prems(3) by presburger
  have shorter: "length t < length s" if "drop (length (hex_prefix s)) s = c # t" for c t
    using that by (metis length_Cons length_drop diff_le_self less_eq_Suc_le le_trans)
  have IH: "length ip' \<le> 16"
    if "parseIPv6Loop (ip @ [x, y]) e t = Some (ip', ell', rest)" "length ip < 16" "length t < length s" for x y e t
    using less.hyps [OF that(3,1)] even16 [OF that(2)] less.prems(3) by simp
  from less.prems show ?case
    by (subst (asm) parseIPv6Loop.simps)
      (use even16 in \<open>auto simp: Let_def split: if_splits option.splits list.splits
         dest: shorter dest!: IH parseIPv4Fields_length\<close>)
qed

lemma expand_ellipsis_length: "expand_ellipsis ip ell = Some r \<Longrightarrow> length ip \<le> 16 \<Longrightarrow> length r = 16"
  by (auto simp: expand_ellipsis_def split: option.splits if_splits)

lemma ParseIP_length: "ParseIP s = Some ip \<Longrightarrow> length ip = 16"
  by (auto simp: ParseIP_def ParseAddr_def parseIPv6_def Let_def v4InV6_def
      split: list.splits if_splits option.splits
      dest!: parseIPv4Fields_length expand_ellipsis_length parseIPv6Loop_length)

text \<open>The bits of a byte and of an address, most significant first.\<close>

definition byte_bits :: "byte \<Rightarrow> bool list" where
  "byte_bits b = map (bit b) [7, 6, 5, 4, 3, 2, 1, 0]"

definition addr_bits :: "byte list \<Rightarrow> bool list" where
  "addr_bits bs = concat (map byte_bits bs)"

lemma byte_eq_bits: "a = b \<longleftrightarrow> byte_bits a = byte_bits b"
proof
  assume "byte_bits a = byte_bits b"
  then have "bit a n = bit b n" if "n < 8" for n
    using that less_16_cases [of n] by (auto simp: byte_bits_def)
  then show "a = b" by (intro bit_word_eqI) simp
qed simp

lemma mask_byte_bits:
  fixes a b :: byte
  assumes "n < 8"
  shows "a AND NOT (drop_bit n 255) = b AND NOT (drop_bit n 255) \<longleftrightarrow>
         take n (byte_bits a) = take n (byte_bits b)"
proof -
  have "n \<in> {0, 1, 2, 3, 4, 5, 6, 7}" using assms less_16_cases [of n] by auto
  then show ?thesis
    by (elim insertE emptyE; simp add: byte_eq_bits)
      (simp_all add: byte_bits_def bit_simps)
qed

lemma full_mask [simp]: "(a :: byte) AND 255 = a"
  by (simp add: byte_eq_bits byte_bits_def bit_simps)

lemma length_byte_bits [simp]: "length (byte_bits b) = 8"
  by (simp add: byte_bits_def)

lemma mask_bits:
  assumes "length xs = l" "length ys = l" "n \<le> 8 * l"
  shows "map2 (AND) xs (CIDRMask n l) = map2 (AND) ys (CIDRMask n l) \<longleftrightarrow>
         take n (addr_bits xs) = take n (addr_bits ys)"
  using assms
proof (induction n l arbitrary: xs ys rule: CIDRMask.induct)
  case (1 n)
  then show ?case by (simp add: addr_bits_def)
next
  case (2 n l)
  obtain x xs' y ys' where xy: "xs = x # xs'" "ys = y # ys'" "length xs' = l" "length ys' = l"
    using "2.prems" by (metis length_Suc_conv)
  show ?case
  proof (cases "n \<ge> 8")
    case True
    with "2.prems" "2.IH"(1) [OF True xy(3,4)] xy show ?thesis
      by (auto simp: addr_bits_def byte_eq_bits)
  next
    case False
    then have "take n (addr_bits xs) = take n (byte_bits x)" "take n (addr_bits ys) = take n (byte_bits y)"
      using xy by (auto simp: addr_bits_def)
    moreover have "map2 (AND) xs' (CIDRMask 0 l) = map2 (AND) ys' (CIDRMask 0 l)"
      using "2.IH"(2) [OF False xy(3,4)] by simp
    ultimately show ?thesis using False xy by (simp add: mask_byte_bits)
  qed
qed

lemma length_CIDRMask [simp]: "length (CIDRMask n l) = l"
  by (induction n l rule: CIDRMask.induct) auto

lemma and_zip:
  assumes "length xs = length ys" "length ys = length ms"
  shows "list_all2 (\<lambda>a (b, k). (b :: byte) AND k = a AND k) xs (zip (map2 (AND) ys ms) ms)
     \<longleftrightarrow> map2 (AND) ys ms = map2 (AND) xs ms"
  using assms
proof (induction xs ys ms rule: list_induct3)
  case (Cons x xs y ys m ms)
  have "y AND m AND m = y AND m" by (simp add: and.assoc)
  with Cons show ?case by (auto simp: and.assoc)
qed simp

text \<open>
  An IPv4 network holds exactly the addresses that agree with it on the bits of its prefix: the
  masked comparison byte by byte is the comparison of the first \<open>n\<close> bits.
\<close>

lemma Contains_v4:
  assumes "length bs = 4" "n \<le> 32"
  shows "Contains \<lparr>net_IP = ip_mask (as16 (V4 bs)) (CIDRMask n 4), net_Mask = CIDRMask n 4\<rparr> ip \<longleftrightarrow>
         (\<exists>x. To4 ip = Some x \<and> take n (addr_bits x) = take n (addr_bits bs))"
proof -
  let ?m = "CIDRMask n 4"
  have net: "ip_mask (as16 (V4 bs)) ?m = map2 (AND) bs ?m"
    using assms by (simp add: ip_mask_def v4InV6_def)
  have "networkNumberAndMask \<lparr>net_IP = map2 (AND) bs ?m, net_Mask = ?m\<rparr> = Some (map2 (AND) bs ?m, ?m)"
    using assms by (simp add: networkNumberAndMask_def To4_def Let_def)
  moreover have "length x = 4" if "To4 ip = Some x" for x
    using that by (auto simp: To4_def split: if_splits)
  moreover have "length ip \<noteq> 4" if "To4 ip = None" using that by (auto simp: To4_def split: if_splits)
  ultimately show ?thesis
    unfolding net using assms mask_bits [of bs 4 _ n]
    by (cases "To4 ip") (auto simp: Contains_def and_zip Let_def)
qed

lemma Contains_v6:
  assumes len: "length bs = 16" "n \<le> 128" "length ip = 16"
    and v6: "To4 ip = None" "To4 (ip_mask (as16 (V6 bs)) (CIDRMask n 16)) = None"
  shows "Contains \<lparr>net_IP = ip_mask (as16 (V6 bs)) (CIDRMask n 16), net_Mask = CIDRMask n 16\<rparr> ip \<longleftrightarrow>
         take n (addr_bits ip) = take n (addr_bits bs)"
proof -
  let ?m = "CIDRMask n 16"
  have net: "ip_mask (as16 (V6 bs)) ?m = map2 (AND) bs ?m" by (simp add: ip_mask_def)
  have "networkNumberAndMask \<lparr>net_IP = map2 (AND) bs ?m, net_Mask = ?m\<rparr> = Some (map2 (AND) bs ?m, ?m)"
    using len v6 net by (simp add: networkNumberAndMask_def Let_def)
  then show ?thesis
    unfolding net using len v6 mask_bits [of bs 16 ip n] by (auto simp: Contains_def and_zip Let_def)
qed

end
