(* ===== verification/Validate.thy ===== *)
theory Validate
  imports Users GoNet
begin

text \<open>
  The mappings file after decoding (\<^verbatim>\<open>mappings/parse.go\<close>): its structs and its validation, with the
  helpers of \<^verbatim>\<open>internal/validation\<close>. The six layered structs share their parameter, account and
  provisioning fields, so they are extensions of one record; \<open>provisioningConfig\<close> is the method each
  of them has. \<^verbatim>\<open>NetworkSettings\<close> of a network mapping is its field \<open>ly_Network\<close>.

  \<^verbatim>\<open>regexp.Compile\<close> and \<^verbatim>\<open>url.Parse\<close> are the parameters \<open>rx\<close> and \<open>up\<close>: the first gives the match predicate
  of a pattern that compiles, the second the scheme and the host of a text that parses.
\<close>

subsection \<open>The decoded file\<close>

record DefaultsMap =
  ly_Params :: params
  ly_Users :: "UserConfig gomap"
  ly_Locale :: LocaleConfig
  ly_Time :: TimeConfig
  ly_Network :: NetworkConfig
  ly_Packages :: PackagesConfig
  ly_Storage :: StorageConfig
  ly_Boot :: BootConfig
  ly_Repos :: ReposConfig
  ly_Installer :: InstallerConfig

record Target = DefaultsMap +
  tg_Script :: string
  tg_Label :: string
  tg_Environment :: string

record PolicyFields = DefaultsMap +
  pf_DefaultTarget :: string
  pf_Targets :: "string slice"

record NetworkMapConfig = PolicyFields +
  nm_Network :: string

record HostnameMapConfig = PolicyFields +
  hm_Hostname :: string

record MacMapConfig = PolicyFields +
  mm_Mac :: string

record IPMapConfig = PolicyFields +
  im_IP :: string

record Mappings =
  mp_Defaults :: DefaultsMap
  mp_Targets :: "Target gomap"
  mp_NetworkMaps :: "NetworkMapConfig list"
  mp_HostnameMaps :: "HostnameMapConfig list"
  mp_MacMaps :: "MacMapConfig list"
  mp_IPMaps :: "IPMapConfig list"

definition provisioningConfig :: "'a DefaultsMap_scheme \<Rightarrow> ProvisioningConfig" where
  "provisioningConfig l =
     \<lparr>pv_Locale = ly_Locale l, pv_Time = ly_Time l, pv_Network = ly_Network l,
      pv_Packages = ly_Packages l, pv_Storage = ly_Storage l, pv_Boot = ly_Boot l,
      pv_Repos = ly_Repos l, pv_Installer = ly_Installer l\<rparr>"

definition zero_layer :: DefaultsMap where
  "zero_layer =
     \<lparr>ly_Params = None, ly_Users = None, ly_Locale = pv_Locale zero_provisioning,
      ly_Time = pv_Time zero_provisioning, ly_Network = pv_Network zero_provisioning,
      ly_Packages = pv_Packages zero_provisioning, ly_Storage = pv_Storage zero_provisioning,
      ly_Boot = pv_Boot zero_provisioning, ly_Repos = pv_Repos zero_provisioning,
      ly_Installer = pv_Installer zero_provisioning\<rparr>"

definition defaultMappings :: Mappings where
  "defaultMappings = \<lparr>mp_Defaults = zero_layer, mp_Targets = Some [], mp_NetworkMaps = [],
     mp_HostnameMaps = [], mp_MacMaps = [], mp_IPMaps = []\<rparr>"

subsection \<open>Parameters of the model\<close>

type_synonym regexp_compile = "string \<Rightarrow> (string \<Rightarrow> bool) option"
type_synonym url_parse = "string \<Rightarrow> (string \<times> string) option"

subsection \<open>Package validation\<close>

definition ContainsShellUnsafeValue :: "string \<Rightarrow> bool" where
  "ContainsShellUnsafeValue v \<longleftrightarrow>
     containsAny v ([CHR '' '', CHR 0x09, CHR 0x0A, CHR 0x0D, CHR 0x27] @ ''\"'' @ [CHR 0x5C] @ '';$&|<>'' @ [CHR 0x60])"

definition is_digit :: "char \<Rightarrow> bool" where
  "is_digit c \<longleftrightarrow> CHR ''0'' \<le> c \<and> c \<le> CHR ''9''"

fun pcrLoop :: "bool \<Rightarrow> string \<Rightarrow> bool" where
  "pcrLoop hasToken [] = hasToken"
| "pcrLoop hasToken (r # s) =
     (if is_digit r then pcrLoop True s
      else if r = CHR ''+'' \<or> r = CHR '','' then (if \<not> hasToken then False else pcrLoop False s)
      else False)"

definition IsTPMPCRSelection :: "string \<Rightarrow> bool" where
  "IsTPMPCRSelection v = pcrLoop False v"

subsection \<open>Field validators\<close>

definition stringInSlice :: "string \<Rightarrow> string list \<Rightarrow> bool" where
  "stringInSlice v vs \<longleftrightarrow> list_ex (\<lambda>candidate. candidate = v) vs"

definition validateOneOf :: "path \<Rightarrow> string \<Rightarrow> string list \<Rightarrow> error option" where
  "validateOneOf path v allowed = (if list_ex (\<lambda>c. v = c) allowed then None else Some (UnsupportedValue path v))"

definition validateStringList :: "path \<Rightarrow> string slice \<Rightarrow> error option" where
  "validateStringList path vs = each_idx_err (\<lambda>i v. check (trimSpace v = []) (EmptyEntry (path @ [Idx i]))) 0 (elems vs)"

definition validateInstallerLateCommands :: "path \<Rightarrow> string slice \<Rightarrow> error option" where
  "validateInstallerLateCommands path cmds = first_err
     [validateStringList path cmds,
      each_idx_err (\<lambda>i c. check (containsAny c [CHR 0x0D, CHR 0x0A]) (NotSingleLine (path @ [Idx i]))) 0 (elems cmds)]"

definition unsupportedDiskPathShellMetacharacters :: string where
  "unsupportedDiskPathShellMetacharacters =
     '';&|'' @ [CHR 0x60] @ ''$(){}<>'' @ ''\"'' @ [CHR 0x27] @ [CHR 0x5C]"

definition blanks :: string where
  "blanks = [CHR '' '', CHR 0x09, CHR 0x0D, CHR 0x0A]"

definition validateWipeDiskPattern :: "path \<Rightarrow> string \<Rightarrow> error option" where
  "validateWipeDiskPattern p pattern = first_err
     [check (trimSpace pattern = []) (EmptyEntry p),
      check (pattern \<noteq> trimSpace pattern \<or> containsAny pattern blanks) (HasWhitespace p),
      check (\<not> hasPrefix pattern ''/dev/'') (NotUnderDev p),
      check (pattern = ''/dev/*'') (TooBroadPattern p),
      check (containsAny pattern unsupportedDiskPathShellMetacharacters) (ShellMetacharacters p)]"

definition validateWipeDiskPatterns :: "path \<Rightarrow> string slice \<Rightarrow> error option" where
  "validateWipeDiskPatterns path ps = each_idx_err (\<lambda>i. validateWipeDiskPattern (path @ [Idx i])) 0 (elems ps)"

definition validateRAIDDevice :: "path \<Rightarrow> string \<Rightarrow> error option" where
  "validateRAIDDevice p device = first_err
     [check (trimSpace device = []) (EmptyEntry p),
      check (device \<noteq> trimSpace device \<or> containsAny device blanks) (HasWhitespace p),
      check (\<not> hasPrefix device ''/dev/'') (NotUnderDev p),
      check (device = ''/dev/'') (NotExplicitPath p),
      check (containsAny device ''*?['') (GlobPattern p),
      check (containsAny device unsupportedDiskPathShellMetacharacters) (ShellMetacharacters p)]"

definition validateRAIDDevices :: "path \<Rightarrow> string slice \<Rightarrow> error option" where
  "validateRAIDDevices path ds = each_idx_err (\<lambda>i. validateRAIDDevice (path @ [Idx i])) 0 (elems ds)"

text \<open>\<^verbatim>\<open>strings.TrimSuffix(path, ".storage.raid")\<close>, on segments.\<close>

definition trimRaidSuffix :: "path \<Rightarrow> path" where
  "trimRaidSuffix p =
     (if drop (length p - 2) p = [Fld ''storage'', Fld ''raid''] then take (length p - 2) p else p)"

definition validateRAIDConfig :: "path \<Rightarrow> string \<Rightarrow> RAIDConfig \<Rightarrow> string \<Rightarrow> bool \<Rightarrow> error option" where
  "validateRAIDConfig path storageMode raid bootFirmware requireComplete =
     (let devices = raid_Devices raid;
          firmwarePath = trimRaidSuffix path @ [Fld ''boot'', Fld ''firmware''];
          devicesPath = path @ [Fld ''devices'']
      in if raid_Level raid \<noteq> 0 \<and> raid_Level raid \<noteq> 1 then Some (RaidLevel (path @ [Fld ''level'']))
      else case (if devices = None then None
                 else if storageMode = ''raid'' \<and> length (elems devices) \<noteq> 2 then Some (RaidDeviceCount devicesPath)
                 else validateRAIDDevices devicesPath devices) of
        Some e \<Rightarrow> Some e
      | None \<Rightarrow>
          if storageMode \<noteq> ''raid'' then None
          else if bootFirmware \<noteq> [] \<and> bootFirmware \<noteq> ''uefi'' then Some (RaidFirmware firmwarePath)
          else if \<not> requireComplete then None
          else if bootFirmware \<noteq> ''uefi'' then Some (RaidFirmware firmwarePath)
          else if raid_Level raid \<noteq> 1 then Some (RaidLevel (path @ [Fld ''level'']))
          else if length (elems devices) \<noteq> 2 then Some (RaidDeviceCount devicesPath)
          else validateRAIDDevices devicesPath devices)"

definition validateFilesystems :: "path \<Rightarrow> FilesystemConfig gomap \<Rightarrow> error option" where
  "validateFilesystems path m = each_err (\<lambda>(name, f).
     if name = [] then Some (EmptyFilesystemName path)
     else if boolValue (fs_Absent f) then None
     else check (case fs_SizeMiB f of None \<Rightarrow> False | Some n \<Rightarrow> n < 0)
            (NegativeValue (path @ [Key name, Fld ''sizeMiB'']))) (entries m)"

definition validateStorageEncryptionPassphrase :: "path \<Rightarrow> val \<Rightarrow> error option" where
  "validateStorageEncryptionPassphrase path passphrase =
     (case passphrase of
        VStr s \<Rightarrow> check (trimSpace s = []) (EmptyEntry path)
      | VMap m \<Rightarrow>
          (case envReference (VMap m) of
             Inl e \<Rightarrow> Some (ParamEnvRef path e)
           | Inr None \<Rightarrow> Some (PassphraseShape path)
           | Inr (Some env) \<Rightarrow> check (env = []) (PassphraseShape path))
      | _ \<Rightarrow> Some (PassphraseShape path))"

definition validateStorageEncryptionTPMConfig :: "path \<Rightarrow> StorageEncryptionConfig \<Rightarrow> bool \<Rightarrow> error option" where
  "validateStorageEncryptionTPMConfig path enc requireEncryptionEnabled =
     (let tpm = enc_TPM enc in first_err
       [check (boolValue (tpm_Enabled tpm) \<and> requireEncryptionEnabled \<and> \<not> boolValue (enc_Enabled enc))
          (TPMNeedsEncryption (path @ [Fld ''enabled''])),
        check (tpm_Device tpm \<noteq> [] \<and> ContainsShellUnsafeValue (tpm_Device tpm))
          (ShellMetacharacters (path @ [Fld ''device''])),
        check (tpm_PCRs tpm \<noteq> [] \<and> ContainsShellUnsafeValue (tpm_PCRs tpm))
          (ShellMetacharacters (path @ [Fld ''pcrs''])),
        check (tpm_PCRs tpm \<noteq> [] \<and> \<not> IsTPMPCRSelection (tpm_PCRs tpm)) (BadPCRs (path @ [Fld ''pcrs''])),
        check (tpm_Initramfs tpm \<noteq> [] \<and> tpm_Initramfs tpm \<noteq> ''dracut'')
          (UnsupportedValue (path @ [Fld ''initramfs'']) (tpm_Initramfs tpm))])"

definition validateStorageEncryptionConfig :: "path \<Rightarrow> StorageEncryptionConfig \<Rightarrow> bool \<Rightarrow> error option" where
  "validateStorageEncryptionConfig path enc requirePassphrase = first_err
     [check (case enc_KeySize enc of None \<Rightarrow> False | Some n \<Rightarrow> n \<le> 0) (NonPositiveValue (path @ [Fld ''keySize''])),
      if enc_Passphrase enc \<noteq> VNil
        then validateStorageEncryptionPassphrase (path @ [Fld ''passphrase'']) (enc_Passphrase enc) else None,
      check (requirePassphrase \<and> boolValue (enc_Enabled enc) \<and> enc_Passphrase enc = VNil)
        (PassphraseRequired (path @ [Fld ''passphrase''])),
      validateStorageEncryptionTPMConfig (path @ [Fld ''tpm'']) enc requirePassphrase]"

subsection \<open>Layers and the whole file\<close>

definition validateProvisioningConfig :: "url_parse \<Rightarrow> path \<Rightarrow> ProvisioningConfig \<Rightarrow> error option" where
  "validateProvisioningConfig up path c =
     (let sub = (\<lambda>fs. path @ map Fld fs); net = pv_Network c; pkg = pv_Packages c; st = pv_Storage c;
          boot = pv_Boot c; inst = boot_Installed boot; mirror = rep_OSMirror (pv_Repos c)
      in first_err
       [validateOneOf (sub [''network'', ''bootproto'']) (net_Bootproto net) [[], ''dhcp'', ''static''],
        validateStringList (sub [''network'', ''nameservers'']) (net_Nameservers net),
        validateStringList (sub [''packages'', ''install'']) (pkg_Install pkg),
        validateStringList (sub [''packages'', ''groups'']) (pkg_Groups pkg),
        validateOneOf (sub [''storage'', ''mode'']) (st_Mode st)
          [[], ''regular'', ''plain'', ''lvm'', ''raid'', ''manual''],
        validateWipeDiskPatterns (sub [''storage'', ''wipeDiskPatterns'']) (st_WipeDiskPatterns st),
        validateRAIDConfig (sub [''storage'', ''raid'']) (st_Mode st) (st_RAID st) (boot_Firmware boot) False,
        validateStorageEncryptionConfig (sub [''storage'', ''encryption'']) (st_Encryption st) False,
        validateFilesystems (sub [''storage'', ''filesystems'']) (st_Filesystems st),
        validateOneOf (sub [''boot'', ''firmware'']) (boot_Firmware boot) [[], ''uefi'', ''bios''],
        validateOneOf (sub [''boot'', ''netboot'', ''method'']) (nb_Method (boot_Netboot boot)) [[], ''ipxe''],
        validateStringList (sub [''boot'', ''netboot'', ''kernelArgs'']) (nb_KernelArgs (boot_Netboot boot)),
        validateOneOf (sub [''boot'', ''installed'', ''bootloader'']) (ib_Bootloader inst) [[], ''grub''],
        check (case ib_TimeoutSeconds inst of None \<Rightarrow> False | Some n \<Rightarrow> n < 0)
          (NegativeValue (sub [''boot'', ''installed'', ''timeoutSeconds''])),
        validateStringList (sub [''boot'', ''installed'', ''kernelArgs'']) (ib_KernelArgs inst),
        validateInstallerLateCommands (sub [''installer'', ''lateCommands'']) (ins_LateCommands (pv_Installer c)),
        check (mirror \<noteq> [] \<and> (case up mirror of None \<Rightarrow> True
             | Some (scheme, host) \<Rightarrow> scheme = [] \<or> host = [] \<or> (scheme \<noteq> ''http'' \<and> scheme \<noteq> ''https'')))
          (NotHttpUrl (sub [''repos'', ''osMirror'']))])"

definition validateResolvedProvisioningConfig :: "path \<Rightarrow> ProvisioningConfig \<Rightarrow> error option" where
  "validateResolvedProvisioningConfig path c = first_err
     [validateRAIDConfig (path @ [Fld ''storage'', Fld ''raid'']) (st_Mode (pv_Storage c)) (st_RAID (pv_Storage c))
        (boot_Firmware (pv_Boot c)) True,
      validateStorageEncryptionConfig (path @ [Fld ''storage'', Fld ''encryption'']) (st_Encryption (pv_Storage c)) True]"

definition validateTargetPolicy ::
    "string \<Rightarrow> nat \<Rightarrow> string slice \<Rightarrow> string \<Rightarrow> Target gomap \<Rightarrow> error option" where
  "validateTargetPolicy sect index targetNames defaultTarget targets = first_err
     [check (elems targetNames = []) (EmptyTargets sect index),
      each_err (\<lambda>n. check (lookup_map targets n = None) (UnknownTarget sect index n)) (elems targetNames),
      if defaultTarget = [] then None
      else first_err
        [check (lookup_map targets defaultTarget = None) (UnknownDefaultTarget sect index defaultTarget),
         check (\<not> stringInSlice defaultTarget (elems targetNames)) (DefaultNotIncluded sect index defaultTarget)]]"

definition knownTopLevelMappingKeys :: "string list" where
  "knownTopLevelMappingKeys = [''defaults'', ''targets'', ''networkMaps'', ''hostnameMaps'', ''macMaps'', ''ipMaps'']"

definition validateTopLevelKeys :: "string list \<Rightarrow> error option" where
  "validateTopLevelKeys keys =
     each_err (\<lambda>k. check (before CHR ''.'' k \<notin> set knownTopLevelMappingKeys)
                     (UnknownTopLevelKey (before CHR ''.'' k))) keys"

definition validateTarget :: "url_parse \<Rightarrow> string \<Rightarrow> Target \<Rightarrow> error option" where
  "validateTarget up name t = first_err
     [check (name = []) EmptyTargetName,
      check (tg_Script t = []) (EmptyScript name),
      validateProvisioningConfig up [Fld ''targets'', Key name] (provisioningConfig t)]"

text \<open>The body the four mapping loops share after the selector has been checked.\<close>

definition validatePolicy ::
    "url_parse \<Rightarrow> Target gomap \<Rightarrow> string \<Rightarrow> nat \<Rightarrow> 'a PolicyFields_scheme \<Rightarrow> error option" where
  "validatePolicy up targets sect i m = first_err
     [validateTargetPolicy sect i (pf_Targets m) (pf_DefaultTarget m) targets,
      validateProvisioningConfig up [Fld sect, Idx i] (provisioningConfig m)]"

definition validateMappings :: "regexp_compile \<Rightarrow> url_parse \<Rightarrow> Mappings \<Rightarrow> error option" where
  "validateMappings rx up m =
     (let ts = mp_Targets m in first_err
       [validateProvisioningConfig up [Fld ''defaults''] (provisioningConfig (mp_Defaults m)),
        each_err (\<lambda>(name, t). validateTarget up name t) (entries ts),
        each_idx_err (\<lambda>i n. first_err [check (ParseCIDR (nm_Network n) = None) (InvalidNetwork i (nm_Network n)),
           validatePolicy up ts ''networkMaps'' i n]) 0 (mp_NetworkMaps m),
        each_idx_err (\<lambda>i h. first_err [check (rx (hm_Hostname h) = None) (InvalidHostname i (hm_Hostname h)),
           validatePolicy up ts ''hostnameMaps'' i h]) 0 (mp_HostnameMaps m),
        each_idx_err (\<lambda>i a. first_err [check (ParseMAC (mm_Mac a) = None) (InvalidMac i (mm_Mac a)),
           validatePolicy up ts ''macMaps'' i a]) 0 (mp_MacMaps m),
        each_idx_err (\<lambda>i p. first_err [check (ParseIP (im_IP p) = None) (InvalidIP i (im_IP p)),
           validatePolicy up ts ''ipMaps'' i p]) 0 (mp_IPMaps m)])"

text \<open>
  \<^verbatim>\<open>ParseMappings\<close>. Reading the file and decoding YAML belong to koanf: \<open>load\<close> gives the flattened keys
  of a readable file and the function that decodes it over given mappings.
\<close>

definition ParseMappings ::
    "regexp_compile \<Rightarrow> url_parse \<Rightarrow> (string \<Rightarrow> (string list \<times> (Mappings \<Rightarrow> Mappings option)) option) \<Rightarrow>
     string \<Rightarrow> error + Mappings" where
  "ParseMappings rx up load file =
     (case load file of
        None \<Rightarrow> Inl (ParseError file)
      | Some (keys, decode) \<Rightarrow>
          (case validateTopLevelKeys keys of
             Some e \<Rightarrow> Inl e
           | None \<Rightarrow>
               (case decode defaultMappings of
                  None \<Rightarrow> Inl (ParseError file)
                | Some m \<Rightarrow> (case validateMappings rx up m of Some e \<Rightarrow> Inl e | None \<Rightarrow> Inr m))))"

subsection \<open>Facts\<close>

text \<open>A PCR selection as the text says it: numbers separated by plus signs or commas.\<close>

fun pcr_tokens :: "string \<Rightarrow> string list" where
  "pcr_tokens [] = [[]]"
| "pcr_tokens (c # s) =
     (if c = CHR ''+'' \<or> c = CHR '','' then [] # pcr_tokens s
      else (c # hd (pcr_tokens s)) # tl (pcr_tokens s))"

definition pcr_number :: "string \<Rightarrow> bool" where
  "pcr_number t \<longleftrightarrow> t \<noteq> [] \<and> list_all is_digit t"

lemma pcr_tokens_nonempty [simp]: "pcr_tokens s \<noteq> []"
  by (cases s) simp_all

lemma pcrLoop_tokens:
  "pcrLoop h s \<longleftrightarrow> (h \<or> hd (pcr_tokens s) \<noteq> []) \<and> list_all is_digit (hd (pcr_tokens s))
     \<and> list_all pcr_number (tl (pcr_tokens s))"
proof (induction h s rule: pcrLoop.induct)
  case (2 h r s)
  have "list_all pcr_number (pcr_tokens s) \<longleftrightarrow>
    hd (pcr_tokens s) \<noteq> [] \<and> list_all is_digit (hd (pcr_tokens s)) \<and> list_all pcr_number (tl (pcr_tokens s))"
    by (cases "pcr_tokens s") (simp_all add: pcr_number_def)
  moreover have "\<not> is_digit CHR ''+''" "\<not> is_digit CHR '',''" by (simp_all add: is_digit_def)
  ultimately show ?case using 2 by (cases "is_digit r") auto
qed simp

text \<open>Lists whose entries are all checked by the same validator.\<close>

lemma each_idx_uniform:
  assumes "\<And>i x. f i x = None \<longleftrightarrow> P x"
  shows "each_idx_err f i xs = None \<longleftrightarrow> list_all P xs"
  using assms by (simp add: each_idx_err_None list_all_length)

lemma trimSpace_Nil [simp]: "trimSpace [] = []"
proof -
  have "space_len ws [] = 0" if "[] \<notin> set ws" for ws using that by (induction ws) auto
  then have "trim_with ws [] = []" if "[] \<notin> set ws" for ws using that by (subst trim_with.simps) simp
  then show ?thesis by (simp add: trimSpace_def space_seqs_def)
qed

text \<open>A device path that is safe to put on an installer command line.\<close>

definition explicit_device :: "string \<Rightarrow> bool" where
  "explicit_device d \<longleftrightarrow> strict_prefix ''/dev/'' d \<and> trimSpace d = d
     \<and> set d \<inter> set (blanks @ ''*?['' @ unsupportedDiskPathShellMetacharacters) = {}"

lemma validateRAIDDevice_None: "validateRAIDDevice p d = None \<longleftrightarrow> explicit_device d"
  by (auto simp: validateRAIDDevice_def explicit_device_def containsAny_iff hasPrefix_iff strict_prefix_def)

lemma validateRAIDDevices_None: "validateRAIDDevices p ds = None \<longleftrightarrow> list_all explicit_device (elems ds)"
  unfolding validateRAIDDevices_def by (rule each_idx_uniform) (rule validateRAIDDevice_None)

definition narrow_pattern :: "string \<Rightarrow> bool" where
  "narrow_pattern d \<longleftrightarrow> prefix ''/dev/'' d \<and> d \<noteq> ''/dev/*'' \<and> trimSpace d = d
     \<and> set d \<inter> set (blanks @ unsupportedDiskPathShellMetacharacters) = {}"

lemma validateWipeDiskPatterns_None:
  "validateWipeDiskPatterns p ds = None \<longleftrightarrow> list_all narrow_pattern (elems ds)"
  unfolding validateWipeDiskPatterns_def
  by (rule each_idx_uniform)
    (auto simp: validateWipeDiskPattern_def narrow_pattern_def containsAny_iff hasPrefix_iff)

lemma validateStringList_None: "validateStringList p vs = None \<longleftrightarrow> list_all (\<lambda>v. trimSpace v \<noteq> []) (elems vs)"
  unfolding validateStringList_def by (rule each_idx_uniform) simp

lemma validateOneOf_None [simp]: "validateOneOf p v allowed = None \<longleftrightarrow> v \<in> set allowed"
  by (auto simp: validateOneOf_def list_ex_iff)

lemma stringInSlice_iff [simp]: "stringInSlice v vs \<longleftrightarrow> v \<in> set vs"
  by (auto simp: stringInSlice_def list_ex_iff)

text \<open>What a resolved RAID layout has to be.\<close>

definition raid_complete :: "RAIDConfig \<Rightarrow> string \<Rightarrow> bool" where
  "raid_complete raid firmware \<longleftrightarrow> firmware = ''uefi'' \<and> raid_Level raid = 1
     \<and> (\<exists>a b. raid_Devices raid = Some [a, b] \<and> explicit_device a \<and> explicit_device b)"

lemma validateRAIDConfig_complete:
  "validateRAIDConfig p ''raid'' raid firmware True = None \<longleftrightarrow> raid_complete raid firmware"
proof (cases "raid_Devices raid")
  case None
  then show ?thesis by (auto simp: validateRAIDConfig_def raid_complete_def Let_def)
next
  case (Some ds)
  have "length ds = 2 \<longleftrightarrow> (\<exists>a b. ds = [a, b])"
    by (auto simp: numeral_2_eq_2 length_Suc_conv)
  with Some show ?thesis
    using validateRAIDDevices_None [of "p @ [Fld ''devices'']" "Some ds"]
    by (cases "validateRAIDDevices (p @ [Fld ''devices'']) (Some ds)")
      (auto simp: validateRAIDConfig_def raid_complete_def Let_def)
qed

lemma validateRAIDConfig_other:
  "mode \<noteq> ''raid'' \<Longrightarrow> validateRAIDConfig p mode raid firmware complete = None \<longleftrightarrow>
     raid_Level raid \<in> {0, 1} \<and> list_all explicit_device (elems (raid_Devices raid))"
  by (auto simp: validateRAIDConfig_def Let_def validateRAIDDevices_None split: option.splits)

text \<open>What a resolved encryption section has to be.\<close>

definition passphrase_ok :: "val \<Rightarrow> bool" where
  "passphrase_ok v \<longleftrightarrow>
     (case v of VStr s \<Rightarrow> trimSpace s \<noteq> [] | VMap m \<Rightarrow> (\<exists>e. envReferenceFromMap m = Inr (Some e)) | _ \<Rightarrow> False)"

lemma envReferenceFromMap_nonempty: "envReferenceFromMap m = Inr (Some e) \<Longrightarrow> e \<noteq> []"
  by (auto simp: envReferenceFromMap_def split: option.splits if_splits val.splits)

lemma validatePassphrase_None: "validateStorageEncryptionPassphrase p v = None \<longleftrightarrow> passphrase_ok v"
  by (auto simp: validateStorageEncryptionPassphrase_def passphrase_ok_def envReference_def
      dest: envReferenceFromMap_nonempty split: val.splits sum.splits option.splits)

definition tpm_ok :: "StorageEncryptionTPMConfig \<Rightarrow> bool" where
  "tpm_ok t \<longleftrightarrow> (tpm_Device t = [] \<or> \<not> ContainsShellUnsafeValue (tpm_Device t))
     \<and> (tpm_PCRs t = [] \<or> list_all pcr_number (pcr_tokens (tpm_PCRs t)))
     \<and> tpm_Initramfs t \<in> {[], ''dracut''}"

lemma digits_safe:
  "list_all (list_all is_digit) (pcr_tokens s) \<Longrightarrow> c \<in> set s \<Longrightarrow> is_digit c \<or> c = CHR ''+'' \<or> c = CHR '',''"
proof (induction s)
  case (Cons a s)
  obtain t ts where "pcr_tokens s = t # ts" by (cases "pcr_tokens s") auto
  with Cons show ?case by (auto split: if_splits)
qed simp

lemma IsTPMPCRSelection_tokens: "IsTPMPCRSelection v \<longleftrightarrow> list_all pcr_number (pcr_tokens v)"
  by (cases "pcr_tokens v") (auto simp: IsTPMPCRSelection_def pcrLoop_tokens pcr_number_def)

lemma pcr_selection_shell_safe:
  assumes "IsTPMPCRSelection v"
  shows "\<not> ContainsShellUnsafeValue v"
proof -
  have "list_all (list_all is_digit) (pcr_tokens v)"
    using assms by (auto simp: IsTPMPCRSelection_tokens pcr_number_def list_all_iff)
  from digits_safe [OF this] have "c \<in> set v \<Longrightarrow> is_digit c \<or> c = CHR ''+'' \<or> c = CHR '',''" for c .
  then show ?thesis
    by (fastforce simp: ContainsShellUnsafeValue_def containsAny_def list_ex_iff is_digit_def)
qed

lemma validateTPM_None:
  "validateStorageEncryptionTPMConfig p enc req = None \<longleftrightarrow>
     tpm_ok (enc_TPM enc) \<and> (req \<and> boolValue (tpm_Enabled (enc_TPM enc)) \<longrightarrow> boolValue (enc_Enabled enc))"
  using pcr_selection_shell_safe [of "tpm_PCRs (enc_TPM enc)"]
  by (auto simp: validateStorageEncryptionTPMConfig_def tpm_ok_def Let_def IsTPMPCRSelection_tokens)

lemma validateEncryption_None:
  "validateStorageEncryptionConfig p enc req = None \<longleftrightarrow>
     (\<forall>n. enc_KeySize enc = Some n \<longrightarrow> n > 0)
     \<and> (enc_Passphrase enc = VNil \<or> passphrase_ok (enc_Passphrase enc))
     \<and> (req \<and> boolValue (enc_Enabled enc) \<longrightarrow> enc_Passphrase enc \<noteq> VNil)
     \<and> tpm_ok (enc_TPM enc) \<and> (req \<and> boolValue (tpm_Enabled (enc_TPM enc)) \<longrightarrow> boolValue (enc_Enabled enc))"
  by (auto simp: validateStorageEncryptionConfig_def validatePassphrase_None validateTPM_None split: option.splits)

text \<open>What a policy of a valid file refers to.\<close>

definition wf_policy :: "Target gomap \<Rightarrow> string list \<Rightarrow> string \<Rightarrow> bool" where
  "wf_policy targets names dflt \<longleftrightarrow> names \<noteq> [] \<and> (\<forall>n \<in> set names. lookup_map targets n \<noteq> None)
     \<and> (dflt = [] \<or> dflt \<in> set names)"

lemma validateTargetPolicy_None:
  "validateTargetPolicy sect i names dflt targets = None \<longleftrightarrow> wf_policy targets (elems names) dflt"
  by (auto simp: validateTargetPolicy_def wf_policy_def)

lemma validatePolicy_wf:
  "validatePolicy up ts sect i p = None \<Longrightarrow> wf_policy ts (elems (pf_Targets p)) (pf_DefaultTarget p)"
  by (simp add: validatePolicy_def validateTargetPolicy_None)

lemma validateMappings_parts:
  assumes "validateMappings rx up m = None"
  shows "\<forall>n \<in> set (mp_NetworkMaps m). ParseCIDR (nm_Network n) \<noteq> None
           \<and> wf_policy (mp_Targets m) (elems (pf_Targets n)) (pf_DefaultTarget n)"
    and "\<forall>h \<in> set (mp_HostnameMaps m). rx (hm_Hostname h) \<noteq> None
           \<and> wf_policy (mp_Targets m) (elems (pf_Targets h)) (pf_DefaultTarget h)"
    and "\<forall>a \<in> set (mp_MacMaps m). ParseMAC (mm_Mac a) \<noteq> None
           \<and> wf_policy (mp_Targets m) (elems (pf_Targets a)) (pf_DefaultTarget a)"
    and "\<forall>p \<in> set (mp_IPMaps m). ParseIP (im_IP p) \<noteq> None
           \<and> wf_policy (mp_Targets m) (elems (pf_Targets p)) (pf_DefaultTarget p)"
    and "\<forall>(n, t) \<in> set (entries (mp_Targets m)). n \<noteq> [] \<and> tg_Script t \<noteq> []"
  using assms
  by (auto simp: validateMappings_def Let_def validateTarget_def
      dest!: each_idx_err_all dest: validatePolicy_wf)

subsection \<open>Properties\<close>

text \<open>
  \<^verbatim>\<open>IsTPMPCRSelection\<close> accepts exactly the texts that consist of non-empty decimal numbers
  separated by single plus signs or commas.
\<close>

theorem pcr_selection_spec: "IsTPMPCRSelection v \<longleftrightarrow> list_all pcr_number (pcr_tokens v)"
  by (rule IsTPMPCRSelection_tokens)

definition encryption_ok :: "StorageEncryptionConfig \<Rightarrow> bool" where
  "encryption_ok enc \<longleftrightarrow>
     (case enc_KeySize enc of None \<Rightarrow> True | Some n \<Rightarrow> n > 0)
     \<and> (if boolValue (enc_Enabled enc) then passphrase_ok (enc_Passphrase enc)
        else enc_Passphrase enc = VNil \<or> passphrase_ok (enc_Passphrase enc))
     \<and> tpm_ok (enc_TPM enc)
     \<and> (boolValue (enc_Enabled enc) \<or> \<not> boolValue (tpm_Enabled (enc_TPM enc)))"

lemma passphrase_ok_VNil [simp]: "\<not> passphrase_ok VNil"
  by (simp add: passphrase_ok_def)

text \<open>
  C7. The final check of a merged configuration accepts it exactly when a RAID layout is complete (UEFI
  firmware, level 1, two explicit device paths that are safe on a command line), the RAID section is
  harmless in the other storage modes, and the encryption section is consistent: a passphrase when it is
  enabled, a well-formed TPM section, and no TPM unlock without encryption.
\<close>

theorem resolved_provisioning_spec:
  "validateResolvedProvisioningConfig p c = None \<longleftrightarrow>
     (if st_Mode (pv_Storage c) = ''raid''
      then raid_complete (st_RAID (pv_Storage c)) (boot_Firmware (pv_Boot c))
      else raid_Level (st_RAID (pv_Storage c)) \<in> {0, 1}
           \<and> list_all explicit_device (elems (raid_Devices (st_RAID (pv_Storage c)))))
     \<and> encryption_ok (st_Encryption (pv_Storage c))"
proof -
  have "validateStorageEncryptionConfig q enc True = None \<longleftrightarrow> encryption_ok enc" for q enc
    by (auto simp: validateEncryption_None encryption_ok_def split: option.splits)
  then show ?thesis
    by (cases "st_Mode (pv_Storage c) = ''raid''")
      (simp_all add: validateResolvedProvisioningConfig_def validateRAIDConfig_complete validateRAIDConfig_other)
qed

definition all_policies :: "Mappings \<Rightarrow> (string list \<times> string) list" where
  "all_policies m =
     map (\<lambda>p. (elems (pf_Targets p), pf_DefaultTarget p)) (mp_MacMaps m)
     @ map (\<lambda>p. (elems (pf_Targets p), pf_DefaultTarget p)) (mp_IPMaps m)
     @ map (\<lambda>p. (elems (pf_Targets p), pf_DefaultTarget p)) (mp_HostnameMaps m)
     @ map (\<lambda>p. (elems (pf_Targets p), pf_DefaultTarget p)) (mp_NetworkMaps m)"

lemma all_policies_wf:
  assumes "validateMappings rx up m = None"
  shows "\<forall>(names, dflt) \<in> set (all_policies m). wf_policy (mp_Targets m) names dflt"
  using validateMappings_parts [OF assms] by (auto simp: all_policies_def)

text \<open>
  C6. A mappings file that passes validation is closed: every target has a name and a script, every
  mapping rule lists at least one target, lists only targets that exist, and its default target, when it
  has one, is among those it lists.
\<close>

theorem valid_mappings_closed:
  assumes "validateMappings rx up m = None"
  shows "(\<forall>(n, t) \<in> set (entries (mp_Targets m)). n \<noteq> [] \<and> tg_Script t \<noteq> [])
    \<and> (\<forall>(names, dflt) \<in> set (all_policies m). names \<noteq> []
         \<and> (\<forall>n \<in> set names. \<exists>t. lookup_map (mp_Targets m) n = Some t) \<and> (dflt = [] \<or> dflt \<in> set names))"
  using validateMappings_parts(5) [OF assms] all_policies_wf [OF assms]
  by (auto simp: wf_policy_def)

definition sample_boot_target :: Target where
  "sample_boot_target = DefaultsMap.extend zero_layer
     \<lparr>tg_Script = ''debian.ipxe'', tg_Label = [], tg_Environment = []\<rparr>"

definition sample_rule :: MacMapConfig where
  "sample_rule = DefaultsMap.extend zero_layer
     \<lparr>pf_DefaultTarget = ''debian'', pf_Targets = Some [''debian'', ''rescue''], mm_Mac = ''52:54:00:12:34:56''\<rparr>"

definition sample_mappings :: Mappings where
  "sample_mappings = defaultMappings\<lparr>mp_Targets := Some [(''debian'', sample_boot_target),
     (''rescue'', sample_boot_target)], mp_MacMaps := [sample_rule]\<rparr>"

lemmas sample_defs = sample_mappings_def sample_rule_def sample_boot_target_def defaultMappings_def zero_layer_def
  zero_provisioning_def zero_storage_def DefaultsMap.defs

lemma zero_layer_valid: "validateProvisioningConfig up p zero_provisioning = None"
  by (simp add: validateProvisioningConfig_def Let_def zero_provisioning_def zero_storage_def
      validateStringList_None validateWipeDiskPatterns_None validateRAIDConfig_other validateEncryption_None
      validateFilesystems_def validateInstallerLateCommands_def tpm_ok_def boolValue_def)

lemma sample_mappings_valid: "validateMappings rx up sample_mappings = None"
proof -
  have "provisioningConfig zero_layer = zero_provisioning"
    "provisioningConfig sample_boot_target = zero_provisioning"
    "provisioningConfig sample_rule = zero_provisioning"
    by (simp_all add: provisioningConfig_def sample_defs)
  moreover have "ParseMAC ''52:54:00:12:34:56'' \<noteq> None" by code_simp
  then have "ParseMAC (mm_Mac sample_rule) \<noteq> None" by (simp add: sample_defs)
  moreover have "tg_Script sample_boot_target \<noteq> []" by (simp add: sample_defs)
  moreover have "pf_Targets sample_rule = Some [''debian'', ''rescue'']" "pf_DefaultTarget sample_rule = ''debian''"
    by (simp_all add: sample_defs)
  ultimately show ?thesis
    by (simp add: validateMappings_def sample_mappings_def defaultMappings_def zero_layer_valid validateTarget_def
        validatePolicy_def validateTargetPolicy_None wf_policy_def Let_def each_idx_err_None
        del: each_idx_err.simps)
qed

theorem valid_mappings_closed_witness:
  "list_all (\<lambda>(names, dflt). names \<noteq> [] \<and> dflt \<in> set names) (all_policies sample_mappings)"
  using valid_mappings_closed [OF sample_mappings_valid [of "\<lambda>_. None" "\<lambda>_. None"]]
  by (simp add: all_policies_def sample_defs)

end
