(* ===== verification/Resolver.thy ===== *)
theory Resolver
  imports Validate
begin

text \<open>
  Target resolution (\<^verbatim>\<open>mappings/resolver.go\<close>) and the older script lookup (\<^verbatim>\<open>mappings/mappings.go\<close>):
  compiling the mappings into rule tables, selecting a target for a host, and merging the parameters,
  accounts and provisioning layers of the selected target. \<open>osenv\<close> is \<^verbatim>\<open>os.LookupEnv\<close>; log calls are
  left out.
\<close>

subsection \<open>Data\<close>

datatype MatchType = MatchManual | MatchMAC | MatchIP | MatchHostname | MatchNetwork | MatchUnmatched

record ResolveRequest =
  rq_Mac :: string
  rq_IP :: string
  rq_Hostname :: string
  rq_ManualTarget :: string
  rq_Params :: params
  rq_GeneratedParams :: params
  rq_EnvLookup :: "env_lookup option"

record TargetCandidate =
  tc_Name :: string
  tc_Script :: string
  tc_Label :: string
  tc_Environment :: string
  tc_Params :: params
  tc_Users :: "UserConfig gomap"
  tc_Provisioning :: ProvisioningConfig

record ResolveResult =
  rr_MatchType :: MatchType
  rr_TargetName :: string
  rr_Target :: TargetCandidate
  rr_AllowedTargets :: "TargetCandidate list"
  rr_MappingParams :: params
  rr_Params :: params
  rr_Users :: "ResolvedUser gomap"
  rr_Provisioning :: ProvisioningConfig
  rr_RequiresManualSelection :: bool

record compiledPolicy =
  cp_defaultTarget :: string
  cp_targets :: "string slice"
  cp_params :: params
  cp_users :: "UserConfig gomap"
  cp_provisioning :: ProvisioningConfig

text \<open>A compiled rule is its selector and its policy.\<close>

type_synonym compiledMACMap = "string \<times> compiledPolicy"
type_synonym compiledIPMap = "byte list \<times> compiledPolicy"
type_synonym compiledHostnameMap = "(string \<Rightarrow> bool) \<times> compiledPolicy"
type_synonym compiledNetworkMap = "IPNet \<times> compiledPolicy"

record Resolver =
  rv_defaults :: params
  rv_defaultUsers :: "UserConfig gomap"
  rv_defaultProvisioning :: ProvisioningConfig
  rv_targets :: "Target entries"
  rv_targetOrder :: "string list"
  rv_macMaps :: "compiledMACMap list"
  rv_ipMaps :: "compiledIPMap list"
  rv_hostnameMaps :: "compiledHostnameMap list"
  rv_networkMaps :: "compiledNetworkMap list"

definition HasTarget :: "ResolveResult \<Rightarrow> bool" where
  "HasTarget r \<longleftrightarrow> rr_TargetName r \<noteq> []"

definition AllowedTargetNames :: "ResolveResult \<Rightarrow> string list" where
  "AllowedTargetNames r = map tc_Name (rr_AllowedTargets r)"

definition zero_candidate :: TargetCandidate where
  "zero_candidate = \<lparr>tc_Name = [], tc_Script = [], tc_Label = [], tc_Environment = [], tc_Params = None,
     tc_Users = None, tc_Provisioning = zero_provisioning\<rparr>"

definition zero_result :: ResolveResult where
  "zero_result = \<lparr>rr_MatchType = MatchUnmatched, rr_TargetName = [], rr_Target = zero_candidate,
     rr_AllowedTargets = [], rr_MappingParams = None, rr_Params = None, rr_Users = None,
     rr_Provisioning = zero_provisioning, rr_RequiresManualSelection = False\<rparr>"

subsection \<open>MAC addresses of requests\<close>

definition replaceMACDashes :: "string \<Rightarrow> string" where
  "replaceMACDashes mac = replace_char CHR ''-'' CHR '':'' mac"

definition parseRequestMAC :: "string \<Rightarrow> string option" where
  "parseRequestMAC mac =
     (case ParseMAC mac of
        Some hw \<Rightarrow> Some (mac_string hw)
      | None \<Rightarrow> if CHR ''-'' \<in> set mac then map_option mac_string (ParseMAC (replaceMACDashes mac)) else None)"

subsection \<open>Compiling\<close>

definition compilePolicy ::
    "string \<Rightarrow> string slice \<Rightarrow> params \<Rightarrow> UserConfig gomap \<Rightarrow> ProvisioningConfig \<Rightarrow> compiledPolicy" where
  "compilePolicy defaultTarget targets ps users provisioning =
     \<lparr>cp_defaultTarget = defaultTarget, cp_targets = append_nil targets, cp_params = copyParamMap ps,
      cp_users = copyUserConfigMap users, cp_provisioning = copyProvisioningConfig provisioning\<rparr>"

definition compileRule :: "'a PolicyFields_scheme \<Rightarrow> compiledPolicy" where
  "compileRule m = compilePolicy (pf_DefaultTarget m) (pf_Targets m) (ly_Params m) (ly_Users m) (provisioningConfig m)"

definition copyTarget :: "Target \<Rightarrow> Target" where
  "copyTarget t =
     (let p = copyProvisioningConfig (provisioningConfig t)
      in t\<lparr>ly_Params := copyParamMap (ly_Params t), ly_Users := copyUserConfigMap (ly_Users t),
           ly_Locale := pv_Locale p, ly_Time := pv_Time p, ly_Network := pv_Network p,
           ly_Packages := pv_Packages p, ly_Storage := pv_Storage p, ly_Boot := pv_Boot p,
           ly_Repos := pv_Repos p, ly_Installer := pv_Installer p\<rparr>)"

definition targetCandidate :: "string \<Rightarrow> Target \<Rightarrow> TargetCandidate" where
  "targetCandidate name t =
     \<lparr>tc_Name = name, tc_Script = tg_Script t, tc_Label = tg_Label t, tc_Environment = tg_Environment t,
      tc_Params = copyParamMap (ly_Params t), tc_Users = copyUserConfigMap (ly_Users t),
      tc_Provisioning = copyProvisioningConfig (provisioningConfig t)\<rparr>"

definition NewResolver :: "regexp_compile \<Rightarrow> url_parse \<Rightarrow> Mappings option \<Rightarrow> error + Resolver" where
  "NewResolver rx up mo =
     (let m = (case mo of None \<Rightarrow> defaultMappings | Some m \<Rightarrow> m)
      in case validateMappings rx up m of
           Some e \<Rightarrow> Inl e
         | None \<Rightarrow>
             bindE (map_res (\<lambda>r. case ParseMAC (mm_Mac r) of None \<Rightarrow> Inl (ParseError (mm_Mac r))
                      | Some hw \<Rightarrow> Inr (mac_string hw, compileRule r)) (mp_MacMaps m)) (\<lambda>macs.
             bindE (map_res (\<lambda>r. case rx (hm_Hostname r) of None \<Rightarrow> Inl (ParseError (hm_Hostname r))
                      | Some match \<Rightarrow> Inr (match, compileRule r)) (mp_HostnameMaps m)) (\<lambda>hostnames.
             bindE (map_res (\<lambda>r. case ParseCIDR (nm_Network r) of None \<Rightarrow> Inl (ParseError (nm_Network r))
                      | Some net \<Rightarrow> Inr (net, compileRule r)) (mp_NetworkMaps m)) (\<lambda>networks.
             Inr \<lparr>rv_defaults = copyParamMap (ly_Params (mp_Defaults m)),
                  rv_defaultUsers = copyUserConfigMap (ly_Users (mp_Defaults m)),
                  rv_defaultProvisioning = copyProvisioningConfig (provisioningConfig (mp_Defaults m)),
                  rv_targets = map (\<lambda>(n, t). (n, copyTarget t)) (entries (mp_Targets m)),
                  rv_targetOrder = sort (map fst (entries (mp_Targets m))),
                  rv_macMaps = macs,
                  rv_ipMaps = map (\<lambda>r. (case ParseIP (im_IP r) of None \<Rightarrow> [] | Some ip \<Rightarrow> ip, compileRule r)) (mp_IPMaps m),
                  rv_hostnameMaps = hostnames,
                  rv_networkMaps = networks\<rparr>))))"

subsection \<open>Finding the policy of a host\<close>

text \<open>The loop of the four finders: the policy of the first rule whose selector matches.\<close>

fun firstPolicy :: "('k \<Rightarrow> bool) \<Rightarrow> ('k \<times> compiledPolicy) list \<Rightarrow> compiledPolicy option" where
  "firstPolicy hit [] = None"
| "firstPolicy hit ((k, p) # rules) = (if hit k then Some p else firstPolicy hit rules)"

definition findMACPolicy :: "Resolver \<Rightarrow> string \<Rightarrow> compiledPolicy option" where
  "findMACPolicy r mac = (case parseRequestMAC mac of None \<Rightarrow> None
     | Some parsed \<Rightarrow> firstPolicy (\<lambda>m. m = parsed) (rv_macMaps r))"

definition findIPPolicy :: "Resolver \<Rightarrow> string \<Rightarrow> compiledPolicy option" where
  "findIPPolicy r ip = (case ParseIP ip of None \<Rightarrow> None
     | Some parsed \<Rightarrow> firstPolicy (\<lambda>a. ip_equal a parsed) (rv_ipMaps r))"

definition findHostnamePolicy :: "Resolver \<Rightarrow> string \<Rightarrow> compiledPolicy option" where
  "findHostnamePolicy r hostname = firstPolicy (\<lambda>match. match hostname) (rv_hostnameMaps r)"

definition findNetworkPolicy :: "Resolver \<Rightarrow> string \<Rightarrow> compiledPolicy option" where
  "findNetworkPolicy r ip = (case ParseIP ip of None \<Rightarrow> None
     | Some parsed \<Rightarrow> firstPolicy (\<lambda>net. Contains net parsed) (rv_networkMaps r))"

definition findPolicy :: "Resolver \<Rightarrow> ResolveRequest \<Rightarrow> compiledPolicy option \<times> MatchType" where
  "findPolicy r q =
     (case findMACPolicy r (rq_Mac q) of Some p \<Rightarrow> (Some p, MatchMAC) | None \<Rightarrow>
     (case findIPPolicy r (rq_IP q) of Some p \<Rightarrow> (Some p, MatchIP) | None \<Rightarrow>
     (case findHostnamePolicy r (rq_Hostname q) of Some p \<Rightarrow> (Some p, MatchHostname) | None \<Rightarrow>
     (case findNetworkPolicy r (rq_IP q) of Some p \<Rightarrow> (Some p, MatchNetwork) | None \<Rightarrow>
      (None, MatchUnmatched)))))"

subsection \<open>Targets\<close>

definition targetByName :: "Resolver \<Rightarrow> string \<Rightarrow> error + TargetCandidate" where
  "targetByName r name = (case map_of (rv_targets r) name of
     None \<Rightarrow> Inl (TargetNotFound name) | Some t \<Rightarrow> Inr (targetCandidate name t))"

fun targetsByName :: "Resolver \<Rightarrow> string list \<Rightarrow> TargetCandidate list" where
  "targetsByName r [] = []"
| "targetsByName r (name # names) =
     (case map_of (rv_targets r) name of
        None \<Rightarrow> targetsByName r names
      | Some t \<Rightarrow> targetCandidate name t # targetsByName r names)"

definition allTargets :: "Resolver \<Rightarrow> TargetCandidate list" where
  "allTargets r = targetsByName r (rv_targetOrder r)"

subsection \<open>Merging the layers of a target\<close>

definition request_env :: "env_lookup \<Rightarrow> ResolveRequest \<Rightarrow> env_lookup" where
  "request_env osenv q = (case rq_EnvLookup q of None \<Rightarrow> osenv | Some lookup \<Rightarrow> lookup)"

definition resolveEntries :: "path \<Rightarrow> env_lookup \<Rightarrow> val entries \<Rightarrow> error + val entries" where
  "resolveEntries path lookup es =
     map_res (\<lambda>(key, v). bindE (resolveParamValue (path @ [Key key]) v lookup) (\<lambda>r. Inr (key, r))) es"

definition merged_params :: "Resolver \<Rightarrow> TargetCandidate \<Rightarrow> params \<Rightarrow> ResolveRequest \<Rightarrow> val entries" where
  "merged_params r target mappingParams q =
     mergeParamMap (mergeParamMap (mergeParamMap (mergeParamMap (mergeParamMap []
       (rv_defaults r)) (tc_Params target)) mappingParams) (rq_Params q)) (rq_GeneratedParams q)"

definition resolveParams ::
    "env_lookup \<Rightarrow> Resolver \<Rightarrow> TargetCandidate \<Rightarrow> params \<Rightarrow> ResolveRequest \<Rightarrow> error + val entries" where
  "resolveParams osenv r target mappingParams q =
     resolveEntries [] (request_env osenv q) (merged_params r target mappingParams q)"

definition resolveProvisioning ::
    "env_lookup \<Rightarrow> Resolver \<Rightarrow> ProvisioningConfig \<Rightarrow> ProvisioningConfig \<Rightarrow> ResolveRequest \<Rightarrow> error + ProvisioningConfig" where
  "resolveProvisioning osenv r target mapping q =
     (let merged = mergeProvisioningConfig (mergeProvisioningConfig (copyProvisioningConfig (rv_defaultProvisioning r)) target) mapping;
          lookup = request_env osenv q; enc = st_Encryption (pv_Storage merged)
      in bindE (case ins_ConfigParams (pv_Installer merged) of None \<Rightarrow> Inr None
                | Some es \<Rightarrow> bindE (resolveEntries [Fld ''installer'', Fld ''configParams''] lookup es) (\<lambda>rs. Inr (Some rs)))
         (\<lambda>configParams.
         bindE (if boolValue (enc_Enabled enc) \<and> enc_Passphrase enc \<noteq> VNil
                then bindE (resolveStringValue [Fld ''storage'', Fld ''encryption'', Fld ''passphrase''] (enc_Passphrase enc) lookup)
                       (\<lambda>s. Inr (VStr s))
                else Inr (enc_Passphrase enc))
         (\<lambda>passphrase.
           let result = merged\<lparr>pv_Installer := (pv_Installer merged)\<lparr>ins_ConfigParams := configParams\<rparr>,
                 pv_Storage := (pv_Storage merged)\<lparr>st_Encryption := enc\<lparr>enc_Passphrase := passphrase\<rparr>\<rparr>\<rparr>
           in case validateResolvedProvisioningConfig [Fld ''resolved provisioning''] result of
                Some e \<Rightarrow> Inl e | None \<Rightarrow> Inr result)))"

definition requestOverridesParam :: "ResolveRequest \<Rightarrow> string \<Rightarrow> bool" where
  "requestOverridesParam q key \<longleftrightarrow>
     lookup_map (rq_Params q) key \<noteq> None \<or> lookup_map (rq_GeneratedParams q) key \<noteq> None"

definition applyStructuredLegacyParams ::
    "val entries \<Rightarrow> ProvisioningConfig \<Rightarrow> ResolveRequest \<Rightarrow> val entries" where
  "applyStructuredLegacyParams ps provisioning q =
     (if rep_Release (pv_Repos provisioning) \<noteq> [] \<and> \<not> requestOverridesParam q ''release''
      then AList.update ''release'' (VStr (rep_Release (pv_Repos provisioning))) ps else ps)"

subsection \<open>Resolving\<close>

text \<open>The statements the automatic and the manual path share once the target is known.\<close>

definition finishResult ::
    "env_lookup \<Rightarrow> Resolver \<Rightarrow> UserConfig gomap \<Rightarrow> ProvisioningConfig \<Rightarrow> ResolveRequest \<Rightarrow> ResolveResult \<Rightarrow> error + ResolveResult" where
  "finishResult osenv r policyUsers policyProvisioning q result =
     (let target = rr_Target result in
      bindE (resolveParams osenv r target (rr_MappingParams result) q) (\<lambda>ps.
      bindE (resolveUsers (rv_defaultUsers r) (tc_Users target) policyUsers (request_env osenv q)) (\<lambda>users.
      bindE (resolveProvisioning osenv r (tc_Provisioning target) policyProvisioning q) (\<lambda>prov.
      Inr (result\<lparr>rr_Params := Some (applyStructuredLegacyParams ps prov q),
                  rr_Users := Some users, rr_Provisioning := prov\<rparr>)))))"

definition resolveManual :: "env_lookup \<Rightarrow> Resolver \<Rightarrow> ResolveRequest \<Rightarrow> error + ResolveResult" where
  "resolveManual osenv r q =
     (let policy = fst (findPolicy r q); manual = rq_ManualTarget q
      in if (case policy of None \<Rightarrow> False | Some p \<Rightarrow> \<not> stringInSlice manual (elems (cp_targets p)))
         then Inl (ManualTargetNotAllowed manual)
         else bindE (targetByName r manual) (\<lambda>target.
           finishResult osenv r
             (case policy of None \<Rightarrow> None | Some p \<Rightarrow> cp_users p)
             (case policy of None \<Rightarrow> zero_provisioning | Some p \<Rightarrow> cp_provisioning p) q
             (zero_result\<lparr>rr_MatchType := MatchManual, rr_TargetName := manual, rr_Target := target,
                rr_AllowedTargets := (case policy of None \<Rightarrow> allTargets r | Some p \<Rightarrow> targetsByName r (elems (cp_targets p))),
                rr_MappingParams := (case policy of None \<Rightarrow> None | Some p \<Rightarrow> copyParamMap (cp_params p))\<rparr>)))"

definition Resolve :: "env_lookup \<Rightarrow> Resolver \<Rightarrow> ResolveRequest \<Rightarrow> error + ResolveResult" where
  "Resolve osenv r q =
     (if rq_ManualTarget q \<noteq> [] then resolveManual osenv r q
      else case findPolicy r q of
        (None, _) \<Rightarrow>
          Inr (zero_result\<lparr>rr_MatchType := MatchUnmatched, rr_AllowedTargets := allTargets r,
                 rr_RequiresManualSelection := True\<rparr>)
      | (Some policy, matchType) \<Rightarrow>
          (let result = zero_result\<lparr>rr_MatchType := matchType,
                 rr_AllowedTargets := targetsByName r (elems (cp_targets policy)),
                 rr_MappingParams := copyParamMap (cp_params policy)\<rparr>
           in if cp_defaultTarget policy = [] then Inr (result\<lparr>rr_RequiresManualSelection := True\<rparr>)
              else bindE (targetByName r (cp_defaultTarget policy)) (\<lambda>target.
                finishResult osenv r (cp_users policy) (cp_provisioning policy) q
                  (result\<lparr>rr_TargetName := cp_defaultTarget policy, rr_Target := target\<rparr>))))"

subsection \<open>Scripts\<close>

record Script =
  sc_Name :: string
  sc_Environment :: string
  sc_Params :: params
  sc_Users :: "ResolvedUser gomap"
  sc_Provisioning :: ProvisioningConfig

fun FindScriptForHostname :: "((string \<Rightarrow> bool) \<times> Script) list \<Rightarrow> string \<Rightarrow> Script option" where
  "FindScriptForHostname [] hostname = None"
| "FindScriptForHostname ((match, s) # maps) hostname =
     (if match hostname then Some s else FindScriptForHostname maps hostname)"

fun FindScriptForNetwork :: "(IPNet \<times> Script) list \<Rightarrow> string \<Rightarrow> Script option" where
  "FindScriptForNetwork [] ip = None"
| "FindScriptForNetwork ((net, s) # maps) ip =
     (if Contains net (case ParseIP ip of None \<Rightarrow> [] | Some a \<Rightarrow> a) then Some s else FindScriptForNetwork maps ip)"

text \<open>\<^verbatim>\<open>Script.String\<close>: \<^const>\<open>None\<close> is the panic of the type assertion on a parameter that is no string.\<close>

fun script_elems :: "val entries \<Rightarrow> string list option" where
  "script_elems [] = Some []"
| "script_elems ((key, v) # ps) =
     (case v of VStr s \<Rightarrow> map_option (Cons (key @ '': '' @ s)) (script_elems ps) | _ \<Rightarrow> None)"

definition script_string :: "Script \<Rightarrow> string option" where
  "script_string s =
     map_option (\<lambda>es. sc_Name s @ '' : { '' @
       join '', '' ((if sc_Environment s \<noteq> [] then [''environment: '' @ sc_Environment s] else []) @ es) @ '' }'')
       (script_elems (entries (sc_Params s)))"

subsection \<open>Facts: rule tables\<close>

lemma firstPolicy_find: "firstPolicy hit rules = map_option snd (List.find (\<lambda>(k, _). hit k) rules)"
  by (induction hit rules rule: firstPolicy.induct) auto

lemma firstPolicy_mem: "firstPolicy hit rules = Some p \<Longrightarrow> p \<in> snd ` set rules"
  by (induction hit rules rule: firstPolicy.induct) (auto split: if_splits)

text \<open>
  The four tables as one list of rules in the order of precedence, each with whether it matches the
  request; the specification of the search is to take the first that does.
\<close>

definition rule_list :: "Resolver \<Rightarrow> ResolveRequest \<Rightarrow> (bool \<times> MatchType \<times> compiledPolicy) list" where
  "rule_list r q =
     map (\<lambda>(m, p). (parseRequestMAC (rq_Mac q) = Some m, MatchMAC, p)) (rv_macMaps r)
     @ map (\<lambda>(a, p). (case ParseIP (rq_IP q) of None \<Rightarrow> False | Some ip \<Rightarrow> ip_equal a ip, MatchIP, p)) (rv_ipMaps r)
     @ map (\<lambda>(match, p). (match (rq_Hostname q), MatchHostname, p)) (rv_hostnameMaps r)
     @ map (\<lambda>(net, p). (case ParseIP (rq_IP q) of None \<Rightarrow> False | Some ip \<Rightarrow> Contains net ip, MatchNetwork, p))
         (rv_networkMaps r)"

definition first_rule :: "(bool \<times> MatchType \<times> compiledPolicy) list \<Rightarrow> compiledPolicy option \<times> MatchType" where
  "first_rule rules = (case List.find fst rules of None \<Rightarrow> (None, MatchUnmatched) | Some (_, mt, p) \<Rightarrow> (Some p, mt))"

lemma find_append: "List.find P (xs @ ys) = (case List.find P xs of None \<Rightarrow> List.find P ys | Some x \<Rightarrow> Some x)"
  by (induction xs) auto

lemma find_tagged:
  "List.find fst (map (\<lambda>(k, p). (hit k, mt, p)) rules) = map_option (\<lambda>p. (True, mt, p)) (firstPolicy hit rules)"
  by (induction hit rules rule: firstPolicy.induct) auto

lemma firstPolicy_False [simp]: "firstPolicy (\<lambda>_. False) rules = None"
  by (induction rules) auto

lemma find_tables:
  "findMACPolicy r mac = firstPolicy (\<lambda>m. parseRequestMAC mac = Some m) (rv_macMaps r)"
  "findIPPolicy r ip = firstPolicy (\<lambda>a. case ParseIP ip of None \<Rightarrow> False | Some x \<Rightarrow> ip_equal a x) (rv_ipMaps r)"
  "findNetworkPolicy r ip = firstPolicy (\<lambda>n. case ParseIP ip of None \<Rightarrow> False | Some x \<Rightarrow> Contains n x) (rv_networkMaps r)"
proof -
  have "(\<lambda>m. m = x) = (\<lambda>m. x = m)" for x :: string by auto
  then show "findMACPolicy r mac = firstPolicy (\<lambda>m. parseRequestMAC mac = Some m) (rv_macMaps r)"
    by (auto simp: findMACPolicy_def split: option.splits)
qed (auto simp: findIPPolicy_def findNetworkPolicy_def split: option.splits)

lemma findPolicy_first_rule: "findPolicy r q = first_rule (rule_list r q)"
  by (simp add: findPolicy_def first_rule_def rule_list_def find_append find_tables find_tagged
      findHostnamePolicy_def split: option.splits)

definition resolver_policies :: "Resolver \<Rightarrow> compiledPolicy list" where
  "resolver_policies r = map snd (rv_macMaps r) @ map snd (rv_ipMaps r) @ map snd (rv_hostnameMaps r) @ map snd (rv_networkMaps r)"

lemma findPolicy_mem: "findPolicy r q = (Some p, mt) \<Longrightarrow> p \<in> set (resolver_policies r)"
  by (auto simp: findPolicy_def resolver_policies_def find_tables findHostnamePolicy_def
      split: option.splits dest!: firstPolicy_mem)

subsection \<open>Facts: compiled resolvers are closed\<close>

definition closed_resolver :: "Resolver \<Rightarrow> bool" where
  "closed_resolver r \<longleftrightarrow>
     (\<forall>p \<in> set (resolver_policies r). wf_policy (Some (rv_targets r)) (elems (cp_targets p)) (cp_defaultTarget p))
     \<and> rv_targetOrder r = sort (map fst (rv_targets r)) \<and> [] \<notin> fst ` set (rv_targets r)"

lemma map_res_case:
  assumes "map_res (\<lambda>x. case f x of None \<Rightarrow> Inl (e x) | Some y \<Rightarrow> Inr (h y, g x)) xs = Inr ys"
  shows "map snd ys = map g xs"
proof -
  have "list_all2 (\<lambda>x y. snd y = g x) xs ys"
    using assms unfolding map_res_Inr by (rule list_all2_mono) (auto split: option.splits)
  then show ?thesis by (induction rule: list_all2_induct) auto
qed

lemma wf_policy_copy:
  "wf_policy (Some (map (\<lambda>(n, t). (n, copyTarget t)) es)) names dflt = wf_policy (Some es) names dflt"
  by (simp add: wf_policy_def)

lemma wf_policy_entries: "wf_policy m names dflt = wf_policy (Some (entries m)) names dflt"
  by (simp add: wf_policy_def lookup_map_def)

definition source_of :: "Mappings option \<Rightarrow> Mappings" where
  "source_of mo = (case mo of None \<Rightarrow> defaultMappings | Some m \<Rightarrow> m)"

lemma NewResolver_cases:
  assumes "NewResolver rx up mo = Inr r"
  shows "validateMappings rx up (source_of mo) = None"
    and "map snd (rv_macMaps r) = map compileRule (mp_MacMaps (source_of mo))"
    and "map snd (rv_ipMaps r) = map compileRule (mp_IPMaps (source_of mo))"
    and "map snd (rv_hostnameMaps r) = map compileRule (mp_HostnameMaps (source_of mo))"
    and "map snd (rv_networkMaps r) = map compileRule (mp_NetworkMaps (source_of mo))"
    and "rv_targets r = map (\<lambda>(n, t). (n, copyTarget t)) (entries (mp_Targets (source_of mo)))"
    and "rv_targetOrder r = sort (map fst (entries (mp_Targets (source_of mo))))"
  using assms
  by (auto simp: NewResolver_def Let_def bindE_Inr source_of_def split: option.splits dest!: map_res_case)

lemma compileRule_wf:
  assumes "wf_policy ts (elems (pf_Targets p)) (pf_DefaultTarget p)"
  shows "wf_policy (Some (map (\<lambda>(n, t). (n, copyTarget t)) (entries ts)))
           (elems (cp_targets (compileRule p))) (cp_defaultTarget (compileRule p))"
  using assms by (simp add: wf_policy_copy wf_policy_entries [of ts] compileRule_def compilePolicy_def)

lemma NewResolver_closed:
  assumes "NewResolver rx up mo = Inr r"
  shows "closed_resolver r"
proof -
  note n = NewResolver_cases [OF assms]
  note v = validateMappings_parts [OF n(1)]
  have "\<forall>p \<in> set (map snd (rv_macMaps r)) \<union> set (map snd (rv_ipMaps r)) \<union> set (map snd (rv_hostnameMaps r))
      \<union> set (map snd (rv_networkMaps r)). wf_policy (Some (rv_targets r)) (elems (cp_targets p)) (cp_defaultTarget p)"
    unfolding n(2-6) set_map ball_Un ball_simps
    by (intro conjI ballI compileRule_wf) (use v in blast)+
  moreover have "[] \<notin> fst ` set (rv_targets r)" using n(6) v(5) by auto
  moreover have "rv_targetOrder r = sort (map fst (rv_targets r))" by (simp only: n(6,7) map_fst_map_snd)
  ultimately show ?thesis by (simp add: closed_resolver_def resolver_policies_def)
qed

lemma targetsByName_all:
  "(\<And>n. n \<in> set names \<Longrightarrow> map_of (rv_targets r) n \<noteq> None) \<Longrightarrow> map tc_Name (targetsByName r names) = names"
proof (induction names)
  case (Cons n names)
  from Cons.prems obtain t where "map_of (rv_targets r) n = Some t" by fastforce
  with Cons show ?case by (simp add: targetCandidate_def)
qed simp

lemma allTargets_names:
  assumes "closed_resolver r"
  shows "map tc_Name (allTargets r) = sort (map fst (rv_targets r))"
  unfolding allTargets_def
  using assms by (subst targetsByName_all) (auto simp: closed_resolver_def map_of_eq_None_iff image_iff)

subsection \<open>Facts: finishing a result\<close>

lemma finishResult_keeps:
  assumes "finishResult osenv r us prov q res0 = Inr res"
  shows "rr_TargetName res = rr_TargetName res0 \<and> rr_Target res = rr_Target res0
    \<and> rr_AllowedTargets res = rr_AllowedTargets res0 \<and> rr_MatchType res = rr_MatchType res0
    \<and> rr_MappingParams res = rr_MappingParams res0
    \<and> rr_RequiresManualSelection res = rr_RequiresManualSelection res0"
  using assms by (auto simp: finishResult_def Let_def bindE_Inr)

lemma targetByName_Inr:
  "targetByName r n = Inr t \<longleftrightarrow> (\<exists>x. map_of (rv_targets r) n = Some x \<and> t = targetCandidate n x)"
  by (auto simp: targetByName_def split: option.splits)

text \<open>The target a request ends up with, when it ends up with one, and the rule that allows it.\<close>

definition chosen_target :: "Resolver \<Rightarrow> ResolveRequest \<Rightarrow> string" where
  "chosen_target r q = (if rq_ManualTarget q \<noteq> [] then rq_ManualTarget q
     else case fst (findPolicy r q) of None \<Rightarrow> [] | Some p \<Rightarrow> cp_defaultTarget p)"

definition allowed_names :: "Resolver \<Rightarrow> ResolveRequest \<Rightarrow> string list" where
  "allowed_names r q = (case fst (findPolicy r q) of
     None \<Rightarrow> sort (map fst (rv_targets r)) | Some p \<Rightarrow> elems (cp_targets p))"

lemma policy_targets_exist:
  assumes "closed_resolver r" "findPolicy r q = (Some p, mt)"
  shows "wf_policy (Some (rv_targets r)) (elems (cp_targets p)) (cp_defaultTarget p)"
  using assms findPolicy_mem [OF assms(2)] by (auto simp: closed_resolver_def)

lemma Resolve_target:
  assumes closed: "closed_resolver r" and ok: "Resolve osenv r q = Inr res"
  shows "rr_TargetName res = chosen_target r q" and "AllowedTargetNames res = allowed_names r q"
    and "rr_RequiresManualSelection res \<longleftrightarrow> \<not> HasTarget res"
    and "HasTarget res \<Longrightarrow> chosen_target r q \<in> set (allowed_names r q)
           \<and> (\<exists>t. map_of (rv_targets r) (chosen_target r q) = Some t \<and> rr_Target res = targetCandidate (chosen_target r q) t)"
proof -
  obtain po mt where fp: "findPolicy r q = (po, mt)" by (cases "findPolicy r q")
  have names: "map tc_Name (targetsByName r (elems (cp_targets p))) = elems (cp_targets p)"
    and wf: "wf_policy (Some (rv_targets r)) (elems (cp_targets p)) (cp_defaultTarget p)" if "po = Some p" for p
    using policy_targets_exist [OF closed, of q p mt] fp that by (auto intro!: targetsByName_all simp: wf_policy_def)
  note all = allTargets_names [OF closed]
  have "rr_TargetName res = chosen_target r q \<and> AllowedTargetNames res = allowed_names r q
    \<and> (rr_RequiresManualSelection res \<longleftrightarrow> \<not> HasTarget res)
    \<and> (HasTarget res \<longrightarrow> chosen_target r q \<in> set (allowed_names r q)
       \<and> (\<exists>t. map_of (rv_targets r) (chosen_target r q) = Some t \<and> rr_Target res = targetCandidate (chosen_target r q) t))"
  proof (cases "rq_ManualTarget q = []")
    case True
    with ok fp names wf all show ?thesis
      by (cases po; cases "cp_defaultTarget (the po) = []")
        (auto simp: Resolve_def chosen_target_def allowed_names_def AllowedTargetNames_def HasTarget_def zero_result_def
           Let_def bindE_Inr targetByName_Inr wf_policy_def dest!: finishResult_keeps)
  next
    case False
    with ok fp names wf all show ?thesis
      by (cases po)
        (auto simp: Resolve_def resolveManual_def chosen_target_def allowed_names_def AllowedTargetNames_def HasTarget_def
           zero_result_def Let_def bindE_Inr targetByName_Inr dest!: finishResult_keeps split: if_splits
           dest: map_of_SomeD intro: rev_image_eqI)
  qed
  then show "rr_TargetName res = chosen_target r q" "AllowedTargetNames res = allowed_names r q"
    "rr_RequiresManualSelection res \<longleftrightarrow> \<not> HasTarget res"
    "HasTarget res \<Longrightarrow> chosen_target r q \<in> set (allowed_names r q)
           \<and> (\<exists>t. map_of (rv_targets r) (chosen_target r q) = Some t \<and> rr_Target res = targetCandidate (chosen_target r q) t)"
    by blast+
qed

subsection \<open>Facts: MAC addresses of requests\<close>

definition dash_to_colon :: "char \<Rightarrow> char" where
  "dash_to_colon c = (if c = CHR ''-'' then CHR '':'' else c)"

lemma replaceMACDashes_map: "replaceMACDashes s = map dash_to_colon s"
  by (simp add: replaceMACDashes_def replace_char_def dash_to_colon_def [abs_def])

lemma xtoi2_dashes:
  assumes "xtoi2 s e = Some b"
  shows "xtoi2 (map dash_to_colon s) (dash_to_colon e) = Some b"
proof -
  have "hex_val CHR ''-'' = None" by (simp add: hex_val_def)
  with assms show ?thesis
    by (cases s; cases "tl s"; cases "tl (tl s)") (auto simp: xtoi2_def dash_to_colon_def split: if_splits option.splits list.splits)
qed

lemma mac_groups_dashes:
  "mac_groups sep n s = Some hw \<Longrightarrow> mac_groups (dash_to_colon sep) n (map dash_to_colon s) = Some hw"
proof (induction sep n s arbitrary: hw rule: mac_groups.induct)
  case (2 sep n s)
  from "2.prems" obtain b bs where b: "xtoi2 s sep = Some b" "mac_groups sep n (drop 3 s) = Some bs" "hw = b # bs"
    by (auto split: option.splits)
  with "2.IH" [OF b(1,2)] xtoi2_dashes [OF b(1)] show ?case by (simp add: drop_map)
qed simp

lemma mac_dotted_dashes: "mac_dotted n s = Some hw \<Longrightarrow> mac_dotted n (map dash_to_colon s) = Some hw"
proof (induction n s arbitrary: hw rule: mac_dotted.induct)
  case (2 n s)
  from "2.prems" obtain a b bs where ab: "xtoi2 (take 2 s) CHR 0x00 = Some a" "xtoi2 (drop 2 s) CHR ''.'' = Some b"
    "mac_dotted n (drop 5 s) = Some bs" "hw = a # b # bs"
    by (auto split: option.splits)
  have "dash_to_colon CHR 0x00 = CHR 0x00" "dash_to_colon CHR ''.'' = CHR ''.''"
    by (simp_all add: dash_to_colon_def)
  with ab(4) "2.IH" [OF refl ab(1,2,3)] xtoi2_dashes [OF ab(1)] xtoi2_dashes [OF ab(2)] show ?case
    by (simp add: take_map drop_map)
qed simp

lemma ParseMAC_dashes:
  assumes "ParseMAC s = Some hw"
  shows "ParseMAC (replaceMACDashes s) = Some hw"
proof -
  have len: "14 \<le> length s" using assms by (auto simp: ParseMAC_def split: if_splits)
  then have nth: "map dash_to_colon s ! 2 = dash_to_colon (s ! 2)" "map dash_to_colon s ! 4 = dash_to_colon (s ! 4)"
    by auto
  show ?thesis
  proof (cases "s ! 2 = CHR '':'' \<or> s ! 2 = CHR ''-''")
    case True
    then have sep: "dash_to_colon (s ! 2) = CHR '':''" by (auto simp: dash_to_colon_def)
    have "mac_groups (s ! 2) ((length s + 1) div 3) s = Some hw"
      using True assms by (auto simp: ParseMAC_def Let_def split: if_splits)
    from mac_groups_dashes [OF this] True assms nth len sep show ?thesis
      by (simp add: ParseMAC_def Let_def replaceMACDashes_map split: if_splits)
  next
    case False
    then have dot: "s ! 4 = CHR ''.''" "mac_dotted (2 * (length s + 1) div 5 div 2) s = Some hw"
      using assms by (auto simp: ParseMAC_def Let_def split: if_splits)
    from mac_dotted_dashes [OF dot(2)] False dot(1) assms nth len show ?thesis
      by (simp add: ParseMAC_def Let_def replaceMACDashes_map dash_to_colon_def split: if_splits)
  qed
qed

lemma replaceMACDashes_no_dash: "CHR ''-'' \<notin> set (replaceMACDashes s)"
  by (auto simp: replaceMACDashes_map dash_to_colon_def split: if_splits)

subsection \<open>Facts: parameters and provisioning\<close>

fun first_some :: "'a option list \<Rightarrow> 'a option" where
  "first_some [] = None"
| "first_some (None # xs) = first_some xs"
| "first_some (Some x # xs) = Some x"

text \<open>The layers that may set a parameter, the strongest first.\<close>

definition param_layers :: "Resolver \<Rightarrow> TargetCandidate \<Rightarrow> params \<Rightarrow> ResolveRequest \<Rightarrow> params list" where
  "param_layers r target mappingParams q =
     [rq_GeneratedParams q, rq_Params q, mappingParams, tc_Params target, rv_defaults r]"

lemma map_of_merged_params:
  assumes "\<forall>m \<in> set (param_layers r t mp q). wf_map m"
  shows "map_of (merged_params r t mp q) k = first_some (map (\<lambda>m. lookup_map m k) (param_layers r t mp q))"
  using assms by (auto simp: merged_params_def param_layers_def map_of_mergeParamMap split: option.splits)

lemma distinct_merged_params: "distinct (map fst (merged_params r t mp q))"
  by (simp add: merged_params_def distinct_mergeParamMap)

lemma resolveEntries_rel:
  assumes "resolveEntries path lookup es = Inr rs"
  shows "rel_option (\<lambda>v v'. resolveParamValue (path @ [Key k]) v lookup = Inr v') (map_of es k) (map_of rs k)"
  using assms
proof (induction es arbitrary: rs)
  case (Cons e es)
  obtain k' v where e: "e = (k', v)" by (cases e)
  with Cons show ?case by (auto simp: resolveEntries_def bindE_Inr)
qed (simp add: resolveEntries_def)

lemma map_of_legacy:
  "map_of (applyStructuredLegacyParams ps prov q) k =
     (if k = ''release'' \<and> rep_Release (pv_Repos prov) \<noteq> [] \<and> \<not> requestOverridesParam q ''release''
      then Some (VStr (rep_Release (pv_Repos prov))) else map_of ps k)"
  by (simp add: applyStructuredLegacyParams_def)

lemma resolveProvisioning_valid:
  assumes "resolveProvisioning osenv r t m q = Inr c"
  shows "validateResolvedProvisioningConfig [Fld ''resolved provisioning''] c = None"
    and "boolValue (enc_Enabled (st_Encryption (pv_Storage c))) \<Longrightarrow>
         enc_Passphrase (st_Encryption (pv_Storage c)) \<noteq> VNil \<Longrightarrow>
         \<exists>s. enc_Passphrase (st_Encryption (pv_Storage c)) = VStr s"
  using assms
  by (auto simp: resolveProvisioning_def Let_def bindE_Inr split: option.splits if_splits)

lemma Resolve_finish:
  assumes "Resolve osenv r q = Inr res" "HasTarget res"
  obtains res0 where "finishResult osenv r
      (case fst (findPolicy r q) of None \<Rightarrow> None | Some p \<Rightarrow> cp_users p)
      (case fst (findPolicy r q) of None \<Rightarrow> zero_provisioning | Some p \<Rightarrow> cp_provisioning p) q res0 = Inr res"
  using assms
  by (cases "findPolicy r q"; cases "fst (findPolicy r q)")
    (auto simp: Resolve_def resolveManual_def HasTarget_def zero_result_def Let_def bindE_Inr split: if_splits)

lemma finishResult_parts:
  assumes "finishResult osenv r us prov q res0 = Inr res"
  obtains ps where
    "resolveParams osenv r (rr_Target res) (rr_MappingParams res) q = Inr ps"
    "rr_Params res = Some (applyStructuredLegacyParams ps (rr_Provisioning res) q)"
    "resolveProvisioning osenv r (tc_Provisioning (rr_Target res)) prov q = Inr (rr_Provisioning res)"
    "rr_Users res = Some (projr (resolveUsers (rv_defaultUsers r) (tc_Users (rr_Target res)) us (request_env osenv q)))"
  using assms by (auto simp: finishResult_def Let_def bindE_Inr)

subsection \<open>Properties\<close>

text \<open>
  C1. The policy of a host is that of the first rule that matches it in the list of all rules: the MAC
  rules in file order, then the IP rules, the hostname rules and the network rules. A MAC rule matches
  when both addresses have the same canonical text, an IP rule when the addresses are equal.
\<close>

theorem findPolicy_first_match: "findPolicy r q = first_rule (rule_list r q)"
  by (rule findPolicy_first_rule)

text \<open>
  C2. A resolver compiled from validated mappings selects the manual target of the request, or else the
  default of the matching rule; the choices it reports are exactly those of the matching rule, or all
  targets in order when no rule matches; a selected target exists and is one of these choices; and it
  asks for a manual selection exactly when it selects none.
\<close>

theorem resolve_selects_allowed:
  assumes "NewResolver rx up mo = Inr r" and "Resolve osenv r q = Inr res"
  shows "rr_TargetName res = chosen_target r q \<and> AllowedTargetNames res = allowed_names r q
    \<and> (rr_RequiresManualSelection res \<longleftrightarrow> \<not> HasTarget res)
    \<and> (HasTarget res \<longrightarrow> rr_TargetName res \<in> set (AllowedTargetNames res)
         \<and> (\<exists>t. map_of (rv_targets r) (rr_TargetName res) = Some t \<and> rr_Target res = targetCandidate (rr_TargetName res) t))"
  using Resolve_target [OF NewResolver_closed [OF assms(1)] assms(2)] by simp

definition sample_request :: ResolveRequest where
  "sample_request = \<lparr>rq_Mac = ''52-54-00-12-34-56'', rq_IP = ''10.0.0.7'', rq_Hostname = ''host'', rq_ManualTarget = [],
     rq_Params = Some [(''disk'', VMap [(''env'', VStr ''DISK'')])], rq_GeneratedParams = Some [(''hostname'', VStr ''host'')],
     rq_EnvLookup = None\<rparr>"

definition sample_env :: env_lookup where
  "sample_env k = (if k = ''DISK'' then Some ''/dev/sda'' else None)"

definition sample_resolver :: Resolver where
  "sample_resolver = projr (NewResolver (\<lambda>_. None) (\<lambda>_. None) (Some sample_mappings))"

definition sample_result :: ResolveResult where
  "sample_result = projr (Resolve sample_env sample_resolver sample_request)"

lemma sample_resolver_ok: "NewResolver (\<lambda>_. None) (\<lambda>_. None) (Some sample_mappings) = Inr sample_resolver"
proof -
  have "\<not> isl (NewResolver (\<lambda>_. None) (\<lambda>_. None) (Some sample_mappings))" by code_simp
  then show ?thesis by (simp add: sample_resolver_def)
qed

lemma sample_result_ok: "Resolve sample_env sample_resolver sample_request = Inr sample_result"
proof -
  have "\<not> isl (Resolve sample_env sample_resolver sample_request)" by code_simp
  then show ?thesis by (simp add: sample_result_def)
qed

lemma sample_chosen: "chosen_target sample_resolver sample_request = ''debian''"
  by code_simp

theorem resolve_selects_allowed_witness:
  "rr_TargetName sample_result = ''debian'' \<and> ''debian'' \<in> set (AllowedTargetNames sample_result)"
  using resolve_selects_allowed [OF sample_resolver_ok sample_result_ok]
  by (auto simp: sample_chosen HasTarget_def)

text \<open>
  C3. A manual selection outside the choices of the rule that matches the host is refused, whatever else
  the request says; when no rule matches, or the selection is among the choices, it is never refused as
  not allowed.
\<close>

theorem manual_target_guard:
  assumes "rq_ManualTarget q \<noteq> []" and "findPolicy r q = (Some p, mt)" and "rq_ManualTarget q \<notin> set (elems (cp_targets p))"
  shows "Resolve osenv r q = Inl (ManualTargetNotAllowed (rq_ManualTarget q))"
  using assms by (simp add: Resolve_def resolveManual_def Let_def)

theorem manual_target_guard_witness:
  "Resolve sample_env sample_resolver (sample_request\<lparr>rq_ManualTarget := ''windows''\<rparr>) = Inl (ManualTargetNotAllowed ''windows'')"
proof -
  let ?q = "sample_request\<lparr>rq_ManualTarget := ''windows''\<rparr>"
  have "(case findPolicy sample_resolver ?q of (Some p, _) \<Rightarrow> ''windows'' \<notin> set (elems (cp_targets p)) | _ \<Rightarrow> False)"
    by code_simp
  then obtain p mt where p: "findPolicy sample_resolver ?q = (Some p, mt)" "''windows'' \<notin> set (elems (cp_targets p))"
    by (auto split: prod.splits option.splits)
  have "rq_ManualTarget ?q = ''windows''" by simp
  with manual_target_guard [of ?q sample_resolver p mt sample_env] p show ?thesis by simp
qed

text \<open>
  C4. Every runtime parameter of a selected target comes from the strongest layer that sets it (generated,
  then request, mapping, target and default parameters) with environment references replaced by their
  values; a structured release overrides the parameter release unless the request itself sets it.
\<close>

theorem resolve_params_precedence:
  assumes "Resolve osenv r q = Inr res" and "HasTarget res"
    and "\<forall>m \<in> set (param_layers r (rr_Target res) (rr_MappingParams res) q). wf_map m"
  shows "\<exists>ps. rr_Params res = Some ps \<and>
    (if k = ''release'' \<and> rep_Release (pv_Repos (rr_Provisioning res)) \<noteq> [] \<and> \<not> requestOverridesParam q ''release''
     then map_of ps k = Some (VStr (rep_Release (pv_Repos (rr_Provisioning res))))
     else rel_option (\<lambda>v v'. resolveParamValue [Key k] v (request_env osenv q) = Inr v')
            (first_some (map (\<lambda>m. lookup_map m k) (param_layers r (rr_Target res) (rr_MappingParams res) q)))
            (map_of ps k))"
proof -
  obtain res0 us prov where "finishResult osenv r us prov q res0 = Inr res"
    using Resolve_finish [OF assms(1,2)] by blast
  then obtain ps where ps: "resolveParams osenv r (rr_Target res) (rr_MappingParams res) q = Inr ps"
    "rr_Params res = Some (applyStructuredLegacyParams ps (rr_Provisioning res) q)"
    by (rule finishResult_parts)
  have "rel_option (\<lambda>v v'. resolveParamValue [Key k] v (request_env osenv q) = Inr v')
      (first_some (map (\<lambda>m. lookup_map m k) (param_layers r (rr_Target res) (rr_MappingParams res) q))) (map_of ps k)"
    using resolveEntries_rel [of "[]" "request_env osenv q" _ ps k, OF ps(1) [unfolded resolveParams_def]]
    by (simp add: map_of_merged_params [OF assms(3)])
  then show ?thesis using ps(2) by (simp add: map_of_legacy)
qed

theorem resolve_params_precedence_witness:
  "\<exists>ps. rr_Params sample_result = Some ps \<and> map_of ps ''disk'' = Some (VStr ''/dev/sda'')"
proof -
  have target: "HasTarget sample_result"
    using Resolve_target(1) [OF NewResolver_closed [OF sample_resolver_ok] sample_result_ok]
    by (simp add: HasTarget_def sample_chosen)
  have layers: "param_layers sample_resolver (rr_Target sample_result) (rr_MappingParams sample_result) sample_request
      = [Some [(''hostname'', VStr ''host'')], Some [(''disk'', VMap [(''env'', VStr ''DISK'')])], None, None, None]"
    by code_simp
  have "\<forall>m \<in> set (param_layers sample_resolver (rr_Target sample_result) (rr_MappingParams sample_result) sample_request). wf_map m"
    unfolding layers by (simp add: wf_map_def)
  from resolve_params_precedence [OF sample_result_ok target this, of "''disk''"]
  show ?thesis unfolding layers
    by (auto simp: resolveParamValue_def envReference_def envReferenceFromMap_def request_env_def sample_request_def
        sample_env_def option_rel_Some1)
qed

text \<open>
  C5. The provisioning configuration of a selected target is safe to install from: in RAID mode the layout
  is complete, with encryption enabled there is a passphrase that is not blank and no longer an environment
  reference, and TPM unlock is on only with encryption.
\<close>

theorem resolve_provisioning_safe:
  assumes "Resolve osenv r q = Inr res" and "HasTarget res"
  shows "(st_Mode (pv_Storage (rr_Provisioning res)) = ''raid'' \<longrightarrow>
           raid_complete (st_RAID (pv_Storage (rr_Provisioning res))) (boot_Firmware (pv_Boot (rr_Provisioning res))))
    \<and> (boolValue (enc_Enabled (st_Encryption (pv_Storage (rr_Provisioning res)))) \<longrightarrow>
         (\<exists>s. enc_Passphrase (st_Encryption (pv_Storage (rr_Provisioning res))) = VStr s \<and> trimSpace s \<noteq> []))
    \<and> (boolValue (tpm_Enabled (enc_TPM (st_Encryption (pv_Storage (rr_Provisioning res))))) \<longrightarrow>
         boolValue (enc_Enabled (st_Encryption (pv_Storage (rr_Provisioning res)))))"
proof -
  obtain res0 us prov where "finishResult osenv r us prov q res0 = Inr res"
    using Resolve_finish [OF assms] by blast
  then obtain t m where prov: "resolveProvisioning osenv r t m q = Inr (rr_Provisioning res)"
    by (rule finishResult_parts)
  note valid = resolveProvisioning_valid [OF prov]
  have "passphrase_ok (VStr s) \<longleftrightarrow> trimSpace s \<noteq> []" for s by (simp add: passphrase_ok_def)
  with valid show ?thesis
    by (fastforce simp: validateResolvedProvisioningConfig_def validateRAIDConfig_complete validateEncryption_None)
qed

definition encrypted_mappings :: Mappings where
  "encrypted_mappings = sample_mappings\<lparr>mp_Defaults := zero_layer\<lparr>ly_Storage := zero_storage\<lparr>
     st_Encryption := (st_Encryption zero_storage)\<lparr>enc_Enabled := Some True,
       enc_Passphrase := VMap [(''env'', VStr ''DISK'')]\<rparr>\<rparr>\<rparr>\<rparr>"

definition encrypted_result :: ResolveResult where
  "encrypted_result = projr (Resolve sample_env
     (projr (NewResolver (\<lambda>_. None) (\<lambda>_. None) (Some encrypted_mappings))) sample_request)"

theorem resolve_provisioning_safe_witness:
  "boolValue (enc_Enabled (st_Encryption (pv_Storage (rr_Provisioning encrypted_result))))
   \<and> (\<exists>s. enc_Passphrase (st_Encryption (pv_Storage (rr_Provisioning encrypted_result))) = VStr s \<and> trimSpace s \<noteq> [])"
proof -
  let ?r = "projr (NewResolver (\<lambda>_. None) (\<lambda>_. None) (Some encrypted_mappings))"
  have "\<not> isl (Resolve sample_env ?r sample_request)" by code_simp
  then have "Resolve sample_env ?r sample_request = Inr encrypted_result" by (simp add: encrypted_result_def)
  moreover have "HasTarget encrypted_result" by code_simp
  moreover have "boolValue (enc_Enabled (st_Encryption (pv_Storage (rr_Provisioning encrypted_result))))" by code_simp
  ultimately show ?thesis using resolve_provisioning_safe by blast
qed

text \<open>
  The spelling of a MAC address in a request does not matter: dashes and colons give the same canonical
  text, and canonical text is its own canonical form.
\<close>

theorem request_mac_spelling:
  "parseRequestMAC (replaceMACDashes m) = parseRequestMAC m
   \<and> (case parseRequestMAC m of None \<Rightarrow> True | Some s \<Rightarrow> parseRequestMAC s = Some s)"
proof -
  have canonical: "parseRequestMAC (mac_string hw) = Some (mac_string hw)" if "ParseMAC s = Some hw" for s hw
    using ParseMAC_mac_string [OF ParseMAC_length [OF that]] by (simp add: parseRequestMAC_def)
  have "parseRequestMAC (replaceMACDashes m) = parseRequestMAC m"
  proof (cases "ParseMAC m")
    case None
    then show ?thesis
      using replaceMACDashes_no_dash [of m] replace_char_free [of "CHR ''-''" m "CHR '':''"]
      by (cases "CHR ''-'' \<in> set m") (auto simp: parseRequestMAC_def replaceMACDashes_def split: option.splits)
  next
    case (Some hw)
    then show ?thesis using ParseMAC_dashes [OF Some] by (simp add: parseRequestMAC_def)
  qed
  moreover have "\<exists>t hw. ParseMAC t = Some hw \<and> s = mac_string hw" if "parseRequestMAC m = Some s" for s
    using that by (auto simp: parseRequestMAC_def split: option.splits if_splits)
  ultimately show ?thesis using canonical by (auto split: option.splits)
qed

end
