(* ===== verification/Projection.thy ===== *)
theory Projection
  imports Resolver
begin

text \<open>
  The flat parameters of the installer templates (\<^verbatim>\<open>mappings/provisioning.go\<close>, lines 215 to 825, and
  \<^verbatim>\<open>internal/storage/partition.go\<close>): structured users and provisioning data are attached to the
  parameters, structured fields are projected into flat keys, and what is still missing gets a default.

  A value of the resulting map is a plain parameter value or one of the two structs that are attached to
  it. Almost every step is a run of calls \<^verbatim>\<open>setDefaultParam\<close> or \<^verbatim>\<open>setDefaultParamValue\<close>, which only write a
  key that is not there yet; \<open>setDefaults\<close> performs such a run, and the functions named \<open>_writes\<close> list the
  calls of one Go function in their order.
\<close>

datatype tval = TVal val | TUsers TemplateUsers | TProv ProvisioningConfig

type_synonym tparams = "tval entries"

text \<open>
  \<^verbatim>\<open>fmt.Sprint\<close> of a value of the map. The structs sit under the keys users and provisioning, whose values
  are never printed; the second equation only makes the function total.
\<close>

fun sprintT :: "tval \<Rightarrow> string" where
  "sprintT (TVal v) = sprint v"
| "sprintT _ = []"

subsection \<open>Setting a key that is not there yet\<close>

definition setDefaultParamValue :: "tparams \<Rightarrow> string \<Rightarrow> string \<Rightarrow> tparams" where
  "setDefaultParamValue params key printed =
     (if map_of params key = None then AList.update key (TVal (VStr printed)) params else params)"

definition setDefaultParam :: "tparams \<Rightarrow> string \<Rightarrow> string \<Rightarrow> tparams" where
  "setDefaultParam params key v = (if v = [] then params else setDefaultParamValue params key v)"

type_synonym writes = "(string \<times> string) list"

fun setDefaults :: "tparams \<Rightarrow> writes \<Rightarrow> tparams" where
  "setDefaults params [] = params"
| "setDefaults params ((k, v) # ws) = setDefaults (setDefaultParamValue params k v) ws"

text \<open>A call \<^verbatim>\<open>setDefaultParam\<close>, and a call under \<^verbatim>\<open>if field != nil\<close>.\<close>

definition str_write :: "string \<Rightarrow> string \<Rightarrow> writes" where
  "str_write k v = (if v = [] then [] else [(k, v)])"

definition bool_write :: "string \<Rightarrow> bool option \<Rightarrow> writes" where
  "bool_write k b = (case b of None \<Rightarrow> [] | Some x \<Rightarrow> [(k, bool_str x)])"

definition int_write :: "string \<Rightarrow> int option \<Rightarrow> writes" where
  "int_write k i = (case i of None \<Rightarrow> [] | Some x \<Rightarrow> [(k, int_str x)])"

subsection \<open>Devices\<close>

text \<open>
  \<^verbatim>\<open>PartitionPath\<close>. The last rune is a digit when it is one of 0 to 9; the decimal digits of other scripts
  are not modelled.
\<close>

definition PartitionPath :: "string \<Rightarrow> nat \<Rightarrow> string" where
  "PartitionPath device number =
     (if hasPrefix device ''/dev/disk/'' then device @ ''-part'' @ nat_str number
      else if device \<noteq> [] \<and> is_digit (last device) then device @ ''p'' @ nat_str number
      else device @ nat_str number)"

definition device_partition_writes :: "nat \<Rightarrow> string \<Rightarrow> writes" where
  "device_partition_writes index device =
     map (\<lambda>partition. (''storage_raid_device_'' @ nat_str index @ ''_part'' @ nat_str partition, PartitionPath device partition))
       [1, 2, 3, 4, 5]"

definition projectRAIDDevicePartitionParams :: "tparams \<Rightarrow> nat \<Rightarrow> string \<Rightarrow> tparams" where
  "projectRAIDDevicePartitionParams params index device = setDefaults params (device_partition_writes index device)"

definition raid_writes :: "RAIDConfig \<Rightarrow> writes" where
  "raid_writes raid =
     (if raid_Level raid \<noteq> 0 then [(''storage_raid_level'', int_str (raid_Level raid))] else [])
     @ (case elems (raid_Devices raid) of [] \<Rightarrow> []
        | d0 # rest \<Rightarrow>
            [(''storage_raid_devices'', join '' '' (d0 # rest)), (''storage_wipe_disks'', join '' '' (d0 # rest)),
             (''storage_raid_device_0'', d0)] @ device_partition_writes 0 d0
            @ (case rest of [] \<Rightarrow> [] | d1 # _ \<Rightarrow> (''storage_raid_device_1'', d1) # device_partition_writes 1 d1))
     @ bool_write ''storage_raid_boot_degraded'' (raid_BootDegraded raid)"

definition projectRAIDParams :: "tparams \<Rightarrow> RAIDConfig \<Rightarrow> tparams" where
  "projectRAIDParams params raid = setDefaults params (raid_writes raid)"

subsection \<open>Encryption and late commands\<close>

definition tpm_writes :: "StorageEncryptionTPMConfig \<Rightarrow> writes" where
  "tpm_writes tpm =
     bool_write ''storage_encryption_tpm_enabled'' (tpm_Enabled tpm)
     @ str_write ''storage_encryption_tpm_device'' (tpm_Device tpm)
     @ str_write ''storage_encryption_tpm_pcrs'' (tpm_PCRs tpm)
     @ bool_write ''storage_encryption_tpm_require_sha256_bank'' (tpm_RequireSHA256Bank tpm)
     @ str_write ''storage_encryption_tpm_initramfs'' (tpm_Initramfs tpm)"

definition projectStorageEncryptionTPMParams :: "tparams \<Rightarrow> StorageEncryptionTPMConfig \<Rightarrow> tparams" where
  "projectStorageEncryptionTPMParams params tpm = setDefaults params (tpm_writes tpm)"

definition encryption_writes :: "StorageEncryptionConfig \<Rightarrow> writes" where
  "encryption_writes e =
     bool_write ''storage_encryption_enabled'' (enc_Enabled e)
     @ (if enc_Passphrase e \<noteq> VNil then [(''storage_encryption_passphrase'', sprint (enc_Passphrase e))] else [])
     @ str_write ''storage_encryption_cipher'' (enc_Cipher e)
     @ int_write ''storage_encryption_key_size'' (enc_KeySize e)
     @ str_write ''storage_encryption_hash'' (enc_Hash e)"

definition projectStorageEncryptionParams :: "tparams \<Rightarrow> StorageEncryptionConfig \<Rightarrow> tparams" where
  "projectStorageEncryptionParams params e =
     projectStorageEncryptionTPMParams (setDefaults params (encryption_writes e)) (enc_TPM e)"

text \<open>\<^verbatim>\<open>formatLateCommands\<close>; \<open>acc\<close> is the builder.\<close>

fun formatLateCommandsLoop :: "string \<Rightarrow> string list \<Rightarrow> string" where
  "formatLateCommandsLoop acc [] = acc"
| "formatLateCommandsLoop acc (command # commands) =
     (let trimmed = trimSpace command
      in if trimmed = [] then formatLateCommandsLoop acc commands
         else formatLateCommandsLoop
                (acc @ (if acc = [] then ''  set -e; '' @ [CHR 0x5C, CHR 0x0A] else []) @ ''    '' @ trimmed
                 @ ''; '' @ [CHR 0x5C, CHR 0x0A]) commands)"

definition formatLateCommands :: "string slice \<Rightarrow> string" where
  "formatLateCommands commands = formatLateCommandsLoop [] (elems commands)"

definition projectInstallerLateCommandsParams :: "tparams \<Rightarrow> string slice \<Rightarrow> tparams" where
  "projectInstallerLateCommandsParams params commands =
     (let rendered = formatLateCommands commands
      in if rendered = [] then params else setDefaultParam params ''installer_late_commands'' rendered)"

subsection \<open>Debian partitions\<close>

definition debianPartmanModule :: "string \<Rightarrow> string" where
  "debianPartmanModule fstype =
     (let t = toLower (trimSpace fstype)
      in if t \<in> {''ext2'', ''ext3'', ''ext4''} then ''partman-ext4''
         else if t = ''xfs'' then ''partman-xfs''
         else if t = ''btrfs'' then ''partman-btrfs'' else [])"

text \<open>The loop that appends the module of each filesystem type once; \<^verbatim>\<open>seen\<close> holds what is in the list.\<close>

fun addModules :: "string list \<Rightarrow> string list \<Rightarrow> string list" where
  "addModules modules [] = modules"
| "addModules modules (fstype # fstypes) =
     (let m = debianPartmanModule fstype
      in if m = [] \<or> m \<in> set modules then addModules modules fstypes
         else addModules (modules @ [m]) fstypes)"

definition fs_or_zero :: "FilesystemConfig entries \<Rightarrow> string \<Rightarrow> FilesystemConfig" where
  "fs_or_zero filesystems name = (case map_of filesystems name of None \<Rightarrow> zero_fs | Some f \<Rightarrow> f)"

text \<open>The filesystem types of boot and root that are not absent, ext4 when none is given.\<close>

definition boot_root_fstypes :: "FilesystemConfig entries \<Rightarrow> string list" where
  "boot_root_fstypes filesystems =
     concat (map (\<lambda>name. let f = fs_or_zero filesystems name
                         in if boolValue (fs_Absent f) then []
                            else [if fs_FSType f = [] then ''ext4'' else fs_FSType f]) [''boot'', ''root''])"

definition debianRegularPartmanModules :: "FilesystemConfig entries \<Rightarrow> string" where
  "debianRegularPartmanModules filesystems = join '' '' (addModules [] (boot_root_fstypes filesystems))"

definition debianLVMPartmanModules :: "FilesystemConfig entries \<Rightarrow> string" where
  "debianLVMPartmanModules filesystems =
     join '' '' (addModules [''lvm2-udeb'', ''partman-lvm''] (boot_root_fstypes filesystems))"

definition debianRAIDPartmanModules :: "FilesystemConfig entries \<Rightarrow> string" where
  "debianRAIDPartmanModules filesystems =
     join '' '' (addModules [''mdadm-udeb'', ''partman-md''] (boot_root_fstypes filesystems))"

definition partition_writes :: "string \<Rightarrow> string \<Rightarrow> FilesystemConfig \<Rightarrow> writes" where
  "partition_writes name pre f =
     (if boolValue (fs_Absent f) then (if name = ''swap'' then [(pre @ ''_enabled'', ''false'')] else [])
      else
        (if name \<noteq> ''swap'' then str_write (pre @ ''_mountpoint'') (fs_Mountpoint f) else [])
        @ (if name \<noteq> ''swap'' then str_write (pre @ ''_fstype'') (fs_FSType f) else [])
        @ (case fs_SizeMiB f of
             Some sz \<Rightarrow>
               (pre @ ''_min_size_mib'', int_str sz)
               # (if name = ''root'' \<and> equalFold (fs_Size f) ''grow'' then [(pre @ ''_max_size_mib'', ''-1'')]
                  else [(pre @ ''_priority'', int_str sz), (pre @ ''_max_size_mib'', int_str sz)])
           | None \<Rightarrow>
               if name = ''root'' \<and> equalFold (fs_Size f) ''grow'' then [(pre @ ''_max_size_mib'', ''-1'')] else []))"

definition projectDebianRegularPartitionParams ::
    "tparams \<Rightarrow> string \<Rightarrow> string \<Rightarrow> FilesystemConfig \<Rightarrow> tparams" where
  "projectDebianRegularPartitionParams params name pre f = setDefaults params (partition_writes name pre f)"

text \<open>The three filesystem projections differ in the prefix of their keys and in the module list.\<close>

definition filesystem_writes :: "string \<Rightarrow> (FilesystemConfig entries \<Rightarrow> string) \<Rightarrow> StorageConfig \<Rightarrow> writes" where
  "filesystem_writes pre modules storage =
     (let filesystems = entries (st_Filesystems storage);
          swap = (if is_absent (st_absentFilesystems storage) ''swap'' then [(pre @ ''_swap_enabled'', ''false'')] else [])
      in if filesystems = [] then swap
         else concat (map (\<lambda>name. partition_writes name (pre @ ''_'' @ name) (fs_or_zero filesystems name))
                [''esp'', ''boot'', ''swap'', ''root''])
              @ str_write (pre @ ''_partman_modules'') (modules filesystems) @ swap)"

definition projectDebianRegularFilesystemParams :: "tparams \<Rightarrow> StorageConfig \<Rightarrow> tparams" where
  "projectDebianRegularFilesystemParams params storage =
     setDefaults params (filesystem_writes ''debian_regular'' debianRegularPartmanModules storage)"

definition projectDebianLVMFilesystemParams :: "tparams \<Rightarrow> StorageConfig \<Rightarrow> tparams" where
  "projectDebianLVMFilesystemParams params storage =
     setDefaults params (filesystem_writes ''debian_lvm'' debianLVMPartmanModules storage)"

definition projectDebianRAIDFilesystemParams :: "tparams \<Rightarrow> StorageConfig \<Rightarrow> tparams" where
  "projectDebianRAIDFilesystemParams params storage =
     setDefaults params (filesystem_writes ''debian_raid'' debianRAIDPartmanModules storage)"

definition final_fstype :: "tparams \<Rightarrow> string \<Rightarrow> string" where
  "final_fstype params key = trimSpace (sprintT (case map_of params key of None \<Rightarrow> TVal VNil | Some v \<Rightarrow> v))"

definition debianPartmanModulesForFinalParams :: "tparams \<Rightarrow> string \<Rightarrow> bool \<Rightarrow> string" where
  "debianPartmanModulesForFinalParams params pre lvm =
     join '' '' (addModules (if lvm then [''lvm2-udeb'', ''partman-lvm''] else [])
       (map (\<lambda>name. final_fstype params (pre @ ''_'' @ name @ ''_fstype'')) [''boot'', ''root'']))"

definition debianRAIDPartmanModulesForFinalParams :: "tparams \<Rightarrow> string" where
  "debianRAIDPartmanModulesForFinalParams params =
     join '' '' (addModules [''mdadm-udeb'', ''partman-md'']
       (map (\<lambda>name. final_fstype params (''debian_raid_'' @ name @ ''_fstype'')) [''boot'', ''root'']))"

definition putStr :: "string \<Rightarrow> string \<Rightarrow> tparams \<Rightarrow> tparams" where
  "putStr k v params = AList.update k (TVal (VStr v)) params"

definition deriveDebianPartmanModules :: "tparams \<Rightarrow> bool \<Rightarrow> bool \<Rightarrow> bool \<Rightarrow> tparams" where
  "deriveDebianPartmanModules params explicitRegular explicitLVM explicitRAID =
     (let p1 = (if explicitRegular then params
                else putStr ''debian_regular_partman_modules'' (debianPartmanModulesForFinalParams params ''debian_regular'' False) params);
          p2 = (if explicitLVM then p1
                else putStr ''debian_lvm_partman_modules'' (debianPartmanModulesForFinalParams p1 ''debian_lvm'' True) p1)
      in if explicitRAID then p2
         else putStr ''debian_raid_partman_modules'' (debianRAIDPartmanModulesForFinalParams p2) p2)"

subsection \<open>Kickstart text\<close>

definition newline :: string where
  "newline = [CHR 0x0A]"

definition kickstartGroupLines :: "string \<Rightarrow> string" where
  "kickstartGroupLines raw =
     (let groups = Prelude.fields raw
      in if groups = [] then [] else join newline (map (\<lambda>g. if hasPrefix g ''@'' then g else ''@'' @ g) groups))"

definition packageLines :: "string \<Rightarrow> string" where
  "packageLines raw = join newline (Prelude.fields raw)"

definition kickstartDriveName :: "string \<Rightarrow> string" where
  "kickstartDriveName raw = (case Prelude.fields raw of [] \<Rightarrow> [] | f # _ \<Rightarrow> trimPrefix f ''/dev/'')"

definition kickstartUTCFlag :: "string \<Rightarrow> string" where
  "kickstartUTCFlag raw = (if equalFold (trimSpace raw) ''false'' then [] else ''--utc'')"

subsection \<open>The built-in defaults\<close>

definition provisioningDefaults :: writes where
  "provisioningDefaults =
     [(''encrypt_home'', ''false''),
      (''iface'', ''auto''),
      (''linuxargs'', []),
      (''linux_cfg_args'', ''console=tty0 console=ttyS0,115200n8 console=ttyS1,115200n8 vga=normal biosdevname=0 nomodeset interface=auto libata.force=noncq consoleblank=0''),
      (''vg_name'', ''vg0''),
      (''locale_language'', ''en_US.UTF-8''),
      (''locale_keyboard'', ''us''),
      (''time_timezone'', ''UTC''),
      (''ubuntu_minimal_timezone'', ''America/Los_Angeles''),
      (''time_utc'', ''true''),
      (''kickstart_utc_flag'', ''--utc''),
      (''time_ntp'', ''true''),
      (''network_bootproto'', ''dhcp''),
      (''nameservers'', []),
      (''packages_install'', ''openssh-server curl ca-certificates git''),
      (''packages_groups'', []),
      (''kickstart_package_groups'', ''@core''),
      (''kickstart_packages'', []),
      (''packages_update_policy'', ''unattended-upgrades''),
      (''storage_disk'', ''/dev/nvme0n1''),
      (''storage_wipe_disks'', ''/dev/nvme0n1 /dev/nvme1n1''),
      (''storage_template_disk'', ''/dev/sda /dev/sdb''),
      (''kickstart_storage_drive'', ''sda''),
      (''storage_wipe'', ''true''),
      (''storage_mode'', ''regular''),
      (''storage_encryption_enabled'', ''false''),
      (''storage_encryption_cipher'', ''aes-xts-plain64''),
      (''storage_encryption_key_size'', ''512''),
      (''storage_encryption_hash'', ''sha512''),
      (''storage_encryption_tpm_enabled'', ''false''),
      (''storage_encryption_tpm_device'', ''auto''),
      (''storage_encryption_tpm_pcrs'', ''7''),
      (''storage_encryption_tpm_require_sha256_bank'', ''true''),
      (''storage_encryption_tpm_initramfs'', ''dracut''),
      (''storage_encryption_tpm_dracut_image_suffix'', ''hostonly-dracut''),
      (''storage_encryption_tpm_dracut_config_path'', ''/etc/dracut.conf.d/90-shoelaces-luks-tpm.conf''),
      (''storage_encryption_tpm_grub_entry_name'', ''Debian TPM unlock - dracut''),
      (''storage_encryption_tpm_grub_custom_path'', ''/etc/grub.d/40_luks_tpm''),
      (''ubuntu_minimal_storage_mode'', ''regular''),
      (''debian_regular_partman_modules'', ''partman-ext4''),
      (''debian_regular_esp_min_size_mib'', ''512''),
      (''debian_regular_esp_priority'', ''512''),
      (''debian_regular_esp_max_size_mib'', ''512''),
      (''debian_regular_esp_fstype'', ''fat32''),
      (''debian_regular_esp_mountpoint'', ''/boot/efi''),
      (''debian_regular_boot_min_size_mib'', ''1024''),
      (''debian_regular_boot_priority'', ''1024''),
      (''debian_regular_boot_max_size_mib'', ''1024''),
      (''debian_regular_boot_fstype'', ''ext4''),
      (''debian_regular_boot_mountpoint'', ''/boot''),
      (''debian_regular_swap_enabled'', ''true''),
      (''debian_regular_swap_min_size_mib'', ''8192''),
      (''debian_regular_swap_priority'', ''8192''),
      (''debian_regular_swap_max_size_mib'', ''8192''),
      (''debian_regular_root_min_size_mib'', ''20000''),
      (''debian_regular_root_priority'', ''100000000''),
      (''debian_regular_root_max_size_mib'', ''-1''),
      (''debian_regular_root_fstype'', ''ext4''),
      (''debian_regular_root_mountpoint'', ''/''),
      (''debian_lvm_partman_modules'', ''lvm2-udeb partman-lvm partman-ext4''),
      (''debian_lvm_esp_min_size_mib'', ''512''),
      (''debian_lvm_esp_priority'', ''512''),
      (''debian_lvm_esp_max_size_mib'', ''512''),
      (''debian_lvm_esp_fstype'', ''fat32''),
      (''debian_lvm_esp_mountpoint'', ''/boot/efi''),
      (''debian_lvm_boot_min_size_mib'', ''1024''),
      (''debian_lvm_boot_priority'', ''1024''),
      (''debian_lvm_boot_max_size_mib'', ''1024''),
      (''debian_lvm_boot_fstype'', ''ext4''),
      (''debian_lvm_boot_mountpoint'', ''/boot''),
      (''debian_lvm_pv_min_size_mib'', ''1000''),
      (''debian_lvm_pv_priority'', ''10000''),
      (''debian_lvm_pv_max_size_mib'', ''-1''),
      (''debian_lvm_swap_enabled'', ''true''),
      (''debian_lvm_swap_min_size_mib'', ''8192''),
      (''debian_lvm_swap_priority'', ''8192''),
      (''debian_lvm_swap_max_size_mib'', ''8192''),
      (''debian_lvm_root_min_size_mib'', ''20000''),
      (''debian_lvm_root_priority'', ''100000000''),
      (''debian_lvm_root_max_size_mib'', ''-1''),
      (''debian_lvm_root_fstype'', ''ext4''),
      (''debian_lvm_root_mountpoint'', ''/''),
      (''debian_raid_partman_modules'', ''mdadm-udeb partman-md partman-ext4''),
      (''debian_raid_esp_min_size_mib'', ''512''),
      (''debian_raid_esp_priority'', ''512''),
      (''debian_raid_esp_max_size_mib'', ''512''),
      (''debian_raid_esp_fstype'', ''fat32''),
      (''debian_raid_esp_mountpoint'', ''/boot/efi''),
      (''debian_raid_boot_min_size_mib'', ''1024''),
      (''debian_raid_boot_priority'', ''1024''),
      (''debian_raid_boot_max_size_mib'', ''1024''),
      (''debian_raid_boot_fstype'', ''ext4''),
      (''debian_raid_boot_mountpoint'', ''/boot''),
      (''debian_raid_swap_enabled'', ''true''),
      (''debian_raid_swap_min_size_mib'', ''8192''),
      (''debian_raid_swap_priority'', ''8192''),
      (''debian_raid_swap_max_size_mib'', ''8192''),
      (''debian_raid_root_min_size_mib'', ''20000''),
      (''debian_raid_root_priority'', ''100000000''),
      (''debian_raid_root_max_size_mib'', ''-1''),
      (''debian_raid_root_fstype'', ''ext4''),
      (''debian_raid_root_mountpoint'', ''/''),
      (''storage_raid_level'', ''1''),
      (''storage_raid_boot_degraded'', ''true''),
      (''repo_firmware'', ''true''),
      (''repo_contrib'', ''true''),
      (''repo_non_free'', ''true''),
      (''repo_debian_mirror'', ''http://ftp.debian.org/debian''),
      (''repo_ubuntu_mirror'', ''http://mirror.rackspace.com/ubuntu''),
      (''repo_centos_mirror'', ''http://mirror.centos.org/centos''),
      (''kickstart_centos_mirror'', ''http://mirror.netcologne.de/centos''),
      (''repo_coreos_mirror'', ''http://stable.release.core-os.net/amd64-usr''),
      (''coreos_release'', ''current''),
      (''boot_installed_args'', ''consoleblank=0 loglevel=6 sysrq_always_enabled clocksource=tsc tsc=reliable''),
      (''kickstart_boot_args'', ''crashkernel=auto panic=60''),
      (''boot_timeout_seconds'', ''5''),
      (''debian_installer_config_template'', ''preseed/debian''),
      (''storage_installer_config_template'', ''preseed/storage''),
      (''ubuntu_minimal_installer_config_template'', ''preseed/ubuntu-minimal''),
      (''centos_installer_config_template'', ''centos.ks''),
      (''coreos_installer_config_template'', ''cloudconfig-coreos''),
      (''boot_ref_query'', []),
      (''boot_ref_query_suffix'', []),
      (''boot_ref_query_question'', []),
      (''installer_late_commands'', []),
      (''installerExtra'', [])]"

definition setProvisioningDefaults :: "tparams \<Rightarrow> tparams" where
  "setProvisioningDefaults params = setDefaults params provisioningDefaults"

subsection \<open>The projection\<close>

definition structured_writes :: "ProvisioningConfig \<Rightarrow> writes" where
  "structured_writes p =
     str_write ''release'' (rep_Release (pv_Repos p))
     @ str_write ''linuxargs'' (join '' '' (elems (nb_KernelArgs (boot_Netboot (pv_Boot p)))))
     @ str_write ''vg_name'' (st_VolumeGroup (pv_Storage p))
     @ str_write ''hostname'' (net_Hostname (pv_Network p))
     @ str_write ''locale_language'' (loc_Language (pv_Locale p))
     @ str_write ''locale_keyboard'' (loc_Keyboard (pv_Locale p))
     @ str_write ''time_timezone'' (time_Timezone (pv_Time p))
     @ str_write ''network_bootproto'' (net_Bootproto (pv_Network p))
     @ str_write ''nameservers'' (join '' '' (elems (net_Nameservers (pv_Network p))))
     @ str_write ''packages_install'' (join '' '' (elems (pkg_Install (pv_Packages p))))
     @ str_write ''packages_groups'' (join '' '' (elems (pkg_Groups (pv_Packages p))))
     @ str_write ''packages_update_policy'' (pkg_UpdatePolicy (pv_Packages p))
     @ str_write ''storage_disk'' (st_Disk (pv_Storage p))
     @ str_write ''storage_mode'' (st_Mode (pv_Storage p))"

definition repo_writes :: "ProvisioningConfig \<Rightarrow> writes" where
  "repo_writes p =
     str_write ''repo_debian_mirror'' (rep_OSMirror (pv_Repos p))
     @ str_write ''repo_ubuntu_mirror'' (rep_OSMirror (pv_Repos p))
     @ str_write ''repo_centos_mirror'' (rep_OSMirror (pv_Repos p))
     @ str_write ''repo_coreos_mirror'' (rep_OSMirror (pv_Repos p))
     @ str_write ''boot_installed_args'' (join '' '' (elems (ib_KernelArgs (boot_Installed (pv_Boot p)))))
     @ str_write ''debian_installer_config_template'' (ins_ConfigTemplate (pv_Installer p))
     @ str_write ''storage_installer_config_template'' (ins_ConfigTemplate (pv_Installer p))
     @ str_write ''ubuntu_minimal_installer_config_template'' (ins_ConfigTemplate (pv_Installer p))
     @ str_write ''centos_installer_config_template'' (ins_ConfigTemplate (pv_Installer p))
     @ str_write ''coreos_installer_config_template'' (ins_ConfigTemplate (pv_Installer p))"

definition flag_writes :: "ProvisioningConfig \<Rightarrow> writes" where
  "flag_writes p =
     (case time_UTC (pv_Time p) of None \<Rightarrow> []
      | Some utc \<Rightarrow> [(''time_utc'', bool_str utc), (''kickstart_utc_flag'', if utc then ''--utc'' else [])])
     @ bool_write ''time_ntp'' (time_NTP (pv_Time p))
     @ bool_write ''storage_wipe'' (st_Wipe (pv_Storage p))
     @ int_write ''boot_timeout_seconds'' (ib_TimeoutSeconds (boot_Installed (pv_Boot p)))
     @ bool_write ''repo_firmware'' (rep_Firmware (pv_Repos p))
     @ bool_write ''repo_contrib'' (rep_Contrib (pv_Repos p))
     @ bool_write ''repo_non_free'' (rep_NonFree (pv_Repos p))"

text \<open>The loop over \<^verbatim>\<open>Installer.ConfigParams\<close>, which keeps the values as they are.\<close>

fun addConfigParams :: "tparams \<Rightarrow> val entries \<Rightarrow> tparams" where
  "addConfigParams params [] = params"
| "addConfigParams params ((key, v) # rest) =
     addConfigParams (if map_of params key = None then AList.update key (TVal v) params else params) rest"

text \<open>\<^verbatim>\<open>if v, ok := params[from]; ok { setDefaultParamValue(params, to, f(v)) }\<close>.\<close>

definition deriveParam :: "string \<Rightarrow> string \<Rightarrow> (string \<Rightarrow> string) \<Rightarrow> tparams \<Rightarrow> tparams" where
  "deriveParam from to f params =
     (case map_of params from of None \<Rightarrow> params | Some v \<Rightarrow> setDefaultParamValue params to (f (sprintT v)))"

definition derive_steps :: "(string \<times> string \<times> (string \<Rightarrow> string)) list" where
  "derive_steps =
     [(''release'', ''coreos_release'', \<lambda>s. s),
      (''linuxargs'', ''linux_cfg_args'', \<lambda>s. s),
      (''storage_disk'', ''storage_wipe_disks'', \<lambda>s. s),
      (''storage_disk'', ''storage_template_disk'', \<lambda>s. s),
      (''storage_disk'', ''kickstart_storage_drive'', kickstartDriveName),
      (''storage_mode'', ''ubuntu_minimal_storage_mode'', \<lambda>s. s),
      (''time_timezone'', ''ubuntu_minimal_timezone'', \<lambda>s. s),
      (''time_utc'', ''kickstart_utc_flag'', kickstartUTCFlag),
      (''packages_groups'', ''kickstart_package_groups'', kickstartGroupLines),
      (''packages_install'', ''kickstart_packages'', packageLines),
      (''boot_installed_args'', ''kickstart_boot_args'', \<lambda>s. s),
      (''repo_centos_mirror'', ''kickstart_centos_mirror'', \<lambda>s. s)]"

definition deriveParams :: "tparams \<Rightarrow> tparams" where
  "deriveParams params = fold (\<lambda>(from, to, f). deriveParam from to f) derive_steps params"

definition projectStructured :: "tparams \<Rightarrow> ProvisioningConfig \<Rightarrow> tparams" where
  "projectStructured params p =
     (let st = pv_Storage p;
          p1 = setDefaults params (structured_writes p);
          p2 = projectStorageEncryptionParams p1 (st_Encryption st);
          p3 = projectRAIDParams p2 (st_RAID st);
          p4 = projectDebianRegularFilesystemParams p3 st;
          p5 = projectDebianLVMFilesystemParams p4 st;
          p6 = projectDebianRAIDFilesystemParams p5 st;
          p7 = setDefaults p6 (repo_writes p);
          p8 = projectInstallerLateCommandsParams p7 (ins_LateCommands (pv_Installer p))
      in setDefaults p8 (flag_writes p))"

definition wipe_writes :: "ProvisioningConfig \<Rightarrow> writes" where
  "wipe_writes p = (case elems (st_WipeDiskPatterns (pv_Storage p)) of [] \<Rightarrow> []
     | ds \<Rightarrow> [(''storage_wipe_disks'', join '' '' ds)])"

definition explicit_modules :: "tparams \<Rightarrow> ProvisioningConfig \<Rightarrow> string \<Rightarrow> bool" where
  "explicit_modules params p key \<longleftrightarrow>
     map_of params key \<noteq> None \<or> lookup_map (ins_ConfigParams (pv_Installer p)) key \<noteq> None"

definition projectProvisioningParams :: "tparams \<Rightarrow> ProvisioningConfig \<Rightarrow> tparams" where
  "projectProvisioningParams params p =
     (let p1 = projectStructured params p;
          p2 = addConfigParams p1 (entries (ins_ConfigParams (pv_Installer p)));
          p3 = setDefaults p2 (wipe_writes p);
          p4 = deriveParams p3;
          p5 = setProvisioningDefaults p4
      in deriveDebianPartmanModules p5
           (explicit_modules params p ''debian_regular_partman_modules'')
           (explicit_modules params p ''debian_lvm_partman_modules'')
           (explicit_modules params p ''debian_raid_partman_modules''))"

definition ParamsWithUsers :: "params \<Rightarrow> ResolvedUser entries \<Rightarrow> tparams" where
  "ParamsWithUsers params users =
     (let copied = map (\<lambda>(k, v). (k, TVal v)) (entries params)
      in if users \<noteq> [] then AList.update ''users'' (TUsers (NewTemplateUsers users)) copied else copied)"

definition ParamsWithProvisioning :: "params \<Rightarrow> ResolvedUser entries \<Rightarrow> ProvisioningConfig \<Rightarrow> tparams" where
  "ParamsWithProvisioning params users p =
     projectProvisioningParams
       (AList.update ''provisioning'' (TProv (copyProvisioningConfig p)) (ParamsWithUsers params users)) p"

subsection \<open>Facts: writing defaults\<close>

abbreviation strT :: "string \<Rightarrow> tval" where
  "strT s \<equiv> TVal (VStr s)"

text \<open>
  A step of the projection: it keeps every key that is there. The interface has one law, and every step
  below is an instance.
\<close>

locale keeping =
  fixes step :: "tparams \<Rightarrow> tparams"
  assumes keep: "map_of ps k = Some v \<Longrightarrow> map_of (step ps) k = Some v"
begin

lemma keep_present: "map_of ps k \<noteq> None \<Longrightarrow> map_of (step ps) k \<noteq> None"
  using keep by fastforce

end

lemma map_of_setDefaultParamValue:
  "map_of (setDefaultParamValue ps key v) k =
     (if k = key \<and> map_of ps k = None then Some (strT v) else map_of ps k)"
  by (auto simp: setDefaultParamValue_def)

lemma map_of_setDefaults:
  "map_of (setDefaults ps ws) k =
     (case map_of ps k of Some v \<Rightarrow> Some v | None \<Rightarrow> map_option strT (map_of ws k))"
  by (induction ps ws rule: setDefaults.induct)
    (auto simp: map_of_setDefaultParamValue split: option.splits)

lemma setDefaults_append: "setDefaults (setDefaults ps ws) vs = setDefaults ps (ws @ vs)"
  by (induction ps ws rule: setDefaults.induct) simp_all

lemma map_of_addConfigParams:
  "map_of (addConfigParams ps es) k =
     (case map_of ps k of Some v \<Rightarrow> Some v | None \<Rightarrow> map_option TVal (map_of es k))"
  by (induction ps es rule: addConfigParams.induct) (auto split: option.splits)

lemma deriveParam_keep: "map_of ps k = Some v \<Longrightarrow> map_of (deriveParam from to f ps) k = Some v"
  by (auto simp: deriveParam_def map_of_setDefaultParamValue split: option.splits)

lemma deriveParam_other: "k \<noteq> to \<Longrightarrow> map_of (deriveParam from to f ps) k = map_of ps k"
  by (auto simp: deriveParam_def map_of_setDefaultParamValue split: option.splits)

lemma derive_fold_keep:
  "map_of ps k = Some v \<Longrightarrow> map_of (fold (\<lambda>(from, to, f). deriveParam from to f) steps ps) k = Some v"
  by (induction steps arbitrary: ps) (auto simp: deriveParam_keep)

lemma derive_fold_other:
  "k \<notin> (fst \<circ> snd) ` set steps \<Longrightarrow>
   map_of (fold (\<lambda>(from, to, f). deriveParam from to f) steps ps) k = map_of ps k"
  by (induction steps arbitrary: ps) (auto simp: deriveParam_other)

interpretation defaults: keeping "\<lambda>ps. setDefaults ps ws"
  by unfold_locales (simp add: map_of_setDefaults)

interpretation config: keeping "\<lambda>ps. addConfigParams ps es"
  by unfold_locales (simp add: map_of_addConfigParams)

interpretation derived: keeping deriveParams
  by unfold_locales (simp add: deriveParams_def derive_fold_keep)

interpretation builtin: keeping setProvisioningDefaults
  by unfold_locales (simp add: setProvisioningDefaults_def map_of_setDefaults)

text \<open>Everything the structured fields write, in order.\<close>

definition all_writes :: "ProvisioningConfig \<Rightarrow> writes" where
  "all_writes p =
     (let st = pv_Storage p
      in structured_writes p @ encryption_writes (st_Encryption st) @ tpm_writes (enc_TPM (st_Encryption st))
         @ raid_writes (st_RAID st)
         @ filesystem_writes ''debian_regular'' debianRegularPartmanModules st
         @ filesystem_writes ''debian_lvm'' debianLVMPartmanModules st
         @ filesystem_writes ''debian_raid'' debianRAIDPartmanModules st
         @ repo_writes p
         @ str_write ''installer_late_commands'' (formatLateCommands (ins_LateCommands (pv_Installer p)))
         @ flag_writes p)"

lemma late_commands_writes:
  "projectInstallerLateCommandsParams ps cmds = setDefaults ps (str_write ''installer_late_commands'' (formatLateCommands cmds))"
  by (simp add: projectInstallerLateCommandsParams_def setDefaultParam_def str_write_def Let_def)

lemma projectStructured_writes: "projectStructured ps p = setDefaults ps (all_writes p)"
  by (simp only: projectStructured_def Let_def projectStorageEncryptionParams_def projectStorageEncryptionTPMParams_def
      projectRAIDParams_def projectDebianRegularFilesystemParams_def projectDebianLVMFilesystemParams_def
      projectDebianRAIDFilesystemParams_def late_commands_writes setDefaults_append all_writes_def append_assoc)

interpretation structured: keeping "\<lambda>ps. projectStructured ps p"
  by unfold_locales (simp add: projectStructured_writes map_of_setDefaults)

definition module_keys :: "string list" where
  "module_keys = [''debian_regular_partman_modules'', ''debian_lvm_partman_modules'', ''debian_raid_partman_modules'']"

lemma derive_modules_other:
  "k \<notin> set module_keys \<Longrightarrow> map_of (deriveDebianPartmanModules ps a b c) k = map_of ps k"
  by (simp add: deriveDebianPartmanModules_def module_keys_def putStr_def Let_def)

lemma derive_modules_explicit:
  assumes "map_of ps k = Some v"
    and "k = ''debian_regular_partman_modules'' \<Longrightarrow> a" "k = ''debian_lvm_partman_modules'' \<Longrightarrow> b"
      "k = ''debian_raid_partman_modules'' \<Longrightarrow> c"
  shows "map_of (deriveDebianPartmanModules ps a b c) k = Some v"
  using assms by (auto simp: deriveDebianPartmanModules_def putStr_def Let_def)

text \<open>The state of the map before the module lists are derived.\<close>

definition before_modules :: "tparams \<Rightarrow> ProvisioningConfig \<Rightarrow> tparams" where
  "before_modules params p =
     setProvisioningDefaults (deriveParams (setDefaults (addConfigParams (projectStructured params p)
       (entries (ins_ConfigParams (pv_Installer p)))) (wipe_writes p)))"

lemma projectProvisioningParams_before:
  "projectProvisioningParams params p =
     deriveDebianPartmanModules (before_modules params p)
       (explicit_modules params p ''debian_regular_partman_modules'')
       (explicit_modules params p ''debian_lvm_partman_modules'')
       (explicit_modules params p ''debian_raid_partman_modules'')"
  by (simp add: projectProvisioningParams_def before_modules_def Let_def)

lemma before_modules_keep: "map_of params k = Some v \<Longrightarrow> map_of (before_modules params p) k = Some v"
  unfolding before_modules_def
  by (intro builtin.keep derived.keep defaults.keep config.keep structured.keep)

lemma projection_keep:
  assumes "map_of params k = Some v"
  shows "map_of (projectProvisioningParams params p) k = Some v"
  unfolding projectProvisioningParams_before
  using assms by (intro derive_modules_explicit before_modules_keep) (auto simp: explicit_modules_def)

definition attached :: "params \<Rightarrow> ResolvedUser entries \<Rightarrow> ProvisioningConfig \<Rightarrow> tparams" where
  "attached params users p =
     AList.update ''provisioning'' (TProv (copyProvisioningConfig p)) (ParamsWithUsers params users)"

lemma map_of_attached:
  "k \<noteq> ''provisioning'' \<Longrightarrow> k \<noteq> ''users'' \<or> users = [] \<Longrightarrow>
   map_of (attached params users p) k = map_option TVal (lookup_map params k)"
  by (auto simp: attached_def ParamsWithUsers_def Let_def lookup_map_def)

lemma before_modules_plain:
  assumes "k \<notin> (fst \<circ> snd) ` set derive_steps"
  shows "map_of (before_modules params p) k =
    first_some [map_of params k, map_option strT (map_of (all_writes p) k),
      map_option TVal (lookup_map (ins_ConfigParams (pv_Installer p)) k),
      map_option strT (map_of provisioningDefaults k)]"
proof -
  have "map_of (wipe_writes p) k = None"
    using assms by (auto simp: wipe_writes_def derive_steps_def split: list.splits)
  then show ?thesis
    unfolding before_modules_def setProvisioningDefaults_def map_of_setDefaults deriveParams_def
      derive_fold_other [OF assms] map_of_addConfigParams projectStructured_writes lookup_map_def
    by (cases "map_of provisioningDefaults k") (auto split: option.splits)
qed

lemma before_modules_complete:
  assumes "k \<in> fst ` set provisioningDefaults"
  shows "map_of (before_modules params p) k \<noteq> None"
proof -
  have "map_of provisioningDefaults k \<noteq> None" using assms by (simp add: map_of_eq_None_iff)
  then show ?thesis
    unfolding before_modules_def setProvisioningDefaults_def map_of_setDefaults by (auto split: option.splits)
qed

lemma putStr_present: "map_of ps k \<noteq> None \<Longrightarrow> map_of (putStr key v ps) k \<noteq> None"
  by (simp add: putStr_def)

lemma derive_modules_present: "map_of ps k \<noteq> None \<Longrightarrow> map_of (deriveDebianPartmanModules ps a b c) k \<noteq> None"
  by (simp add: deriveDebianPartmanModules_def Let_def putStr_present del: not_None_eq)

subsection \<open>Facts: module lists\<close>

lemma addModules_distinct: "distinct ms \<Longrightarrow> distinct (addModules ms fs)"
  by (induction ms fs rule: addModules.induct) (auto simp: Let_def)

lemma addModules_set: "set (addModules ms fs) = set ms \<union> {m. m \<noteq> [] \<and> m \<in> debianPartmanModule ` set fs}"
  by (induction ms fs rule: addModules.induct) (auto simp: Let_def)

lemma addModules_prefix: "prefix ms (addModules ms fs)"
  by (induction ms fs rule: addModules.induct) (auto simp: Let_def intro: append_prefixD)

subsection \<open>Properties\<close>

text \<open>
  A parameter the caller gives explicitly is never changed by the projection, whatever the accounts
  and the provisioning data are; only the keys users and provisioning are taken by the attached structs.
\<close>

theorem explicit_params_kept:
  assumes "lookup_map params k = Some v" and "k \<noteq> ''provisioning''" and "k \<noteq> ''users'' \<or> users = []"
  shows "map_of (ParamsWithProvisioning params users p) k = Some (TVal v)"
  using assms projection_keep [of "attached params users p" k "TVal v" p]
  by (simp add: ParamsWithProvisioning_def map_of_attached flip: attached_def)

theorem explicit_params_kept_witness:
  "map_of (ParamsWithProvisioning (Some [(''storage_mode'', VStr ''manual'')]) []
     (zero_provisioning\<lparr>pv_Storage := zero_storage\<lparr>st_Mode := ''lvm''\<rparr>\<rparr>)) ''storage_mode'' = Some (TVal (VStr ''manual''))"
  by (rule explicit_params_kept) simp_all

text \<open>
  C9. A key that is not derived from another one takes its value from the first source that has it: the
  caller, the structured fields, the low-level installer parameters, the built-in default. The structured
  fields that count are those that are set.
\<close>

theorem projection_precedence:
  assumes "k \<noteq> ''provisioning''" and "k \<noteq> ''users'' \<or> users = []"
    and "k \<notin> (fst \<circ> snd) ` set derive_steps" and "k \<notin> set module_keys"
  shows "map_of (ParamsWithProvisioning params users p) k =
    first_some [map_option TVal (lookup_map params k), map_option strT (map_of (all_writes p) k),
      map_option TVal (lookup_map (ins_ConfigParams (pv_Installer p)) k),
      map_option strT (map_of provisioningDefaults k)]"
  using assms before_modules_plain [OF assms(3), of "attached params users p" p]
  by (simp add: ParamsWithProvisioning_def projectProvisioningParams_before derive_modules_other map_of_attached
      flip: attached_def)

theorem projection_precedence_witness:
  "map_of (ParamsWithProvisioning None [] (zero_provisioning\<lparr>pv_Storage := zero_storage\<lparr>st_Mode := ''lvm''\<rparr>\<rparr>)) ''storage_mode''
     = Some (TVal (VStr ''lvm''))"
proof -
  let ?p = "zero_provisioning\<lparr>pv_Storage := zero_storage\<lparr>st_Mode := ''lvm''\<rparr>\<rparr>"
  have "''storage_mode'' \<notin> (fst \<circ> snd) ` set derive_steps" "''storage_mode'' \<notin> set module_keys"
    by (simp_all add: derive_steps_def module_keys_def)
  moreover have "map_of (all_writes ?p) ''storage_mode'' = Some ''lvm''"
    by (simp add: all_writes_def structured_writes_def str_write_def zero_provisioning_def zero_storage_def Let_def)
  ultimately show ?thesis using projection_precedence [of "''storage_mode''" "[]" None ?p] by simp
qed

text \<open>
  Every key that has a built-in default is present in the parameters a template is rendered with, so
  the embedded installer templates find all of them.
\<close>

theorem projection_complete:
  assumes "k \<in> fst ` set provisioningDefaults"
  shows "\<exists>v. map_of (ParamsWithProvisioning params users p) k = Some v"
  using derive_modules_present [OF before_modules_complete [OF assms]]
  by (auto simp: ParamsWithProvisioning_def projectProvisioningParams_before)

theorem projection_complete_witness:
  "\<exists>v. map_of (ParamsWithProvisioning None [] zero_provisioning) ''debian_raid_root_mountpoint'' = Some v"
proof -
  have "''debian_raid_root_mountpoint'' \<in> set (map fst provisioningDefaults)" by code_simp
  then show ?thesis by (intro projection_complete) simp
qed

text \<open>
  The partman modules of a Debian install name each module once, start with those the storage mode
  needs, and are otherwise exactly the modules of the filesystem types boot and root end up with.
\<close>

theorem partman_modules_spec:
  "\<exists>ms. debianPartmanModulesForFinalParams ps pre lvm = join '' '' ms \<and> distinct ms
     \<and> prefix (if lvm then [''lvm2-udeb'', ''partman-lvm''] else []) ms
     \<and> set ms = set (if lvm then [''lvm2-udeb'', ''partman-lvm''] else [])
         \<union> ({debianPartmanModule (final_fstype ps (pre @ ''_boot_fstype'')),
             debianPartmanModule (final_fstype ps (pre @ ''_root_fstype''))} - {[]})"
proof -
  let ?init = "if lvm then [''lvm2-udeb'', ''partman-lvm''] else []"
  let ?fs = "map (\<lambda>name. final_fstype ps (pre @ ''_'' @ name @ ''_fstype'')) [''boot'', ''root'']"
  have "set (addModules ?init ?fs) = set ?init
      \<union> ({debianPartmanModule (final_fstype ps (pre @ ''_boot_fstype'')),
          debianPartmanModule (final_fstype ps (pre @ ''_root_fstype''))} - {[]})"
    unfolding addModules_set by auto
  moreover have "distinct (addModules ?init ?fs)" by (rule addModules_distinct) simp
  ultimately show ?thesis
    unfolding debianPartmanModulesForFinalParams_def using addModules_prefix [of ?init ?fs] by blast
qed

definition late_line :: "string \<Rightarrow> string" where
  "late_line c = ''    '' @ c @ ''; '' @ [CHR 0x5C, CHR 0x0A]"

lemma formatLateCommandsLoop_acc:
  "acc \<noteq> [] \<Longrightarrow> formatLateCommandsLoop acc cmds
     = acc @ concat (map late_line (filter (\<lambda>c. c \<noteq> []) (map trimSpace cmds)))"
  by (induction acc cmds rule: formatLateCommandsLoop.induct) (auto simp: Let_def late_line_def)

text \<open>
  Late commands are rendered as one shell chain under \<^verbatim>\<open>set -e\<close>: the blank ones are dropped, each other
  one is trimmed and becomes one continued line, in the order given, and nothing is rendered when all are
  blank.
\<close>

theorem formatLateCommands_spec:
  "formatLateCommands cmds =
     (let lines = filter (\<lambda>c. c \<noteq> []) (map trimSpace (elems cmds))
      in if lines = [] then [] else ''  set -e; '' @ [CHR 0x5C, CHR 0x0A] @ concat (map late_line lines))"
proof -
  have "formatLateCommandsLoop [] cs =
     (let lines = filter (\<lambda>c. c \<noteq> []) (map trimSpace cs)
      in if lines = [] then [] else ''  set -e; '' @ [CHR 0x5C, CHR 0x0A] @ concat (map late_line lines))" for cs
    by (induction cs) (auto simp: Let_def formatLateCommandsLoop_acc late_line_def)
  then show ?thesis by (simp add: formatLateCommands_def)
qed

end
