(* ===== verification/Json.thy ===== *)
theory Json
  imports Projection
begin

text \<open>
  What the sources use of \<^verbatim>\<open>encoding/json\<close>. A JSON text is its tree; the order of the keys of an object
  is that in which \<^verbatim>\<open>json.Marshal\<close> writes them, which is increasing. Parameters are encoded from and
  decoded into \<^verbatim>\<open>any\<close>, in two ways: \<^verbatim>\<open>bootsession\<close> and \<^verbatim>\<open>event\<close> decode every number into a float,
  \<^verbatim>\<open>server/state_persistence.go\<close> keeps integers. The struct types are encoded field by field, so what is
  stored for them is the struct as its exported fields can carry it.

  A value \<open>VOther\<close> stands for a floating-point number here, by the text it prints as.
\<close>

subsection \<open>UTF-8\<close>

definition in_range :: "nat \<Rightarrow> nat \<Rightarrow> char \<Rightarrow> bool" where
  "in_range lo hi c \<longleftrightarrow> lo \<le> of_char c \<and> of_char c \<le> hi"

text \<open>The length of the well-formed rune a text starts with, 0 when there is none.\<close>

definition rune_len :: "string \<Rightarrow> nat" where
  "rune_len s =
     (let cont = in_range 0x80 0xBF; at = (\<lambda>i p. i < length s \<and> p (s ! i))
      in if at 0 (in_range 0x00 0x7F) then 1
         else if at 0 (in_range 0xC2 0xDF) \<and> at 1 cont then 2
         else if at 0 (in_range 0xE0 0xE0) \<and> at 1 (in_range 0xA0 0xBF) \<and> at 2 cont then 3
         else if at 0 (in_range 0xE1 0xEC) \<and> at 1 cont \<and> at 2 cont then 3
         else if at 0 (in_range 0xED 0xED) \<and> at 1 (in_range 0x80 0x9F) \<and> at 2 cont then 3
         else if at 0 (in_range 0xEE 0xEF) \<and> at 1 cont \<and> at 2 cont then 3
         else if at 0 (in_range 0xF0 0xF0) \<and> at 1 (in_range 0x90 0xBF) \<and> at 2 cont \<and> at 3 cont then 4
         else if at 0 (in_range 0xF1 0xF3) \<and> at 1 cont \<and> at 2 cont \<and> at 3 cont then 4
         else if at 0 (in_range 0xF4 0xF4) \<and> at 1 (in_range 0x80 0x8F) \<and> at 2 cont \<and> at 3 cont then 4
         else 0)"

text \<open>The encoder writes U+FFFD for every byte that belongs to no rune.\<close>

function valid_utf8 :: "string \<Rightarrow> string" where
  "valid_utf8 s =
     (if s = [] then []
      else if rune_len s = 0 then [CHR 0xEF, CHR 0xBF, CHR 0xBD] @ valid_utf8 (tl s)
      else take (rune_len s) s @ valid_utf8 (drop (rune_len s) s))"
  by pat_completeness auto
termination
  by (relation "measure length") auto

declare valid_utf8.simps [simp del]

definition is_utf8 :: "string \<Rightarrow> bool" where
  "is_utf8 s \<longleftrightarrow> valid_utf8 s = s"

subsection \<open>Trees\<close>

datatype json =
    JNull
  | JBool bool
  | JStr string
  | JInt int
  | JFloat string
  | JArr "json list"
  | JObj "(string \<times> json) list"

text \<open>\<^verbatim>\<open>json.Marshal\<close> of an \<^verbatim>\<open>any\<close>; it fails on the floats that JSON has no text for.\<close>

fun marshal :: "val \<Rightarrow> json option" where
  "marshal VNil = Some JNull"
| "marshal (VStr s) = Some (JStr (valid_utf8 s))"
| "marshal (VBool b) = Some (JBool b)"
| "marshal (VInt i) = Some (JInt i)"
| "marshal (VOther t) = (if t \<in> {''NaN'', ''+Inf'', ''-Inf''} then None else Some (JFloat t))"
| "marshal (VMap es) =
     map_option (\<lambda>js. JObj (sort_key fst (zip (map (valid_utf8 \<circ> fst) es) js)))
       (those (map (\<lambda>(k, v). marshal v) es))"
| "marshal (VList vs) = map_option JArr (those (map marshal vs))"
| "marshal (VStrs ss) = Some (JArr (map (JStr \<circ> valid_utf8) ss))"

text \<open>
  What \<^verbatim>\<open>fmt.Sprint\<close> prints for the float that an integer of at most \<open>2 ^ 53\<close> becomes: from a million on it is
  written with an exponent.
\<close>

definition strip_zeros :: "string \<Rightarrow> string" where
  "strip_zeros s = rev (dropWhile (\<lambda>c. c = CHR ''0'') (rev s))"

definition float_text :: "int \<Rightarrow> string" where
  "float_text i =
     (let ds = nat_str (nat \<bar>i\<bar>); e = length ds - 1; m = strip_zeros ds
      in if e < 6 then int_str i
         else (if i < 0 then ''-'' else []) @ take 1 m @ (if length m > 1 then ''.'' @ tl m else [])
              @ ''e+'' @ (if e < 10 then ''0'' else []) @ nat_str e)"

text \<open>\<^verbatim>\<open>json.Unmarshal\<close> into an \<^verbatim>\<open>any\<close>.\<close>

fun unmarshal :: "json \<Rightarrow> val" where
  "unmarshal JNull = VNil"
| "unmarshal (JBool b) = VBool b"
| "unmarshal (JStr s) = VStr s"
| "unmarshal (JInt i) = VOther (float_text i)"
| "unmarshal (JFloat t) = VOther t"
| "unmarshal (JArr js) = VList (map unmarshal js)"
| "unmarshal (JObj es) = VMap (put_all [] (map (\<lambda>(k, j). (k, unmarshal j)) es))"

text \<open>
  The decoder with \<^verbatim>\<open>UseNumber\<close> followed by \<^verbatim>\<open>normalizeJSONNumbers\<close>: an integer that fits 64 bits stays one,
  a larger one becomes a float.
\<close>

definition int64 :: "int \<Rightarrow> bool" where
  "int64 i \<longleftrightarrow> - (2 ^ 63) \<le> i \<and> i < 2 ^ 63"

fun normalizeJSONNumbers :: "json \<Rightarrow> val" where
  "normalizeJSONNumbers JNull = VNil"
| "normalizeJSONNumbers (JBool b) = VBool b"
| "normalizeJSONNumbers (JStr s) = VStr s"
| "normalizeJSONNumbers (JInt i) = (if int64 i then VInt i else VOther (float_text i))"
| "normalizeJSONNumbers (JFloat t) = VOther t"
| "normalizeJSONNumbers (JArr js) = VList (map normalizeJSONNumbers js)"
| "normalizeJSONNumbers (JObj es) = VMap (put_all [] (map (\<lambda>(k, j). (k, normalizeJSONNumbers j)) es))"

subsection \<open>Parameters\<close>

definition marshal_params :: "params \<Rightarrow> json option" where
  "marshal_params ps = (case ps of None \<Rightarrow> Some JNull | Some es \<Rightarrow> marshal (VMap es))"

text \<open>Decoding into a map: null leaves it nil, another kind of value is an error.\<close>

definition params_from :: "(json \<Rightarrow> val) \<Rightarrow> json \<Rightarrow> params option" where
  "params_from decode j = (case j of JNull \<Rightarrow> Some None
     | JObj es \<Rightarrow> (case decode j of VMap vs \<Rightarrow> Some (Some vs) | _ \<Rightarrow> None) | _ \<Rightarrow> None)"

subsection \<open>Structs\<close>

text \<open>A parameter value inside a struct that is encoded and decoded by \<^verbatim>\<open>json.Unmarshal\<close>.\<close>

definition through_json :: "val \<Rightarrow> val option" where
  "through_json v = map_option unmarshal (marshal v)"

definition fix_str :: "string slice \<Rightarrow> string slice" where
  "fix_str s = map_option (map valid_utf8) s"

definition marshal_users :: "ResolvedUser gomap \<Rightarrow> ResolvedUser gomap" where
  "marshal_users us = map_option (\<lambda>es. put_all [] (sort_key fst (map (\<lambda>(k, u). (valid_utf8 k,
     u\<lparr>ru_Name := valid_utf8 (ru_Name u), ru_FullName := valid_utf8 (ru_FullName u),
       ru_PasswordCrypted := valid_utf8 (ru_PasswordCrypted u),
       ru_SSHAuthorizedKeys := fix_str (ru_SSHAuthorizedKeys u), ru_Groups := fix_str (ru_Groups u),
       ru_Shell := valid_utf8 (ru_Shell u), ru_Sudo := valid_utf8 (ru_Sudo u)\<rparr>)) es))) us"

definition marshal_fs :: "FilesystemConfig \<Rightarrow> FilesystemConfig" where
  "marshal_fs f = f\<lparr>fs_Mountpoint := valid_utf8 (fs_Mountpoint f), fs_FSType := valid_utf8 (fs_FSType f),
     fs_Size := valid_utf8 (fs_Size f)\<rparr>"

text \<open>
  A provisioning configuration after \<^verbatim>\<open>json.Marshal\<close> and \<^verbatim>\<open>json.Unmarshal\<close>. The unexported field
  \<^verbatim>\<open>absentFilesystems\<close> is not encoded, so it comes back nil.
\<close>

definition json_provisioning :: "ProvisioningConfig \<Rightarrow> ProvisioningConfig option" where
  "json_provisioning c =
     (case (through_json (enc_Passphrase (st_Encryption (pv_Storage c))),
            (case ins_ConfigParams (pv_Installer c) of None \<Rightarrow> Some VNil | Some es \<Rightarrow> through_json (VMap es))) of
        (Some pass, Some cps) \<Rightarrow>
          (let l = pv_Locale c; t = pv_Time c; n = pv_Network c; k = pv_Packages c; s = pv_Storage c;
               e = st_Encryption s; m = enc_TPM e; r = st_RAID s; b = pv_Boot c; rp = pv_Repos c; i = pv_Installer c
           in Some
             \<lparr>pv_Locale = \<lparr>loc_Language = valid_utf8 (loc_Language l), loc_Keyboard = valid_utf8 (loc_Keyboard l)\<rparr>,
              pv_Time = t\<lparr>time_Timezone := valid_utf8 (time_Timezone t)\<rparr>,
              pv_Network = \<lparr>net_Hostname = valid_utf8 (net_Hostname n), net_Bootproto = valid_utf8 (net_Bootproto n),
                net_Nameservers = fix_str (net_Nameservers n)\<rparr>,
              pv_Packages = \<lparr>pkg_Install = fix_str (pkg_Install k), pkg_Groups = fix_str (pkg_Groups k),
                pkg_UpdatePolicy = valid_utf8 (pkg_UpdatePolicy k)\<rparr>,
              pv_Storage = s\<lparr>st_Disk := valid_utf8 (st_Disk s), st_WipeDiskPatterns := fix_str (st_WipeDiskPatterns s),
                st_Mode := valid_utf8 (st_Mode s), st_VolumeGroup := valid_utf8 (st_VolumeGroup s),
                st_RAID := r\<lparr>raid_Devices := fix_str (raid_Devices r)\<rparr>,
                st_Encryption := e\<lparr>enc_Passphrase := pass, enc_Cipher := valid_utf8 (enc_Cipher e),
                  enc_Hash := valid_utf8 (enc_Hash e),
                  enc_TPM := m\<lparr>tpm_Device := valid_utf8 (tpm_Device m), tpm_PCRs := valid_utf8 (tpm_PCRs m),
                    tpm_Initramfs := valid_utf8 (tpm_Initramfs m)\<rparr>\<rparr>,
                st_Filesystems := map_option (\<lambda>es. put_all [] (sort_key fst
                  (map (\<lambda>(name, f). (valid_utf8 name, marshal_fs f)) es))) (st_Filesystems s),
                st_absentFilesystems := None\<rparr>,
              pv_Boot = b\<lparr>boot_Firmware := valid_utf8 (boot_Firmware b),
                boot_Netboot := \<lparr>nb_Method = valid_utf8 (nb_Method (boot_Netboot b)),
                  nb_KernelArgs = fix_str (nb_KernelArgs (boot_Netboot b))\<rparr>,
                boot_Installed := (boot_Installed b)\<lparr>ib_Bootloader := valid_utf8 (ib_Bootloader (boot_Installed b)),
                  ib_KernelArgs := fix_str (ib_KernelArgs (boot_Installed b))\<rparr>\<rparr>,
              pv_Repos = rp\<lparr>rep_OSMirror := valid_utf8 (rep_OSMirror rp), rep_Release := valid_utf8 (rep_Release rp)\<rparr>,
              pv_Installer = \<lparr>ins_ConfigTemplate = valid_utf8 (ins_ConfigTemplate i),
                ins_ConfigParams = (case cps of VMap vs \<Rightarrow> Some vs | _ \<Rightarrow> None),
                ins_LateCommands = fix_str (ins_LateCommands i),
                ins_ExtraTemplate = valid_utf8 (ins_ExtraTemplate i)\<rparr>\<rparr>)
      | _ \<Rightarrow> None)"

subsection \<open>Facts\<close>

lemma those_Some: "those xs = Some ys \<longleftrightarrow> xs = map Some ys"
proof (induction xs arbitrary: ys)
  case (Cons x xs)
  then show ?case by (cases x; cases ys) auto
qed auto

lemma those_None: "those xs = None \<longleftrightarrow> None \<in> set xs"
  by (induction xs) (auto split: option.splits)

lemma update_fresh: "k \<notin> fst ` set es \<Longrightarrow> AList.update k v es = es @ [(k, v)]"
  by (induction es) auto

lemma put_all_fresh: "distinct (map fst (dst @ src)) \<Longrightarrow> put_all dst src = dst @ src"
proof (induction dst src rule: put_all.induct)
  case (2 dst k v src)
  then have "AList.update k v dst = dst @ [(k, v)]"
    by (intro update_fresh) auto
  with 2 show ?case by simp
qed simp

lemma set_put_all: "set (map snd (put_all dst src)) \<subseteq> set (map snd dst) \<union> set (map snd src)"
proof (induction dst src rule: put_all.induct)
  case (2 dst k v src)
  have "set (map snd (AList.update k v dst)) \<subseteq> insert v (set (map snd dst))"
    by (induction dst) auto
  with 2 show ?case by auto
qed simp

text \<open>Texts a float can have in a JSON document.\<close>

definition finite_text :: "string \<Rightarrow> bool" where
  "finite_text t \<longleftrightarrow> t \<notin> {''NaN'', ''+Inf'', ''-Inf''}"

fun json_ok :: "json \<Rightarrow> bool" where
  "json_ok (JFloat t) = finite_text t"
| "json_ok (JArr js) = list_all json_ok js"
| "json_ok (JObj es) = list_all (\<lambda>(k, j). json_ok j) es"
| "json_ok _ = True"

lemma nat_str_digits: "c \<in> set (nat_str n) \<Longrightarrow> c \<in> set ''0123456789''"
proof (induction n rule: nat_str.induct)
  case (1 n)
  have "''0123456789'' ! (n mod 10) \<in> set ''0123456789''" by (rule nth_mem) simp
  moreover have "n < 10 \<Longrightarrow> ''0123456789'' ! n \<in> set ''0123456789''" by (rule nth_mem) simp
  ultimately show ?case using 1 by (subst (asm) nat_str.simps) (auto split: if_splits)
qed

lemma float_text_finite: "finite_text (float_text i)"
proof -
  have digits: "c \<in> set (nat_str n) \<Longrightarrow> c \<noteq> CHR ''N'' \<and> c \<noteq> CHR ''I''" for c n
    by (drule nat_str_digits) auto
  have strip: "set (strip_zeros s) \<subseteq> set s" for s
    by (auto simp: strip_zeros_def dest: set_dropWhileD)
  have "CHR ''N'' \<notin> set (float_text i) \<and> CHR ''I'' \<notin> set (float_text i)"
    using digits strip by (auto simp: float_text_def int_str_def Let_def dest!: in_set_takeD list.set_sel(2) [rotated] split: if_splits)
  then show ?thesis by (auto simp: finite_text_def)
qed

lemma marshal_ok: "marshal v = Some j \<Longrightarrow> json_ok j"
proof (induction v arbitrary: j rule: marshal.induct)
  case (6 es)
  then obtain js where js: "map (\<lambda>(k, v). marshal v) es = map Some js"
    and j: "j = JObj (sort_key fst (zip (map (valid_utf8 \<circ> fst) es) js))"
    by (auto simp: those_Some)
  have "json_ok x" if "x \<in> set js" for x
  proof -
    have "Some x \<in> set (map (\<lambda>(k, v). marshal v) es)" using js that by simp
    then obtain k v where "(k, v) \<in> set es" "marshal v = Some x" by auto
    with "6.IH" show ?thesis by blast
  qed
  then show ?case using j by (auto simp: list_all_iff dest: set_zip_rightD)
next
  case (7 vs)
  then obtain js where js: "map marshal vs = map Some js" and j: "j = JArr js" by (auto simp: those_Some)
  have "json_ok x" if "x \<in> set js" for x
  proof -
    have "Some x \<in> set (map marshal vs)" using js that by simp
    then obtain v where "v \<in> set vs" "marshal v = Some x" by auto
    with "7.IH" show ?thesis by blast
  qed
  then show ?case using j by (simp add: list_all_iff)
qed (auto simp: finite_text_def list_all_iff split: if_splits)

lemma marshal_map_Some:
  assumes "\<And>v. v \<in> set (map snd es) \<Longrightarrow> marshal v \<noteq> None"
  shows "marshal (VMap es) \<noteq> None"
proof -
  have "None \<notin> set (map (\<lambda>(k, v). marshal v) es)" using assms by force
  then show ?thesis by (simp add: those_None [symmetric] del: not_None_eq set_map)
qed

lemma marshal_decoded:
  assumes "json_ok j"
  shows "marshal (unmarshal j) \<noteq> None" and "marshal (normalizeJSONNumbers j) \<noteq> None"
proof -
  note fin = float_text_finite [unfolded finite_text_def]
  show "marshal (unmarshal j) \<noteq> None" using assms
  proof (induction j)
    case (JArr js)
    then show ?case by (auto simp: those_None list_all_iff eq_commute [of None] simp del: not_None_eq)
  next
    case (JObj es)
    have "marshal v \<noteq> None" if "v \<in> set (map snd (put_all [] (map (\<lambda>(k, j). (k, unmarshal j)) es)))" for v
      using subsetD [OF set_put_all that] JObj by (fastforce simp: list_all_iff snds.simps)
    then show ?case unfolding unmarshal.simps by (rule marshal_map_Some)
  qed (use fin in \<open>auto simp: finite_text_def\<close>)
  show "marshal (normalizeJSONNumbers j) \<noteq> None" using assms
  proof (induction j)
    case (JArr js)
    then show ?case by (auto simp: those_None list_all_iff eq_commute [of None] simp del: not_None_eq)
  next
    case (JObj es)
    have "marshal v \<noteq> None" if "v \<in> set (map snd (put_all [] (map (\<lambda>(k, j). (k, normalizeJSONNumbers j)) es)))" for v
      using subsetD [OF set_put_all that] JObj by (fastforce simp: list_all_iff snds.simps)
    then show ?case unfolding normalizeJSONNumbers.simps by (rule marshal_map_Some)
  qed (use fin in \<open>auto simp: finite_text_def\<close>)
qed

text \<open>
  Values that come back as they were: texts are UTF-8, integers fit 64 bits, lists are lists of any, and the
  keys of a map, which have no order in Go, are listed in increasing order. \<open>ints\<close> says whether the value may
  hold integers.
\<close>

fun canonical :: "bool \<Rightarrow> val \<Rightarrow> bool" where
  "canonical ints VNil = True"
| "canonical ints (VStr s) = is_utf8 s"
| "canonical ints (VBool b) = True"
| "canonical ints (VInt i) = (ints \<and> int64 i)"
| "canonical ints (VOther t) = finite_text t"
| "canonical ints (VMap es) =
     (sorted (map fst es) \<and> distinct (map fst es) \<and> list_all is_utf8 (map fst es)
      \<and> list_all (\<lambda>(k, v). canonical ints v) es)"
| "canonical ints (VList vs) = list_all (canonical ints) vs"
| "canonical ints (VStrs ss) = False"

lemma sort_key_sorted: "sorted (map f xs) \<Longrightarrow> sort_key f xs = xs"
  by (rule sort_key_id_if_sorted)

lemma marshal_VMap:
  assumes "\<forall>(k, v) \<in> set es. \<exists>j. marshal v = Some j \<and> decode j = v"
    and "sorted (map fst es)" "distinct (map fst es)" "list_all is_utf8 (map fst es)"
  shows "\<exists>js. marshal (VMap es) = Some (JObj js) \<and> put_all [] (map (\<lambda>(k, j). (k, decode j)) js) = es"
proof -
  let ?js = "map (\<lambda>(k, v). (k, the (marshal v))) es"
  have "map (\<lambda>(k, v). marshal v) es = map Some (map snd ?js)" using assms(1) by auto
  then have "those (map (\<lambda>(k, v). marshal v) es) = Some (map snd ?js)" by (simp only: those_Some)
  moreover have "zip (map (valid_utf8 \<circ> fst) es) (map snd ?js) = ?js"
    using assms(4) by (induction es) (auto simp: is_utf8_def)
  moreover have "sort_key fst ?js = ?js" using assms(2) by (intro sort_key_sorted) (simp add: comp_def case_prod_beta)
  moreover have "map (\<lambda>(k, j). (k, decode j)) ?js = es" using assms(1) by (induction es) auto
  moreover have "put_all [] es = es" using put_all_fresh [of "[]" es] assms(3) by simp
  ultimately show ?thesis
    by (intro exI [of _ ?js]) (simp only: marshal.simps option.map)
qed

lemma marshal_VList:
  assumes "\<forall>v \<in> set vs. \<exists>j. marshal v = Some j \<and> decode j = v"
  shows "\<exists>js. marshal (VList vs) = Some (JArr js) \<and> map decode js = vs"
proof -
  have "map marshal vs = map Some (map (the \<circ> marshal) vs)" using assms by auto
  moreover have "map decode (map (the \<circ> marshal) vs) = vs" using assms by (auto intro!: map_idI)
  ultimately show ?thesis by (intro exI [of _ "map (the \<circ> marshal) vs"]) (simp add: those_Some [THEN iffD2])
qed

lemma canonical_roundtrip:
  "canonical True v \<Longrightarrow> \<exists>j. marshal v = Some j \<and> normalizeJSONNumbers j = v"
proof (induction v)
  case (VMap es)
  then have "\<forall>(k, v) \<in> set es. \<exists>j. marshal v = Some j \<and> normalizeJSONNumbers j = v"
    by (fastforce simp: list_all_iff)
  from marshal_VMap [OF this] VMap.prems show ?case by force
next
  case (VList vs)
  then have "\<forall>v \<in> set vs. \<exists>j. marshal v = Some j \<and> normalizeJSONNumbers j = v"
    by (fastforce simp: list_all_iff)
  from marshal_VList [OF this] show ?case by force
qed (auto simp: is_utf8_def finite_text_def)

lemma canonical_float_roundtrip:
  "canonical False v \<Longrightarrow> \<exists>j. marshal v = Some j \<and> unmarshal j = v"
proof (induction v)
  case (VMap es)
  then have "\<forall>(k, v) \<in> set es. \<exists>j. marshal v = Some j \<and> unmarshal j = v"
    by (fastforce simp: list_all_iff)
  from marshal_VMap [OF this] VMap.prems show ?case by force
next
  case (VList vs)
  then have "\<forall>v \<in> set vs. \<exists>j. marshal v = Some j \<and> unmarshal j = v"
    by (fastforce simp: list_all_iff)
  from marshal_VList [OF this] show ?case by force
qed (auto simp: is_utf8_def finite_text_def)

end
