(* ===== verification/GoPath.thy ===== *)
theory GoPath
  imports Prelude
begin

text \<open>
  Lexical paths: \<^verbatim>\<open>filepath.Clean\<close>, \<^verbatim>\<open>filepath.Join\<close> and \<^verbatim>\<open>filepath.IsAbs\<close> on a Unix system.
\<close>

fun split_on :: "char \<Rightarrow> string \<Rightarrow> string list" where
  "split_on c [] = [[]]"
| "split_on c (d # s) =
     (if d = c then [] # split_on c s else (d # hd (split_on c s)) # tl (split_on c s))"

text \<open>The elements of the result so far, the last one first; \<open>rooted\<close> says that the path starts with a slash.\<close>

fun clean_elems :: "bool \<Rightarrow> string list \<Rightarrow> string list \<Rightarrow> string list" where
  "clean_elems rooted out [] = rev out"
| "clean_elems rooted out (e # es) =
     (if e = [] \<or> e = ''.'' then clean_elems rooted out es
      else if e = ''..'' then
        (if out \<noteq> [] \<and> hd out \<noteq> ''..'' then clean_elems rooted (tl out) es
         else if rooted then clean_elems rooted out es
         else clean_elems rooted (e # out) es)
      else clean_elems rooted (e # out) es)"

definition path_clean :: "string \<Rightarrow> string" where
  "path_clean p =
     (if p = [] then ''.''
      else let rooted = (hd p = CHR ''/''); es = clean_elems rooted [] (split_on CHR ''/'' p)
           in if rooted then ''/'' @ join ''/'' es else if es = [] then ''.'' else join ''/'' es)"

definition path_join :: "string list \<Rightarrow> string" where
  "path_join es = (let ne = filter (\<lambda>e. e \<noteq> []) es in if ne = [] then [] else path_clean (join ''/'' ne))"

definition path_is_abs :: "string \<Rightarrow> bool" where
  "path_is_abs p \<longleftrightarrow> hasPrefix p ''/''"

subsection \<open>Facts\<close>

lemma split_on_nonempty [simp]: "split_on c s \<noteq> []"
  by (cases s) simp_all

lemma split_on_free: "e \<in> set (split_on c s) \<Longrightarrow> c \<notin> set e"
proof (induction s arbitrary: e)
  case (Cons d s)
  obtain t ts where "split_on c s = t # ts" by (cases "split_on c s") auto
  with Cons show ?case by (auto split: if_splits)
qed simp

lemma split_on_join:
  "es \<noteq> [] \<Longrightarrow> \<forall>e \<in> set es. c \<notin> set e \<Longrightarrow> split_on c (join [c] es) = es"
proof (induction es)
  case (Cons e es)
  have free: "c \<notin> set x \<Longrightarrow> split_on c (x @ c # rest) = x # split_on c rest" for x rest
    by (induction x) auto
  have alone: "c \<notin> set x \<Longrightarrow> split_on c x = [x]" for x
    by (induction x) auto
  show ?case using Cons by (cases es) (auto simp: free alone)
qed simp

text \<open>Cleaned elements are plain names, after leading dot-dots that only a relative path keeps.\<close>

definition plain :: "string \<Rightarrow> bool" where
  "plain e \<longleftrightarrow> e \<noteq> [] \<and> e \<noteq> ''.'' \<and> e \<noteq> ''..'' \<and> CHR ''/'' \<notin> set e"

definition clean_form :: "bool \<Rightarrow> string list \<Rightarrow> bool" where
  "clean_form rooted es \<longleftrightarrow>
     (\<exists>n names. es = replicate n ''..'' @ names \<and> list_all plain names \<and> (rooted \<longrightarrow> n = 0))"

lemma clean_form_snoc: "clean_form rooted es \<Longrightarrow> plain e \<Longrightarrow> clean_form rooted (es @ [e])"
  unfolding clean_form_def by (elim exE conjE) (auto intro!: exI)

lemma clean_form_butlast: "clean_form rooted es \<Longrightarrow> clean_form rooted (butlast es)"
proof -
  assume "clean_form rooted es"
  then obtain n names where es: "es = replicate n ''..'' @ names" "list_all plain names" "rooted \<longrightarrow> n = 0"
    by (auto simp: clean_form_def)
  show ?thesis
  proof (cases "names = []")
    case True
    have "butlast (replicate n ''..'') = replicate (n - 1) ''..''"
      by (cases n) (simp_all add: replicate_append_same [symmetric])
    with es True show ?thesis
      unfolding clean_form_def by (intro exI [of _ "n - 1"] exI [of _ "[]"]) simp
  next
    case False
    with es show ?thesis
      unfolding clean_form_def
      by (intro exI [of _ n] exI [of _ "butlast names"]) (auto simp: butlast_append list_all_iff dest: in_set_butlastD)
  qed
qed

lemma clean_form_dotdot:
  assumes "clean_form False es" "es = [] \<or> last es = ''..''"
  shows "clean_form False (es @ [''..''])"
proof -
  obtain n names where es: "es = replicate n ''..'' @ names" "list_all plain names"
    using assms(1) by (auto simp: clean_form_def)
  have "names = []"
  proof (rule ccontr)
    assume "names \<noteq> []"
    with es have "plain (last names)" by (simp add: list_all_iff)
    moreover have "last names = ''..''" using \<open>names \<noteq> []\<close> es assms(2) by auto
    ultimately show False by (simp add: plain_def)
  qed
  with es show ?thesis unfolding clean_form_def
    by (intro exI [of _ "Suc n"] exI [of _ "[]"]) (simp add: replicate_append_same)
qed

lemma clean_elems_form:
  "clean_form rooted (rev out) \<Longrightarrow> \<forall>e \<in> set es. CHR ''/'' \<notin> set e \<Longrightarrow> clean_form rooted (clean_elems rooted out es)"
proof (induction rooted out es rule: clean_elems.induct)
  case (2 rooted out e es)
  have tl: "clean_form rooted (rev (tl out))"
    using clean_form_butlast [OF "2.prems"(1)] by (simp add: butlast_rev)
  have dd: "clean_form rooted (rev (''..'' # out))" if "\<not> rooted" "out = [] \<or> hd out = ''..''"
    using clean_form_dotdot [of "rev out"] "2.prems"(1) that by (auto simp: last_rev)
  have pl: "clean_form rooted (rev (e # out))" if "e \<noteq> []" "e \<noteq> ''.''" "e \<noteq> ''..''"
    using clean_form_snoc [OF "2.prems"(1), of e] "2.prems"(2) that by (simp add: plain_def)
  show ?case
    using "2.IH" "2.prems" tl dd pl by (cases "e = [] \<or> e = ''.''"; cases "e = ''..''") auto
qed simp

lemma clean_elems_plain:
  "list_all plain es \<Longrightarrow> clean_elems rooted out es = rev out @ es"
  by (induction rooted out es rule: clean_elems.induct) (auto simp: plain_def)

lemma clean_elems_dots:
  "(\<forall>e \<in> set out. e = ''..'') \<Longrightarrow> clean_elems False out (replicate n ''..'' @ es)
     = clean_elems False (replicate n ''..'' @ out) es"
proof (induction n arbitrary: out)
  case (Suc n)
  have shift: "replicate n ''..'' @ ''..'' # out = ''..'' # replicate n ''..'' @ out"
    by (metis append_Cons append_assoc append_Nil replicate_append_same)
  have "out = [] \<or> hd out = ''..''" using Suc.prems by (cases out) auto
  with Suc.IH [of "''..'' # out"] Suc.prems show ?case by (auto simp: shift)
qed simp

lemma clean_elems_id: "clean_form rooted es \<Longrightarrow> clean_elems rooted [] es = es"
  unfolding clean_form_def
  by (cases rooted) (auto simp: clean_elems_plain clean_elems_dots)

end
