(* ===== verification/Persistence.thy ===== *)
theory Persistence
  imports Json GoPath
begin

text \<open>
  The persistence boundary (package \<^verbatim>\<open>persistence\<close>): its records, its interfaces for server states and
  boot sessions as records of operations, the memory backend that implements them, and the backend
  configuration. A backend never shares memory with its callers, so its byte copies are left out.

  A time is the number of nanoseconds since the epoch, a ULID the number its 16 bytes spell. The clock,
  \<^verbatim>\<open>ulid.Make\<close> and the like are arguments. A JSON column is the document it holds, \<^const>\<open>None\<close> for no bytes.
\<close>

type_synonym time = int
type_synonym ulid = nat

definition unix :: "time \<Rightarrow> int" where
  "unix t = t div 1000000000"

definition from_unix :: "int \<Rightarrow> time" where
  "from_unix s = s * 1000000000"

text \<open>The zero \<^verbatim>\<open>time.Time\<close>, midnight of 1 January of the year 1.\<close>

definition zero_time :: time where
  "zero_time = from_unix (- 62135596800)"

datatype store_error = NoRows | EncodeError string | DecodeError string | ConstraintError string

subsection \<open>Records\<close>

record TargetOption =
  to_Name :: string
  to_Script :: string
  to_Label :: string
  to_Environment :: string

record EventRecord =
  er_ID :: ulid
  er_Type :: int
  er_OccurredAt :: time
  er_MAC :: string
  er_IP :: string
  er_Hostname :: string
  er_BootType :: string
  er_Script :: string
  er_Message :: string
  er_ParamsJSON :: "json option"

record ServerStateRecord =
  sr_MAC :: string
  sr_IP :: string
  sr_Hostname :: string
  sr_Target :: string
  sr_Environment :: string
  sr_ParamsJSON :: "json option"
  sr_UsersJSON :: "ResolvedUser gomap option"
  sr_ProvisioningJSON :: "ProvisioningConfig option"
  sr_AllowedTargetsJSON :: "TargetOption slice option"
  sr_Retry :: int
  sr_LastAccess :: time

record BootSessionRecord =
  br_Ref :: string
  br_MAC :: string
  br_IP :: string
  br_Hostname :: string
  br_Target :: string
  br_Environment :: string
  br_ParamsJSON :: "json option"
  br_UsersJSON :: "ResolvedUser gomap option"
  br_ProvisioningJSON :: "ProvisioningConfig option"
  br_CreatedAt :: time
  br_ExpiresAt :: time

subsection \<open>Interfaces\<close>

text \<open>\<^verbatim>\<open>ServerStateCommands\<close> and \<^verbatim>\<open>ServerStateQueries\<close>; \<open>'p\<close> is the state of the backend.\<close>

record 'p ServerStateBackend =
  UpsertServerState :: "ServerStateRecord \<Rightarrow> 'p \<Rightarrow> store_error option \<times> 'p"
  DeleteServerState :: "string \<Rightarrow> 'p \<Rightarrow> (store_error + nat) \<times> 'p"
  DeleteServerStatesBefore :: "time \<Rightarrow> 'p \<Rightarrow> (store_error + nat) \<times> 'p"
  GetServerState :: "string \<Rightarrow> 'p \<Rightarrow> store_error + ServerStateRecord"
  ListServerStates :: "'p \<Rightarrow> store_error + ServerStateRecord list"

text \<open>\<^verbatim>\<open>BootSessionCommands\<close> and \<^verbatim>\<open>BootSessionQueries\<close>.\<close>

record 'p BootSessionBackend =
  CreateBootSession :: "BootSessionRecord \<Rightarrow> 'p \<Rightarrow> store_error option \<times> 'p"
  DeleteBootSessionsBefore :: "time \<Rightarrow> 'p \<Rightarrow> (store_error + nat) \<times> 'p"
  GetBootSession :: "string \<Rightarrow> time \<Rightarrow> 'p \<Rightarrow> store_error + BootSessionRecord"

subsection \<open>The memory backend\<close>

record store =
  ms_events :: "EventRecord list"
  ms_serverStates :: "ServerStateRecord entries"
  ms_bootSessions :: "BootSessionRecord entries"

definition new_store :: store where
  "new_store = \<lparr>ms_events = [], ms_serverStates = [], ms_bootSessions = []\<rparr>"

definition AppendEvent :: "ulid \<Rightarrow> EventRecord \<Rightarrow> store \<Rightarrow> ulid \<times> store" where
  "AppendEvent made e s =
     (let e = (if er_ID e = 0 then e\<lparr>er_ID := made\<rparr> else e)
      in (er_ID e, s\<lparr>ms_events := ms_events s @ [e]\<rparr>))"

text \<open>The loop of \<^verbatim>\<open>DeleteEventsBefore\<close>, over the events kept so far and their number removed.\<close>

fun deleteEventsLoop :: "time \<Rightarrow> EventRecord list \<Rightarrow> nat \<Rightarrow> EventRecord list \<Rightarrow> nat \<times> EventRecord list" where
  "deleteEventsLoop cutoff kept deleted [] = (deleted, kept)"
| "deleteEventsLoop cutoff kept deleted (e # es) =
     (if er_OccurredAt e < cutoff then deleteEventsLoop cutoff kept (deleted + 1) es
      else deleteEventsLoop cutoff (kept @ [e]) deleted es)"

definition DeleteEventsBefore :: "time \<Rightarrow> store \<Rightarrow> nat \<times> store" where
  "DeleteEventsBefore cutoff s =
     (let (deleted, kept) = deleteEventsLoop cutoff [] 0 (ms_events s) in (deleted, s\<lparr>ms_events := kept\<rparr>))"

definition ListEvents :: "store \<Rightarrow> EventRecord list" where
  "ListEvents s = ms_events s"

fun getEventLoop :: "ulid \<Rightarrow> EventRecord list \<Rightarrow> store_error + EventRecord" where
  "getEventLoop i [] = Inl NoRows"
| "getEventLoop i (e # es) = (if er_ID e = i then Inr e else getEventLoop i es)"

definition GetEvent :: "ulid \<Rightarrow> store \<Rightarrow> store_error + EventRecord" where
  "GetEvent i s = getEventLoop i (ms_events s)"

definition mem_UpsertServerState :: "ServerStateRecord \<Rightarrow> store \<Rightarrow> store_error option \<times> store" where
  "mem_UpsertServerState r s = (None, s\<lparr>ms_serverStates := AList.update (sr_MAC r) r (ms_serverStates s)\<rparr>)"

definition mem_DeleteServerState :: "string \<Rightarrow> store \<Rightarrow> (store_error + nat) \<times> store" where
  "mem_DeleteServerState mac s =
     (if map_of (ms_serverStates s) mac = None then (Inr 0, s)
      else (Inr 1, s\<lparr>ms_serverStates := AList.delete mac (ms_serverStates s)\<rparr>))"

text \<open>A loop that deletes the entries of a map that satisfy a condition, and counts them.\<close>

fun deleteWhere :: "('v \<Rightarrow> bool) \<Rightarrow> nat \<Rightarrow> 'v entries \<Rightarrow> 'v entries \<Rightarrow> nat \<times> 'v entries" where
  "deleteWhere old n m [] = (n, m)"
| "deleteWhere old n m ((k, v) # rest) =
     (if old v then deleteWhere old (n + 1) (AList.delete k m) rest else deleteWhere old n m rest)"

definition mem_DeleteServerStatesBefore :: "time \<Rightarrow> store \<Rightarrow> (store_error + nat) \<times> store" where
  "mem_DeleteServerStatesBefore cutoff s =
     (let (n, m) = deleteWhere (\<lambda>r. sr_LastAccess r < cutoff) 0 (ms_serverStates s) (ms_serverStates s)
      in (Inr n, s\<lparr>ms_serverStates := m\<rparr>))"

definition mem_GetServerState :: "string \<Rightarrow> store \<Rightarrow> store_error + ServerStateRecord" where
  "mem_GetServerState mac s = (case map_of (ms_serverStates s) mac of None \<Rightarrow> Inl NoRows | Some r \<Rightarrow> Inr r)"

definition mem_ListServerStates :: "store \<Rightarrow> store_error + ServerStateRecord list" where
  "mem_ListServerStates s = Inr (map snd (ms_serverStates s))"

definition mem_CreateBootSession :: "BootSessionRecord \<Rightarrow> store \<Rightarrow> store_error option \<times> store" where
  "mem_CreateBootSession b s = (None, s\<lparr>ms_bootSessions := AList.update (br_Ref b) b (ms_bootSessions s)\<rparr>)"

definition mem_DeleteBootSessionsBefore :: "time \<Rightarrow> store \<Rightarrow> (store_error + nat) \<times> store" where
  "mem_DeleteBootSessionsBefore cutoff s =
     (let (n, m) = deleteWhere (\<lambda>b. br_ExpiresAt b < cutoff) 0 (ms_bootSessions s) (ms_bootSessions s)
      in (Inr n, s\<lparr>ms_bootSessions := m\<rparr>))"

definition mem_GetBootSession :: "string \<Rightarrow> time \<Rightarrow> store \<Rightarrow> store_error + BootSessionRecord" where
  "mem_GetBootSession ref now s = (case map_of (ms_bootSessions s) ref of
     None \<Rightarrow> Inl NoRows | Some b \<Rightarrow> if \<not> br_ExpiresAt b > now then Inl NoRows else Inr b)"

definition memory_server_states :: "store ServerStateBackend" where
  "memory_server_states =
     \<lparr>UpsertServerState = mem_UpsertServerState, DeleteServerState = mem_DeleteServerState,
      DeleteServerStatesBefore = mem_DeleteServerStatesBefore, GetServerState = mem_GetServerState,
      ListServerStates = mem_ListServerStates\<rparr>"

definition memory_boot_sessions :: "store BootSessionBackend" where
  "memory_boot_sessions =
     \<lparr>CreateBootSession = mem_CreateBootSession, DeleteBootSessionsBefore = mem_DeleteBootSessionsBefore,
      GetBootSession = mem_GetBootSession\<rparr>"

subsection \<open>Configuration\<close>

record RetentionConfig =
  rc_Events :: time
  rc_EventsSweepInterval :: time
  rc_BootSessions :: time
  rc_BootSessionsSweepInterval :: time

record Config =
  cf_Backend :: string
  cf_Path :: string
  cf_Retention :: RetentionConfig

definition hour :: time where
  "hour = 3600 * 1000000000"

definition DefaultConfig :: Config where
  "DefaultConfig = \<lparr>cf_Backend = ''sqlite'', cf_Path = ''runtime/shoelaces.db'',
     cf_Retention = \<lparr>rc_Events = 720 * hour, rc_EventsSweepInterval = 24 * hour, rc_BootSessions = 24 * hour,
       rc_BootSessionsSweepInterval = hour\<rparr>\<rparr>"

definition set_dur :: "time \<Rightarrow> time \<Rightarrow> time" where
  "set_dur d dflt = (if d = 0 then dflt else d)"

definition ApplyDefaults :: "Config \<Rightarrow> Config" where
  "ApplyDefaults c =
     (let d = DefaultConfig; r = cf_Retention c; dr = cf_Retention d
      in c\<lparr>cf_Backend := (if cf_Backend c = [] then cf_Backend d else cf_Backend c),
           cf_Path := (if cf_Path c = [] then cf_Path d else cf_Path c),
           cf_Retention := \<lparr>rc_Events = set_dur (rc_Events r) (rc_Events dr),
             rc_EventsSweepInterval = set_dur (rc_EventsSweepInterval r) (rc_EventsSweepInterval dr),
             rc_BootSessions = set_dur (rc_BootSessions r) (rc_BootSessions dr),
             rc_BootSessionsSweepInterval = set_dur (rc_BootSessionsSweepInterval r) (rc_BootSessionsSweepInterval dr)\<rparr>\<rparr>)"

definition ValidateConfig :: "Config \<Rightarrow> bool" where
  "ValidateConfig c \<longleftrightarrow> cf_Backend c = ''sqlite'' \<or> cf_Backend c = ''memory''"

definition ResolvePath :: "string \<Rightarrow> Config \<Rightarrow> string" where
  "ResolvePath dataDir c =
     (let c = ApplyDefaults c in if path_is_abs (cf_Path c) then cf_Path c else path_join [dataDir, cf_Path c])"

subsection \<open>Facts\<close>

lemma deleteEventsLoop_filter:
  "deleteEventsLoop cutoff kept n es =
     (n + length (filter (\<lambda>e. er_OccurredAt e < cutoff) es), kept @ filter (\<lambda>e. \<not> er_OccurredAt e < cutoff) es)"
  by (induction cutoff kept n es rule: deleteEventsLoop.induct) auto

lemma getEventLoop_find:
  "getEventLoop i es = (case List.find (\<lambda>e. er_ID e = i) es of None \<Rightarrow> Inl NoRows | Some e \<Rightarrow> Inr e)"
  by (induction i es rule: getEventLoop.induct) auto

lemma deleteWhere_count: "fst (deleteWhere old n m es) = n + length (filter (old \<circ> snd) es)"
  by (induction old n m es rule: deleteWhere.induct) auto

lemma deleteWhere_lookup:
  "map_of (snd (deleteWhere old n m es)) k = (if \<exists>v. (k, v) \<in> set es \<and> old v then None else map_of m k)"
  by (induction old n m es rule: deleteWhere.induct) (auto split: if_splits)

lemma deleteWhere_self:
  assumes "distinct (map fst es)"
  shows "map_of (snd (deleteWhere old n es es)) k =
     (case map_of es k of None \<Rightarrow> None | Some v \<Rightarrow> if old v then None else Some v)"
proof -
  have "(k, v) \<in> set es \<longleftrightarrow> map_of es k = Some v" for v using assms by simp
  then show ?thesis by (simp add: deleteWhere_lookup split: option.splits)
qed

lemma deleteWhere_distinct: "distinct (map fst m) \<Longrightarrow> distinct (map fst (snd (deleteWhere old n m es)))"
  by (induction old n m es rule: deleteWhere.induct) (auto simp: distinct_delete)

text \<open>Every entry sits under the key that its record names.\<close>

definition keyed_by :: "('v \<Rightarrow> string) \<Rightarrow> 'v entries \<Rightarrow> bool" where
  "keyed_by f es \<longleftrightarrow> list_all (\<lambda>(k, v). f v = k) es"

lemma keyed_by_update: "keyed_by f es \<Longrightarrow> keyed_by f (AList.update (f x) x es)"
  unfolding keyed_by_def by (induction es) auto

lemma keyed_by_delete: "keyed_by f es \<Longrightarrow> keyed_by f (AList.delete x es)"
  unfolding keyed_by_def AList.delete_eq by (auto simp: list_all_iff)

lemma keyed_by_deleteWhere: "keyed_by f m \<Longrightarrow> keyed_by f (snd (deleteWhere old n m es))"
  by (induction old n m es rule: deleteWhere.induct) (auto intro: keyed_by_delete)

lemma keyed_by_lookup: "keyed_by f es \<Longrightarrow> map_of es k = Some v \<Longrightarrow> f v = k"
  by (auto simp: keyed_by_def list_all_iff dest!: map_of_SomeD)

lemma keyed_by_keys: "keyed_by f es \<Longrightarrow> map (f \<circ> snd) es = map fst es"
  by (auto simp: keyed_by_def list_all_iff)

lemmas keyed_by_intros = keyed_by_update keyed_by_delete keyed_by_deleteWhere

definition wf_store :: "store \<Rightarrow> bool" where
  "wf_store s \<longleftrightarrow> distinct (map fst (ms_serverStates s)) \<and> distinct (map fst (ms_bootSessions s))
     \<and> keyed_by sr_MAC (ms_serverStates s) \<and> keyed_by br_Ref (ms_bootSessions s)"

subsection \<open>The contract of a server-state backend\<close>

locale server_state_backend =
  fixes b :: "'p ServerStateBackend" and rows :: "'p \<Rightarrow> string \<Rightarrow> ServerStateRecord option" and ok :: "'p \<Rightarrow> bool"
  assumes upsert: "ok s \<Longrightarrow> \<exists>s'. UpsertServerState b r s = (None, s') \<and> ok s' \<and> rows s' = (rows s)(sr_MAC r \<mapsto> r)"
    and delete: "ok s \<Longrightarrow> \<exists>n s'. DeleteServerState b mac s = (Inr n, s') \<and> ok s' \<and> rows s' = (rows s)(mac := None)"
    and delete_before: "ok s \<Longrightarrow> \<exists>n s'. DeleteServerStatesBefore b cutoff s = (Inr n, s') \<and> ok s' \<and>
          rows s' = (\<lambda>mac. case rows s mac of None \<Rightarrow> None | Some r \<Rightarrow> if sr_LastAccess r < cutoff then None else Some r)"
    and get: "ok s \<Longrightarrow> GetServerState b mac s = (case rows s mac of None \<Rightarrow> Inl NoRows | Some r \<Rightarrow> Inr r)"
    and list: "ok s \<Longrightarrow> \<exists>rs. ListServerStates b s = Inr rs \<and> set rs = ran (rows s) \<and> distinct (map sr_MAC rs)"
    and keyed: "ok s \<Longrightarrow> rows s mac = Some r \<Longrightarrow> sr_MAC r = mac"
begin

lemma get_after_upsert:
  assumes "ok s" "UpsertServerState b r s = (e, s')"
  shows "GetServerState b (sr_MAC r) s' = Inr r"
proof -
  obtain s2 where "UpsertServerState b r s = (None, s2)" "ok s2" "rows s2 = (rows s)(sr_MAC r \<mapsto> r)"
    using upsert [OF assms(1)] by blast
  with assms(2) show ?thesis by (simp add: get)
qed

lemma get_after_delete:
  assumes "ok s" "DeleteServerState b mac s = (e, s')"
  shows "GetServerState b mac s' = Inl NoRows"
proof -
  obtain n s2 where "DeleteServerState b mac s = (Inr n, s2)" "ok s2" "rows s2 = (rows s)(mac := None)"
    using delete [OF assms(1)] by blast
  with assms(2) show ?thesis by (simp add: get)
qed

end

interpretation mem: server_state_backend memory_server_states "\<lambda>s. map_of (ms_serverStates s)" wf_store
proof (unfold_locales, goal_cases)
  case (1 s r)
  then show ?case
    by (auto simp: memory_server_states_def mem_UpsertServerState_def wf_store_def distinct_update
        intro: keyed_by_intros)
next
  case (2 s mac)
  then show ?case
    by (auto simp: memory_server_states_def mem_DeleteServerState_def wf_store_def distinct_delete delete_conv'
        intro: keyed_by_intros)
next
  case (3 s cutoff)
  then show ?case
    by (auto simp: memory_server_states_def mem_DeleteServerStatesBefore_def wf_store_def deleteWhere_distinct
        deleteWhere_self case_prod_beta Let_def intro: keyed_by_intros)
next
  case (4 s mac)
  then show ?case by (simp add: memory_server_states_def mem_GetServerState_def split: option.splits)
next
  case (5 s)
  then show ?case
    by (simp add: memory_server_states_def mem_ListServerStates_def ran_distinct keyed_by_keys wf_store_def)
next
  case (6 s mac r)
  then show ?case by (auto simp: wf_store_def intro: keyed_by_lookup)
qed

end
