(* ===== verification/Sqlite.thy ===== *)
theory Sqlite
  imports Persistence "HOL-Library.Product_Lexorder"
begin

text \<open>
  The SQLite backend (\<^verbatim>\<open>persistence/sqlite/store.go\<close>) over the queries in \<^verbatim>\<open>persistence/sqlite/db\<close>. A table is the
  list of its rows; a query does what its SQL text says, with the constraints of \<^verbatim>\<open>schema/001_initial.sql\<close>: the
  primary keys, and the columns that are not null. A nil byte slice is stored as NULL. Times are columns of
  nanoseconds, which \<^verbatim>\<open>UnixNano\<close> computes in 64 bits. An event ID is the number its 16 bytes spell, which orders
  like the bytes. Opening a database takes the drivers as arguments. Failures of an open database (I/O, a closed
  connection) are not modelled.
\<close>

subsection \<open>Rows\<close>

record sql_Event =
  qe_ID :: ulid
  qe_EventType :: int
  qe_OccurredAtUnixNano :: int
  qe_Mac :: string
  qe_Ip :: string
  qe_Hostname :: string
  qe_BootType :: string
  qe_Script :: string
  qe_Message :: string
  qe_ParamsJson :: "json option"

record sql_ServerState =
  qs_Mac :: string
  qs_Ip :: string
  qs_Hostname :: string
  qs_Target :: string
  qs_Environment :: string
  qs_ParamsJson :: "json option"
  qs_UsersJson :: "ResolvedUser gomap option"
  qs_ProvisioningJson :: "ProvisioningConfig option"
  qs_AllowedTargetsJson :: "TargetOption slice option"
  qs_Retry :: int
  qs_LastAccessUnixNano :: int

record sql_BootSession =
  qb_Ref :: string
  qb_Mac :: string
  qb_Ip :: string
  qb_Hostname :: string
  qb_Target :: string
  qb_Environment :: string
  qb_ParamsJson :: "json option"
  qb_UsersJson :: "ResolvedUser gomap option"
  qb_ProvisioningJson :: "ProvisioningConfig option"
  qb_CreatedAtUnixNano :: int
  qb_ExpiresAtUnixNano :: int

record database =
  db_events :: "sql_Event list"
  db_server_states :: "sql_ServerState list"
  db_boot_sessions :: "sql_BootSession list"

definition empty_database :: database where
  "empty_database = \<lparr>db_events = [], db_server_states = [], db_boot_sessions = []\<rparr>"

subsection \<open>Queries\<close>

text \<open>A column that must not be NULL.\<close>

definition not_null :: "string \<Rightarrow> 'a option \<Rightarrow> store_error option" where
  "not_null column v = check (v = None) (ConstraintError column)"

definition delete_rows :: "('r \<Rightarrow> bool) \<Rightarrow> 'r list \<Rightarrow> nat \<times> 'r list" where
  "delete_rows cond rows = (length (filter cond rows), filter (\<lambda>r. \<not> cond r) rows)"

definition select_one :: "('r \<Rightarrow> bool) \<Rightarrow> 'r list \<Rightarrow> store_error + 'r" where
  "select_one cond rows = (case List.find cond rows of None \<Rightarrow> Inl NoRows | Some r \<Rightarrow> Inr r)"

definition sql_InsertEvent :: "sql_Event \<Rightarrow> database \<Rightarrow> (store_error + ulid) \<times> database" where
  "sql_InsertEvent arg db =
     (case first_err [not_null ''events.params_json'' (qe_ParamsJson arg),
         check (list_ex (\<lambda>r. qe_ID r = qe_ID arg) (db_events db)) (ConstraintError ''events.id'')] of
        Some e \<Rightarrow> (Inl e, db)
      | None \<Rightarrow> (Inr (qe_ID arg), db\<lparr>db_events := db_events db @ [arg]\<rparr>))"

definition sql_DeleteEventsBefore :: "int \<Rightarrow> database \<Rightarrow> (store_error + nat) \<times> database" where
  "sql_DeleteEventsBefore occurredAtUnixNano db =
     (let (n, rows) = delete_rows (\<lambda>r. qe_OccurredAtUnixNano r < occurredAtUnixNano) (db_events db)
      in (Inr n, db\<lparr>db_events := rows\<rparr>))"

definition sql_ListEvents :: "database \<Rightarrow> sql_Event list" where
  "sql_ListEvents db = sort_key (\<lambda>r. (qe_OccurredAtUnixNano r, qe_ID r)) (db_events db)"

definition sql_GetEvent :: "ulid \<Rightarrow> database \<Rightarrow> store_error + sql_Event" where
  "sql_GetEvent i db = select_one (\<lambda>r. qe_ID r = i) (db_events db)"

text \<open>\<^verbatim>\<open>ON CONFLICT(mac) DO UPDATE\<close> replaces every other column of the row with that key.\<close>

fun upsert_row :: "sql_ServerState \<Rightarrow> sql_ServerState list \<Rightarrow> sql_ServerState list" where
  "upsert_row arg [] = [arg]"
| "upsert_row arg (r # rows) = (if qs_Mac r = qs_Mac arg then arg # rows else r # upsert_row arg rows)"

definition sql_UpsertServerState :: "sql_ServerState \<Rightarrow> database \<Rightarrow> store_error option \<times> database" where
  "sql_UpsertServerState arg db =
     (case first_err [not_null ''server_states.params_json'' (qs_ParamsJson arg),
         not_null ''server_states.users_json'' (qs_UsersJson arg),
         not_null ''server_states.provisioning_json'' (qs_ProvisioningJson arg),
         not_null ''server_states.allowed_targets_json'' (qs_AllowedTargetsJson arg)] of
        Some e \<Rightarrow> (Some e, db)
      | None \<Rightarrow> (None, db\<lparr>db_server_states := upsert_row arg (db_server_states db)\<rparr>))"

definition sql_DeleteServerState :: "string \<Rightarrow> database \<Rightarrow> (store_error + nat) \<times> database" where
  "sql_DeleteServerState mac db =
     (let (n, rows) = delete_rows (\<lambda>r. qs_Mac r = mac) (db_server_states db)
      in (Inr n, db\<lparr>db_server_states := rows\<rparr>))"

definition sql_DeleteServerStatesBefore :: "int \<Rightarrow> database \<Rightarrow> (store_error + nat) \<times> database" where
  "sql_DeleteServerStatesBefore lastAccessUnixNano db =
     (let (n, rows) = delete_rows (\<lambda>r. qs_LastAccessUnixNano r < lastAccessUnixNano) (db_server_states db)
      in (Inr n, db\<lparr>db_server_states := rows\<rparr>))"

definition sql_GetServerState :: "string \<Rightarrow> database \<Rightarrow> store_error + sql_ServerState" where
  "sql_GetServerState mac db = select_one (\<lambda>r. qs_Mac r = mac) (db_server_states db)"

definition sql_ListServerStates :: "database \<Rightarrow> sql_ServerState list" where
  "sql_ListServerStates db = sort_key qs_Mac (db_server_states db)"

definition sql_CreateBootSession :: "sql_BootSession \<Rightarrow> database \<Rightarrow> store_error option \<times> database" where
  "sql_CreateBootSession arg db =
     (case first_err [not_null ''boot_sessions.params_json'' (qb_ParamsJson arg),
         not_null ''boot_sessions.users_json'' (qb_UsersJson arg),
         not_null ''boot_sessions.provisioning_json'' (qb_ProvisioningJson arg),
         check (list_ex (\<lambda>r. qb_Ref r = qb_Ref arg) (db_boot_sessions db)) (ConstraintError ''boot_sessions.ref'')] of
        Some e \<Rightarrow> (Some e, db)
      | None \<Rightarrow> (None, db\<lparr>db_boot_sessions := db_boot_sessions db @ [arg]\<rparr>))"

definition sql_DeleteBootSessionsBefore :: "int \<Rightarrow> database \<Rightarrow> (store_error + nat) \<times> database" where
  "sql_DeleteBootSessionsBefore expiresAtUnixNano db =
     (let (n, rows) = delete_rows (\<lambda>r. qb_ExpiresAtUnixNano r < expiresAtUnixNano) (db_boot_sessions db)
      in (Inr n, db\<lparr>db_boot_sessions := rows\<rparr>))"

definition sql_GetBootSession :: "string \<Rightarrow> int \<Rightarrow> database \<Rightarrow> store_error + sql_BootSession" where
  "sql_GetBootSession ref expiresAtUnixNano db =
     select_one (\<lambda>r. qb_Ref r = ref \<and> qb_ExpiresAtUnixNano r > expiresAtUnixNano) (db_boot_sessions db)"

subsection \<open>The store\<close>

definition unixNano :: "time \<Rightarrow> int" where
  "unixNano t = (t + 2 ^ 63) mod 2 ^ 64 - 2 ^ 63"

definition fromUnixNano :: "int \<Rightarrow> time" where
  "fromUnixNano n = n"

definition defaultJSONObject :: "json option \<Rightarrow> json option" where
  "defaultJSONObject v = (if v = None then Some (JObj []) else v)"

definition eventRecordFromRow :: "sql_Event \<Rightarrow> EventRecord" where
  "eventRecordFromRow row =
     \<lparr>er_ID = qe_ID row, er_Type = qe_EventType row, er_OccurredAt = fromUnixNano (qe_OccurredAtUnixNano row),
      er_MAC = qe_Mac row, er_IP = qe_Ip row, er_Hostname = qe_Hostname row, er_BootType = qe_BootType row,
      er_Script = qe_Script row, er_Message = qe_Message row, er_ParamsJSON = qe_ParamsJson row\<rparr>"

definition serverStateFromRow :: "sql_ServerState \<Rightarrow> ServerStateRecord" where
  "serverStateFromRow row =
     \<lparr>sr_MAC = qs_Mac row, sr_IP = qs_Ip row, sr_Hostname = qs_Hostname row, sr_Target = qs_Target row,
      sr_Environment = qs_Environment row, sr_ParamsJSON = qs_ParamsJson row, sr_UsersJSON = qs_UsersJson row,
      sr_ProvisioningJSON = qs_ProvisioningJson row, sr_AllowedTargetsJSON = qs_AllowedTargetsJson row,
      sr_Retry = qs_Retry row, sr_LastAccess = fromUnixNano (qs_LastAccessUnixNano row)\<rparr>"

definition bootSessionFromRow :: "sql_BootSession \<Rightarrow> BootSessionRecord" where
  "bootSessionFromRow row =
     \<lparr>br_Ref = qb_Ref row, br_MAC = qb_Mac row, br_IP = qb_Ip row, br_Hostname = qb_Hostname row,
      br_Target = qb_Target row, br_Environment = qb_Environment row, br_ParamsJSON = qb_ParamsJson row,
      br_UsersJSON = qb_UsersJson row, br_ProvisioningJSON = qb_ProvisioningJson row,
      br_CreatedAt = fromUnixNano (qb_CreatedAtUnixNano row), br_ExpiresAt = fromUnixNano (qb_ExpiresAtUnixNano row)\<rparr>"

definition sq_AppendEvent :: "ulid \<Rightarrow> EventRecord \<Rightarrow> database \<Rightarrow> (store_error + ulid) \<times> database" where
  "sq_AppendEvent made event db =
     (let event = (if er_ID event = 0 then event\<lparr>er_ID := made\<rparr> else event)
      in sql_InsertEvent
           \<lparr>qe_ID = er_ID event, qe_EventType = er_Type event, qe_OccurredAtUnixNano = unixNano (er_OccurredAt event),
            qe_Mac = er_MAC event, qe_Ip = er_IP event, qe_Hostname = er_Hostname event, qe_BootType = er_BootType event,
            qe_Script = er_Script event, qe_Message = er_Message event,
            qe_ParamsJson = defaultJSONObject (er_ParamsJSON event)\<rparr> db)"

definition sq_DeleteEventsBefore :: "time \<Rightarrow> database \<Rightarrow> (store_error + nat) \<times> database" where
  "sq_DeleteEventsBefore cutoff db = sql_DeleteEventsBefore (unixNano cutoff) db"

definition sq_ListEvents :: "database \<Rightarrow> store_error + EventRecord list" where
  "sq_ListEvents db = Inr (map eventRecordFromRow (sql_ListEvents db))"

definition sq_GetEvent :: "ulid \<Rightarrow> database \<Rightarrow> store_error + EventRecord" where
  "sq_GetEvent i db = bindE (sql_GetEvent i db) (\<lambda>row. Inr (eventRecordFromRow row))"

definition sq_UpsertServerState :: "ServerStateRecord \<Rightarrow> database \<Rightarrow> store_error option \<times> database" where
  "sq_UpsertServerState state db = sql_UpsertServerState
     \<lparr>qs_Mac = sr_MAC state, qs_Ip = sr_IP state, qs_Hostname = sr_Hostname state, qs_Target = sr_Target state,
      qs_Environment = sr_Environment state, qs_ParamsJson = sr_ParamsJSON state, qs_UsersJson = sr_UsersJSON state,
      qs_ProvisioningJson = sr_ProvisioningJSON state, qs_AllowedTargetsJson = sr_AllowedTargetsJSON state,
      qs_Retry = sr_Retry state, qs_LastAccessUnixNano = unixNano (sr_LastAccess state)\<rparr> db"

definition sq_DeleteServerState :: "string \<Rightarrow> database \<Rightarrow> (store_error + nat) \<times> database" where
  "sq_DeleteServerState mac db = sql_DeleteServerState mac db"

definition sq_DeleteServerStatesBefore :: "time \<Rightarrow> database \<Rightarrow> (store_error + nat) \<times> database" where
  "sq_DeleteServerStatesBefore cutoff db = sql_DeleteServerStatesBefore (unixNano cutoff) db"

definition sq_GetServerState :: "string \<Rightarrow> database \<Rightarrow> store_error + ServerStateRecord" where
  "sq_GetServerState mac db = bindE (sql_GetServerState mac db) (\<lambda>row. Inr (serverStateFromRow row))"

definition sq_ListServerStates :: "database \<Rightarrow> store_error + ServerStateRecord list" where
  "sq_ListServerStates db = Inr (map serverStateFromRow (sql_ListServerStates db))"

definition sq_CreateBootSession :: "BootSessionRecord \<Rightarrow> database \<Rightarrow> store_error option \<times> database" where
  "sq_CreateBootSession session db = sql_CreateBootSession
     \<lparr>qb_Ref = br_Ref session, qb_Mac = br_MAC session, qb_Ip = br_IP session, qb_Hostname = br_Hostname session,
      qb_Target = br_Target session, qb_Environment = br_Environment session, qb_ParamsJson = br_ParamsJSON session,
      qb_UsersJson = br_UsersJSON session, qb_ProvisioningJson = br_ProvisioningJSON session,
      qb_CreatedAtUnixNano = unixNano (br_CreatedAt session), qb_ExpiresAtUnixNano = unixNano (br_ExpiresAt session)\<rparr> db"

definition sq_DeleteBootSessionsBefore :: "time \<Rightarrow> database \<Rightarrow> (store_error + nat) \<times> database" where
  "sq_DeleteBootSessionsBefore cutoff db = sql_DeleteBootSessionsBefore (unixNano cutoff) db"

definition sq_GetBootSession :: "string \<Rightarrow> time \<Rightarrow> database \<Rightarrow> store_error + BootSessionRecord" where
  "sq_GetBootSession ref now db = bindE (sql_GetBootSession ref (unixNano now) db) (\<lambda>row. Inr (bootSessionFromRow row))"

definition sqlite_server_states :: "database ServerStateBackend" where
  "sqlite_server_states =
     \<lparr>UpsertServerState = sq_UpsertServerState, DeleteServerState = sq_DeleteServerState,
      DeleteServerStatesBefore = sq_DeleteServerStatesBefore, GetServerState = sq_GetServerState,
      ListServerStates = sq_ListServerStates\<rparr>"

definition sqlite_boot_sessions :: "database BootSessionBackend" where
  "sqlite_boot_sessions =
     \<lparr>CreateBootSession = sq_CreateBootSession, DeleteBootSessionsBefore = sq_DeleteBootSessionsBefore,
      GetBootSession = sq_GetBootSession\<rparr>"

subsection \<open>Opening a database\<close>

text \<open>
  What opening uses of the system and of the drivers: making directories, opening a handle, the migrations, a ping, and the
  working directory. The result of opening is an error or a handle, with the handles that were closed on the way.
  \<open>escape\<close> is the encoding of a path in a URL.
\<close>

record 'h sql_driver =
  dr_mkdirAll :: "string \<Rightarrow> string option"
  dr_open :: "string \<Rightarrow> string + 'h"
  dr_migrate :: "'h \<Rightarrow> string option"
  dr_ping :: "'h \<Rightarrow> string option"
  dr_getwd :: "string + string"

datatype open_error =
    ParentDirectory string
  | OpenDatabase string
  | ApplyMigrations string
  | OpenReadOnlyError string

definition path_dir :: "string \<Rightarrow> string" where
  "path_dir p = path_clean (rev (dropWhile (\<lambda>c. c \<noteq> CHR ''/'') (rev p)))"

definition EnsureParentDir :: "'h sql_driver \<Rightarrow> string \<Rightarrow> string option" where
  "EnsureParentDir d path = dr_mkdirAll d (path_dir path)"

definition OpenWithLogger :: "'h sql_driver \<Rightarrow> string \<Rightarrow> (open_error + 'h) \<times> 'h list" where
  "OpenWithLogger d path =
     (case EnsureParentDir d path of
        Some e \<Rightarrow> (Inl (ParentDirectory e), [])
      | None \<Rightarrow>
          (case dr_open d path of
             Inl e \<Rightarrow> (Inl (OpenDatabase e), [])
           | Inr h \<Rightarrow> (case dr_migrate d h of Some e \<Rightarrow> (Inl (ApplyMigrations e), [h]) | None \<Rightarrow> (Inr h, []))))"

definition path_abs :: "string + string \<Rightarrow> string \<Rightarrow> string + string" where
  "path_abs getwd path = (if path_is_abs path then Inr (path_clean path) else map_sum id (\<lambda>wd. path_join [wd, path]) getwd)"

definition readOnlyDSN :: "(string \<Rightarrow> string) \<Rightarrow> string + string \<Rightarrow> string \<Rightarrow> string + string" where
  "readOnlyDSN escape getwd path = map_sum id (\<lambda>abs. ''file://'' @ escape abs @ ''?mode=ro'') (path_abs getwd path)"

definition OpenReadOnly :: "(string \<Rightarrow> string) \<Rightarrow> 'h sql_driver \<Rightarrow> string \<Rightarrow> (open_error + 'h) \<times> 'h list" where
  "OpenReadOnly escape d path =
     (case readOnlyDSN escape (dr_getwd d) path of
        Inl e \<Rightarrow> (Inl (OpenReadOnlyError e), [])
      | Inr dsn \<Rightarrow>
          (case dr_open d dsn of
             Inl e \<Rightarrow> (Inl (OpenReadOnlyError e), [])
           | Inr h \<Rightarrow> (case dr_ping d h of Some e \<Rightarrow> (Inl (OpenReadOnlyError e), [h]) | None \<Rightarrow> (Inr h, []))))"

subsection \<open>Operations as data\<close>

datatype backend_op =
    AppendOp ulid EventRecord
  | DeleteEventsOp time
  | ListEventsOp
  | GetEventOp ulid
  | UpsertOp ServerStateRecord
  | DeleteStateOp string
  | DeleteStatesOp time
  | GetStateOp string
  | ListStatesOp
  | CreateSessionOp BootSessionRecord
  | DeleteSessionsOp time
  | GetSessionOp string time

datatype answer =
    AnErr "store_error option"
  | AnID "store_error + ulid"
  | ACount "store_error + nat"
  | Events "store_error + EventRecord list"
  | AnEvent "store_error + EventRecord"
  | AState "store_error + ServerStateRecord"
  | AllStates "store_error + ServerStateRecord list"
  | ASession "store_error + BootSessionRecord"

fun sql_step :: "backend_op \<Rightarrow> database \<Rightarrow> answer \<times> database" where
  "sql_step (AppendOp made e) db = apfst AnID (sq_AppendEvent made e db)"
| "sql_step (DeleteEventsOp t) db = apfst ACount (sq_DeleteEventsBefore t db)"
| "sql_step ListEventsOp db = (Events (sq_ListEvents db), db)"
| "sql_step (GetEventOp i) db = (AnEvent (sq_GetEvent i db), db)"
| "sql_step (UpsertOp r) db = apfst AnErr (sq_UpsertServerState r db)"
| "sql_step (DeleteStateOp mac) db = apfst ACount (sq_DeleteServerState mac db)"
| "sql_step (DeleteStatesOp t) db = apfst ACount (sq_DeleteServerStatesBefore t db)"
| "sql_step (GetStateOp mac) db = (AState (sq_GetServerState mac db), db)"
| "sql_step ListStatesOp db = (AllStates (sq_ListServerStates db), db)"
| "sql_step (CreateSessionOp r) db = apfst AnErr (sq_CreateBootSession r db)"
| "sql_step (DeleteSessionsOp t) db = apfst ACount (sq_DeleteBootSessionsBefore t db)"
| "sql_step (GetSessionOp ref t) db = (ASession (sq_GetBootSession ref t db), db)"

text \<open>The memory backend; its lists have no order of their own, so they are compared in the order of the tables.\<close>

fun memory_step :: "backend_op \<Rightarrow> store \<Rightarrow> answer \<times> store" where
  "memory_step (AppendOp made e) s = apfst (\<lambda>i. AnID (Inr i)) (AppendEvent made e s)"
| "memory_step (DeleteEventsOp t) s = apfst (\<lambda>n. ACount (Inr n)) (DeleteEventsBefore t s)"
| "memory_step ListEventsOp s = (Events (Inr (sort_key (\<lambda>e. (er_OccurredAt e, er_ID e)) (ListEvents s))), s)"
| "memory_step (GetEventOp i) s = (AnEvent (GetEvent i s), s)"
| "memory_step (UpsertOp r) s = apfst AnErr (mem_UpsertServerState r s)"
| "memory_step (DeleteStateOp mac) s = apfst ACount (mem_DeleteServerState mac s)"
| "memory_step (DeleteStatesOp t) s = apfst ACount (mem_DeleteServerStatesBefore t s)"
| "memory_step (GetStateOp mac) s = (AState (mem_GetServerState mac s), s)"
| "memory_step ListStatesOp s = (AllStates (map_sum id (sort_key sr_MAC) (mem_ListServerStates s)), s)"
| "memory_step (CreateSessionOp r) s = apfst AnErr (mem_CreateBootSession r s)"
| "memory_step (DeleteSessionsOp t) s = apfst ACount (mem_DeleteBootSessionsBefore t s)"
| "memory_step (GetSessionOp ref t) s = (ASession (mem_GetBootSession ref t s), s)"

text \<open>
  What the callers guarantee: documents are present, times fit in 64 bits, and the generated event IDs and boot
  references are new.
\<close>

fun admissible :: "backend_op \<Rightarrow> store \<Rightarrow> bool" where
  "admissible (AppendOp made e) s \<longleftrightarrow> er_ParamsJSON e \<noteq> None \<and> int64 (er_OccurredAt e)
     \<and> list_all (\<lambda>x. er_ID x \<noteq> (if er_ID e = 0 then made else er_ID e)) (ms_events s)"
| "admissible (UpsertOp r) s \<longleftrightarrow> sr_ParamsJSON r \<noteq> None \<and> sr_UsersJSON r \<noteq> None \<and> sr_ProvisioningJSON r \<noteq> None
     \<and> sr_AllowedTargetsJSON r \<noteq> None \<and> int64 (sr_LastAccess r)"
| "admissible (CreateSessionOp r) s \<longleftrightarrow> br_ParamsJSON r \<noteq> None \<and> br_UsersJSON r \<noteq> None \<and> br_ProvisioningJSON r \<noteq> None
     \<and> int64 (br_CreatedAt r) \<and> int64 (br_ExpiresAt r) \<and> map_of (ms_bootSessions s) (br_Ref r) = None"
| "admissible (DeleteEventsOp t) s \<longleftrightarrow> int64 t"
| "admissible (DeleteStatesOp t) s \<longleftrightarrow> int64 t"
| "admissible (DeleteSessionsOp t) s \<longleftrightarrow> int64 t"
| "admissible (GetSessionOp ref t) s \<longleftrightarrow> int64 t"
| "admissible _ s \<longleftrightarrow> True"

fun sql_run :: "backend_op list \<Rightarrow> database \<Rightarrow> answer list \<times> database" where
  "sql_run [] db = ([], db)"
| "sql_run (op # ops) db = (case sql_step op db of (a, db') \<Rightarrow> apfst ((#) a) (sql_run ops db'))"

fun memory_run :: "backend_op list \<Rightarrow> store \<Rightarrow> answer list \<times> store" where
  "memory_run [] s = ([], s)"
| "memory_run (op # ops) s = (case memory_step op s of (a, s') \<Rightarrow> apfst ((#) a) (memory_run ops s'))"

fun admissible_run :: "backend_op list \<Rightarrow> store \<Rightarrow> bool" where
  "admissible_run [] s \<longleftrightarrow> True"
| "admissible_run (op # ops) s \<longleftrightarrow> admissible op s \<and> admissible_run ops (snd (memory_step op s))"

subsection \<open>Facts: tables and maps\<close>

definition abs_db :: "database \<Rightarrow> store" where
  "abs_db db =
     \<lparr>ms_events = map eventRecordFromRow (db_events db),
      ms_serverStates = map (\<lambda>r. (qs_Mac r, serverStateFromRow r)) (db_server_states db),
      ms_bootSessions = map (\<lambda>r. (qb_Ref r, bootSessionFromRow r)) (db_boot_sessions db)\<rparr>"

definition wf_db :: "database \<Rightarrow> bool" where
  "wf_db db \<longleftrightarrow> distinct (map qs_Mac (db_server_states db)) \<and> distinct (map qb_Ref (db_boot_sessions db))"

lemma unixNano_id [simp]: "int64 t \<Longrightarrow> unixNano t = t"
  by (simp add: unixNano_def int64_def)

lemma map_of_rows: "map_of (map (\<lambda>r. (key r, f r)) rows) k = map_option f (List.find (\<lambda>r. key r = k) rows)"
  by (induction rows) auto

lemma find_key:
  "distinct (map key rows) \<Longrightarrow> List.find (\<lambda>r. key r = k \<and> P r) rows =
     (case List.find (\<lambda>r. key r = k) rows of None \<Rightarrow> None | Some r \<Rightarrow> if P r then Some r else None)"
proof (induction rows)
  case (Cons x rows)
  have "List.find (\<lambda>r. key r = k \<and> P r) rows = None" if "key x = k"
    using Cons.prems that by (auto simp: find_None_iff image_iff)
  with Cons show ?case by simp
qed simp

lemma update_fresh_rows:
  "\<forall>x. x \<in> set rows \<longrightarrow> key x \<noteq> k \<Longrightarrow>
     AList.update k v (map (\<lambda>r. (key r, f r)) rows) = map (\<lambda>r. (key r, f r)) rows @ [(k, v)]"
  by (induction rows) auto

lemma delete_key_rows:
  "AList.delete k (map (\<lambda>r. (key r, f r)) rows) = map (\<lambda>r. (key r, f r)) (filter (\<lambda>r. key r \<noteq> k) rows)"
  by (induction rows) auto

lemma deleteWhere_filter:
  assumes "distinct (map fst m)" "set es \<subseteq> set m" "distinct (map fst es)"
  shows "snd (deleteWhere old n m es) = filter (\<lambda>kv. \<not> (kv \<in> set es \<and> old (snd kv))) m"
  using assms
proof (induction old n m es rule: deleteWhere.induct)
  case (1 old n m)
  then show ?case by simp
next
  case (2 old n m k v rest)
  have only: "kv \<in> set m \<Longrightarrow> fst kv = k \<Longrightarrow> kv = (k, v)" for kv
    using "2.prems"(1,2) by (metis eq_key_imp_eq_value list.set_intros(1) prod.collapse subsetD)
  show ?case
  proof (cases "old v")
    case True
    have d: "AList.delete k m = filter (\<lambda>kv. fst kv \<noteq> k) m" by (auto simp: AList.delete_eq case_prod_beta intro!: filter_cong)
    have "set rest \<subseteq> set (AList.delete k m)" using "2.prems" by (auto simp: d)
    moreover have "distinct (map fst (AList.delete k m))" using "2.prems"(1) by (rule distinct_delete)
    ultimately have "snd (deleteWhere old (n + 1) (AList.delete k m) rest)
        = filter (\<lambda>kv. \<not> (kv \<in> set rest \<and> old (snd kv))) (AList.delete k m)"
      using "2.IH"(1) [OF True] "2.prems"(3) by simp
    also have "\<dots> = filter (\<lambda>kv. \<not> (kv \<in> set ((k, v) # rest) \<and> old (snd kv))) m"
      unfolding d filter_filter
    proof (rule filter_cong [OF refl])
      fix kv
      assume "kv \<in> set m"
      with only [OF this] True show "(fst kv \<noteq> k \<and> \<not> (kv \<in> set rest \<and> old (snd kv))) =
          (\<not> (kv \<in> set ((k, v) # rest) \<and> old (snd kv)))"
        by (cases "fst kv = k") auto
    qed
    finally show ?thesis using True by simp
  next
    case False
    with "2.IH"(2) [OF False] "2.prems" have "snd (deleteWhere old n m rest) = filter (\<lambda>kv. \<not> (kv \<in> set rest \<and> old (snd kv))) m"
      by simp
    also have "\<dots> = filter (\<lambda>kv. \<not> (kv \<in> set ((k, v) # rest) \<and> old (snd kv))) m"
      using False by (intro filter_cong [OF refl]) auto
    finally show ?thesis using False by simp
  qed
qed

lemma deleteWhere_rows:
  assumes "distinct (map key rows)"
  shows "deleteWhere old 0 (map (\<lambda>r. (key r, f r)) rows) (map (\<lambda>r. (key r, f r)) rows)
    = (length (filter (\<lambda>r. old (f r)) rows), map (\<lambda>r. (key r, f r)) (filter (\<lambda>r. \<not> old (f r)) rows))"
proof (rule prod_eqI)
  let ?m = "map (\<lambda>r. (key r, f r)) rows"
  have "distinct (map fst ?m)" using assms by (simp add: comp_def)
  from deleteWhere_filter [OF this subset_refl this]
  have "snd (deleteWhere old 0 ?m ?m) = filter (\<lambda>kv. \<not> old (snd kv)) ?m" by (auto intro!: filter_cong)
  then show "snd (deleteWhere old 0 ?m ?m) = snd (length (filter (\<lambda>r. old (f r)) rows), map (\<lambda>r. (key r, f r)) (filter (\<lambda>r. \<not> old (f r)) rows))"
    by (simp add: filter_map comp_def)
qed (simp add: deleteWhere_count filter_map comp_def)

lemma upsert_row_update:
  "f arg = v \<Longrightarrow> map (\<lambda>r. (qs_Mac r, f r)) (upsert_row arg rows) = AList.update (qs_Mac arg) v (map (\<lambda>r. (qs_Mac r, f r)) rows)"
  by (induction rows) auto

lemma upsert_row_macs: "qs_Mac ` set (upsert_row arg rows) = insert (qs_Mac arg) (qs_Mac ` set rows)"
  by (induction rows) auto

lemma upsert_row_keys: "distinct (map qs_Mac rows) \<Longrightarrow> distinct (map qs_Mac (upsert_row arg rows))"
  by (induction rows) (auto simp: upsert_row_macs)

lemma sort_key_map: "sort_key g (map f xs) = map f (sort_key (\<lambda>x. g (f x)) xs)"
proof -
  have ins: "insort_key g (f x) (map f ys) = map f (insort_key (\<lambda>x. g (f x)) x ys)" for x ys
    by (induction ys) auto
  show ?thesis by (induction xs) (auto simp: ins)
qed

lemma find_map: "List.find P (map f xs) = map_option f (List.find (P \<circ> f) xs)"
  by (induction xs) auto

subsection \<open>Facts: one operation\<close>

lemma sql_step_refines:
  assumes "wf_db db" "admissible op (abs_db db)"
  shows "\<exists>db'. sql_step op db = (fst (memory_step op (abs_db db)), db') \<and> abs_db db' = snd (memory_step op (abs_db db)) \<and> wf_db db'"
proof (cases op)
  case (AppendOp made e)
  with assms show ?thesis
    by (cases "er_ID e = 0") (auto simp: sq_AppendEvent_def sql_InsertEvent_def AppendEvent_def Let_def abs_db_def eventRecordFromRow_def
        not_null_def check_def defaultJSONObject_def fromUnixNano_def wf_db_def list_all_iff list_ex_iff)
next
  case (DeleteEventsOp t)
  with assms show ?thesis
    by (auto simp: sq_DeleteEventsBefore_def sql_DeleteEventsBefore_def DeleteEventsBefore_def delete_rows_def
        deleteEventsLoop_filter abs_db_def wf_db_def eventRecordFromRow_def fromUnixNano_def filter_map comp_def)
next
  case ListEventsOp
  with assms show ?thesis
    by (simp add: sq_ListEvents_def sql_ListEvents_def ListEvents_def abs_db_def sort_key_map eventRecordFromRow_def fromUnixNano_def)
next
  case (GetEventOp i)
  with assms show ?thesis
    by (simp add: sq_GetEvent_def sql_GetEvent_def GetEvent_def getEventLoop_find abs_db_def find_map select_one_def comp_def
        eventRecordFromRow_def split: option.splits)
next
  case (UpsertOp r)
  with assms show ?thesis
    by (cases r) (auto simp: sq_UpsertServerState_def sql_UpsertServerState_def mem_UpsertServerState_def abs_db_def not_null_def
        check_def wf_db_def upsert_row_keys serverStateFromRow_def fromUnixNano_def upsert_row_update)
next
  case (DeleteStateOp mac)
  have one: "length (filter (\<lambda>r. qs_Mac r = qs_Mac x) rows) = Suc 0" if "distinct (map qs_Mac rows)" "x \<in> set rows" for x rows
    using that by (induction rows) (auto simp: filter_empty_conv image_iff)
  from DeleteStateOp assms one show ?thesis
    by (auto simp: sq_DeleteServerState_def sql_DeleteServerState_def mem_DeleteServerState_def abs_db_def delete_rows_def
        wf_db_def map_of_rows delete_key_rows find_None_iff distinct_map_filter filter_id_conv)
next
  case (DeleteStatesOp t)
  with assms show ?thesis
    by (auto simp: sq_DeleteServerStatesBefore_def sql_DeleteServerStatesBefore_def mem_DeleteServerStatesBefore_def abs_db_def
        delete_rows_def wf_db_def deleteWhere_rows distinct_map_filter serverStateFromRow_def fromUnixNano_def)
next
  case (GetStateOp mac)
  with assms show ?thesis
    by (simp add: sq_GetServerState_def sql_GetServerState_def mem_GetServerState_def abs_db_def map_of_rows select_one_def
        split: option.splits)
next
  case ListStatesOp
  with assms show ?thesis
    by (simp add: sq_ListServerStates_def sql_ListServerStates_def mem_ListServerStates_def abs_db_def sort_key_map
        serverStateFromRow_def comp_def)
next
  case (CreateSessionOp r)
  with assms show ?thesis
    by (cases r) (auto simp: sq_CreateBootSession_def sql_CreateBootSession_def mem_CreateBootSession_def abs_db_def not_null_def check_def
        wf_db_def bootSessionFromRow_def fromUnixNano_def map_of_rows find_None_iff list_ex_iff update_fresh_rows)
next
  case (DeleteSessionsOp t)
  with assms show ?thesis
    by (auto simp: sq_DeleteBootSessionsBefore_def sql_DeleteBootSessionsBefore_def mem_DeleteBootSessionsBefore_def abs_db_def
        delete_rows_def wf_db_def deleteWhere_rows distinct_map_filter bootSessionFromRow_def fromUnixNano_def)
next
  case (GetSessionOp ref t)
  with assms show ?thesis
    by (auto simp: sq_GetBootSession_def sql_GetBootSession_def mem_GetBootSession_def abs_db_def map_of_rows select_one_def
        wf_db_def find_key bootSessionFromRow_def fromUnixNano_def split: option.splits)
qed

lemma sql_run_refines:
  assumes "wf_db db" "admissible_run ops (abs_db db)"
  shows "\<exists>db'. sql_run ops db = (fst (memory_run ops (abs_db db)), db') \<and> abs_db db' = snd (memory_run ops (abs_db db)) \<and> wf_db db'"
  using assms
proof (induction ops arbitrary: db)
  case (Cons op ops)
  obtain db1 where step: "sql_step op db = (fst (memory_step op (abs_db db)), db1)"
      "abs_db db1 = snd (memory_step op (abs_db db))" "wf_db db1"
    using sql_step_refines [OF Cons.prems(1)] Cons.prems(2) by auto
  from Cons.IH [OF step(3)] Cons.prems(2) step(2) obtain db2 where
    rest: "sql_run ops db1 = (fst (memory_run ops (abs_db db1)), db2)" "abs_db db2 = snd (memory_run ops (abs_db db1))" "wf_db db2"
    by auto
  with step show ?case by (cases "memory_step op (abs_db db)") simp
qed simp

lemma empty_database_facts: "wf_db empty_database" "abs_db empty_database = new_store"
  by (simp_all add: wf_db_def abs_db_def empty_database_def new_store_def)


definition sample_session_record :: BootSessionRecord where
  "sample_session_record = \<lparr>br_Ref = ''r1'', br_MAC = ''aa'', br_IP = [], br_Hostname = [], br_Target = [], br_Environment = [],
     br_ParamsJSON = Some (JObj []), br_UsersJSON = Some None, br_ProvisioningJSON = Some zero_provisioning,
     br_CreatedAt = 5, br_ExpiresAt = 9\<rparr>"

definition sample_backend_ops :: "backend_op list" where
  "sample_backend_ops = [CreateSessionOp sample_session_record, GetSessionOp ''r1'' 8, GetSessionOp ''r1'' 9, DeleteSessionsOp 10,
     GetSessionOp ''r1'' 8]"


text \<open>
  Outside these conditions the backends differ: SQLite refuses a second session under one reference and a second
  event under one ID, while the memory store replaces the session and lists both events.
\<close>

lemma duplicate_reference_refused:
  assumes "sq_CreateBootSession b db = (None, db1)" "br_Ref b' = br_Ref b"
  shows "\<exists>e. sq_CreateBootSession b' db1 = (Some e, db1)"
  using assms
  by (auto simp: sq_CreateBootSession_def sql_CreateBootSession_def not_null_def check_def split: option.splits if_splits)

text \<open>A handle is given to the caller or closed, never both and never lost; nothing else is closed.\<close>

lemma opened_or_closed:
  "EnsureParentDir d path = None \<Longrightarrow> dr_open d path = Inr h \<Longrightarrow>
     OpenWithLogger d path = (Inr h, []) \<or> (\<exists>e. OpenWithLogger d path = (Inl e, [h]))"
  "readOnlyDSN escape (dr_getwd d) path = Inr dsn \<Longrightarrow> dr_open d dsn = Inr h \<Longrightarrow>
     OpenReadOnly escape d path = (Inr h, []) \<or> (\<exists>e. OpenReadOnly escape d path = (Inl e, [h]))"
  by (auto simp: OpenWithLogger_def OpenReadOnly_def split: option.splits)

text \<open>Opening for inspection makes no directory and applies no migration: it does not depend on either.\<close>

lemma read_only_changes_nothing:
  "OpenReadOnly escape (d\<lparr>dr_mkdirAll := mk, dr_migrate := up\<rparr>) path = OpenReadOnly escape d path"
  by (simp add: OpenReadOnly_def split: sum.splits option.splits)

end
