(* ===== verification/Contract.thy ===== *)
theory Contract
  imports Sqlite
begin

text \<open>
  The contract of the persistence backends (\<^verbatim>\<open>persistence/persistencetest/contract.go\<close>): three sequences of operations on
  fresh stores, each with what the answers have to be. A store is a step function on operations and its state; the
  identifiers \<^verbatim>\<open>ulid.Make\<close> generates are arguments. A missing answer of the right kind fails the contract, as
  \<^verbatim>\<open>require.NoError\<close> does.
\<close>

subsection \<open>Records\<close>

definition contract_now :: time where
  "contract_now = 1700000000 * 1000000000"

definition minute :: time where
  "minute = 60 * 1000000000"

definition old_event :: EventRecord where
  "old_event = \<lparr>er_ID = 0, er_Type = 1, er_OccurredAt = contract_now - hour, er_MAC = ''00:11:22:33:44:55'', er_IP = ''192.0.2.10'',
     er_Hostname = ''old-host'', er_BootType = [], er_Script = [], er_Message = ''old event'',
     er_ParamsJSON = Some (JObj [(''token'', JStr ''<redacted>'')])\<rparr>"

definition new_event :: EventRecord where
  "new_event = \<lparr>er_ID = 0, er_Type = 2, er_OccurredAt = contract_now, er_MAC = ''00:11:22:33:44:66'', er_IP = ''192.0.2.11'',
     er_Hostname = ''new-host'', er_BootType = ''Subnet Match'', er_Script = ''debian.ipxe'', er_Message = ''new event'',
     er_ParamsJSON = Some (JObj [(''role'', JStr ''db'')])\<rparr>"

definition json_user :: ResolvedUser where
  "json_user = \<lparr>ru_Name = [], ru_Primary = False, ru_System = False, ru_Locked = False, ru_FullName = [], ru_PasswordCrypted = [],
     ru_SSHAuthorizedKeys = None, ru_Groups = None, ru_Shell = [], ru_Sudo = []\<rparr>"

definition waiting_record :: ServerStateRecord where
  "waiting_record = \<lparr>sr_MAC = ''00:11:22:33:44:55'', sr_IP = ''192.0.2.10'', sr_Hostname = ''waiting-host'', sr_Target = ''NOTARGET'',
     sr_Environment = [], sr_ParamsJSON = Some (JObj [(''baseURL'', JStr ''shoelaces'')]),
     sr_UsersJSON = Some (Some [(''root'', json_user\<lparr>ru_System := True\<rparr>)]),
     sr_ProvisioningJSON = Some (zero_provisioning\<lparr>pv_Storage := zero_storage\<lparr>st_Disk := ''/dev/sda''\<rparr>\<rparr>),
     sr_AllowedTargetsJSON = Some (Some [\<lparr>to_Name = ''debian12'', to_Script = [], to_Label = [], to_Environment = []\<rparr>]),
     sr_Retry = 1, sr_LastAccess = contract_now - hour\<rparr>"

definition chosen_record :: ServerStateRecord where
  "chosen_record = waiting_record\<lparr>sr_Target := ''debian.ipxe'', sr_Environment := ''production'', sr_Retry := 2,
     sr_LastAccess := contract_now\<rparr>"

definition install_session :: BootSessionRecord where
  "install_session = \<lparr>br_Ref = ''ref-123'', br_MAC = ''00:11:22:33:44:55'', br_IP = ''192.0.2.10'', br_Hostname = ''install-host'',
     br_Target = ''debian.ipxe'', br_Environment = ''production'', br_ParamsJSON = Some (JObj [(''release'', JStr ''trixie'')]),
     br_UsersJSON = Some (Some [(''infra'', json_user\<lparr>ru_Primary := True\<rparr>)]),
     br_ProvisioningJSON = Some (zero_provisioning\<lparr>pv_Repos := (pv_Repos zero_provisioning)\<lparr>rep_Release := ''trixie''\<rparr>\<rparr>),
     br_CreatedAt = contract_now, br_ExpiresAt = contract_now + hour\<rparr>"

subsection \<open>Sequences\<close>

type_synonym 's step = "backend_op \<Rightarrow> 's \<Rightarrow> answer \<times> 's"

text \<open>\<open>after step op s k\<close> runs an operation and goes on with its answer and the store.\<close>

definition after :: "'s step \<Rightarrow> backend_op \<Rightarrow> 's \<Rightarrow> (answer \<Rightarrow> 's \<Rightarrow> bool) \<Rightarrow> bool" where
  "after step op s k = (case step op s of (a, s') \<Rightarrow> k a s')"

text \<open>The identifiers of the two events and the one that names no event.\<close>

definition events_contract :: "'s step \<Rightarrow> ulid \<Rightarrow> ulid \<Rightarrow> ulid \<Rightarrow> 's \<Rightarrow> bool" where
  "events_contract step id1 id2 other s =
     after step (AppendOp id1 old_event) s (\<lambda>a s. case a of AnID (Inr firstID) \<Rightarrow> firstID \<noteq> 0 \<and>
     after step (AppendOp id2 new_event) s (\<lambda>a s. case a of AnID (Inr secondID) \<Rightarrow> secondID \<noteq> 0 \<and> firstID \<noteq> secondID \<and>
     after step ListEventsOp s (\<lambda>a s. case a of Events (Inr events) \<Rightarrow> length events = 2
       \<and> er_ID (events ! 0) = firstID \<and> er_ID (events ! 1) = secondID \<and> er_Hostname (events ! 0) = ''old-host''
       \<and> er_ParamsJSON (events ! 1) = Some (JObj [(''role'', JStr ''db'')]) \<and>
     after step (GetEventOp secondID) s (\<lambda>a s. case a of AnEvent (Inr got) \<Rightarrow> er_ID got = secondID \<and> er_Hostname got = ''new-host''
       \<and> er_ParamsJSON got = Some (JObj [(''role'', JStr ''db'')]) \<and>
     after step (GetEventOp other) s (\<lambda>a s. a = AnEvent (Inl NoRows) \<and>
     after step (DeleteEventsOp (contract_now - minute)) s (\<lambda>a s. a = ACount (Inr 1) \<and>
     after step ListEventsOp s (\<lambda>a s. case a of Events (Inr events) \<Rightarrow> length events = 1 \<and> er_Hostname (events ! 0) = ''new-host''
       | _ \<Rightarrow> False))) | _ \<Rightarrow> False) | _ \<Rightarrow> False) | _ \<Rightarrow> False) | _ \<Rightarrow> False)"

definition states_contract :: "'s step \<Rightarrow> 's \<Rightarrow> bool" where
  "states_contract step s =
     after step (UpsertOp waiting_record) s (\<lambda>a s. a = AnErr None \<and>
     after step (UpsertOp chosen_record) s (\<lambda>a s. a = AnErr None \<and>
     after step (GetStateOp (sr_MAC chosen_record)) s (\<lambda>a s. case a of AState (Inr got) \<Rightarrow> sr_Target got = ''debian.ipxe''
       \<and> sr_Environment got = ''production'' \<and> sr_Retry got = 2 \<and> sr_AllowedTargetsJSON got = sr_AllowedTargetsJSON waiting_record \<and>
     after step ListStatesOp s (\<lambda>a s. case a of AllStates (Inr states) \<Rightarrow> length states = 1 \<and>
     after step (DeleteStatesOp (contract_now - minute)) s (\<lambda>a s. a = ACount (Inr 0) \<and>
     after step (DeleteStateOp (sr_MAC chosen_record)) s (\<lambda>a s. a = ACount (Inr 1) \<and>
     after step (GetStateOp (sr_MAC chosen_record)) s (\<lambda>a s. a = AState (Inl NoRows))))
       | _ \<Rightarrow> False) | _ \<Rightarrow> False)))"

definition sessions_contract :: "'s step \<Rightarrow> 's \<Rightarrow> bool" where
  "sessions_contract step s =
     after step (CreateSessionOp install_session) s (\<lambda>a s. a = AnErr None \<and>
     after step (GetSessionOp ''ref-123'' contract_now) s (\<lambda>a s. case a of ASession (Inr got) \<Rightarrow> br_Hostname got = ''install-host''
       \<and> br_ParamsJSON got = Some (JObj [(''release'', JStr ''trixie'')]) \<and>
     after step (GetSessionOp ''ref-123'' (contract_now + 2 * hour)) s (\<lambda>a s. a = ASession (Inl NoRows) \<and>
     after step (DeleteSessionsOp (contract_now + 2 * hour)) s (\<lambda>a s. a = ACount (Inr 1))) | _ \<Rightarrow> False))"

definition RunStoreContract :: "'s step \<Rightarrow> ulid \<Rightarrow> ulid \<Rightarrow> ulid \<Rightarrow> 's \<Rightarrow> bool" where
  "RunStoreContract step id1 id2 other fresh \<longleftrightarrow>
     events_contract step id1 id2 other fresh \<and> states_contract step fresh \<and> sessions_contract step fresh"

text \<open>The memory backend with its lists as it returns them.\<close>

fun raw_memory_step :: "store step" where
  "raw_memory_step ListEventsOp s = (Events (Inr (ListEvents s)), s)"
| "raw_memory_step ListStatesOp s = (AllStates (mem_ListServerStates s), s)"
| "raw_memory_step op s = memory_step op s"

subsection \<open>Facts\<close>

lemmas table_rows = not_null_def check_def delete_rows_def select_one_def defaultJSONObject_def unixNano_def fromUnixNano_def
  eventRecordFromRow_def serverStateFromRow_def bootSessionFromRow_def

lemmas sql_events = sql_InsertEvent_def sql_ListEvents_def sql_GetEvent_def sql_DeleteEventsBefore_def

lemmas sql_states = sql_UpsertServerState_def sql_ListServerStates_def sql_GetServerState_def sql_DeleteServerStatesBefore_def
  sql_DeleteServerState_def

lemmas sql_sessions = sql_CreateBootSession_def sql_GetBootSession_def sql_DeleteBootSessionsBefore_def

lemmas contract_times = contract_now_def hour_def minute_def int64_def

lemma memory_events:
  assumes "id1 \<noteq> 0" "id2 \<noteq> 0" "id1 \<noteq> id2" "other \<notin> {id1, id2}"
  shows "events_contract raw_memory_step id1 id2 other new_store"
  using assms
  by (simp add: events_contract_def after_def old_event_def new_event_def new_store_def AppendEvent_def ListEvents_def GetEvent_def
      DeleteEventsBefore_def contract_times)

lemma memory_states: "states_contract raw_memory_step new_store"
  by (simp add: states_contract_def after_def chosen_record_def waiting_record_def new_store_def mem_UpsertServerState_def
      mem_GetServerState_def mem_ListServerStates_def mem_DeleteServerStatesBefore_def mem_DeleteServerState_def contract_times)

lemma memory_sessions: "sessions_contract raw_memory_step new_store"
  by (simp add: sessions_contract_def after_def install_session_def new_store_def mem_CreateBootSession_def mem_GetBootSession_def
      mem_DeleteBootSessionsBefore_def contract_times)

lemma sqlite_events:
  assumes "id1 \<noteq> 0" "id2 \<noteq> 0" "id1 \<noteq> id2" "other \<notin> {id1, id2}"
  shows "events_contract sql_step id1 id2 other empty_database"
  using assms
  by (simp add: events_contract_def after_def old_event_def new_event_def empty_database_def sq_AppendEvent_def sq_ListEvents_def
      sq_GetEvent_def sq_DeleteEventsBefore_def sql_events table_rows contract_times)

lemma sqlite_states: "states_contract sql_step empty_database"
  by (simp add: states_contract_def after_def chosen_record_def waiting_record_def empty_database_def sq_UpsertServerState_def
      sq_GetServerState_def sq_ListServerStates_def sq_DeleteServerStatesBefore_def sq_DeleteServerState_def sql_states table_rows
      contract_times)

lemma sqlite_sessions: "sessions_contract sql_step empty_database"
  by (simp add: sessions_contract_def after_def install_session_def empty_database_def sq_CreateBootSession_def sq_GetBootSession_def
      sq_DeleteBootSessionsBefore_def sql_sessions table_rows contract_times)



end
