(* ===== verification/Utils.thy ===== *)
theory Utils
  imports Json GoPath GoNet
begin

text \<open>
  Small helpers (\<^verbatim>\<open>utils/utils.go\<close>) and the redaction of secrets before parameters reach a log, an event
  or an answer (\<^verbatim>\<open>utils/redact.go\<close>). The values are those of \<^typ>\<open>val\<close>; a \<^verbatim>\<open>[]string\<close> is the one of them that
  \<^verbatim>\<open>redactForLog\<close> sends through \<^verbatim>\<open>json.Marshal\<close> and \<^verbatim>\<open>json.Unmarshal\<close>.
\<close>

subsection \<open>Helpers\<close>

definition Filter :: "string list \<Rightarrow> (string \<Rightarrow> bool) \<Rightarrow> string list" where
  "Filter files fn = filter fn files"

fun StringInSlice :: "string \<Rightarrow> string list \<Rightarrow> bool" where
  "StringInSlice a [] = False"
| "StringInSlice a (b # list) = (if b = a then True else StringInSlice a list)"

definition KeyInMap :: "string \<Rightarrow> 'v gomap \<Rightarrow> bool" where
  "KeyInMap key mapInput \<longleftrightarrow> lookup_map mapInput key \<noteq> None"

fun MapToStringLoop :: "string \<Rightarrow> val entries \<Rightarrow> string" where
  "MapToStringLoop result [] = result"
| "MapToStringLoop result ((k, v) # rest) =
     MapToStringLoop ((if result \<noteq> [] then result @ '', '' else result) @ k @ '':'' @ sprint v) rest"

definition MapToString :: "params \<Rightarrow> string" where
  "MapToString mapInput = MapToStringLoop [] (entries mapInput)"

definition BaseURLforEnvName :: "string \<Rightarrow> string \<Rightarrow> string" where
  "BaseURLforEnvName baseURL environment =
     (if environment \<noteq> [] then path_join [baseURL, ''env'', environment] else baseURL)"

definition IsValidIP :: "string \<Rightarrow> bool" where
  "IsValidIP ip \<longleftrightarrow> ParseIP ip \<noteq> None"

definition IsValidMAC :: "string \<Rightarrow> bool" where
  "IsValidMAC mac \<longleftrightarrow> ParseMAC mac \<noteq> None"

definition MacColonToDash :: "string \<Rightarrow> string" where
  "MacColonToDash mac = replace_char CHR '':'' CHR ''-'' mac"

definition MacDashToColon :: "string \<Rightarrow> string" where
  "MacDashToColon mac = replace_char CHR ''-'' CHR '':'' mac"

subsection \<open>Redaction\<close>

definition redactedValue :: string where
  "redactedValue = ''[REDACTED]''"

definition sensitiveKeyFragments :: "string list" where
  "sensitiveKeyFragments =
     [''apikey'', ''authorizedkey'', ''credential'', ''passphrase'', ''password'', ''privatekey'', ''secret'', ''token'']"

definition normalizeParamKey :: "string \<Rightarrow> string" where
  "normalizeParamKey key =
     filter (\<lambda>r. CHR ''a'' \<le> r \<and> r \<le> CHR ''z'' \<or> CHR ''0'' \<le> r \<and> r \<le> CHR ''9'') (toLower key)"

definition IsSensitiveParamKey :: "string \<Rightarrow> bool" where
  "IsSensitiveParamKey key \<longleftrightarrow>
     key = ''users'' \<or> key = ''provisioning'' \<or> key = ''boot_ref'' \<or> hasPrefix key ''boot_ref_query''
     \<or> list_ex (contains (normalizeParamKey key)) sensitiveKeyFragments"

definition isStructuredContainer :: "val \<Rightarrow> bool" where
  "isStructuredContainer v = (case v of VMap _ \<Rightarrow> True | VList _ \<Rightarrow> True | VStrs _ \<Rightarrow> True | _ \<Rightarrow> False)"

definition isStructuredContextKey :: "string \<Rightarrow> bool" where
  "isStructuredContextKey key \<longleftrightarrow> key = ''users'' \<or> key = ''provisioning''"

definition shouldRedactLogValue :: "string \<Rightarrow> val \<Rightarrow> bool" where
  "shouldRedactLogValue key v =
     (if key = [] then False
      else if isStructuredContainer v \<and> isStructuredContextKey key then False
      else IsSensitiveParamKey key)"

text \<open>\<^verbatim>\<open>decodeStructuredValue\<close> of a \<^verbatim>\<open>[]string\<close>.\<close>

definition decodeStrings :: "string list \<Rightarrow> val" where
  "decodeStrings ss = (case marshal (VStrs ss) of None \<Rightarrow> VStr redactedValue | Some j \<Rightarrow> unmarshal j)"

fun redactForLog :: "string \<Rightarrow> val \<Rightarrow> val" where
  "redactForLog key (VMap es) =
     (if shouldRedactLogValue key (VMap es) then VStr redactedValue
      else VMap (map (\<lambda>(childKey, childValue). (childKey, redactForLog childKey childValue)) es))"
| "redactForLog key (VList vs) =
     (if shouldRedactLogValue key (VList vs) then VStr redactedValue
      else VList (map (\<lambda>childValue. redactForLog [] childValue) vs))"
| "redactForLog key (VStrs ss) =
     (if shouldRedactLogValue key (VStrs ss) then VStr redactedValue else decodeStrings ss)"
| "redactForLog key v = (if shouldRedactLogValue key v then VStr redactedValue else v)"

definition RedactForLog :: "val \<Rightarrow> val" where
  "RedactForLog v = redactForLog [] v"

text \<open>\<open>decode\<close> is \<^verbatim>\<open>json.Unmarshal\<close> of a text, \<open>lookupAddr\<close> is \<^verbatim>\<open>net.LookupAddr\<close>, which gives a name or an error.\<close>

definition RedactJSONForLog :: "(string \<Rightarrow> val option) \<Rightarrow> string \<Rightarrow> val" where
  "RedactJSONForLog decode raw =
     (if raw = [] then VNil else case decode raw of None \<Rightarrow> VStr redactedValue | Some v \<Rightarrow> RedactForLog v)"

definition ResolveHostname :: "(string \<Rightarrow> string list option) \<Rightarrow> string \<Rightarrow> string" where
  "ResolveHostname lookupAddr ip = (case lookupAddr ip of None \<Rightarrow> [] | Some hosts \<Rightarrow> hd hosts)"

definition RedactParams :: "params \<Rightarrow> params" where
  "RedactParams ps = (case ps of None \<Rightarrow> None
     | Some es \<Rightarrow> Some (map (\<lambda>(key, v). (key, if IsSensitiveParamKey key then VStr redactedValue else RedactForLog v)) es))"

subsection \<open>Facts\<close>

lemma StringInSlice_iff [simp]: "StringInSlice a list \<longleftrightarrow> a \<in> set list"
  by (induction list) auto

lemma replace_char_back: "b \<notin> set s \<Longrightarrow> replace_char b a (replace_char a b s) = s"
  by (induction s) (auto simp: replace_char_def)

lemma MapToStringLoop_join:
  "result \<noteq> [] \<Longrightarrow> MapToStringLoop result es =
     join '', '' (result # map (\<lambda>(k, v). k @ '':'' @ sprint v) es)"
proof (induction es arbitrary: result)
  case (Cons e es)
  obtain k v where e: "e = (k, v)" by (cases e)
  have "join sep ((a @ b) # xs) = a @ join sep (b # xs)" for sep a b :: string and xs
    by (cases xs) simp_all
  from this [of "'', ''" "result @ '', ''" "k @ '':'' @ sprint v"] show ?case
    using Cons.prems by (simp add: e Cons.IH case_prod_beta)
qed simp

lemma decodeStrings_list: "decodeStrings ss = VList (map (VStr \<circ> valid_utf8) ss)"
  by (simp add: decodeStrings_def)

text \<open>The value \<^verbatim>\<open>redactForLog\<close> decodes has nothing more to hide: the recursive call returns it.\<close>

lemma redactForLog_decoded: "redactForLog [] (decodeStrings ss) = decodeStrings ss"
  by (simp add: decodeStrings_list shouldRedactLogValue_def)

text \<open>
  Values that differ at most in what the keys mark as secret, and the same for parameters, whose top level hides
  \<^verbatim>\<open>users\<close> and \<^verbatim>\<open>provisioning\<close> too.
\<close>

fun same_public :: "string \<Rightarrow> val \<Rightarrow> val \<Rightarrow> bool" where
  "same_public key (VMap es) (VMap fs) =
     (shouldRedactLogValue key (VMap es) \<or>
      list_all2 (\<lambda>(k, v) (l, w). k = l \<and> same_public k v w) es fs)"
| "same_public key (VList vs) (VList ws) =
     (shouldRedactLogValue key (VList vs) \<or> list_all2 (same_public []) vs ws)"
| "same_public key v w = (v = w \<or> (shouldRedactLogValue key v \<and> shouldRedactLogValue key w))"

definition same_public_params :: "params \<Rightarrow> params \<Rightarrow> bool" where
  "same_public_params ps qs \<longleftrightarrow> rel_option (list_all2 (\<lambda>(k, v) (l, w). k = l \<and> (IsSensitiveParamKey k \<or> same_public [] v w))) ps qs"

lemma MapToString_join: "MapToString (Some es) = join '', '' (map (\<lambda>(k, v). k @ '':'' @ sprint v) es)"
  by (cases es) (auto simp: MapToString_def MapToStringLoop_join)

lemma shouldRedact_same_kind:
  "isStructuredContainer v = isStructuredContainer w \<Longrightarrow> shouldRedactLogValue key v = shouldRedactLogValue key w"
  by (simp add: shouldRedactLogValue_def)

lemma redactForLog_hidden: "shouldRedactLogValue key v \<Longrightarrow> redactForLog key v = VStr redactedValue"
  by (cases v) simp_all

lemma map_public_eq:
  assumes "list_all2 (\<lambda>(k, v) (l, w). k = l \<and> R k v w) es fs"
    and "\<And>k v l w. (k, v) \<in> set es \<Longrightarrow> (l, w) \<in> set fs \<Longrightarrow> R k v w \<Longrightarrow> f k v = f k w"
  shows "map (\<lambda>(k, v). (k, f k v)) es = map (\<lambda>(k, v). (k, f k v)) fs"
  using assms by (induction rule: list_all2_induct) fastforce+

lemma redactForLog_public: "same_public key v w \<Longrightarrow> redactForLog key v = redactForLog key w"
proof (induction key v w rule: same_public.induct)
  case (1 key es fs)
  have same: "shouldRedactLogValue key (VMap es) = shouldRedactLogValue key (VMap fs)"
    by (rule shouldRedact_same_kind) (simp add: isStructuredContainer_def)
  show ?case
  proof (cases "shouldRedactLogValue key (VMap es)")
    case False
    with 1(2) have "list_all2 (\<lambda>(k, v) (l, w). k = l \<and> same_public k v w) es fs" by simp
    then have "map (\<lambda>(k, v). (k, redactForLog k v)) es = map (\<lambda>(k, v). (k, redactForLog k v)) fs"
      by (rule map_public_eq) (use 1(1) in fastforce)
    with False same show ?thesis by simp
  qed (use same in simp)
next
  case (2 key vs ws)
  have same: "shouldRedactLogValue key (VList vs) = shouldRedactLogValue key (VList ws)"
    by (rule shouldRedact_same_kind) (simp add: isStructuredContainer_def)
  show ?case
  proof (cases "shouldRedactLogValue key (VList vs)")
    case False
    with 2(2) have "list_all2 (same_public []) vs ws" by simp
    then have "list_all2 (\<lambda>v w. redactForLog [] v = redactForLog [] w) vs ws"
      by (rule list.rel_mono_strong) (use 2(1) in blast)
    then have "map (redactForLog []) vs = map (redactForLog []) ws"
      by (simp add: list_all2_conv_all_nth list_eq_iff_nth_eq)
    with False same show ?thesis by simp
  qed (use same in simp)
qed (auto simp: redactForLog_hidden)

text \<open>What is logged of two blobs that differ only in secrets, or that both fail to decode, is the same.\<close>

lemma redacted_json_public:
  assumes "rel_option (same_public []) (decode raw) (decode raw')" "raw \<noteq> []" "raw' \<noteq> []"
  shows "RedactJSONForLog decode raw = RedactJSONForLog decode raw'"
  using assms redactForLog_public
  by (cases "decode raw"; cases "decode raw'") (auto simp: RedactJSONForLog_def RedactForLog_def)

lemma redactForLog_idem: "redactForLog key (redactForLog key v) = redactForLog key v"
proof (induction key v rule: redactForLog.induct)
  case (1 key es)
  show ?case
  proof (cases "shouldRedactLogValue key (VMap es)")
    case False
    then have "\<not> shouldRedactLogValue key (VMap (map (\<lambda>(k, v). (k, redactForLog k v)) es))"
      by (simp add: shouldRedactLogValue_def isStructuredContainer_def split: if_splits)
    with False 1 show ?thesis by auto
  qed simp
next
  case (2 key vs)
  show ?case
  proof (cases "shouldRedactLogValue key (VList vs)")
    case False
    then have "\<not> shouldRedactLogValue key (VList (map (redactForLog []) vs))"
      by (simp add: shouldRedactLogValue_def isStructuredContainer_def split: if_splits)
    with False 2 show ?thesis by auto
  qed simp
next
  case (3 key ss)
  have "shouldRedactLogValue key (VStrs ss) = shouldRedactLogValue key (decodeStrings ss)"
    by (rule shouldRedact_same_kind) (simp add: isStructuredContainer_def decodeStrings_list)
  then show ?case by (simp add: decodeStrings_list shouldRedactLogValue_def)
qed simp_all

lemma RedactParams_public:
  assumes "same_public_params ps qs"
  shows "RedactParams ps = RedactParams qs"
proof (cases ps)
  case None
  with assms show ?thesis by (simp add: same_public_params_def)
next
  case (Some es)
  with assms obtain fs where qs: "qs = Some fs"
    and rel: "list_all2 (\<lambda>(k, v) (l, w). k = l \<and> (IsSensitiveParamKey k \<or> same_public [] v w)) es fs"
    by (auto simp: same_public_params_def option_rel_Some1)
  from rel have "map (\<lambda>(k, v). (k, if IsSensitiveParamKey k then VStr redactedValue else RedactForLog v)) es
    = map (\<lambda>(k, v). (k, if IsSensitiveParamKey k then VStr redactedValue else RedactForLog v)) fs"
    by (rule map_public_eq) (auto simp: RedactForLog_def redactForLog_public)
  with Some qs show ?thesis by (simp add: RedactParams_def)
qed

subsection \<open>Properties\<close>

text \<open>
  C13. Redaction hides secrets: two parameter maps that differ only in values under sensitive keys, at any depth,
  are redacted to the same map, so nothing derived from the result depends on a secret.
\<close>

theorem redaction_hides_secrets:
  assumes "same_public_params ps qs"
  shows "RedactParams ps = RedactParams qs"
  using assms by (rule RedactParams_public)

definition sample_secret :: "string \<Rightarrow> params" where
  "sample_secret p = Some [(''Root-Password'', VStr p), (''disk'', VMap [(''api_key'', VStr p), (''size'', VInt 3)])]"

theorem redaction_hides_secrets_witness:
  "RedactParams (sample_secret ''hunter2'') = RedactParams (sample_secret ''other'')
    \<and> RedactParams (sample_secret ''hunter2'') = sample_secret ''[REDACTED]''"
proof -
  have "same_public_params (sample_secret ''hunter2'') (sample_secret ''other'')" by code_simp
  moreover have "RedactParams (sample_secret ''hunter2'') = sample_secret ''[REDACTED]''" by code_simp
  ultimately show ?thesis using redaction_hides_secrets [of "sample_secret ''hunter2''" "sample_secret ''other''"] by simp
qed

text \<open>Redacting twice changes nothing more, and redaction keeps every key and the order of the keys.\<close>

theorem redaction_idempotent:
  "RedactParams (RedactParams ps) = RedactParams ps \<and> map fst (entries (RedactParams ps)) = map fst (entries ps)"
proof (cases ps)
  case (Some es)
  then show ?thesis
    by (auto simp: RedactParams_def RedactForLog_def redactForLog_idem case_prod_beta)
qed (simp add: RedactParams_def)

lemma xtoi2_Some:
  "xtoi2 s e = Some x \<longleftrightarrow> (\<exists>a b rest m n. s = a # b # rest \<and> (rest \<noteq> [] \<longrightarrow> hd rest = e)
     \<and> hex_val a = Some m \<and> hex_val b = Some n \<and> x = of_nat (16 * m + n))"
proof (cases s)
  case (Cons a t)
  then show ?thesis by (cases t; cases "tl t") (auto simp: xtoi2_def split: option.splits)
qed (simp add: xtoi2_def)

lemma xtoi2_replace:
  assumes "xtoi2 s e = Some x" "hex_val a = None"
  shows "xtoi2 (replace_char a b s) (if e = a then b else e) = Some x"
proof -
  obtain c d rest m n where s: "s = c # d # rest" "rest \<noteq> [] \<Longrightarrow> hd rest = e" "hex_val c = Some m" "hex_val d = Some n"
    "x = of_nat (16 * m + n)" using assms(1) unfolding xtoi2_Some by blast
  have "c \<noteq> a" "d \<noteq> a" using s(3,4) assms(2) by auto
  with s(1) have "replace_char a b s = c # d # replace_char a b rest" by (simp add: replace_char_def)
  moreover have "replace_char a b rest \<noteq> [] \<Longrightarrow> hd (replace_char a b rest) = (if e = a then b else e)"
    using s(2) by (cases rest) (auto simp: replace_char_def)
  ultimately show ?thesis unfolding xtoi2_Some using s(3-5) by blast
qed

lemma mac_groups_replace:
  "mac_groups sep n s = Some hw \<Longrightarrow> hex_val a = None \<Longrightarrow>
   mac_groups (if sep = a then b else sep) n (replace_char a b s) = Some hw"
proof (induction n arbitrary: s hw)
  case (Suc n)
  have drop: "drop k (replace_char a b s) = replace_char a b (drop k s)" for k by (simp add: replace_char_def drop_map)
  from Suc.prems obtain x hw' where "xtoi2 s sep = Some x" "mac_groups sep n (drop 3 s) = Some hw'" "hw = x # hw'"
    by (auto split: option.splits)
  with Suc xtoi2_replace [of s sep x a b] show ?case by (simp add: drop)
qed simp

lemma mac_dotted_replace:
  "mac_dotted n s = Some hw \<Longrightarrow> hex_val a = None \<Longrightarrow> a \<noteq> CHR 0x00 \<Longrightarrow> a \<noteq> CHR ''.'' \<Longrightarrow>
   mac_dotted n (replace_char a b s) = Some hw"
proof (induction n arbitrary: s hw)
  case (Suc n)
  have map: "drop k (replace_char a b s) = replace_char a b (drop k s)" "take k (replace_char a b s) = replace_char a b (take k s)"
    for k by (simp_all add: replace_char_def drop_map take_map)
  from Suc.prems(1) obtain x y hw' where "xtoi2 (take 2 s) (CHR 0x00) = Some x" "xtoi2 (drop 2 s) (CHR ''.'') = Some y"
    "mac_dotted n (drop 5 s) = Some hw'" "hw = x # y # hw'" by (auto split: option.splits)
  with Suc xtoi2_replace [of "take 2 s" "CHR 0x00" x a b] xtoi2_replace [of "drop 2 s" "CHR ''.''" y a b]
  show ?case by (simp add: map)
qed simp

lemma ParseMAC_replace:
  assumes "ParseMAC s = Some hw" "(a, b) \<in> {(CHR '':'', CHR ''-''), (CHR ''-'', CHR '':'')}"
  shows "ParseMAC (replace_char a b s) = Some hw"
proof -
  have hex: "hex_val a = None" and ab: "a \<noteq> CHR 0x00" "a \<noteq> CHR ''.''" "b \<noteq> CHR ''.''"
    using assms(2) by (auto simp: hex_val_def)
  have len: "length s \<ge> 14" using assms(1) by (auto simp: ParseMAC_def split: if_splits)
  then have nth: "replace_char a b s ! k = (if s ! k = a then b else s ! k)" if "k < 14" for k
    using that by (simp add: replace_char_def)
  show ?thesis
  proof (cases "s ! 2 = CHR '':'' \<or> s ! 2 = CHR ''-''")
    case True
    then have "mac_groups (s ! 2) ((length s + 1) div 3) s = Some hw"
      and "(length s + 1) mod 3 = 0" "(length s + 1) div 3 \<in> {6, 8, 20}"
      using assms(1) len by (auto simp: ParseMAC_def Let_def split: if_splits)
    with mac_groups_replace [OF this(1) hex, of b] len True assms(2) show ?thesis
      by (auto simp: ParseMAC_def Let_def nth replace_char_def split: if_splits)
  next
    case False
    then have dot: "s ! 4 = CHR ''.''" and "mac_dotted (2 * (length s + 1) div 5 div 2) s = Some hw"
      and "(length s + 1) mod 5 = 0" "2 * (length s + 1) div 5 \<in> {6, 8, 20}"
      using assms(1) len by (auto simp: ParseMAC_def Let_def split: if_splits)
    with mac_dotted_replace [OF this(2) hex ab(1,2), of b] len False assms(2) show ?thesis
      by (auto simp: ParseMAC_def Let_def nth replace_char_def split: if_splits)
  qed
qed

text \<open>
  The URL spelling of a MAC address names the same hardware address: a MAC that parses still parses to the same
  bytes after either conversion, and converting a colon-separated one there and back gives it again.
\<close>

theorem mac_spellings:
  assumes "ParseMAC mac = Some hw"
  shows "ParseMAC (MacColonToDash mac) = Some hw \<and> ParseMAC (MacDashToColon mac) = Some hw
    \<and> (CHR ''-'' \<notin> set mac \<longrightarrow> MacDashToColon (MacColonToDash mac) = mac)"
  using ParseMAC_replace [OF assms] by (auto simp: MacColonToDash_def MacDashToColon_def replace_char_back)

lemma sample_mac: "ParseMAC ''06:66:de:ad:be:ef'' \<noteq> None"
  by code_simp

theorem mac_spellings_witness:
  "ParseMAC ''06-66-de-ad-be-ef'' = ParseMAC ''06:66:de:ad:be:ef'' \<and> IsValidMAC ''06-66-de-ad-be-ef''
    \<and> MacDashToColon ''06-66-de-ad-be-ef'' = ''06:66:de:ad:be:ef''"
proof -
  obtain hw where hw: "ParseMAC ''06:66:de:ad:be:ef'' = Some hw"
    by (cases "ParseMAC ''06:66:de:ad:be:ef''") (use sample_mac in simp_all)
  have "MacColonToDash ''06:66:de:ad:be:ef'' = ''06-66-de-ad-be-ef''" by code_simp
  with mac_spellings [OF hw] hw show ?thesis by (simp add: IsValidMAC_def)
qed

end
