(* ===== verification/ServerState.thy ===== *)
theory ServerState
  imports Persistence
begin

text \<open>
  Boot states of hosts (package \<^verbatim>\<open>server\<close>): the state of one host, the interface \<^verbatim>\<open>StateStore\<close> as a record of
  operations, its two implementations, the map in \<^verbatim>\<open>server.go\<close> and the adapter to a persistence backend in
  \<^verbatim>\<open>state_persistence.go\<close>, and the sweep of expired states. Locks only serialise the operations, each of
  which is one step here.
\<close>

subsection \<open>Data\<close>

record Server =
  sv_Mac :: string
  sv_IP :: string
  sv_Hostname :: string
  sv_AllowedTargets :: "TargetOption slice"

record State =
  se_Server :: Server
  se_Target :: string
  se_Environment :: string
  se_Params :: params
  se_Users :: "ResolvedUser gomap"
  se_Provisioning :: ProvisioningConfig
  se_Retry :: int
  se_LastAccess :: int

definition InitTarget :: string where
  "InitTarget = ''NOTARGET''"

definition StateExpireAfter :: time where
  "StateExpireAfter = 3 * 60 * 1000000000"

definition NewServer :: "string \<Rightarrow> string \<Rightarrow> string \<Rightarrow> Server" where
  "NewServer mac ip hostname = \<lparr>sv_Mac = mac, sv_IP = ip, sv_Hostname = hostname, sv_AllowedTargets = None\<rparr>"

definition copyTargetOptions :: "TargetOption slice \<Rightarrow> TargetOption slice" where
  "copyTargetOptions ts = (case ts of None \<Rightarrow> None | Some xs \<Rightarrow> Some xs)"

definition waiting_state :: "time \<Rightarrow> Server \<Rightarrow> TargetOption slice \<Rightarrow> State" where
  "waiting_state now srv targets =
     \<lparr>se_Server = srv\<lparr>sv_AllowedTargets := copyTargetOptions targets\<rparr>, se_Target = InitTarget, se_Environment = [],
      se_Params = None, se_Users = None, se_Provisioning = zero_provisioning, se_Retry = 1, se_LastAccess = unix now\<rparr>"

definition copyParams :: "params \<Rightarrow> params" where
  "copyParams ps = (case ps of None \<Rightarrow> None | Some es \<Rightarrow> Some es)"

definition copyUsers :: "ResolvedUser gomap \<Rightarrow> ResolvedUser gomap" where
  "copyUsers us = (case us of None \<Rightarrow> None
     | Some es \<Rightarrow> Some (map (\<lambda>(k, u). (k, u\<lparr>ru_SSHAuthorizedKeys := append_nil (ru_SSHAuthorizedKeys u),
                                        ru_Groups := append_nil (ru_Groups u)\<rparr>)) es))"

definition copyState :: "State \<Rightarrow> State" where
  "copyState s = s\<lparr>se_Server := (se_Server s)\<lparr>sv_AllowedTargets := copyTargetOptions (sv_AllowedTargets (se_Server s))\<rparr>,
     se_Params := copyParams (se_Params s), se_Users := copyUsers (se_Users s)\<rparr>"

text \<open>\<^verbatim>\<open>sort.Sort\<close> with \<^verbatim>\<open>Less\<close>: the MACs of a store are distinct, so the order is determined.\<close>

definition sortServers :: "Server list \<Rightarrow> Server list" where
  "sortServers s = sort_key sv_Mac s"

subsection \<open>The interface\<close>

record 's StateStore =
  QueueServer :: "time \<Rightarrow> Server \<Rightarrow> TargetOption slice \<Rightarrow> 's \<Rightarrow> store_error option \<times> 's"
  GetState :: "string \<Rightarrow> 's \<Rightarrow> store_error + State"
  SaveState :: "State \<Rightarrow> 's \<Rightarrow> store_error option \<times> 's"
  DeleteState :: "string \<Rightarrow> 's \<Rightarrow> store_error option \<times> 's"
  ListWaiting :: "'s \<Rightarrow> store_error + Server list"
  DeleteStatesBefore :: "time \<Rightarrow> 's \<Rightarrow> (store_error + nat) \<times> 's"

definition CleanExpiredStates :: "'s StateStore \<Rightarrow> time \<Rightarrow> 's \<Rightarrow> (store_error + nat) \<times> 's" where
  "CleanExpiredStates st cutoff s =
     (case ListWaiting st s of Inl e \<Rightarrow> (Inl e, s) | Inr _ \<Rightarrow> DeleteStatesBefore st cutoff s)"

text \<open>One turn of the loop of \<^verbatim>\<open>StartStateStoreCleaner\<close>; an error is only logged.\<close>

definition cleaner_tick :: "'s StateStore \<Rightarrow> time \<Rightarrow> 's \<Rightarrow> 's" where
  "cleaner_tick st now s = snd (CleanExpiredStates st (now - StateExpireAfter) s)"

subsection \<open>The map in memory\<close>

type_synonym States = "State entries"

definition AddServerWithTargets :: "time \<Rightarrow> Server \<Rightarrow> TargetOption slice \<Rightarrow> States \<Rightarrow> States" where
  "AddServerWithTargets now srv targets m = AList.update (sv_Mac srv) (waiting_state now srv targets) m"

definition AddServer :: "time \<Rightarrow> Server \<Rightarrow> States \<Rightarrow> States" where
  "AddServer now srv m = AddServerWithTargets now srv None m"

definition DeleteServer :: "string \<Rightarrow> States \<Rightarrow> States" where
  "DeleteServer mac m = AList.delete mac m"

definition states_QueueServer :: "time \<Rightarrow> Server \<Rightarrow> TargetOption slice \<Rightarrow> States \<Rightarrow> store_error option \<times> States" where
  "states_QueueServer now srv targets m = (None, AddServerWithTargets now srv targets m)"

definition states_GetState :: "string \<Rightarrow> States \<Rightarrow> store_error + State" where
  "states_GetState mac m = (case map_of m mac of None \<Rightarrow> Inl NoRows | Some s \<Rightarrow> Inr (copyState s))"

definition states_SaveState :: "State \<Rightarrow> States \<Rightarrow> store_error option \<times> States" where
  "states_SaveState s m = (None, AList.update (sv_Mac (se_Server s)) (copyState s) m)"

definition states_DeleteState :: "string \<Rightarrow> States \<Rightarrow> store_error option \<times> States" where
  "states_DeleteState mac m = (None, DeleteServer mac m)"

definition states_ListWaiting :: "States \<Rightarrow> store_error + Server list" where
  "states_ListWaiting m =
     Inr (sortServers (map se_Server (filter (\<lambda>s. se_Target s = InitTarget) (map snd m))))"

definition states_DeleteStatesBefore :: "time \<Rightarrow> States \<Rightarrow> (store_error + nat) \<times> States" where
  "states_DeleteStatesBefore cutoff m =
     (let (n, m') = deleteWhere (\<lambda>s. se_LastAccess s \<le> unix cutoff) 0 m m in (Inr n, m'))"

definition states_store :: "States StateStore" where
  "states_store = \<lparr>QueueServer = states_QueueServer, GetState = states_GetState, SaveState = states_SaveState,
     DeleteState = states_DeleteState, ListWaiting = states_ListWaiting, DeleteStatesBefore = states_DeleteStatesBefore\<rparr>"

text \<open>One turn of the loop of \<^verbatim>\<open>StartStateCleaner\<close>, and the sweep that reports no error.\<close>

definition StartStateCleaner :: "time \<Rightarrow> States \<Rightarrow> States" where
  "StartStateCleaner now m = cleaner_tick states_store now m"

definition cleanExpiredStates :: "int \<Rightarrow> States \<Rightarrow> nat \<times> States" where
  "cleanExpiredStates expireBefore m =
     (case CleanExpiredStates states_store (from_unix expireBefore) m of (Inl _, m) \<Rightarrow> (0, m) | (Inr removed, m) \<Rightarrow> (removed, m))"

subsection \<open>The adapter to a backend\<close>

definition marshal_targets :: "TargetOption slice \<Rightarrow> TargetOption slice" where
  "marshal_targets ts = map_option (map (\<lambda>t. \<lparr>to_Name = valid_utf8 (to_Name t), to_Script = valid_utf8 (to_Script t),
     to_Label = valid_utf8 (to_Label t), to_Environment = valid_utf8 (to_Environment t)\<rparr>)) ts"

definition recordFromState :: "State \<Rightarrow> store_error + ServerStateRecord" where
  "recordFromState s =
     (case marshal_params (se_Params s) of
        None \<Rightarrow> Inl (EncodeError ''params'')
      | Some paramsJSON \<Rightarrow>
          (case json_provisioning (se_Provisioning s) of
             None \<Rightarrow> Inl (EncodeError ''provisioning'')
           | Some provisioningJSON \<Rightarrow> Inr
               \<lparr>sr_MAC = sv_Mac (se_Server s), sr_IP = sv_IP (se_Server s), sr_Hostname = sv_Hostname (se_Server s),
                sr_Target = se_Target s, sr_Environment = se_Environment s, sr_ParamsJSON = Some paramsJSON,
                sr_UsersJSON = Some (marshal_users (se_Users s)), sr_ProvisioningJSON = Some provisioningJSON,
                sr_AllowedTargetsJSON = Some (marshal_targets (sv_AllowedTargets (se_Server s))),
                sr_Retry = se_Retry s, sr_LastAccess = from_unix (se_LastAccess s)\<rparr>))"

definition unmarshalStateParamsJSON :: "json option \<Rightarrow> params option" where
  "unmarshalStateParamsJSON encoded = (case encoded of None \<Rightarrow> Some None | Some j \<Rightarrow> params_from normalizeJSONNumbers j)"

definition stateFromRecord :: "ServerStateRecord \<Rightarrow> store_error + State" where
  "stateFromRecord r =
     (case unmarshalStateParamsJSON (sr_ParamsJSON r) of
        None \<Rightarrow> Inl (DecodeError ''params'')
      | Some ps \<Rightarrow> Inr
          \<lparr>se_Server = \<lparr>sv_Mac = sr_MAC r, sv_IP = sr_IP r, sv_Hostname = sr_Hostname r,
             sv_AllowedTargets = (case sr_AllowedTargetsJSON r of None \<Rightarrow> None | Some ts \<Rightarrow> ts)\<rparr>,
           se_Target = sr_Target r, se_Environment = sr_Environment r, se_Params = ps,
           se_Users = (case sr_UsersJSON r of None \<Rightarrow> None | Some us \<Rightarrow> us),
           se_Provisioning = (case sr_ProvisioningJSON r of None \<Rightarrow> zero_provisioning | Some p \<Rightarrow> p),
           se_Retry = sr_Retry r, se_LastAccess = unix (sr_LastAccess r)\<rparr>)"

definition ps_SaveState :: "'p ServerStateBackend \<Rightarrow> State \<Rightarrow> 'p \<Rightarrow> store_error option \<times> 'p" where
  "ps_SaveState b st s = (case recordFromState st of Inl e \<Rightarrow> (Some e, s) | Inr r \<Rightarrow> UpsertServerState b r s)"

definition ps_QueueServer :: "'p ServerStateBackend \<Rightarrow> time \<Rightarrow> Server \<Rightarrow> TargetOption slice \<Rightarrow> 'p \<Rightarrow> store_error option \<times> 'p" where
  "ps_QueueServer b now srv targets s = ps_SaveState b (waiting_state now srv targets) s"

definition ps_GetState :: "'p ServerStateBackend \<Rightarrow> string \<Rightarrow> 'p \<Rightarrow> store_error + State" where
  "ps_GetState b mac s = bindE (GetServerState b mac s) stateFromRecord"

definition ps_DeleteState :: "'p ServerStateBackend \<Rightarrow> string \<Rightarrow> 'p \<Rightarrow> store_error option \<times> 'p" where
  "ps_DeleteState b mac s = (case DeleteServerState b mac s of (Inl e, s') \<Rightarrow> (Some e, s') | (Inr _, s') \<Rightarrow> (None, s'))"

definition ps_ListWaiting :: "'p ServerStateBackend \<Rightarrow> 'p \<Rightarrow> store_error + Server list" where
  "ps_ListWaiting b s =
     bindE (ListServerStates b s) (\<lambda>rs. bindE (map_res stateFromRecord rs)
       (\<lambda>states. Inr (sortServers (map se_Server (filter (\<lambda>x. se_Target x = InitTarget) states)))))"

definition ps_DeleteStatesBefore :: "'p ServerStateBackend \<Rightarrow> time \<Rightarrow> 'p \<Rightarrow> (store_error + nat) \<times> 'p" where
  [simp]: "ps_DeleteStatesBefore b = DeleteServerStatesBefore b"

definition PersistentStateStore :: "'p ServerStateBackend \<Rightarrow> 'p StateStore" where
  "PersistentStateStore b = \<lparr>QueueServer = ps_QueueServer b, GetState = ps_GetState b, SaveState = ps_SaveState b,
     DeleteState = ps_DeleteState b, ListWaiting = ps_ListWaiting b, DeleteStatesBefore = ps_DeleteStatesBefore b\<rparr>"

subsection \<open>The contract of a state store\<close>

text \<open>
  The abstract specification of a store: for every MAC the target, the environment, the retry count and the last
  access of its state, changed by the operations polling performs.
\<close>

datatype store_op = OpQueue time Server "TargetOption slice" | OpSave State | OpDelete string | OpClean time

type_synonym skeletons = "string \<Rightarrow> (string \<times> string \<times> int \<times> int) option"

definition state_skeleton :: "State \<Rightarrow> string \<times> string \<times> int \<times> int" where
  "state_skeleton x = (se_Target x, se_Environment x, se_Retry x, se_LastAccess x)"

definition skeleton :: "(string \<Rightarrow> State option) \<Rightarrow> skeletons" where
  "skeleton v mac = map_option state_skeleton (v mac)"

definition observe :: "'s StateStore \<Rightarrow> 's \<Rightarrow> skeletons" where
  "observe st s mac = (case GetState st mac s of Inl _ \<Rightarrow> None | Inr x \<Rightarrow> Some (state_skeleton x))"

fun spec_op :: "skeletons \<Rightarrow> store_op \<Rightarrow> skeletons" where
  "spec_op v (OpQueue now srv ts) = v(sv_Mac srv \<mapsto> (InitTarget, [], 1, unix now))"
| "spec_op v (OpSave x) = v(sv_Mac (se_Server x) \<mapsto> state_skeleton x)"
| "spec_op v (OpDelete mac) = v(mac := None)"
| "spec_op v (OpClean now) = (\<lambda>mac. case v mac of None \<Rightarrow> None
     | Some (t, e, r, la) \<Rightarrow> if from_unix la < now - StateExpireAfter then None else Some (t, e, r, la))"

fun run_op :: "'s StateStore \<Rightarrow> 's \<Rightarrow> store_op \<Rightarrow> 's" where
  "run_op st s (OpQueue now srv ts) = snd (QueueServer st now srv ts s)"
| "run_op st s (OpSave x) = snd (SaveState st x s)"
| "run_op st s (OpDelete mac) = snd (DeleteState st mac s)"
| "run_op st s (OpClean now) = cleaner_tick st now s"

text \<open>The stores differ on a state whose last access is the cutoff to the nanosecond, so a sweep is not on a whole second.\<close>

fun legal_op :: "(State \<Rightarrow> State option) \<Rightarrow> store_op \<Rightarrow> bool" where
  "legal_op kept (OpSave x) = (kept x \<noteq> None)"
| "legal_op kept (OpClean now) = (now mod 1000000000 \<noteq> 0)"
| "legal_op kept _ = True"

text \<open>
  What polling relies on. \<open>view\<close> reads the states out of a store, \<open>ok\<close> is its invariant, and \<open>kept\<close> gives the
  state a saved one is read back as, \<^const>\<open>None\<close> when it cannot be saved.
\<close>

lemma whole_second: "now mod 1000000000 \<noteq> 0 \<Longrightarrow> from_unix a \<noteq> now - StateExpireAfter"
proof
  assume "now mod 1000000000 \<noteq> 0" "from_unix a = now - StateExpireAfter"
  then have "now = (a + 180) * 1000000000" by (simp add: from_unix_def StateExpireAfter_def)
  then have "now mod 1000000000 = 0" by (simp only: mod_mult_self2_is_0)
  with \<open>now mod 1000000000 \<noteq> 0\<close> show False by simp
qed

locale state_store =
  fixes st :: "'s StateStore" and view :: "'s \<Rightarrow> string \<Rightarrow> State option"
    and ok :: "'s \<Rightarrow> bool" and kept :: "State \<Rightarrow> State option"
  assumes get: "ok s \<Longrightarrow> GetState st mac s = (case view s mac of None \<Rightarrow> Inl NoRows | Some x \<Rightarrow> Inr x)"
    and save: "ok s \<Longrightarrow> kept x = Some x' \<Longrightarrow>
      \<exists>s'. SaveState st x s = (None, s') \<and> ok s' \<and> view s' = (view s)(sv_Mac (se_Server x) \<mapsto> x')"
    and save_fails: "ok s \<Longrightarrow> kept x = None \<Longrightarrow> \<exists>e. SaveState st x s = (Some e, s)"
    and queue: "ok s \<Longrightarrow> \<exists>s' x'. kept (waiting_state now srv ts) = Some x' \<and> QueueServer st now srv ts s = (None, s')
      \<and> ok s' \<and> view s' = (view s)(sv_Mac srv \<mapsto> x')"
    and delete: "ok s \<Longrightarrow> \<exists>s'. DeleteState st mac s = (None, s') \<and> ok s' \<and> view s' = (view s)(mac := None)"
    and list: "ok s \<Longrightarrow> \<exists>ws. ListWaiting st s = Inr ws \<and> sorted (map sv_Mac ws) \<and>
      set ws = {se_Server x |x mac. view s mac = Some x \<and> se_Target x = InitTarget}"
    and before: "ok s \<Longrightarrow> \<exists>n s'. DeleteStatesBefore st cutoff s = (Inr n, s') \<and> ok s' \<and>
      (\<forall>mac x. view s' mac = Some x \<longrightarrow> view s mac = Some x) \<and>
      (\<forall>mac x. view s mac = Some x \<longrightarrow> from_unix (se_LastAccess x) > cutoff \<longrightarrow> view s' mac = Some x) \<and>
      (\<forall>mac x. view s mac = Some x \<longrightarrow> from_unix (se_LastAccess x) < cutoff \<longrightarrow> view s' mac = None)"
    and kept_fields: "kept x = Some x' \<Longrightarrow> sv_Mac (se_Server x') = sv_Mac (se_Server x) \<and> se_Target x' = se_Target x
      \<and> se_Retry x' = se_Retry x \<and> se_LastAccess x' = se_LastAccess x \<and> se_Environment x' = se_Environment x"
    and keyed: "ok s \<Longrightarrow> view s mac = Some x \<Longrightarrow> sv_Mac (se_Server x) = mac"
    and savable: "ok s \<Longrightarrow> view s mac = Some x \<Longrightarrow> kept (x\<lparr>se_Retry := n, se_LastAccess := t\<rparr>) \<noteq> None"
begin

text \<open>A host that polled within the expiry window survives the sweep; one that did not is gone.\<close>

lemma cleaner_tick_before:
  assumes "ok s"
  obtains n where "DeleteStatesBefore st (now - StateExpireAfter) s = (Inr n, cleaner_tick st now s)"
proof -
  obtain ws where "ListWaiting st s = Inr ws" using list [OF assms] by blast
  moreover obtain n s' where "DeleteStatesBefore st (now - StateExpireAfter) s = (Inr n, s')"
    using before [OF assms] by blast
  ultimately show ?thesis by (intro that [of n]) (simp add: cleaner_tick_def CleanExpiredStates_def)
qed

lemma cleaner_sweep:
  assumes "ok s" "view s mac = Some x"
  shows "ok (cleaner_tick st now s)
    \<and> (from_unix (se_LastAccess x) > now - StateExpireAfter \<longrightarrow> view (cleaner_tick st now s) mac = Some x)
    \<and> (from_unix (se_LastAccess x) < now - StateExpireAfter \<longrightarrow> view (cleaner_tick st now s) mac = None)"
proof -
  obtain n where n: "DeleteStatesBefore st (now - StateExpireAfter) s = (Inr n, cleaner_tick st now s)"
    using cleaner_tick_before [OF assms(1)] by blast
  obtain n2 s2 where r: "DeleteStatesBefore st (now - StateExpireAfter) s = (Inr n2, s2)" "ok s2"
    "\<forall>mac x. view s mac = Some x \<longrightarrow> from_unix (se_LastAccess x) > now - StateExpireAfter \<longrightarrow> view s2 mac = Some x"
    "\<forall>mac x. view s mac = Some x \<longrightarrow> from_unix (se_LastAccess x) < now - StateExpireAfter \<longrightarrow> view s2 mac = None"
    using before [OF assms(1), of "now - StateExpireAfter"] by blast
  from n r(1) have "s2 = cleaner_tick st now s" by simp
  with r assms(2) show ?thesis by blast
qed

lemma cleaner_get:
  assumes "ok s" "GetState st mac s = Inr x"
  shows "(now - StateExpireAfter < from_unix (se_LastAccess x) \<longrightarrow> GetState st mac (cleaner_tick st now s) = Inr x)
    \<and> (from_unix (se_LastAccess x) < now - StateExpireAfter \<longrightarrow> GetState st mac (cleaner_tick st now s) = Inl NoRows)"
proof -
  have "view s mac = Some x" using assms by (simp add: get split: option.splits)
  from cleaner_sweep [OF assms(1) this, of now] show ?thesis by (simp add: get)
qed

lemma run_step:
  assumes "ok s" "legal_op kept oper"
  shows "ok (run_op st s oper) \<and> skeleton (view (run_op st s oper)) = spec_op (skeleton (view s)) oper"
proof (cases oper)
  case (OpQueue now srv ts)
  then obtain s' x' where "kept (waiting_state now srv ts) = Some x'" "QueueServer st now srv ts s = (None, s')"
    "ok s'" "view s' = (view s)(sv_Mac srv \<mapsto> x')" using queue [OF assms(1)] by blast
  with kept_fields OpQueue show ?thesis by (auto simp: skeleton_def state_skeleton_def waiting_state_def fun_eq_iff)
next
  case (OpSave x)
  with assms(2) obtain x' where x': "kept x = Some x'" by auto
  with save [OF assms(1)] obtain s' where "SaveState st x s = (None, s')" "ok s'"
    "view s' = (view s)(sv_Mac (se_Server x) \<mapsto> x')" by blast
  with kept_fields [OF x'] OpSave show ?thesis by (auto simp: skeleton_def state_skeleton_def fun_eq_iff)
next
  case (OpDelete mac)
  with delete [OF assms(1), of mac] show ?thesis by (auto simp: skeleton_def fun_eq_iff)
next
  case (OpClean now)
  obtain n where n: "DeleteStatesBefore st (now - StateExpireAfter) s = (Inr n, cleaner_tick st now s)"
    using cleaner_tick_before [OF assms(1)] by blast
  obtain n2 s2 where r: "DeleteStatesBefore st (now - StateExpireAfter) s = (Inr n2, s2)" "ok s2"
    "\<forall>mac x. view s2 mac = Some x \<longrightarrow> view s mac = Some x"
    using before [OF assms(1), of "now - StateExpireAfter"] by blast
  from n r(1) have s2: "s2 = cleaner_tick st now s" by simp
  from r(3) have sub: "view (cleaner_tick st now s) mac = Some x \<Longrightarrow> view s mac = Some x" for mac x
    unfolding s2 by blast
  from r(2) have "ok (cleaner_tick st now s)" unfolding s2 .
  moreover have "skeleton (view (cleaner_tick st now s)) mac = spec_op (skeleton (view s)) oper mac" for mac
  proof (cases "view s mac")
    case None
    with sub have "view (cleaner_tick st now s) mac = None" by (metis not_None_eq)
    with None OpClean show ?thesis by (simp add: skeleton_def)
  next
    case (Some x)
    have "from_unix (se_LastAccess x) \<noteq> now - StateExpireAfter"
      using assms(2) unfolding OpClean legal_op.simps by (rule whole_second)
    then consider "from_unix (se_LastAccess x) < now - StateExpireAfter"
      | "now - StateExpireAfter < from_unix (se_LastAccess x)" by (rule linorder_neqE)
    then show ?thesis
    proof cases
      case 1
      with cleaner_sweep [OF assms(1) Some, of now] have "view (cleaner_tick st now s) mac = None" by blast
      with 1 Some OpClean show ?thesis by (simp add: skeleton_def state_skeleton_def)
    next
      case 2
      with cleaner_sweep [OF assms(1) Some, of now] have "view (cleaner_tick st now s) mac = Some x" by blast
      moreover have "\<not> from_unix (se_LastAccess x) < now - StateExpireAfter" using 2 by (rule order_less_not_sym)
      ultimately show ?thesis using Some OpClean by (simp only: skeleton_def state_skeleton_def spec_op.simps
        option.map option.case prod.case if_False)
    qed
  qed
  ultimately show ?thesis using OpClean by (auto simp: fun_eq_iff)
qed

lemma run_refines:
  "ok s \<Longrightarrow> list_all (legal_op kept) ops \<Longrightarrow>
   ok (foldl (run_op st) s ops) \<and> skeleton (view (foldl (run_op st) s ops)) = foldl spec_op (skeleton (view s)) ops"
proof (induction ops arbitrary: s)
  case (Cons oper ops)
  then show ?case using run_step [of s oper] by simp
qed simp

lemma observe_skeleton: "ok s \<Longrightarrow> observe st s = skeleton (view s)"
  by (auto simp: observe_def skeleton_def get fun_eq_iff split: option.splits)

end

subsection \<open>The map in memory keeps the contract\<close>

lemma copyTargetOptions_id [simp]: "copyTargetOptions ts = ts"
  by (simp add: copyTargetOptions_def split: option.splits)

lemma copyParams_id [simp]: "copyParams ps = ps"
  by (simp add: copyParams_def split: option.splits)

lemma copyUsers_idem [simp]: "copyUsers (copyUsers us) = copyUsers us"
  by (auto simp: copyUsers_def split: option.splits)

lemma copyState_idem [simp]: "copyState (copyState s) = copyState s"
  by (simp add: copyState_def)

lemma copyState_fields [simp]:
  "se_Server (copyState s) = se_Server s" "se_Target (copyState s) = se_Target s" "se_Retry (copyState s) = se_Retry s"
  "se_LastAccess (copyState s) = se_LastAccess s" "se_Environment (copyState s) = se_Environment s"
  by (simp_all add: copyState_def)

lemma copyState_waiting [simp]: "copyState (waiting_state now srv ts) = waiting_state now srv ts"
  by (simp add: copyState_def waiting_state_def copyUsers_def)

definition state_mac :: "State \<Rightarrow> string" where
  "state_mac s = sv_Mac (se_Server s)"

lemma state_mac_copy [simp]: "state_mac (copyState s) = state_mac s"
  by (simp add: state_mac_def)

lemma state_mac_waiting [simp]: "state_mac (waiting_state now srv ts) = sv_Mac srv"
  by (simp add: state_mac_def waiting_state_def)

definition wf_states :: "States \<Rightarrow> bool" where
  "wf_states m \<longleftrightarrow> distinct (map fst m) \<and> keyed_by state_mac m"

definition view_states :: "States \<Rightarrow> string \<Rightarrow> State option" where
  "view_states m mac = map_option copyState (map_of m mac)"

lemma wf_states_update:
  "wf_states m \<Longrightarrow> state_mac x = mac \<Longrightarrow> wf_states (AList.update mac x m)"
  using keyed_by_update [of state_mac m x] by (auto simp: wf_states_def distinct_update)

lemma view_states_update: "view_states (AList.update mac x m) = (view_states m)(mac \<mapsto> copyState x)"
  by (auto simp: view_states_def)

lemma states_list_set:
  assumes "distinct (map fst m)"
  shows "{se_Server x |x mac. view_states m mac = Some x \<and> se_Target x = InitTarget}
    = se_Server ` {x \<in> snd ` set m. se_Target x = InitTarget}"
proof (intro equalityI subsetI)
  fix y assume "y \<in> {se_Server x |x mac. view_states m mac = Some x \<and> se_Target x = InitTarget}"
  then obtain x mac where "map_of m mac = Some x" "se_Target x = InitTarget" "y = se_Server x"
    by (auto simp: view_states_def)
  then show "y \<in> se_Server ` {x \<in> snd ` set m. se_Target x = InitTarget}"
    by (auto dest!: map_of_SomeD intro!: imageI) (force intro!: imageI)
next
  fix y assume "y \<in> se_Server ` {x \<in> snd ` set m. se_Target x = InitTarget}"
  then obtain mac x where "(mac, x) \<in> set m" "se_Target x = InitTarget" "y = se_Server x" by auto
  with assms have "view_states m mac = Some (copyState x)" by (simp add: view_states_def)
  with \<open>se_Target x = InitTarget\<close> \<open>y = se_Server x\<close>
  show "y \<in> {se_Server x |x mac. view_states m mac = Some x \<and> se_Target x = InitTarget}"
    by (intro CollectI exI [of _ "copyState x"] exI [of _ mac]) simp
qed

lemma from_unix_le: "from_unix a \<le> c \<longleftrightarrow> a \<le> unix c"
proof
  assume "from_unix a \<le> c"
  then have "(a * 1000000000) div 1000000000 \<le> c div 1000000000"
    unfolding from_unix_def by (intro zdiv_mono1) simp_all
  then show "a \<le> unix c" by (simp add: unix_def)
next
  assume "a \<le> unix c"
  then have "a * 1000000000 \<le> (c div 1000000000) * 1000000000" by (simp add: unix_def)
  also have "\<dots> \<le> c" by (simp add: minus_mod_eq_div_mult [symmetric])
  finally show "from_unix a \<le> c" by (simp add: from_unix_def)
qed

interpretation states: state_store states_store view_states wf_states "\<lambda>x. Some (copyState x)"
proof (unfold_locales, goal_cases)
  case (1 s mac)
  then show ?case by (simp add: states_store_def states_GetState_def view_states_def split: option.splits)
next
  case (2 s x x')
  then show ?case
    by (auto simp: states_store_def states_SaveState_def view_states_update simp flip: state_mac_def intro: wf_states_update)
next
  case (4 s now srv ts)
  then show ?case
    by (auto simp: states_store_def states_QueueServer_def AddServerWithTargets_def view_states_update intro: wf_states_update)
next
  case (5 s mac)
  then show ?case
    by (auto simp: states_store_def states_DeleteState_def DeleteServer_def view_states_def wf_states_def distinct_delete
        intro: keyed_by_delete)
next
  case (6 s)
  then have dist: "distinct (map fst s)" by (simp add: wf_states_def)
  show ?case
    unfolding states_list_set [OF dist]
    by (intro exI [of _ "sortServers (map se_Server (filter (\<lambda>s. se_Target s = InitTarget) (map snd s)))"])
      (auto simp: states_store_def states_ListWaiting_def sortServers_def)
next
  case (7 s cutoff)
  let ?r = "deleteWhere (\<lambda>x. se_LastAccess x \<le> unix cutoff) 0 s s"
  have "wf_states (snd ?r)" using 7 by (auto simp: wf_states_def deleteWhere_distinct keyed_by_deleteWhere)
  moreover have "view_states (snd ?r) mac = (case view_states s mac of None \<Rightarrow> None
      | Some x \<Rightarrow> if from_unix (se_LastAccess x) \<le> cutoff then None else Some x)" for mac
    using 7 by (simp add: view_states_def wf_states_def deleteWhere_self from_unix_le split: option.splits)
  ultimately show ?case
    by (simp add: states_store_def states_DeleteStatesBefore_def case_prod_beta split: option.splits if_splits)
next
  case (8 x x')
  then show ?case by auto
next
  case (9 s mac x)
  then show ?case
    by (auto simp: view_states_def wf_states_def simp flip: state_mac_def dest: keyed_by_lookup)
qed auto

subsection \<open>The adapter keeps the contract\<close>

text \<open>What a state becomes in the columns of a record and back.\<close>

definition kept_json :: "State \<Rightarrow> State option" where
  "kept_json x = (case recordFromState x of Inl _ \<Rightarrow> None
     | Inr r \<Rightarrow> (case stateFromRecord r of Inl _ \<Rightarrow> None | Inr y \<Rightarrow> Some y))"

definition view_rows :: "(string \<Rightarrow> ServerStateRecord option) \<Rightarrow> string \<Rightarrow> State option" where
  "view_rows rows mac = (case rows mac of None \<Rightarrow> None
     | Some r \<Rightarrow> (case stateFromRecord r of Inl _ \<Rightarrow> None | Inr x \<Rightarrow> Some x))"

text \<open>Every row was written by the adapter.\<close>

definition written :: "(string \<Rightarrow> ServerStateRecord option) \<Rightarrow> bool" where
  "written rows \<longleftrightarrow> (\<forall>mac r. rows mac = Some r \<longrightarrow> (\<exists>x. recordFromState x = Inr r))"

lemma params_from_marshal:
  assumes "marshal_params ps = Some j"
  shows "\<exists>qs. params_from normalizeJSONNumbers j = Some qs \<and> marshal_params qs \<noteq> None"
proof (cases ps)
  case None
  with assms show ?thesis by (auto simp: marshal_params_def params_from_def)
next
  case (Some es)
  with assms have j: "marshal (VMap es) = Some j" by (simp add: marshal_params_def)
  then obtain js where js: "j = JObj js" by auto
  have "marshal (normalizeJSONNumbers j) \<noteq> None" using marshal_decoded(2) marshal_ok [OF j] by blast
  with js show ?thesis by (simp add: params_from_def marshal_params_def)
qed

lemma through_json_again: "through_json v = Some w \<Longrightarrow> through_json w \<noteq> None"
  using marshal_decoded(1) marshal_ok by (auto simp: through_json_def)

lemma config_params_again:
  assumes "through_json (VMap es) = Some w"
  shows "\<exists>vs. w = VMap vs \<and> through_json (VMap vs) \<noteq> None"
  using assms through_json_again [OF assms] by (auto simp: through_json_def)

lemma json_provisioning_again:
  assumes "json_provisioning c = Some d"
  shows "json_provisioning d \<noteq> None"
proof -
  obtain pass where pass: "through_json (enc_Passphrase (st_Encryption (pv_Storage c))) = Some pass"
    using assms by (auto simp: json_provisioning_def split: option.splits)
  show ?thesis
  proof (cases "ins_ConfigParams (pv_Installer c)")
    case None
    with assms pass through_json_again [OF pass] show ?thesis
      by (auto simp: json_provisioning_def Let_def split: option.splits)
  next
    case (Some es)
    then obtain w where w: "through_json (VMap es) = Some w"
      using assms pass by (auto simp: json_provisioning_def split: option.splits)
    with config_params_again obtain vs where "w = VMap vs" "through_json (VMap vs) \<noteq> None" by blast
    with assms pass through_json_again [OF pass] Some w show ?thesis
      by (auto simp: json_provisioning_def Let_def)
  qed
qed

lemma recordFromState_parts:
  assumes "recordFromState x = Inr r"
  obtains j p where "marshal_params (se_Params x) = Some j" "json_provisioning (se_Provisioning x) = Some p"
    "sr_ParamsJSON r = Some j" "sr_ProvisioningJSON r = Some p" "sr_MAC r = sv_Mac (se_Server x)"
    "sr_Target r = se_Target x" "sr_Retry r = se_Retry x" "sr_LastAccess r = from_unix (se_LastAccess x)"
    "sr_Environment r = se_Environment x"
  using assms by (auto simp: recordFromState_def split: option.splits)

lemma unix_from_unix [simp]: "unix (from_unix t) = t"
  by (simp add: unix_def from_unix_def)

lemma stateFromRecord_written:
  assumes "recordFromState x = Inr r"
  obtains y where "stateFromRecord r = Inr y" "sv_Mac (se_Server y) = sr_MAC r" "se_Target y = sr_Target r"
    "se_Retry y = sr_Retry r" "se_LastAccess y = unix (sr_LastAccess r)" "se_Environment y = sr_Environment r"
    "\<And>n t. \<exists>r'. recordFromState (y\<lparr>se_Retry := n, se_LastAccess := t\<rparr>) = Inr r'"
proof -
  from assms obtain j p where jp: "marshal_params (se_Params x) = Some j" "json_provisioning (se_Provisioning x) = Some p"
    "sr_ParamsJSON r = Some j" "sr_ProvisioningJSON r = Some p"
    by (rule recordFromState_parts)
  obtain qs j2 where qs: "params_from normalizeJSONNumbers j = Some qs" "marshal_params qs = Some j2"
    using params_from_marshal [OF jp(1)] by auto
  obtain p2 where p2: "json_provisioning p = Some p2" using json_provisioning_again [OF jp(2)] by auto
  obtain y where y: "stateFromRecord r = Inr y" and fields: "se_Params y = qs" "se_Provisioning y = p"
    "sv_Mac (se_Server y) = sr_MAC r" "se_Target y = sr_Target r" "se_Retry y = sr_Retry r"
    "se_LastAccess y = unix (sr_LastAccess r)" "se_Environment y = sr_Environment r"
    using jp(3,4) qs(1) by (simp add: stateFromRecord_def unmarshalStateParamsJSON_def)
  have "\<exists>r'. recordFromState (y\<lparr>se_Retry := n, se_LastAccess := t\<rparr>) = Inr r'" for n t
    using fields(1,2) qs(2) p2 by (simp add: recordFromState_def)
  with y fields(3-) show ?thesis by (intro that)
qed

lemma kept_json_Some: "recordFromState x = Inr r \<Longrightarrow> stateFromRecord r = Inr y \<Longrightarrow> kept_json x = Some y"
  by (simp add: kept_json_def)

lemma kept_json_cases:
  assumes "kept_json x = Some y"
  obtains r where "recordFromState x = Inr r" "stateFromRecord r = Inr y"
  using assms by (auto simp: kept_json_def split: sum.splits)

lemma kept_json_None: "kept_json x = None \<Longrightarrow> \<exists>e. recordFromState x = Inl e"
  by (cases "recordFromState x") (auto simp: kept_json_def elim: stateFromRecord_written split: sum.splits)

lemma kept_json_fields:
  assumes "kept_json x = Some y"
  shows "sv_Mac (se_Server y) = sv_Mac (se_Server x) \<and> se_Target y = se_Target x
      \<and> se_Retry y = se_Retry x \<and> se_LastAccess y = se_LastAccess x \<and> se_Environment y = se_Environment x"
proof -
  obtain r where r: "recordFromState x = Inr r" "stateFromRecord r = Inr y" using assms by (rule kept_json_cases)
  from r(1) show ?thesis
    by (rule recordFromState_parts) (use stateFromRecord_written [OF r(1)] r(2) in auto)
qed

lemma waiting_kept: "\<exists>y. kept_json (waiting_state now srv ts) = Some y"
proof -
  have "json_provisioning zero_provisioning \<noteq> None"
    by (simp add: json_provisioning_def through_json_def zero_provisioning_def zero_storage_def Let_def)
  then obtain r where r: "recordFromState (waiting_state now srv ts) = Inr r"
    by (auto simp: recordFromState_def waiting_state_def marshal_params_def)
  then obtain y where "stateFromRecord r = Inr y" by (rule stateFromRecord_written)
  with r show ?thesis by (auto simp: kept_json_def)
qed

lemma written_upd: "written rows \<Longrightarrow> recordFromState x = Inr r \<Longrightarrow> written (rows(mac \<mapsto> r))"
  by (auto simp: written_def)

lemma written_sub: "written rows \<Longrightarrow> (\<And>mac r. rows' mac = Some r \<Longrightarrow> rows mac = Some r) \<Longrightarrow> written rows'"
  unfolding written_def by blast

lemma view_rows_Some:
  assumes "written rows" "rows mac = Some r"
  obtains x where "view_rows rows mac = Some x" "stateFromRecord r = Inr x"
proof -
  obtain w where "recordFromState w = Inr r" using assms by (auto simp: written_def)
  then obtain x where "stateFromRecord r = Inr x" by (rule stateFromRecord_written)
  with assms(2) show ?thesis by (intro that) (simp_all add: view_rows_def)
qed

lemma view_rows_cases:
  assumes "view_rows rows mac = Some x"
  obtains r where "rows mac = Some r" "stateFromRecord r = Inr x"
  using assms by (auto simp: view_rows_def split: option.splits sum.splits)

lemma written_fields:
  assumes "written rows" "rows mac = Some r" "stateFromRecord r = Inr x"
  shows "from_unix (se_LastAccess x) = sr_LastAccess r \<and> sv_Mac (se_Server x) = sr_MAC r"
proof -
  obtain w where w: "recordFromState w = Inr r" using assms(1,2) by (auto simp: written_def)
  from w have "sr_LastAccess r = from_unix (se_LastAccess w)" by (rule recordFromState_parts)
  moreover from w obtain y where "stateFromRecord r = Inr y" "sv_Mac (se_Server y) = sr_MAC r"
    "se_LastAccess y = unix (sr_LastAccess r)" by (rule stateFromRecord_written)
  ultimately show ?thesis using assms(3) by simp
qed

lemma savable_rows:
  assumes "written rows" "view_rows rows mac = Some x"
  shows "kept_json (x\<lparr>se_Retry := n, se_LastAccess := t\<rparr>) \<noteq> None"
proof -
  obtain r where r: "rows mac = Some r" "stateFromRecord r = Inr x" using assms(2) by (rule view_rows_cases)
  obtain w where "recordFromState w = Inr r" using assms(1) r(1) by (auto simp: written_def)
  then obtain r' where "recordFromState (x\<lparr>se_Retry := n, se_LastAccess := t\<rparr>) = Inr r'"
    using r(2) by (elim stateFromRecord_written) auto
  then show ?thesis using kept_json_None by fastforce
qed

lemma map_res_total:
  "(\<And>r. r \<in> set rs \<Longrightarrow> f r = Inr (g r)) \<Longrightarrow> map_res f rs = Inr (map g rs)"
  by (induction rs) auto

context server_state_backend
begin

lemma adapter_list:
  assumes "ok s" "written (rows s)"
  shows "\<exists>ws. ps_ListWaiting b s = Inr ws \<and> sorted (map sv_Mac ws) \<and>
      set ws = {se_Server x |x mac. view_rows (rows s) mac = Some x \<and> se_Target x = InitTarget}"
proof -
  obtain rs where rs: "ListServerStates b s = Inr rs" "set rs = ran (rows s)" using list [OF assms(1)] by blast
  let ?dec = "\<lambda>r. projr (stateFromRecord r)"
  have dec: "stateFromRecord r = Inr (?dec r)" if "r \<in> set rs" for r
  proof -
    from that rs(2) obtain mac where "rows s mac = Some r" by (auto simp: ran_def)
    with assms(2) show ?thesis by (metis view_rows_Some sum.sel(2))
  qed
  let ?ws = "map se_Server (filter (\<lambda>x. se_Target x = InitTarget) (map ?dec rs))"
  have "ps_ListWaiting b s = Inr (sortServers ?ws)"
    by (simp add: ps_ListWaiting_def rs(1) map_res_total [OF dec])
  moreover have "{x. \<exists>mac. view_rows (rows s) mac = Some x} = ?dec ` set rs"
  proof (intro equalityI subsetI)
    fix x assume "x \<in> {x. \<exists>mac. view_rows (rows s) mac = Some x}"
    then obtain mac r where "rows s mac = Some r" "stateFromRecord r = Inr x" by (auto elim: view_rows_cases)
    then show "x \<in> ?dec ` set rs" using rs(2) by (force simp: ran_def image_iff)
  next
    fix x assume "x \<in> ?dec ` set rs"
    then obtain r mac where "rows s mac = Some r" "x = ?dec r" using rs(2) by (auto simp: ran_def)
    then show "x \<in> {x. \<exists>mac. view_rows (rows s) mac = Some x}"
      using view_rows_Some [OF assms(2)] by (metis (mono_tags) mem_Collect_eq sum.sel(2))
  qed
  then have "set (sortServers ?ws) = {se_Server x |x mac. view_rows (rows s) mac = Some x \<and> se_Target x = InitTarget}"
    by (auto simp: sortServers_def set_eq_iff)
  ultimately show ?thesis by (auto simp: sortServers_def)
qed

lemma adapter_before:
  assumes "ok s" "written (rows s)"
  shows "\<exists>n s'. DeleteServerStatesBefore b cutoff s = (Inr n, s') \<and> (ok s' \<and> written (rows s')) \<and>
      (\<forall>mac x. view_rows (rows s') mac = Some x \<longrightarrow> view_rows (rows s) mac = Some x) \<and>
      (\<forall>mac x. view_rows (rows s) mac = Some x \<longrightarrow> from_unix (se_LastAccess x) > cutoff \<longrightarrow> view_rows (rows s') mac = Some x) \<and>
      (\<forall>mac x. view_rows (rows s) mac = Some x \<longrightarrow> from_unix (se_LastAccess x) < cutoff \<longrightarrow> view_rows (rows s') mac = None)"
proof -
  obtain n s' where s': "DeleteServerStatesBefore b cutoff s = (Inr n, s')" "ok s'"
    and rows': "rows s' = (\<lambda>mac. case rows s mac of None \<Rightarrow> None
        | Some r \<Rightarrow> if sr_LastAccess r < cutoff then None else Some r)"
    using delete_before [OF assms(1)] by blast
  have sub: "rows s' mac = Some r \<Longrightarrow> rows s mac = Some r" for mac r
    by (auto simp: rows' split: option.splits if_splits)
  have "written (rows s')" by (rule written_sub [OF assms(2) sub])
  moreover have "view_rows (rows s') mac = (case view_rows (rows s) mac of None \<Rightarrow> None
      | Some x \<Rightarrow> if from_unix (se_LastAccess x) < cutoff then None else Some x)" for mac
    using written_fields [OF assms(2), of mac]
    by (auto simp: view_rows_def rows' split: option.splits sum.splits)
  ultimately show ?thesis using s' by (auto split: option.splits if_splits)
qed

end

sublocale server_state_backend \<subseteq> persistent: state_store "PersistentStateStore b" "\<lambda>s. view_rows (rows s)"
  "\<lambda>s. ok s \<and> written (rows s)" kept_json
proof (unfold_locales, goal_cases)
  case (1 s mac)
  then show ?case
    by (cases "rows s mac") (auto simp: PersistentStateStore_def ps_GetState_def get view_rows_def
        elim: view_rows_Some split: sum.splits)
next
  case (2 s x x')
  then obtain r where r: "recordFromState x = Inr r" "stateFromRecord r = Inr x'" by (auto elim: kept_json_cases)
  from r(1) have mac: "sr_MAC r = sv_Mac (se_Server x)" by (rule recordFromState_parts)
  obtain s' where "UpsertServerState b r s = (None, s')" "ok s'" "rows s' = (rows s)(sr_MAC r \<mapsto> r)"
    using upsert 2 by blast
  with r mac 2 show ?case
    by (auto simp: PersistentStateStore_def ps_SaveState_def view_rows_def intro: written_upd)
next
  case (3 s x)
  then show ?case using kept_json_None [of x] by (auto simp: PersistentStateStore_def ps_SaveState_def)
next
  case (4 s now srv ts)
  obtain y where y: "kept_json (waiting_state now srv ts) = Some y" using waiting_kept by blast
  then obtain r where r: "recordFromState (waiting_state now srv ts) = Inr r" "stateFromRecord r = Inr y"
    by (rule kept_json_cases)
  from r(1) have mac: "sr_MAC r = sv_Mac srv" by (rule recordFromState_parts) (simp add: waiting_state_def)
  obtain s' where "UpsertServerState b r s = (None, s')" "ok s'" "rows s' = (rows s)(sr_MAC r \<mapsto> r)"
    using upsert 4 by blast
  with r mac 4 y show ?case
    by (auto simp: PersistentStateStore_def ps_QueueServer_def ps_SaveState_def view_rows_def intro: written_upd)
next
  case (5 s mac)
  then obtain n s' where "DeleteServerState b mac s = (Inr n, s')" "ok s'" "rows s' = (rows s)(mac := None)"
    using delete by blast
  moreover from this 5 have "written (rows s')" by (auto intro: written_sub split: if_splits)
  ultimately show ?case by (auto simp: PersistentStateStore_def ps_DeleteState_def view_rows_def)
next
  case (6 s)
  then show ?case using adapter_list by (simp add: PersistentStateStore_def)
next
  case (7 s cutoff)
  then show ?case using adapter_before by (simp add: PersistentStateStore_def)
next
  case (8 x x')
  then show ?case by (rule kept_json_fields)
next
  case (9 s mac x)
  then show ?case by (metis view_rows_cases written_fields keyed)
next
  case (10 s mac x n t)
  then show ?case using savable_rows by blast
qed

subsection \<open>Properties\<close>

text \<open>The adapter over the memory backend.\<close>

definition persistent_store :: "store StateStore" where
  "persistent_store = PersistentStateStore memory_server_states"

definition ok_persistent :: "store \<Rightarrow> bool" where
  "ok_persistent s \<longleftrightarrow> wf_store s \<and> written (map_of (ms_serverStates s))"

definition view_persistent :: "store \<Rightarrow> string \<Rightarrow> State option" where
  "view_persistent s = view_rows (map_of (ms_serverStates s))"

interpretation pstore: state_store persistent_store view_persistent ok_persistent kept_json
  unfolding persistent_store_def view_persistent_def [abs_def] ok_persistent_def [abs_def]
  by (rule mem.persistent.state_store_axioms)

lemma ok_persistent_new [simp]: "ok_persistent new_store"
  by (simp add: ok_persistent_def new_store_def wf_store_def keyed_by_def written_def)

lemma wf_states_empty [simp]: "wf_states []"
  by (simp add: wf_states_def keyed_by_def)

lemma skeleton_new [simp]: "skeleton (view_persistent new_store) = (\<lambda>_. None)" "skeleton (view_states []) = (\<lambda>_. None)"
  by (auto simp: skeleton_def view_persistent_def view_rows_def new_store_def view_states_def fun_eq_iff)

lemma legal_op_mono: "legal_op kept_json oper \<Longrightarrow> legal_op (\<lambda>x. Some (copyState x)) oper"
  by (cases oper) auto


definition sample_server :: Server where
  "sample_server = NewServer ''aa:bb'' ''10.0.0.1'' ''host''"

definition sample_ops :: "store_op list" where
  "sample_ops = [OpQueue 7000000000 sample_server None, OpClean 8000000001]"


text \<open>
  C11. The sweep of the persistent store: a host that polled within the last three minutes keeps its state as it
  was, and the state of a host that did not is gone.
\<close>

theorem cleaner_expires:
  assumes "ok_persistent s" "GetState persistent_store mac s = Inr x"
  shows "(now - 180000000000 < from_unix (se_LastAccess x) \<longrightarrow>
        GetState persistent_store mac (cleaner_tick persistent_store now s) = Inr x)
    \<and> (from_unix (se_LastAccess x) < now - 180000000000 \<longrightarrow>
        GetState persistent_store mac (cleaner_tick persistent_store now s) = Inl NoRows)"
proof -
  have "StateExpireAfter = 180000000000" by (simp add: StateExpireAfter_def)
  with pstore.cleaner_get [OF assms, of now] show ?thesis by (simp only:)
qed

definition sample_persistent :: store where
  "sample_persistent = snd (QueueServer persistent_store 7000000000 sample_server None new_store)"

definition sample_state :: State where
  "sample_state = waiting_state 7000000000 sample_server None"

lemma sample_persistent_facts:
  "ok_persistent sample_persistent" "GetState persistent_store ''aa:bb'' sample_persistent = Inr sample_state"
proof -
  show "ok_persistent sample_persistent"
    using pstore.queue [OF ok_persistent_new, of 7000000000 sample_server None] by (auto simp: sample_persistent_def)
  show "GetState persistent_store ''aa:bb'' sample_persistent = Inr sample_state" by code_simp
qed

theorem cleaner_expires_witness:
  "GetState persistent_store ''aa:bb'' (cleaner_tick persistent_store 186000000000 sample_persistent) = Inr sample_state
    \<and> GetState persistent_store ''aa:bb'' (cleaner_tick persistent_store 188000000000 sample_persistent) = Inl NoRows"
proof -
  have "from_unix (se_LastAccess sample_state) = 7000000000" by code_simp
  with cleaner_expires [OF sample_persistent_facts, of 186000000000] cleaner_expires [OF sample_persistent_facts, of 188000000000]
  show ?thesis by simp
qed

text \<open>
  A state whose texts are UTF-8, whose maps are listed in the order of their keys, whose numbers are integers of 64
  bits, or floats inside the provisioning data, and which suppresses no filesystem.
\<close>

definition utf8_slice :: "string slice \<Rightarrow> bool" where
  "utf8_slice s \<longleftrightarrow> list_all is_utf8 (elems s)"

definition utf8_keys :: "'v gomap \<Rightarrow> bool" where
  "utf8_keys m \<longleftrightarrow> sorted (map fst (entries m)) \<and> distinct (map fst (entries m)) \<and> list_all is_utf8 (map fst (entries m))"

definition utf8_user :: "ResolvedUser \<Rightarrow> bool" where
  "utf8_user u \<longleftrightarrow> list_all is_utf8 [ru_Name u, ru_FullName u, ru_PasswordCrypted u, ru_Shell u, ru_Sudo u]
     \<and> utf8_slice (ru_SSHAuthorizedKeys u) \<and> utf8_slice (ru_Groups u)"

definition utf8_fs :: "FilesystemConfig \<Rightarrow> bool" where
  "utf8_fs f \<longleftrightarrow> list_all is_utf8 [fs_Mountpoint f, fs_FSType f, fs_Size f]"

definition canonical_provisioning :: "ProvisioningConfig \<Rightarrow> bool" where
  "canonical_provisioning c \<longleftrightarrow>
     (let s = pv_Storage c; e = st_Encryption s; b = pv_Boot c; k = pv_Packages c; n = pv_Network c; i = pv_Installer c
      in list_all is_utf8 [loc_Language (pv_Locale c), loc_Keyboard (pv_Locale c), time_Timezone (pv_Time c),
           net_Hostname n, net_Bootproto n, pkg_UpdatePolicy k, st_Disk s, st_Mode s, st_VolumeGroup s, enc_Cipher e,
           enc_Hash e, tpm_Device (enc_TPM e), tpm_PCRs (enc_TPM e), tpm_Initramfs (enc_TPM e), boot_Firmware b,
           nb_Method (boot_Netboot b), ib_Bootloader (boot_Installed b), rep_OSMirror (pv_Repos c),
           rep_Release (pv_Repos c), ins_ConfigTemplate i, ins_ExtraTemplate i]
       \<and> list_all utf8_slice [net_Nameservers n, pkg_Install k, pkg_Groups k, st_WipeDiskPatterns s,
           raid_Devices (st_RAID s), nb_KernelArgs (boot_Netboot b), ib_KernelArgs (boot_Installed b), ins_LateCommands i]
       \<and> canonical False (enc_Passphrase e)
       \<and> (case ins_ConfigParams i of None \<Rightarrow> True | Some es \<Rightarrow> canonical False (VMap es))
       \<and> utf8_keys (st_Filesystems s) \<and> list_all (utf8_fs \<circ> snd) (entries (st_Filesystems s))
       \<and> st_absentFilesystems s = None)"

definition canonical_state :: "State \<Rightarrow> bool" where
  "canonical_state x \<longleftrightarrow>
     (case se_Params x of None \<Rightarrow> True | Some es \<Rightarrow> canonical True (VMap es))
     \<and> utf8_keys (se_Users x) \<and> list_all (utf8_user \<circ> snd) (entries (se_Users x))
     \<and> canonical_provisioning (se_Provisioning x)
     \<and> list_all (\<lambda>t. list_all is_utf8 [to_Name t, to_Script t, to_Label t, to_Environment t])
         (elems (sv_AllowedTargets (se_Server x)))"

lemma fix_str_utf8 [simp]: "utf8_slice s \<Longrightarrow> fix_str s = s"
  by (cases s) (auto simp: fix_str_def utf8_slice_def is_utf8_def list_all_iff map_idI)

lemma sort_entries_id:
  assumes "utf8_keys (Some es)" "\<And>k v. (k, v) \<in> set es \<Longrightarrow> f v = v"
  shows "put_all [] (sort_key fst (map (\<lambda>(k, v). (valid_utf8 k, f v)) es)) = es"
proof -
  have "map (\<lambda>(k, v). (valid_utf8 k, f v)) es = es"
    using assms by (intro map_idI) (force simp: utf8_keys_def is_utf8_def list_all_iff)
  with assms(1) show ?thesis by (simp add: utf8_keys_def sort_key_sorted put_all_fresh)
qed

lemma utf8_user_id: "utf8_user u \<Longrightarrow> u\<lparr>ru_Name := valid_utf8 (ru_Name u), ru_FullName := valid_utf8 (ru_FullName u),
    ru_PasswordCrypted := valid_utf8 (ru_PasswordCrypted u), ru_SSHAuthorizedKeys := fix_str (ru_SSHAuthorizedKeys u),
    ru_Groups := fix_str (ru_Groups u), ru_Shell := valid_utf8 (ru_Shell u), ru_Sudo := valid_utf8 (ru_Sudo u)\<rparr> = u"
  by (simp add: utf8_user_def is_utf8_def)

lemma utf8_fs_id: "utf8_fs f \<Longrightarrow> marshal_fs f = f"
  by (simp add: marshal_fs_def utf8_fs_def is_utf8_def)

lemma marshal_users_canonical:
  assumes "utf8_keys us" "list_all (utf8_user \<circ> snd) (entries us)"
  shows "marshal_users us = us"
proof (cases us)
  case (Some es)
  then show ?thesis unfolding marshal_users_def Some option.map option.inject
    by (intro sort_entries_id utf8_user_id) (use assms Some in \<open>force simp: list_all_iff\<close>)+
qed (simp add: marshal_users_def)

lemma marshal_fs_canonical:
  assumes "utf8_keys fs" "list_all (utf8_fs \<circ> snd) (entries fs)"
  shows "map_option (\<lambda>es. put_all [] (sort_key fst (map (\<lambda>(name, f). (valid_utf8 name, marshal_fs f)) es))) fs = fs"
proof (cases fs)
  case (Some es)
  then show ?thesis unfolding Some option.map option.inject
    by (intro sort_entries_id utf8_fs_id) (use assms Some in \<open>force simp: list_all_iff\<close>)+
qed simp

lemma through_json_canonical: "canonical False v \<Longrightarrow> through_json v = Some v"
  using canonical_float_roundtrip [of v] by (auto simp: through_json_def)

lemma json_provisioning_canonical: "canonical_provisioning c \<Longrightarrow> json_provisioning c = Some c"
  unfolding canonical_provisioning_def json_provisioning_def Let_def
  by (cases "ins_ConfigParams (pv_Installer c)")
    (simp_all add: through_json_canonical marshal_fs_canonical is_utf8_def)

lemma marshal_targets_canonical:
  "list_all (\<lambda>t. list_all is_utf8 [to_Name t, to_Script t, to_Label t, to_Environment t]) (elems ts) \<Longrightarrow>
   marshal_targets ts = ts"
  by (cases ts) (auto simp: marshal_targets_def is_utf8_def list_all_iff intro!: map_idI)

lemma marshal_params_canonical:
  assumes "case ps of None \<Rightarrow> True | Some es \<Rightarrow> canonical True (VMap es)"
  shows "\<exists>j. marshal_params ps = Some j \<and> params_from normalizeJSONNumbers j = Some ps"
proof (cases ps)
  case None
  then show ?thesis by (simp add: marshal_params_def params_from_def)
next
  case (Some es)
  with assms canonical_roundtrip [of "VMap es"] obtain j
    where j: "marshal (VMap es) = Some j" "normalizeJSONNumbers j = VMap es" by auto
  moreover from j(1) obtain js where "j = JObj js" by auto
  ultimately show ?thesis using Some by (auto simp: marshal_params_def params_from_def)
qed

lemma kept_canonical:
  assumes "canonical_state x"
  shows "kept_json x = Some x"
proof -
  obtain j where "marshal_params (se_Params x) = Some j" "params_from normalizeJSONNumbers j = Some (se_Params x)"
    using assms marshal_params_canonical unfolding canonical_state_def by blast
  with assms show ?thesis
    by (simp add: canonical_state_def kept_json_def recordFromState_def stateFromRecord_def json_provisioning_canonical
        marshal_users_canonical marshal_targets_canonical unmarshalStateParamsJSON_def)
qed

text \<open>
  C12. A canonical state is read back from the persistent store exactly as it was saved, and saving it leaves the
  states of the other hosts alone.
\<close>

theorem persistent_roundtrip:
  assumes "ok_persistent s" "canonical_state x"
  shows "GetState persistent_store mac (snd (SaveState persistent_store x s)) =
    (if mac = sv_Mac (se_Server x) then Inr x else GetState persistent_store mac s)"
proof -
  obtain s' where "SaveState persistent_store x s = (None, s')" "ok_persistent s'"
    "view_persistent s' = (view_persistent s)(sv_Mac (se_Server x) \<mapsto> x)"
    using pstore.save [OF assms(1) kept_canonical [OF assms(2)]] by blast
  with assms(1) show ?thesis by (simp add: pstore.get)
qed

definition sample_selected :: State where
  "sample_selected = sample_state\<lparr>se_Target := ''debian.ipxe'', se_Params := Some [(''hostname'', VStr ''web1''), (''n'', VInt 3)]\<rparr>"

theorem persistent_roundtrip_witness:
  "GetState persistent_store ''aa:bb'' (snd (SaveState persistent_store sample_selected sample_persistent)) = Inr sample_selected"
proof -
  have "canonical_state sample_selected" by code_simp
  moreover have "sv_Mac (se_Server sample_selected) = ''aa:bb''" by code_simp
  ultimately show ?thesis using persistent_roundtrip [OF sample_persistent_facts(1), of sample_selected "''aa:bb''"] by simp
qed

text \<open>
  What a saved state loses: \<^verbatim>\<open>json.Marshal\<close> does not see the unexported map of suppressed filesystems, so a
  state read back from the persistent store suppresses none, while the map in memory keeps them.
\<close>

theorem suppressed_filesystems_lost:
  assumes "ok_persistent s" "GetState persistent_store (sv_Mac (se_Server x)) (snd (SaveState persistent_store x s)) = Inr y"
    and "kept_json x \<noteq> None"
  shows "st_absentFilesystems (pv_Storage (se_Provisioning y)) = None
    \<and> (\<exists>z. GetState states_store (sv_Mac (se_Server x)) (snd (SaveState states_store x m)) = Inr z
        \<and> se_Provisioning z = se_Provisioning x)"
proof
  from assms(3) obtain x' where x': "kept_json x = Some x'" by blast
  with pstore.save [OF assms(1) x'] assms(2) have "y = x'" by (auto simp: pstore.get)
  moreover obtain r where "recordFromState x = Inr r" "stateFromRecord r = Inr x'" using x' by (rule kept_json_cases)
  ultimately show "st_absentFilesystems (pv_Storage (se_Provisioning y)) = None"
    by (auto simp: recordFromState_def stateFromRecord_def json_provisioning_def Let_def split: option.splits)
  show "\<exists>z. GetState states_store (sv_Mac (se_Server x)) (snd (SaveState states_store x m)) = Inr z
        \<and> se_Provisioning z = se_Provisioning x"
    by (simp add: states_store_def states_SaveState_def states_GetState_def copyState_def)
qed

definition sample_suppressed :: State where
  "sample_suppressed = sample_state\<lparr>se_Target := ''debian.ipxe'', se_Provisioning := zero_provisioning
     \<lparr>pv_Storage := zero_storage\<lparr>st_Filesystems := Some [], st_absentFilesystems := Some [(''swap'', True)]\<rparr>\<rparr>\<rparr>"

lemma sample_suppressed_saved:
  "\<not> isl (GetState persistent_store ''aa:bb'' (snd (SaveState persistent_store sample_suppressed new_store)))"
  by code_simp

theorem suppressed_filesystems_lost_witness:
  "\<exists>y z. GetState persistent_store ''aa:bb'' (snd (SaveState persistent_store sample_suppressed new_store)) = Inr y
    \<and> st_absentFilesystems (pv_Storage (se_Provisioning y)) = None
    \<and> GetState states_store ''aa:bb'' (snd (SaveState states_store sample_suppressed [])) = Inr z
    \<and> st_absentFilesystems (pv_Storage (se_Provisioning z)) = Some [(''swap'', True)]"
proof -
  have mac: "sv_Mac (se_Server sample_suppressed) = ''aa:bb''" by code_simp
  have absent: "st_absentFilesystems (pv_Storage (se_Provisioning sample_suppressed)) = Some [(''swap'', True)]" by code_simp
  obtain y where y: "GetState persistent_store ''aa:bb'' (snd (SaveState persistent_store sample_suppressed new_store)) = Inr y"
    using sample_suppressed_saved by (cases "GetState persistent_store ''aa:bb''
      (snd (SaveState persistent_store sample_suppressed new_store))") simp_all
  have kept: "kept_json sample_suppressed \<noteq> None" by code_simp
  show ?thesis
    using suppressed_filesystems_lost [where m = "[]", OF ok_persistent_new _ kept, unfolded mac, OF y] y absent by auto
qed

end
