(* ===== verification/EventLog.thy ===== *)
theory EventLog
  imports Utils ServerState
begin

text \<open>
  The log of boot events (\<^verbatim>\<open>event/event.go\<close>): events carry redacted parameters, are mirrored in memory by MAC
  and appended to the persistence backend. The text of a JSON document is needed for the message of an event.
\<close>

subsection \<open>The text of a JSON document\<close>

definition json_char :: "char \<Rightarrow> string" where
  "json_char c =
     (if c = CHR 0x22 \<or> c = CHR 0x5C then [CHR 0x5C, c]
      else if c = CHR 0x08 then [CHR 0x5C, CHR ''b'']
      else if c = CHR 0x0C then [CHR 0x5C, CHR ''f'']
      else if c = CHR 0x0A then [CHR 0x5C, CHR ''n'']
      else if c = CHR 0x0D then [CHR 0x5C, CHR ''r'']
      else if c = CHR 0x09 then [CHR 0x5C, CHR ''t'']
      else if c < CHR 0x20 \<or> c \<in> {CHR ''<'', CHR ''>'', CHR ''&''} then
        CHR 0x5C # ''u00'' @ [hex_digit (of_char c div 16), hex_digit (of_char c mod 16)]
      else [c])"

text \<open>The line separators U+2028 and U+2029 are escaped too.\<close>

fun json_chars :: "string \<Rightarrow> string" where
  "json_chars [] = []"
| "json_chars (c # s) =
     (if prefix [CHR 0xE2, CHR 0x80, CHR 0xA8] (c # s) then CHR 0x5C # ''u2028'' @ json_chars (drop 2 s)
      else if prefix [CHR 0xE2, CHR 0x80, CHR 0xA9] (c # s) then CHR 0x5C # ''u2029'' @ json_chars (drop 2 s)
      else json_char c @ json_chars s)"

definition json_quote :: "string \<Rightarrow> string" where
  "json_quote s = CHR 0x22 # json_chars s @ [CHR 0x22]"

text \<open>
  A float is kept as the text of \<^verbatim>\<open>fmt.Sprint\<close>, which has an exponent from \<open>10 ^ 6\<close> on and below \<open>10 ^ - 4\<close>;
  \<^verbatim>\<open>json.Marshal\<close> writes one only from \<open>10 ^ 21\<close> on and below \<open>10 ^ - 6\<close>, there without a leading zero.
\<close>

definition json_float :: "string \<Rightarrow> string" where
  "json_float t =
     (let neg = hasPrefix t ''-''; u = (if neg then tl t else t); m = before CHR ''e'' u; e = drop (length m + 1) u;
          ds = filter (\<lambda>c. c \<noteq> CHR ''.'') m; x = foldl (\<lambda>n c. 10 * n + (of_char c - 48)) (0::nat) (tl e); sign = (if neg then ''-'' else [])
      in if e = [] then t
         else if hd e = CHR ''+'' then
           (if 21 \<le> x then t
            else sign @ take (x + 1) ds @ replicate (x + 1 - length ds) CHR ''0''
                 @ (if x + 1 < length ds then ''.'' @ drop (x + 1) ds else []))
         else if x \<le> 6 then sign @ ''0.'' @ replicate (x - 1) CHR ''0'' @ ds
         else sign @ m @ ''e-'' @ nat_str x)"

fun json_text :: "json \<Rightarrow> string" where
  "json_text JNull = ''null''"
| "json_text (JBool b) = bool_str b"
| "json_text (JStr s) = json_quote s"
| "json_text (JInt i) = int_str i"
| "json_text (JFloat t) = json_float t"
| "json_text (JArr js) = ''['' @ join '','' (map json_text js) @ '']''"
| "json_text (JObj es) = ''{'' @ join '','' (map (\<lambda>(k, j). json_quote k @ '':'' @ json_text j) es) @ ''}''"

text \<open>\<^verbatim>\<open>utils.RedactedMapToString\<close>: a nil map is printed as null.\<close>

definition RedactedMapToString :: "params \<Rightarrow> string" where
  "RedactedMapToString ps =
     (let redacted = (case ps of None \<Rightarrow> None | Some es \<Rightarrow>
            (case RedactForLog (VMap es) of VMap rs \<Rightarrow> Some rs | _ \<Rightarrow> None))
      in case marshal_params redacted of None \<Rightarrow> redactedValue | Some j \<Rightarrow> json_text j)"

subsection \<open>Events\<close>

definition HostPoll :: int where "HostPoll = 0"
definition UserSelection :: int where "UserSelection = 1"
definition HostBoot :: int where "HostBoot = 2"
definition HostTimeout :: int where "HostTimeout = 3"

definition PtrMatchBoot :: string where "PtrMatchBoot = ''DNS Match''"
definition SubnetMatchBoot :: string where "SubnetMatchBoot = ''Subnet Match''"
definition ManualBoot :: string where "ManualBoot = ''Manual''"

record Event =
  ev_ID :: ulid
  ev_Type :: int
  ev_OccurredAt :: time
  ev_Server :: Server
  ev_BootType :: string
  ev_Script :: string
  ev_Message :: string
  ev_Params :: params

definition setMessage :: "Event \<Rightarrow> Event" where
  "setMessage e =
     (if ev_Type e = HostPoll then e\<lparr>ev_Message := ''Host '' @ sv_Hostname (ev_Server e) @ '' polled for a script.''\<rparr>
      else if ev_Type e = UserSelection then
        e\<lparr>ev_Message := ''A user selected '' @ ev_Script e @ '' for the host '' @ sv_Hostname (ev_Server e) @ ''.''\<rparr>
      else if ev_Type e = HostBoot then
        (let params = (case marshal_params (ev_Params e) of None \<Rightarrow> [] | Some j \<Rightarrow> json_text j)
         in e\<lparr>ev_Message := ''Host '' @ sv_Hostname (ev_Server e) @ '' booted using '' @ ev_BootType e
               @ '' method with the following parameters: '' @ params\<rparr>)
      else if ev_Type e = HostTimeout then e\<lparr>ev_Message := ''Host '' @ sv_Hostname (ev_Server e) @ '' timed out.''\<rparr>
      else e)"

definition newWithID :: "ulid \<Rightarrow> int \<Rightarrow> Server \<Rightarrow> string \<Rightarrow> string \<Rightarrow> params \<Rightarrow> time \<Rightarrow> Event" where
  "newWithID i eventType srv bootType script ps occurredAt =
     setMessage \<lparr>ev_ID = i, ev_Type = eventType, ev_OccurredAt = occurredAt, ev_Server = srv, ev_BootType = bootType,
       ev_Script = script, ev_Message = [], ev_Params = RedactParams ps\<rparr>"

definition eventToRecord :: "Event \<Rightarrow> EventRecord" where
  "eventToRecord e =
     \<lparr>er_ID = ev_ID e, er_Type = ev_Type e, er_OccurredAt = ev_OccurredAt e, er_MAC = sv_Mac (ev_Server e),
      er_IP = sv_IP (ev_Server e), er_Hostname = sv_Hostname (ev_Server e), er_BootType = ev_BootType e,
      er_Script = ev_Script e, er_Message = ev_Message e, er_ParamsJSON = marshal_params (ev_Params e)\<rparr>"

definition recordToEvent :: "EventRecord \<Rightarrow> store_error + Event" where
  "recordToEvent r =
     (let e = \<lparr>ev_ID = er_ID r, ev_Type = er_Type r, ev_OccurredAt = er_OccurredAt r,
            ev_Server = NewServer (er_MAC r) (er_IP r) (er_Hostname r), ev_BootType = er_BootType r,
            ev_Script = er_Script r, ev_Message = er_Message r, ev_Params = None\<rparr>
      in case er_ParamsJSON r of None \<Rightarrow> Inr e
         | Some j \<Rightarrow> (case params_from unmarshal j of None \<Rightarrow> Inl (DecodeError ''params'') | Some ps \<Rightarrow> Inr (e\<lparr>ev_Params := ps\<rparr>)))"

subsection \<open>The log\<close>

text \<open>\<^verbatim>\<open>EventCommands\<close> and \<^verbatim>\<open>EventQueries\<close>; each may be nil in a \<^verbatim>\<open>Log\<close>.\<close>

record 'p EventCommands =
  ec_AppendEvent :: "EventRecord \<Rightarrow> 'p \<Rightarrow> (store_error + ulid) \<times> 'p"
  ec_DeleteEventsBefore :: "time \<Rightarrow> 'p \<Rightarrow> (store_error + nat) \<times> 'p"

record 'p EventQueries =
  eq_ListEvents :: "'p \<Rightarrow> store_error + EventRecord list"
  eq_GetEvent :: "ulid \<Rightarrow> 'p \<Rightarrow> store_error + EventRecord"

record 'p Log =
  lg_Events :: "Event list gomap"
  lg_commands :: "'p EventCommands option"
  lg_queries :: "'p EventQueries option"

definition NewLog :: "'p EventCommands option \<Rightarrow> 'p EventQueries option \<Rightarrow> 'p Log" where
  "NewLog commands queries = \<lparr>lg_Events = Some [], lg_commands = commands, lg_queries = queries\<rparr>"

text \<open>\<^verbatim>\<open>events[mac] = append(events[mac], e)\<close>; a missing key reads as the nil slice.\<close>

definition append_at :: "string \<Rightarrow> Event \<Rightarrow> Event list entries \<Rightarrow> Event list entries" where
  "append_at mac e m = AList.update mac ((case map_of m mac of None \<Rightarrow> [] | Some es \<Rightarrow> es) @ [e]) m"

text \<open>The arguments \<open>made\<close> and \<open>now\<close> are what \<^verbatim>\<open>el.newID()\<close> and \<^verbatim>\<open>el.now()\<close> return.\<close>

definition LogAppendEvent ::
  "ulid \<Rightarrow> time \<Rightarrow> int \<Rightarrow> Server \<Rightarrow> string \<Rightarrow> string \<Rightarrow> params \<Rightarrow> 'p Log \<Rightarrow> 'p \<Rightarrow> store_error option \<times> 'p Log \<times> 'p" where
  "LogAppendEvent made now eventType srv bootType script ps el p =
     (let e = newWithID made eventType srv bootType script ps now;
          el = el\<lparr>lg_Events := Some (append_at (sv_Mac srv) e (entries (lg_Events el)))\<rparr>
      in case lg_commands el of None \<Rightarrow> (None, el, p)
         | Some c \<Rightarrow> (case ec_AppendEvent c (eventToRecord e) p of
             (Inl err, p') \<Rightarrow> (Some err, el, p') | (Inr _, p') \<Rightarrow> (None, el, p')))"

definition AddEvent :: "ulid \<Rightarrow> time \<Rightarrow> int \<Rightarrow> Server \<Rightarrow> string \<Rightarrow> string \<Rightarrow> params \<Rightarrow> 'p Log \<Rightarrow> 'p \<Rightarrow> 'p Log \<times> 'p" where
  "AddEvent made now eventType srv bootType script ps el p = snd (LogAppendEvent made now eventType srv bootType script ps el p)"

fun groupEvents :: "Event list entries \<Rightarrow> EventRecord list \<Rightarrow> store_error + Event list entries" where
  "groupEvents grouped [] = Inr grouped"
| "groupEvents grouped (r # rs) =
     bindE (recordToEvent r) (\<lambda>e. groupEvents (append_at (sv_Mac (ev_Server e)) e grouped) rs)"

definition copyGroupedEvents :: "Event list gomap \<Rightarrow> Event list entries" where
  "copyGroupedEvents events = map (\<lambda>(mac, es). (mac, es)) (entries events)"

definition LogListEvents :: "'p Log \<Rightarrow> 'p \<Rightarrow> store_error + Event list entries" where
  "LogListEvents el p =
     (case lg_queries el of None \<Rightarrow> Inr (copyGroupedEvents (lg_Events el))
      | Some q \<Rightarrow> bindE (eq_ListEvents q p) (groupEvents []))"

datatype event_error = InvalidID | EventStore store_error

text \<open>\<open>parse\<close> stands for \<^verbatim>\<open>ulid.Parse\<close> of the package \<^verbatim>\<open>oklog/ulid\<close>.\<close>

definition LogGetEvent :: "(string \<Rightarrow> ulid option) \<Rightarrow> string \<Rightarrow> 'p Log \<Rightarrow> 'p \<Rightarrow> event_error + Event" where
  "LogGetEvent parse rawID el p =
     (case parse rawID of None \<Rightarrow> Inl InvalidID
      | Some i \<Rightarrow>
          (case lg_queries el of
             None \<Rightarrow> (case List.find (\<lambda>e. ev_ID e = i) (concat (map snd (entries (lg_Events el)))) of
                        None \<Rightarrow> Inl (EventStore NoRows) | Some e \<Rightarrow> Inr e)
           | Some q \<Rightarrow> (case eq_GetEvent q i p of Inl err \<Rightarrow> Inl (EventStore err)
               | Inr r \<Rightarrow> (case recordToEvent r of Inl err \<Rightarrow> Inl (EventStore err) | Inr e \<Rightarrow> Inr e))))"

definition LogDeleteEventsBefore :: "time \<Rightarrow> 'p Log \<Rightarrow> 'p \<Rightarrow> (store_error + nat) \<times> 'p" where
  "LogDeleteEventsBefore cutoff el p =
     (case lg_commands el of None \<Rightarrow> (Inr 0, p) | Some c \<Rightarrow> ec_DeleteEventsBefore c cutoff p)"

text \<open>The memory backend behind the interfaces; \<open>made\<close> is its \<^verbatim>\<open>ulid.Make()\<close>, for records without an ID.\<close>

definition memory_events :: "ulid \<Rightarrow> store EventCommands" where
  "memory_events made =
     \<lparr>ec_AppendEvent = (\<lambda>e s. let (i, s') = AppendEvent made e s in (Inr i, s')),
      ec_DeleteEventsBefore = (\<lambda>cutoff s. let (n, s') = DeleteEventsBefore cutoff s in (Inr n, s'))\<rparr>"

definition memory_event_queries :: "store EventQueries" where
  "memory_event_queries = \<lparr>eq_ListEvents = (\<lambda>s. Inr (ListEvents s)), eq_GetEvent = GetEvent\<rparr>"

subsection \<open>The contract of an event backend\<close>

text \<open>\<open>history p\<close> is the list of stored events, the oldest first.\<close>

locale event_backend =
  fixes c :: "'p EventCommands" and q :: "'p EventQueries" and history :: "'p \<Rightarrow> EventRecord list"
  assumes append: "er_ID e \<noteq> 0 \<Longrightarrow> \<exists>p'. ec_AppendEvent c e p = (Inr (er_ID e), p') \<and> history p' = history p @ [e]"
    and delete: "\<exists>p'. ec_DeleteEventsBefore c cutoff p = (Inr (length (filter (\<lambda>e. er_OccurredAt e < cutoff) (history p))), p')
      \<and> history p' = filter (\<lambda>e. cutoff \<le> er_OccurredAt e) (history p)"
    and list: "eq_ListEvents q p = Inr (history p)"
    and get: "eq_GetEvent q i p = (case List.find (\<lambda>e. er_ID e = i) (history p) of None \<Rightarrow> Inl NoRows | Some e \<Rightarrow> Inr e)"

text \<open>What an event shares with its record, and the events of a host in a grouping.\<close>

definition without_params :: "Event \<Rightarrow> Event" where
  "without_params e = e\<lparr>ev_Params := None,
     ev_Server := NewServer (sv_Mac (ev_Server e)) (sv_IP (ev_Server e)) (sv_Hostname (ev_Server e))\<rparr>"

definition record_event :: "EventRecord \<Rightarrow> Event" where
  "record_event r =
     \<lparr>ev_ID = er_ID r, ev_Type = er_Type r, ev_OccurredAt = er_OccurredAt r,
      ev_Server = NewServer (er_MAC r) (er_IP r) (er_Hostname r), ev_BootType = er_BootType r,
      ev_Script = er_Script r, ev_Message = er_Message r, ev_Params = None\<rparr>"

definition events_of :: "Event list entries \<Rightarrow> string \<Rightarrow> Event list" where
  "events_of m mac = (case map_of m mac of None \<Rightarrow> [] | Some es \<Rightarrow> es)"

lemma events_of_append [simp]: "events_of (append_at mac e m) mac' = events_of m mac' @ (if mac' = mac then [e] else [])"
  by (simp add: events_of_def append_at_def)

lemma without_params_record: "without_params e = record_event (eventToRecord e)"
  by (simp add: without_params_def record_event_def eventToRecord_def)

definition decodable :: "EventRecord \<Rightarrow> bool" where
  "decodable r \<longleftrightarrow> (case er_ParamsJSON r of None \<Rightarrow> True | Some j \<Rightarrow> params_from unmarshal j \<noteq> None)"

lemma marshal_params_decodes: "marshal_params ps = Some j \<Longrightarrow> params_from unmarshal j \<noteq> None"
  by (cases ps) (auto simp: marshal_params_def params_from_def)

lemma decodable_written: "decodable (eventToRecord e)"
  by (auto simp: decodable_def eventToRecord_def dest: marshal_params_decodes split: option.splits)

lemma record_eventToRecord: "er_MAC (eventToRecord e) = sv_Mac (ev_Server e)" "er_ID (eventToRecord e) = ev_ID e"
  by (simp_all add: eventToRecord_def)

lemma recordToEvent_decodable:
  assumes "decodable r"
  obtains e where "recordToEvent r = Inr e" "sv_Mac (ev_Server e) = er_MAC r" "without_params e = record_event r"
proof (cases "er_ParamsJSON r")
  case None
  then show ?thesis
    by (intro that [of "record_event r"])
      (simp_all add: recordToEvent_def record_event_def NewServer_def without_params_def Let_def)
next
  case (Some j)
  with assms obtain ps where "params_from unmarshal j = Some ps" by (auto simp: decodable_def)
  with Some show ?thesis
    by (intro that [of "(record_event r)\<lparr>ev_Params := ps\<rparr>"])
      (simp_all add: recordToEvent_def record_event_def NewServer_def without_params_def Let_def)
qed

lemma groupEvents_events:
  "list_all decodable rs \<Longrightarrow> \<exists>g. groupEvents m rs = Inr g \<and>
     (\<forall>mac. map without_params (events_of g mac) =
        map without_params (events_of m mac) @ map record_event (filter (\<lambda>r. er_MAC r = mac) rs))"
proof (induction rs arbitrary: m)
  case (Cons r rs)
  then obtain e where e: "recordToEvent r = Inr e" "sv_Mac (ev_Server e) = er_MAC r" "without_params e = record_event r"
    by (auto elim: recordToEvent_decodable)
  obtain g where "groupEvents (append_at (er_MAC r) e m) rs = Inr g"
    "\<forall>mac. map without_params (events_of g mac) =
      map without_params (events_of (append_at (er_MAC r) e m) mac) @ map record_event (filter (\<lambda>r. er_MAC r = mac) rs)"
    using Cons.IH [of "append_at (er_MAC r) e m"] Cons.prems by auto
  with e show ?case by auto
qed simp

type_synonym event_args = "ulid \<times> time \<times> int \<times> Server \<times> string \<times> string \<times> params"

fun append_events :: "event_args list \<Rightarrow> 'p Log \<Rightarrow> 'p \<Rightarrow> 'p Log \<times> 'p" where
  "append_events [] el p = (el, p)"
| "append_events ((made, now, t, srv, boot, script, ps) # rest) el p =
     (case LogAppendEvent made now t srv boot script ps el p of (_, el', p') \<Rightarrow> append_events rest el' p')"

lemma newWithID_fields [simp]:
  "ev_Server (newWithID i t srv boot script ps now) = srv" "ev_ID (newWithID i t srv boot script ps now) = i"
  by (simp_all add: newWithID_def setMessage_def Let_def)

context event_backend
begin

text \<open>The mirror and the stored history tell the same story.\<close>

definition in_step :: "'p Log \<Rightarrow> 'p \<Rightarrow> bool" where
  "in_step el p \<longleftrightarrow> lg_commands el = Some c \<and> lg_queries el = Some q \<and> list_all decodable (history p)
     \<and> (\<forall>mac. map without_params (events_of (entries (lg_Events el)) mac) =
          map record_event (filter (\<lambda>r. er_MAC r = mac) (history p)))"

lemma append_in_step:
  assumes "in_step el p" "made \<noteq> 0"
  shows "\<exists>el' p'. LogAppendEvent made now t srv boot script ps el p = (None, el', p') \<and> in_step el' p'"
proof -
  let ?e = "newWithID made t srv boot script ps now"
  obtain p' where p': "ec_AppendEvent c (eventToRecord ?e) p = (Inr made, p')" "history p' = history p @ [eventToRecord ?e]"
    using append [of "eventToRecord ?e" p] assms(2) by (auto simp: record_eventToRecord)
  let ?el = "el\<lparr>lg_Events := Some (append_at (sv_Mac srv) ?e (entries (lg_Events el)))\<rparr>"
  have "LogAppendEvent made now t srv boot script ps el p = (None, ?el, p')"
    using assms(1) p'(1) by (simp add: LogAppendEvent_def in_step_def)
  moreover have "in_step ?el p'"
    using assms(1) p'(2) by (auto simp: in_step_def decodable_written record_eventToRecord without_params_record)
  ultimately show ?thesis by blast
qed

lemma append_events_in_step:
  "in_step el p \<Longrightarrow> list_all (\<lambda>a. fst a \<noteq> 0) args \<Longrightarrow> in_step (fst (append_events args el p)) (snd (append_events args el p))"
proof (induction args el p rule: append_events.induct)
  case (2 made now t srv boot script ps rest el p)
  then obtain el' p' where "LogAppendEvent made now t srv boot script ps el p = (None, el', p')" "in_step el' p'"
    using append_in_step [of el p made now t srv boot script ps] by auto
  with 2 show ?case by auto
qed simp

lemma list_in_step:
  assumes "in_step el p"
  shows "\<exists>g. LogListEvents el p = Inr g \<and>
    (\<forall>mac. map without_params (events_of g mac) = map without_params (events_of (entries (lg_Events el)) mac))"
proof -
  obtain g where "groupEvents [] (history p) = Inr g" "\<forall>mac. map without_params (events_of g mac) =
      map without_params (events_of [] mac) @ map record_event (filter (\<lambda>r. er_MAC r = mac) (history p))"
    using groupEvents_events assms unfolding in_step_def by blast
  with assms show ?thesis
    by (auto simp: LogListEvents_def list in_step_def events_of_def)
qed

lemma new_in_step: "history p = [] \<Longrightarrow> in_step (NewLog (Some c) (Some q)) p"
  by (simp add: in_step_def NewLog_def events_of_def)

end

interpretation mem_events: event_backend "memory_events made" memory_event_queries ms_events
proof (unfold_locales, goal_cases)
  case (1 e p)
  then show ?case by (simp add: memory_events_def AppendEvent_def Let_def)
next
  case (2 cutoff p)
  then show ?case
    by (simp add: memory_events_def DeleteEventsBefore_def deleteEventsLoop_filter not_less)
next
  case (3 p)
  then show ?case by (simp add: memory_event_queries_def ListEvents_def)
next
  case (4 i p)
  then show ?case by (simp add: memory_event_queries_def GetEvent_def getEventLoop_find)
qed

subsection \<open>Properties\<close>

definition memory_log :: "store Log" where
  "memory_log = NewLog (Some (memory_events 1)) (Some memory_event_queries)"

lemma memory_log_in_step: "mem_events.in_step 1 memory_log new_store"
  unfolding memory_log_def by (rule mem_events.new_in_step) (simp add: new_store_def)

text \<open>
  C14. No secret reaches an event: appending an event with parameters that differ only under sensitive keys gives the
  same mirror, the same stored record and the same message, whatever the backend.
\<close>

theorem events_hide_secrets:
  assumes "same_public_params ps qs"
  shows "LogAppendEvent made now t srv boot script ps el p = LogAppendEvent made now t srv boot script qs el p"
  unfolding LogAppendEvent_def newWithID_def RedactParams_public [OF assms] ..

theorem events_hide_secrets_witness:
  "LogAppendEvent 5 0 HostBoot sample_server ManualBoot ''debian.ipxe'' (sample_secret ''hunter2'') memory_log new_store
    = LogAppendEvent 5 0 HostBoot sample_server ManualBoot ''debian.ipxe'' (sample_secret ''other'') memory_log new_store"
proof -
  have "same_public_params (sample_secret ''hunter2'') (sample_secret ''other'')" by code_simp
  then show ?thesis by (rule events_hide_secrets)
qed

text \<open>
  The stored events and the mirror agree: after any sequence of appended events, \<^verbatim>\<open>ListEvents\<close> answers, and lists
  for every MAC the events of the mirror in the order they were appended, up to their parameters and the
  allowed targets of their server.
\<close>

theorem list_events_agrees:
  assumes "list_all (\<lambda>a. fst a \<noteq> 0) args" and "append_events args memory_log new_store = (el, p)"
  shows "\<exists>g. LogListEvents el p = Inr g \<and>
    (\<forall>mac. map without_params (events_of g mac) = map without_params (events_of (entries (lg_Events el)) mac))"
  using mem_events.list_in_step [OF mem_events.append_events_in_step [OF memory_log_in_step assms(1)]] assms(2) by simp

definition sample_events :: "event_args list" where
  "sample_events = [(5, 10, HostPoll, sample_server, [], [], None),
     (6, 20, HostBoot, sample_server, ManualBoot, ''debian.ipxe'', Some [(''n'', VInt 3)])]"

lemma without_params_IDs: "map without_params es = map without_params fs \<Longrightarrow> map ev_ID es = map ev_ID fs"
proof -
  assume "map without_params es = map without_params fs"
  then have "map ev_ID (map without_params es) = map ev_ID (map without_params fs)" by (rule arg_cong)
  moreover have "map ev_ID (map without_params xs) = map ev_ID xs" for xs
    by (simp add: without_params_def)
  ultimately show ?thesis by (simp only:)
qed

definition sample_mirror :: "store Log" where
  "sample_mirror = fst (append_events sample_events memory_log new_store)"

definition sample_log :: store where
  "sample_log = snd (append_events sample_events memory_log new_store)"

theorem list_events_agrees_witness:
  "\<exists>g. LogListEvents sample_mirror sample_log = Inr g \<and> map ev_ID (events_of g ''aa:bb'') = [5, 6]"
proof -
  have "list_all (\<lambda>a. fst a \<noteq> 0) sample_events" by code_simp
  moreover have "append_events sample_events memory_log new_store = (sample_mirror, sample_log)"
    by (simp add: sample_mirror_def sample_log_def)
  ultimately have "\<exists>g. LogListEvents sample_mirror sample_log = Inr g \<and> (\<forall>mac. map without_params (events_of g mac) =
      map without_params (events_of (entries (lg_Events sample_mirror)) mac))" by (rule list_events_agrees)
  then obtain g where g: "LogListEvents sample_mirror sample_log = Inr g" "\<forall>mac. map without_params (events_of g mac) =
      map without_params (events_of (entries (lg_Events sample_mirror)) mac)" by (elim exE conjE)
  have "map ev_ID (events_of (entries (lg_Events sample_mirror)) ''aa:bb'') = [5, 6]" by code_simp
  with without_params_IDs [OF g(2) [THEN spec, of "''aa:bb''"]] g(1) show ?thesis by simp
qed

text \<open>
  Retention: a sweep removes exactly the stored events that occurred before the cutoff and reports how many, an
  event removed is no longer found by its ID, and the others stay in their order.
\<close>

theorem event_retention:
  assumes "LogDeleteEventsBefore cutoff memory_log p = (r, p')"
  shows "r = Inr (length (filter (\<lambda>e. er_OccurredAt e < cutoff) (ms_events p)))
    \<and> ms_events p' = filter (\<lambda>e. cutoff \<le> er_OccurredAt e) (ms_events p)
    \<and> (parse rawID = Some i \<and> list_all (\<lambda>e. er_ID e = i \<longrightarrow> er_OccurredAt e < cutoff) (ms_events p)
        \<longrightarrow> LogGetEvent parse rawID memory_log p' = Inl (EventStore NoRows))"
proof -
  obtain p2 where "ec_DeleteEventsBefore (memory_events 1) cutoff p =
      (Inr (length (filter (\<lambda>e. er_OccurredAt e < cutoff) (ms_events p))), p2)"
    and p2: "ms_events p2 = filter (\<lambda>e. cutoff \<le> er_OccurredAt e) (ms_events p)"
    using mem_events.delete [of 1 cutoff p] by blast
  then have eqs: "r = Inr (length (filter (\<lambda>e. er_OccurredAt e < cutoff) (ms_events p)))" "p' = p2"
    using assms by (simp_all add: LogDeleteEventsBefore_def memory_log_def NewLog_def)
  have "List.find (\<lambda>e. er_ID e = i) (ms_events p2) = None"
    if "list_all (\<lambda>e. er_ID e = i \<longrightarrow> er_OccurredAt e < cutoff) (ms_events p)"
    using that by (auto simp: p2 find_None_iff list_all_iff)
  then show ?thesis
    using eqs p2 by (auto simp: LogGetEvent_def memory_log_def NewLog_def mem_events.get)
qed

theorem event_retention_witness:
  "\<exists>p'. LogDeleteEventsBefore 15 memory_log sample_log = (Inr 1, p') \<and> map er_ID (ms_events p') = [6]
    \<and> LogGetEvent (\<lambda>_. Some 5) ''5'' memory_log p' = Inl (EventStore NoRows)"
proof -
  obtain r p' where del: "LogDeleteEventsBefore 15 memory_log sample_log = (r, p')"
    by (cases "LogDeleteEventsBefore 15 memory_log sample_log")
  have "length (filter (\<lambda>e. er_OccurredAt e < 15) (ms_events sample_log)) = 1" by code_simp
  moreover have "map er_ID (filter (\<lambda>e. 15 \<le> er_OccurredAt e) (ms_events sample_log)) = [6]" by code_simp
  moreover have "list_all (\<lambda>e. er_ID e = 5 \<longrightarrow> er_OccurredAt e < 15) (ms_events sample_log)" by code_simp
  ultimately show ?thesis using del event_retention [OF del, of "\<lambda>_. Some 5" "''5''" 5] by auto
qed

end
