(* ===== verification/BootSession.thy ===== *)
theory BootSession
  imports EventLog
begin

text \<open>
  Boot sessions (\<^verbatim>\<open>bootsession/session.go\<close>): the boot data of a rendered script, stored under an opaque reference
  that the installer URLs carry and that resolves until it expires, and the redacted view of a session.
\<close>

subsection \<open>Data\<close>

definition QueryParam :: string where "QueryParam = ''ref''"
definition TemplateParam :: string where "TemplateParam = ''boot_ref''"

record Snapshot =
  sn_Ref :: string
  sn_Server :: Server
  sn_Target :: string
  sn_Environment :: string
  sn_Params :: params
  sn_Users :: "ResolvedUser gomap"
  sn_Provisioning :: ProvisioningConfig
  sn_CreatedAt :: time
  sn_ExpiresAt :: time

record Reference =
  rf_Ref :: string
  rf_Server :: Server
  rf_Target :: string
  rf_Environment :: string
  rf_Params :: params
  rf_Users :: val
  rf_Provisioning :: val
  rf_CreatedAt :: time
  rf_ExpiresAt :: time

text \<open>The backend serves both \<^verbatim>\<open>BootSessionCommands\<close> and \<^verbatim>\<open>BootSessionQueries\<close>.\<close>

record 'p SessionStore =
  ss_backend :: "'p BootSessionBackend"
  ss_retention :: time

definition NewStore :: "'p BootSessionBackend \<Rightarrow> time \<Rightarrow> 'p SessionStore" where
  "NewStore backend retention = \<lparr>ss_backend = backend, ss_retention = retention\<rparr>"

subsection \<open>Operations\<close>

text \<open>The arguments \<open>now\<close> and \<open>newRef\<close> are what \<^verbatim>\<open>s.now()\<close> and \<^verbatim>\<open>s.newRef()\<close> return.\<close>

definition complete_snapshot :: "time \<Rightarrow> time \<Rightarrow> string \<Rightarrow> Snapshot \<Rightarrow> Snapshot" where
  "complete_snapshot retention now newRef snapshot =
     (let s1 = (if sn_Ref snapshot = [] then snapshot\<lparr>sn_Ref := newRef\<rparr> else snapshot);
          s2 = (if sn_CreatedAt s1 = zero_time then s1\<lparr>sn_CreatedAt := now\<rparr> else s1)
      in if sn_ExpiresAt s2 = zero_time then s2\<lparr>sn_ExpiresAt := sn_CreatedAt s2 + retention\<rparr> else s2)"

definition Create :: "time \<Rightarrow> string \<Rightarrow> 'p SessionStore \<Rightarrow> Snapshot \<Rightarrow> 'p \<Rightarrow> (store_error + string) \<times> 'p" where
  "Create now newRef s snapshot p =
     (let snapshot = complete_snapshot (ss_retention s) now newRef snapshot
      in case marshal_params (sn_Params snapshot) of
           None \<Rightarrow> (Inl (EncodeError ''params''), p)
         | Some paramsJSON \<Rightarrow>
             (case json_provisioning (sn_Provisioning snapshot) of
                None \<Rightarrow> (Inl (EncodeError ''provisioning''), p)
              | Some provisioningJSON \<Rightarrow>
                  (case CreateBootSession (ss_backend s)
                     \<lparr>br_Ref = sn_Ref snapshot, br_MAC = sv_Mac (sn_Server snapshot), br_IP = sv_IP (sn_Server snapshot),
                      br_Hostname = sv_Hostname (sn_Server snapshot), br_Target = sn_Target snapshot,
                      br_Environment = sn_Environment snapshot, br_ParamsJSON = Some paramsJSON,
                      br_UsersJSON = Some (marshal_users (sn_Users snapshot)),
                      br_ProvisioningJSON = Some provisioningJSON,
                      br_CreatedAt = sn_CreatedAt snapshot, br_ExpiresAt = sn_ExpiresAt snapshot\<rparr> p of
                     (Some err, p') \<Rightarrow> (Inl err, p')
                   | (None, p') \<Rightarrow> (Inr (sn_Ref snapshot), p'))))"

definition snapshotFromRecord :: "BootSessionRecord \<Rightarrow> store_error + Snapshot" where
  "snapshotFromRecord r =
     (case (case br_ParamsJSON r of None \<Rightarrow> Some None | Some j \<Rightarrow> params_from unmarshal j) of
        None \<Rightarrow> Inl (DecodeError ''params'')
      | Some ps \<Rightarrow> Inr
          \<lparr>sn_Ref = br_Ref r,
           sn_Server = \<lparr>sv_Mac = br_MAC r, sv_IP = br_IP r, sv_Hostname = br_Hostname r, sv_AllowedTargets = None\<rparr>,
           sn_Target = br_Target r, sn_Environment = br_Environment r, sn_Params = ps,
           sn_Users = (case br_UsersJSON r of None \<Rightarrow> None | Some us \<Rightarrow> us),
           sn_Provisioning = (case br_ProvisioningJSON r of None \<Rightarrow> zero_provisioning | Some p \<Rightarrow> p),
           sn_CreatedAt = br_CreatedAt r, sn_ExpiresAt = br_ExpiresAt r\<rparr>)"

definition Get :: "time \<Rightarrow> 'p SessionStore \<Rightarrow> string \<Rightarrow> 'p \<Rightarrow> store_error + Snapshot" where
  "Get now s ref p = bindE (GetBootSession (ss_backend s) ref now p) snapshotFromRecord"

definition DeleteExpired :: "'p SessionStore \<Rightarrow> time \<Rightarrow> 'p \<Rightarrow> (store_error + nat) \<times> 'p" where
  "DeleteExpired s cutoff p = DeleteBootSessionsBefore (ss_backend s) cutoff p"

text \<open>\<^verbatim>\<open>url.QueryEscape\<close>.\<close>

definition upper_hex :: "nat \<Rightarrow> char" where
  "upper_hex n = ''0123456789ABCDEF'' ! n"

definition unreserved :: "char \<Rightarrow> bool" where
  "unreserved c \<longleftrightarrow> c \<in> set ''-_.~'' \<or> list_ex (\<lambda>(lo, hi). lo \<le> c \<and> c \<le> hi)
     [(CHR ''0'', CHR ''9''), (CHR ''A'', CHR ''Z''), (CHR ''a'', CHR ''z'')]"

definition query_char :: "char \<Rightarrow> string" where
  "query_char c =
     (if unreserved c then [c]
      else if c = CHR '' '' then ''+''
      else CHR ''%'' # [upper_hex (of_char c div 16), upper_hex (of_char c mod 16)])"

definition queryEscape :: "string \<Rightarrow> string" where
  "queryEscape s = concat (map query_char s)"

definition ApplyReferenceParams :: "params \<Rightarrow> string \<Rightarrow> params" where
  "ApplyReferenceParams ps ref =
     (case ps of None \<Rightarrow> None
      | Some es \<Rightarrow>
          if ref = [] then Some es
          else let encoded = QueryParam @ ''='' @ queryEscape ref
               in Some (AList.update ''boot_ref_query_question'' (VStr (''?'' @ encoded))
                    (AList.update ''boot_ref_query_suffix'' (VStr (''&'' @ encoded))
                      (AList.update ''boot_ref_query'' (VStr encoded)
                        (AList.update TemplateParam (VStr ref) es)))))"

subsection \<open>The redacted view\<close>

text \<open>The JSON documents of the structs; a nil pointer, slice or map is null.\<close>

definition j_str :: "string \<Rightarrow> json" where "j_str s = JStr (valid_utf8 s)"
definition j_bool :: "bool option \<Rightarrow> json" where "j_bool b = (case b of None \<Rightarrow> JNull | Some x \<Rightarrow> JBool x)"
definition j_int :: "int option \<Rightarrow> json" where "j_int i = (case i of None \<Rightarrow> JNull | Some x \<Rightarrow> JInt x)"
definition j_strs :: "string slice \<Rightarrow> json" where "j_strs s = (case s of None \<Rightarrow> JNull | Some xs \<Rightarrow> JArr (map j_str xs))"

definition j_map :: "('v \<Rightarrow> json) \<Rightarrow> 'v gomap \<Rightarrow> json" where
  "j_map f m = (case m of None \<Rightarrow> JNull | Some es \<Rightarrow> JObj (sort_key fst (map (\<lambda>(k, v). (valid_utf8 k, f v)) es)))"

definition user_json :: "ResolvedUser \<Rightarrow> json" where
  "user_json u = JObj
     [(''Name'', j_str (ru_Name u)), (''Primary'', JBool (ru_Primary u)), (''System'', JBool (ru_System u)),
      (''Locked'', JBool (ru_Locked u)), (''FullName'', j_str (ru_FullName u)),
      (''PasswordCrypted'', j_str (ru_PasswordCrypted u)), (''SSHAuthorizedKeys'', j_strs (ru_SSHAuthorizedKeys u)),
      (''Groups'', j_strs (ru_Groups u)), (''Shell'', j_str (ru_Shell u)), (''Sudo'', j_str (ru_Sudo u))]"

definition encryption_json :: "json \<Rightarrow> StorageEncryptionConfig \<Rightarrow> json" where
  "encryption_json passphrase e = JObj
     [(''Enabled'', j_bool (enc_Enabled e)), (''Passphrase'', passphrase), (''Cipher'', j_str (enc_Cipher e)),
      (''KeySize'', j_int (enc_KeySize e)), (''Hash'', j_str (enc_Hash e)),
      (''TPM'', JObj [(''Enabled'', j_bool (tpm_Enabled (enc_TPM e))), (''Device'', j_str (tpm_Device (enc_TPM e))),
         (''PCRs'', j_str (tpm_PCRs (enc_TPM e))), (''RequireSHA256Bank'', j_bool (tpm_RequireSHA256Bank (enc_TPM e))),
         (''Initramfs'', j_str (tpm_Initramfs (enc_TPM e)))])]"

definition filesystem_json :: "FilesystemConfig \<Rightarrow> json" where
  "filesystem_json f = JObj
     [(''Absent'', j_bool (fs_Absent f)), (''Mountpoint'', j_str (fs_Mountpoint f)), (''FSType'', j_str (fs_FSType f)),
      (''Size'', j_str (fs_Size f)), (''SizeMiB'', j_int (fs_SizeMiB f))]"

definition storage_json :: "json \<Rightarrow> StorageConfig \<Rightarrow> json" where
  "storage_json passphrase s = JObj
     [(''Disk'', j_str (st_Disk s)), (''Wipe'', j_bool (st_Wipe s)), (''WipeDiskPatterns'', j_strs (st_WipeDiskPatterns s)),
      (''Mode'', j_str (st_Mode s)), (''VolumeGroup'', j_str (st_VolumeGroup s)),
      (''RAID'', JObj [(''Level'', JInt (raid_Level (st_RAID s))), (''Devices'', j_strs (raid_Devices (st_RAID s))),
         (''BootDegraded'', j_bool (raid_BootDegraded (st_RAID s)))]),
      (''Encryption'', encryption_json passphrase (st_Encryption s)),
      (''Filesystems'', j_map filesystem_json (st_Filesystems s))]"

definition boot_json :: "BootConfig \<Rightarrow> json" where
  "boot_json b = JObj
     [(''Firmware'', j_str (boot_Firmware b)),
      (''Netboot'', JObj [(''Method'', j_str (nb_Method (boot_Netboot b))), (''KernelArgs'', j_strs (nb_KernelArgs (boot_Netboot b)))]),
      (''Installed'', JObj [(''Bootloader'', j_str (ib_Bootloader (boot_Installed b))),
         (''TimeoutSeconds'', j_int (ib_TimeoutSeconds (boot_Installed b))), (''KernelArgs'', j_strs (ib_KernelArgs (boot_Installed b)))])]"

definition installer_json :: "json \<Rightarrow> InstallerConfig \<Rightarrow> json" where
  "installer_json configParams i = JObj
     [(''ConfigTemplate'', j_str (ins_ConfigTemplate i)), (''ConfigParams'', configParams),
      (''LateCommands'', j_strs (ins_LateCommands i)), (''ExtraTemplate'', j_str (ins_ExtraTemplate i))]"

definition provisioning_json :: "ProvisioningConfig \<Rightarrow> json option" where
  "provisioning_json c =
     (case (marshal (enc_Passphrase (st_Encryption (pv_Storage c))), marshal_params (ins_ConfigParams (pv_Installer c))) of
        (Some passphrase, Some configParams) \<Rightarrow> Some (JObj
          [(''Locale'', JObj [(''Language'', j_str (loc_Language (pv_Locale c))), (''Keyboard'', j_str (loc_Keyboard (pv_Locale c)))]),
           (''Time'', JObj [(''Timezone'', j_str (time_Timezone (pv_Time c))), (''UTC'', j_bool (time_UTC (pv_Time c))),
              (''NTP'', j_bool (time_NTP (pv_Time c)))]),
           (''Network'', JObj [(''Hostname'', j_str (net_Hostname (pv_Network c))), (''Bootproto'', j_str (net_Bootproto (pv_Network c))),
              (''Nameservers'', j_strs (net_Nameservers (pv_Network c)))]),
           (''Packages'', JObj [(''Install'', j_strs (pkg_Install (pv_Packages c))), (''Groups'', j_strs (pkg_Groups (pv_Packages c))),
              (''UpdatePolicy'', j_str (pkg_UpdatePolicy (pv_Packages c)))]),
           (''Storage'', storage_json passphrase (pv_Storage c)),
           (''Boot'', boot_json (pv_Boot c)),
           (''Repos'', JObj [(''OSMirror'', j_str (rep_OSMirror (pv_Repos c))), (''Release'', j_str (rep_Release (pv_Repos c))),
              (''Firmware'', j_bool (rep_Firmware (pv_Repos c))), (''Contrib'', j_bool (rep_Contrib (pv_Repos c))),
              (''NonFree'', j_bool (rep_NonFree (pv_Repos c)))]),
           (''Installer'', installer_json configParams (pv_Installer c))])
      | _ \<Rightarrow> None)"

text \<open>\<^verbatim>\<open>utils.RedactForLog\<close> of a struct, or of a map of structs: it is decoded from its JSON first.\<close>

definition RedactStruct :: "json option \<Rightarrow> val" where
  "RedactStruct encoded = redactForLog [] (case encoded of None \<Rightarrow> VStr redactedValue | Some j \<Rightarrow> unmarshal j)"

definition referenceFromSnapshot :: "Snapshot \<Rightarrow> Reference" where
  "referenceFromSnapshot s =
     \<lparr>rf_Ref = sn_Ref s, rf_Server = sn_Server s, rf_Target = sn_Target s, rf_Environment = sn_Environment s,
      rf_Params = RedactParams (sn_Params s), rf_Users = RedactStruct (Some (j_map user_json (sn_Users s))),
      rf_Provisioning = RedactStruct (provisioning_json (sn_Provisioning s)),
      rf_CreatedAt = sn_CreatedAt s, rf_ExpiresAt = sn_ExpiresAt s\<rparr>"

definition Inspect :: "time \<Rightarrow> 'p SessionStore \<Rightarrow> string \<Rightarrow> 'p \<Rightarrow> store_error + Reference" where
  "Inspect now s ref p = bindE (Get now s ref p) (\<lambda>snapshot. Inr (referenceFromSnapshot snapshot))"

subsection \<open>The contract of a session backend\<close>

datatype session_op = OpCreate time string Snapshot | OpSweep time

fun run_session :: "'p SessionStore \<Rightarrow> 'p \<Rightarrow> session_op \<Rightarrow> 'p" where
  "run_session s p (OpCreate now newRef snapshot) = snd (Create now newRef s snapshot p)"
| "run_session s p (OpSweep cutoff) = snd (DeleteExpired s cutoff p)"

text \<open>The operations that leave a reference alone until \<open>t\<close>: sessions under other references and sweeps up to \<open>t\<close>.\<close>

fun leaves_ref :: "string \<Rightarrow> time \<Rightarrow> session_op \<Rightarrow> bool" where
  "leaves_ref ref t (OpCreate now newRef snapshot) = (sn_Ref (complete_snapshot 0 now newRef snapshot) \<noteq> ref)"
| "leaves_ref ref t (OpSweep cutoff) = (cutoff \<le> t)"

lemma complete_ref: "sn_Ref (complete_snapshot retention now newRef s) = (if sn_Ref s = [] then newRef else sn_Ref s)"
  by (simp add: complete_snapshot_def Let_def)

locale session_backend =
  fixes b :: "'p BootSessionBackend" and rows :: "'p \<Rightarrow> string \<Rightarrow> BootSessionRecord option" and ok :: "'p \<Rightarrow> bool"
  assumes create: "ok p \<Longrightarrow> \<exists>p'. CreateBootSession b r p = (None, p') \<and> ok p' \<and> rows p' = (rows p)(br_Ref r \<mapsto> r)"
    and delete_before: "ok p \<Longrightarrow> \<exists>n p'. DeleteBootSessionsBefore b cutoff p = (Inr n, p') \<and> ok p' \<and>
      rows p' = (\<lambda>ref. case rows p ref of None \<Rightarrow> None | Some r \<Rightarrow> if br_ExpiresAt r < cutoff then None else Some r)"
    and get: "ok p \<Longrightarrow> GetBootSession b ref now p =
      (case rows p ref of None \<Rightarrow> Inl NoRows | Some r \<Rightarrow> if now < br_ExpiresAt r then Inr r else Inl NoRows)"
begin

lemma Get_rows:
  "ok p \<Longrightarrow> ss_backend s = b \<Longrightarrow> Get now s ref p = (case rows p ref of None \<Rightarrow> Inl NoRows
     | Some r \<Rightarrow> if now < br_ExpiresAt r then snapshotFromRecord r else Inl NoRows)"
  by (simp add: Get_def get split: option.splits)

lemma Create_row:
  assumes "ok p" "ss_backend s = b" "Create now newRef s snapshot p = (Inr ref, p')"
  defines "snap \<equiv> complete_snapshot (ss_retention s) now newRef snapshot"
  shows "\<exists>r j v. ok p' \<and> rows p' = (rows p)(ref \<mapsto> r) \<and> ref = sn_Ref snap \<and> br_ExpiresAt r = sn_ExpiresAt snap
    \<and> marshal_params (sn_Params snap) = Some j \<and> json_provisioning (sn_Provisioning snap) = Some v
    \<and> r = \<lparr>br_Ref = sn_Ref snap, br_MAC = sv_Mac (sn_Server snap), br_IP = sv_IP (sn_Server snap),
           br_Hostname = sv_Hostname (sn_Server snap), br_Target = sn_Target snap, br_Environment = sn_Environment snap,
           br_ParamsJSON = Some j, br_UsersJSON = Some (marshal_users (sn_Users snap)), br_ProvisioningJSON = Some v,
           br_CreatedAt = sn_CreatedAt snap, br_ExpiresAt = sn_ExpiresAt snap\<rparr>"
proof -
  obtain j v where jv: "marshal_params (sn_Params snap) = Some j" "json_provisioning (sn_Provisioning snap) = Some v"
    using assms(3) by (auto simp: Create_def Let_def snap_def split: option.splits)
  let ?r = "\<lparr>br_Ref = sn_Ref snap, br_MAC = sv_Mac (sn_Server snap), br_IP = sv_IP (sn_Server snap),
           br_Hostname = sv_Hostname (sn_Server snap), br_Target = sn_Target snap, br_Environment = sn_Environment snap,
           br_ParamsJSON = Some j, br_UsersJSON = Some (marshal_users (sn_Users snap)), br_ProvisioningJSON = Some v,
           br_CreatedAt = sn_CreatedAt snap, br_ExpiresAt = sn_ExpiresAt snap\<rparr>"
  obtain p2 where p2: "CreateBootSession b ?r p = (None, p2)" "ok p2" "rows p2 = (rows p)(br_Ref ?r \<mapsto> ?r)"
    using create [OF assms(1)] by blast
  have "Create now newRef s snapshot p = (Inr (sn_Ref snap), p2)"
    unfolding Create_def Let_def snap_def [symmetric] assms(2) jv option.case p2(1) prod.case ..
  with assms(3) have "p' = p2" "ref = sn_Ref snap" by simp_all
  with p2(2,3) jv show ?thesis by simp
qed

lemma Create_rows_else:
  assumes "ok p" "ss_backend s = b" "sn_Ref (complete_snapshot (ss_retention s) now newRef snapshot) \<noteq> ref"
  shows "ok (snd (Create now newRef s snapshot p)) \<and> rows (snd (Create now newRef s snapshot p)) ref = rows p ref"
proof -
  obtain res p' where cr: "Create now newRef s snapshot p = (res, p')" by (cases "Create now newRef s snapshot p")
  show ?thesis
  proof (cases res)
    case (Inr made)
    with cr have "Create now newRef s snapshot p = (Inr made, p')" by simp
    from Create_row [OF assms(1,2) this] obtain r' where "ok p'" "rows p' = (rows p)(made \<mapsto> r')"
      "made = sn_Ref (complete_snapshot (ss_retention s) now newRef snapshot)" by blast
    with assms(3) cr show ?thesis by auto
  next
    case (Inl e)
    have "p' = p" using cr Inl assms(2) create [OF assms(1)]
      by (auto simp: Create_def Let_def split: option.splits prod.splits) (metis option.distinct(1) prod.inject)+
    with assms(1) cr show ?thesis by simp
  qed
qed

lemma run_keeps_row:
  assumes "ok p" "ss_backend s = b" "leaves_ref ref t oper" "rows p ref = Some r" "t < br_ExpiresAt r"
  shows "ok (run_session s p oper) \<and> rows (run_session s p oper) ref = Some r"
proof (cases oper)
  case (OpSweep cutoff)
  obtain n p' where "DeleteBootSessionsBefore b cutoff p = (Inr n, p')" "ok p'"
    "rows p' = (\<lambda>ref. case rows p ref of None \<Rightarrow> None | Some r \<Rightarrow> if br_ExpiresAt r < cutoff then None else Some r)"
    using delete_before [OF assms(1)] by blast
  with assms OpSweep show ?thesis by (simp add: DeleteExpired_def)
next
  case (OpCreate now newRef snapshot)
  show ?thesis using Create_rows_else [OF assms(1,2), of now newRef snapshot ref] assms(3,4) OpCreate
    by (simp add: complete_ref)
qed

lemma run_keeps_rows:
  "ok p \<Longrightarrow> ss_backend s = b \<Longrightarrow> list_all (leaves_ref ref t) ops \<Longrightarrow> rows p ref = Some r \<Longrightarrow> t < br_ExpiresAt r \<Longrightarrow>
   ok (foldl (run_session s) p ops) \<and> rows (foldl (run_session s) p ops) ref = Some r"
proof (induction ops arbitrary: p)
  case (Cons oper ops)
  then show ?case using run_keeps_row [of p s ref t oper r] by simp
qed simp

text \<open>Nothing brings an expired reference back.\<close>

lemma run_row_or_gone:
  assumes "ok p" "ss_backend s = b" "leaves_ref ref t oper" "rows p ref \<in> {None, Some r}"
  shows "ok (run_session s p oper) \<and> rows (run_session s p oper) ref \<in> {None, Some r}"
proof (cases oper)
  case (OpSweep cutoff)
  obtain n p' where "DeleteBootSessionsBefore b cutoff p = (Inr n, p')" "ok p'"
    "rows p' = (\<lambda>ref. case rows p ref of None \<Rightarrow> None | Some r \<Rightarrow> if br_ExpiresAt r < cutoff then None else Some r)"
    using delete_before [OF assms(1)] by blast
  with assms OpSweep show ?thesis by (auto simp: DeleteExpired_def split: if_splits)
next
  case (OpCreate now newRef snapshot)
  show ?thesis using Create_rows_else [OF assms(1,2), of now newRef snapshot ref] assms(3,4) OpCreate
    by (simp add: complete_ref)
qed

lemma run_rows_or_gone:
  "ok p \<Longrightarrow> ss_backend s = b \<Longrightarrow> list_all (leaves_ref ref t) ops \<Longrightarrow> rows p ref \<in> {None, Some r} \<Longrightarrow>
   ok (foldl (run_session s) p ops) \<and> rows (foldl (run_session s) p ops) ref \<in> {None, Some r}"
proof (induction ops arbitrary: p)
  case (Cons oper ops)
  then show ?case using run_row_or_gone [of p s ref t oper r] by simp
qed simp

lemma lifetime:
  assumes "ok p" "ss_backend s = b" "Create now newRef s snapshot p = (Inr ref, p')" "list_all (leaves_ref ref t) ops"
  shows "Get t s ref (foldl (run_session s) p' ops) =
    (if t < sn_ExpiresAt (complete_snapshot (ss_retention s) now newRef snapshot) then Get t s ref p' else Inl NoRows)"
proof -
  from Create_row [OF assms(1-3)] obtain r where r: "ok p'" "rows p' ref = Some r"
    "br_ExpiresAt r = sn_ExpiresAt (complete_snapshot (ss_retention s) now newRef snapshot)" by auto
  show ?thesis
  proof (cases "t < br_ExpiresAt r")
    case True
    with run_keeps_rows [OF r(1) assms(2,4) r(2)] r assms(2) show ?thesis by (simp add: Get_rows)
  next
    case False
    with run_rows_or_gone [OF r(1) assms(2,4), of r] r assms(2) show ?thesis by (auto simp: Get_rows)
  qed
qed

end

interpretation mem_sessions: session_backend memory_boot_sessions "\<lambda>s. map_of (ms_bootSessions s)" wf_store
proof (unfold_locales, goal_cases)
  case (1 p r)
  then show ?case
    by (auto simp: memory_boot_sessions_def mem_CreateBootSession_def wf_store_def distinct_update intro: keyed_by_intros)
next
  case (2 p cutoff)
  then show ?case
    by (auto simp: memory_boot_sessions_def mem_DeleteBootSessionsBefore_def wf_store_def deleteWhere_distinct
        deleteWhere_self case_prod_beta Let_def intro: keyed_by_intros)
next
  case (3 p ref now)
  then show ?case by (simp add: memory_boot_sessions_def mem_GetBootSession_def split: option.splits)
qed

subsection \<open>Facts about the redacted view\<close>

text \<open>Sorting and collecting entries only look at the keys.\<close>

definition on_values :: "(string \<Rightarrow> 'v \<Rightarrow> 'w) \<Rightarrow> 'v entries \<Rightarrow> 'w entries" where
  "on_values f es = map (\<lambda>(k, v). (k, f k v)) es"

lemma on_values_simps [simp]: "on_values f [] = []" "on_values f ((k, v) # es) = (k, f k v) # on_values f es"
  by (simp_all add: on_values_def)

lemma insort_on_values: "on_values f (insort_key fst (k, v) es) = insort_key fst (k, f k v) (on_values f es)"
  by (induction es) auto

lemma sort_on_values: "on_values f (sort_key fst es) = sort_key fst (on_values f es)"
  by (induction es) (auto simp: insort_on_values)

lemma update_on_values: "on_values f (AList.update k v es) = AList.update k (f k v) (on_values f es)"
  by (induction es) auto

lemma put_all_on_values: "on_values f (put_all dst src) = put_all (on_values f dst) (on_values f src)"
  by (induction dst src rule: put_all.induct) (auto simp: update_on_values)

lemma on_values_comp: "on_values f (map (\<lambda>(k, v). (g k, h v)) es) = map (\<lambda>(k, v). (g k, f (g k) (h v))) es"
  by (induction es) auto

lemma redact_struct_map:
  "RedactStruct (Some (j_map f (Some es))) =
     VMap (put_all [] (sort_key fst (map (\<lambda>(k, v). (valid_utf8 k, redactForLog (valid_utf8 k) (unmarshal (f v)))) es)))"
proof -
  have dec: "map (\<lambda>(k, j). (k, unmarshal j)) js = on_values (\<lambda>_. unmarshal) js" for js by (simp add: on_values_def)
  have red: "map (\<lambda>(k, v). (k, redactForLog k v)) vs = on_values redactForLog vs" for vs by (simp add: on_values_def)
  have comp: "on_values redactForLog (on_values (\<lambda>_. unmarshal) js) = on_values (\<lambda>k j. redactForLog k (unmarshal j)) js" for js
    by (induction js) auto
  show ?thesis
    by (simp add: RedactStruct_def j_map_def shouldRedactLogValue_def dec red put_all_on_values comp sort_on_values on_values_comp)
qed

definition blank_user :: "ResolvedUser \<Rightarrow> ResolvedUser" where
  "blank_user u = u\<lparr>ru_PasswordCrypted := [], ru_SSHAuthorizedKeys := None\<rparr>"

definition blank_passphrase :: "ProvisioningConfig \<Rightarrow> ProvisioningConfig" where
  "blank_passphrase c = c\<lparr>pv_Storage := (pv_Storage c)\<lparr>st_Encryption := (st_Encryption (pv_Storage c))\<lparr>enc_Passphrase := VNil\<rparr>\<rparr>\<rparr>"

lemma sensitive_fields:
  "IsSensitiveParamKey ''PasswordCrypted''" "IsSensitiveParamKey ''SSHAuthorizedKeys''" "IsSensitiveParamKey ''Passphrase''"
  by code_simp+

lemma redact_sensitive: "IsSensitiveParamKey key \<Longrightarrow> key \<noteq> [] \<Longrightarrow> \<not> isStructuredContextKey key \<Longrightarrow>
    redactForLog key v = VStr redactedValue"
  by (rule redactForLog_hidden) (simp add: shouldRedactLogValue_def)

lemma redact_secret_fields [simp]:
  "redactForLog ''PasswordCrypted'' v = VStr redactedValue" "redactForLog ''SSHAuthorizedKeys'' v = VStr redactedValue"
  "redactForLog ''Passphrase'' v = VStr redactedValue"
  by (rule redact_sensitive; (rule sensitive_fields | simp add: isStructuredContextKey_def))+

lemma redact_user_blank:
  "redactForLog key (unmarshal (user_json u)) = redactForLog key (unmarshal (user_json (blank_user u)))"
  by (simp add: user_json_def blank_user_def shouldRedactLogValue_def isStructuredContainer_def)

lemma redact_encryption_passphrase:
  "redactForLog key (unmarshal (encryption_json j e)) = redactForLog key (unmarshal (encryption_json JNull (e\<lparr>enc_Passphrase := VNil\<rparr>)))"
  by (simp add: encryption_json_def shouldRedactLogValue_def isStructuredContainer_def)

lemma redact_obj:
  assumes "distinct (map fst es)"
  shows "redactForLog key (unmarshal (JObj es)) = (if shouldRedactLogValue key (VMap []) then VStr redactedValue
     else VMap (map (\<lambda>(k, j). (k, redactForLog k (unmarshal j))) es))"
proof -
  have "put_all [] (map (\<lambda>(k, j). (k, unmarshal j)) es) = map (\<lambda>(k, j). (k, unmarshal j)) es"
    using put_all_fresh [of "[]" "map (\<lambda>(k, j). (k, unmarshal j)) es"] assms
    by (simp only: append_Nil map_fst_map_snd)
  moreover have "shouldRedactLogValue key (VMap (map (\<lambda>(k, j). (k, unmarshal j)) es)) = shouldRedactLogValue key (VMap [])"
    by (rule shouldRedact_same_kind) (simp add: isStructuredContainer_def)
  ultimately show ?thesis by (simp add: comp_def case_prod_beta)
qed

lemma redact_storage_passphrase:
  "redactForLog key (unmarshal (storage_json j s)) =
   redactForLog key (unmarshal (storage_json JNull (s\<lparr>st_Encryption := (st_Encryption s)\<lparr>enc_Passphrase := VNil\<rparr>\<rparr>)))"
  unfolding storage_json_def
  by (simp add: redact_obj redact_encryption_passphrase [of _ j] del: unmarshal.simps redactForLog.simps)

lemma redact_provisioning_blank:
  assumes "marshal (enc_Passphrase (st_Encryption (pv_Storage c))) \<noteq> None"
  shows "RedactStruct (provisioning_json c) = RedactStruct (provisioning_json (blank_passphrase c))"
proof -
  obtain j where j: "marshal (enc_Passphrase (st_Encryption (pv_Storage c))) = Some j" using assms by blast
  show ?thesis
    using redact_storage_passphrase [of _ j "pv_Storage c"]
    by (cases "marshal_params (ins_ConfigParams (pv_Installer c))")
      (simp_all add: RedactStruct_def provisioning_json_def blank_passphrase_def j redact_obj
        del: unmarshal.simps(7) redactForLog.simps)
qed

lemma redact_users_blank:
  assumes "map_option (on_values (\<lambda>_. blank_user)) us = map_option (on_values (\<lambda>_. blank_user)) vs"
  shows "RedactStruct (Some (j_map user_json us)) = RedactStruct (Some (j_map user_json vs))"
proof (cases us)
  case None
  with assms show ?thesis by (cases vs) simp_all
next
  case (Some es)
  with assms obtain fs where fs: "vs = Some fs" "on_values (\<lambda>_. blank_user) es = on_values (\<lambda>_. blank_user) fs"
    by (cases vs) auto
  let ?red = "\<lambda>k u. (valid_utf8 k, redactForLog (valid_utf8 k) (unmarshal (user_json u)))"
  have red: "map (\<lambda>(k, u). ?red k u) xs = map (\<lambda>(k, u). ?red k u) (on_values (\<lambda>_. blank_user) xs)" for xs
    by (induction xs) (auto simp flip: redact_user_blank)
  show ?thesis unfolding Some fs(1) redact_struct_map by (subst (1 2) red) (simp only: fs(2))
qed

subsection \<open>Properties\<close>


definition sample_sessions :: "store SessionStore" where
  "sample_sessions = NewStore memory_boot_sessions (24 * hour)"

definition sample_snapshot :: Snapshot where
  "sample_snapshot = \<lparr>sn_Ref = [], sn_Server = sample_server, sn_Target = ''debian.ipxe'', sn_Environment = [],
     sn_Params = Some [(''hostname'', VStr ''web1''), (''rootPassword'', VStr ''hunter2'')], sn_Users = None,
     sn_Provisioning = zero_provisioning, sn_CreatedAt = zero_time, sn_ExpiresAt = zero_time\<rparr>"

definition sample_session_ops :: "session_op list" where
  "sample_session_ops = [OpCreate 7 ''other'' sample_snapshot, OpSweep (3 * hour), OpSweep (30 * hour)]"

definition sample_created :: store where
  "sample_created = snd (Create 5 ''r1'' sample_sessions sample_snapshot new_store)"

lemma sample_created_result: "Create 5 ''r1'' sample_sessions sample_snapshot new_store = (Inr ''r1'', sample_created)"
proof -
  have "fst (Create 5 ''r1'' sample_sessions sample_snapshot new_store) = Inr ''r1''" by code_simp
  then show ?thesis by (simp add: sample_created_def prod_eq_iff)
qed

lemma wf_store_new [simp]: "wf_store new_store"
  by (simp add: wf_store_def new_store_def keyed_by_def)


text \<open>A snapshot whose data JSON keeps: numbers are floats here, as the decoder makes them.\<close>

definition canonical_snapshot :: "Snapshot \<Rightarrow> bool" where
  "canonical_snapshot s \<longleftrightarrow>
     (case sn_Params s of None \<Rightarrow> True | Some es \<Rightarrow> canonical False (VMap es))
     \<and> utf8_keys (sn_Users s) \<and> list_all (utf8_user \<circ> snd) (entries (sn_Users s))
     \<and> canonical_provisioning (sn_Provisioning s) \<and> sv_AllowedTargets (sn_Server s) = None"

lemma canonical_complete: "canonical_snapshot s \<Longrightarrow> canonical_snapshot (complete_snapshot retention now newRef s)"
  by (simp add: canonical_snapshot_def complete_snapshot_def Let_def)

lemma marshal_params_floats:
  assumes "case ps of None \<Rightarrow> True | Some es \<Rightarrow> canonical False (VMap es)"
  shows "\<exists>j. marshal_params ps = Some j \<and> params_from unmarshal j = Some ps"
proof (cases ps)
  case None
  then show ?thesis by (simp add: marshal_params_def params_from_def)
next
  case (Some es)
  with assms canonical_float_roundtrip [of "VMap es"] obtain j
    where j: "marshal (VMap es) = Some j" "unmarshal j = VMap es" by auto
  moreover from j(1) obtain js where "j = JObj js" by auto
  ultimately show ?thesis using Some by (auto simp: marshal_params_def params_from_def)
qed

lemma stored_session:
  assumes "wf_store p" "ss_backend s = memory_boot_sessions" "canonical_snapshot snapshot"
    and snap_def: "snap = complete_snapshot (ss_retention s) now newRef snapshot"
  shows "\<exists>p'. Create now newRef s snapshot p = (Inr (sn_Ref snap), p')
    \<and> (t < sn_ExpiresAt snap \<longrightarrow> Get t s (sn_Ref snap) p' = Inr snap)"
proof -
  have can: "canonical_snapshot snap" unfolding snap_def by (rule canonical_complete [OF assms(3)])
  obtain j where j: "marshal_params (sn_Params snap) = Some j" "params_from unmarshal j = Some (sn_Params snap)"
    using can marshal_params_floats unfolding canonical_snapshot_def by blast
  have v: "json_provisioning (sn_Provisioning snap) = Some (sn_Provisioning snap)" "marshal_users (sn_Users snap) = sn_Users snap"
    using can by (simp_all add: canonical_snapshot_def json_provisioning_canonical marshal_users_canonical)
  obtain res p' where cr: "Create now newRef s snapshot p = (res, p')" by (cases "Create now newRef s snapshot p")
  then have res: "res = Inr (sn_Ref snap)"
    using j(1) v(1) assms(2)
    by (simp add: Create_def Let_def snap_def memory_boot_sessions_def mem_CreateBootSession_def)
  from mem_sessions.Create_row [OF assms(1,2), of now newRef snapshot "sn_Ref snap" p'] cr res j(1) v
  obtain r where r: "wf_store p'" "map_of (ms_bootSessions p') (sn_Ref snap) = Some r" "snapshotFromRecord r = Inr snap"
    "br_ExpiresAt r = sn_ExpiresAt snap"
    using can j(2) by (auto simp: snap_def [symmetric] snapshotFromRecord_def canonical_snapshot_def)
  with cr res assms(2) show ?thesis by (simp add: mem_sessions.Get_rows)
qed

text \<open>
  A canonical snapshot is stored without an error, and until it expires its reference gives back the snapshot
  itself, completed with its reference and its times.
\<close>

theorem session_roundtrip:
  assumes "wf_store p" "ss_backend s = memory_boot_sessions" "canonical_snapshot snapshot"
    and snap_def: "snap = complete_snapshot (ss_retention s) now newRef snapshot"
  shows "\<exists>p'. Create now newRef s snapshot p = (Inr (sn_Ref snap), p')
    \<and> (t < sn_ExpiresAt snap \<longrightarrow> Get t s (sn_Ref snap) p' = Inr snap)"
  using stored_session [OF assms] .

theorem session_roundtrip_witness:
  "\<exists>p'. Create 5 ''r1'' sample_sessions sample_snapshot new_store = (Inr ''r1'', p')
    \<and> Get 6 sample_sessions ''r1'' p' = Inr (sample_snapshot\<lparr>sn_Ref := ''r1'', sn_CreatedAt := 5, sn_ExpiresAt := 86400000000005,
        sn_Server := NewServer ''aa:bb'' ''10.0.0.1'' ''host''\<rparr>)"
proof -
  have can: "canonical_snapshot sample_snapshot" by code_simp
  have b: "ss_backend sample_sessions = memory_boot_sessions" by (simp add: sample_sessions_def NewStore_def)
  have snap: "complete_snapshot (ss_retention sample_sessions) 5 ''r1'' sample_snapshot = sample_snapshot\<lparr>sn_Ref := ''r1'',
      sn_CreatedAt := 5, sn_ExpiresAt := 86400000000005, sn_Server := NewServer ''aa:bb'' ''10.0.0.1'' ''host''\<rparr>" by code_simp
  show ?thesis using session_roundtrip [OF wf_store_new b can snap [symmetric], of 6] by simp
qed

text \<open>
  C16. The view of a session that operators see hides its secrets: password hashes, authorized keys, the disk
  passphrase and every parameter under a sensitive key. Two sessions that differ only there look the same.
\<close>

theorem inspect_hides_secrets:
  assumes "same_public_params (sn_Params a) (sn_Params b)"
    and "map_option (on_values (\<lambda>_. blank_user)) (sn_Users a) = map_option (on_values (\<lambda>_. blank_user)) (sn_Users b)"
    and "blank_passphrase (sn_Provisioning a) = blank_passphrase (sn_Provisioning b)"
    and "marshal (enc_Passphrase (st_Encryption (pv_Storage (sn_Provisioning a)))) \<noteq> None"
    and "marshal (enc_Passphrase (st_Encryption (pv_Storage (sn_Provisioning b)))) \<noteq> None"
    and "a\<lparr>sn_Params := None, sn_Users := None, sn_Provisioning := zero_provisioning\<rparr>
       = b\<lparr>sn_Params := None, sn_Users := None, sn_Provisioning := zero_provisioning\<rparr>"
  shows "referenceFromSnapshot a = referenceFromSnapshot b"
proof -
  have "sn_Ref a = sn_Ref b \<and> sn_Server a = sn_Server b \<and> sn_Target a = sn_Target b \<and> sn_Environment a = sn_Environment b
    \<and> sn_CreatedAt a = sn_CreatedAt b \<and> sn_ExpiresAt a = sn_ExpiresAt b"
    using assms(6) by (cases a, cases b) simp
  moreover have "RedactStruct (provisioning_json (sn_Provisioning a)) = RedactStruct (provisioning_json (sn_Provisioning b))"
    by (simp only: redact_provisioning_blank [OF assms(4)] redact_provisioning_blank [OF assms(5)] assms(3))
  ultimately show ?thesis
    by (simp add: referenceFromSnapshot_def RedactParams_public [OF assms(1)] redact_users_blank [OF assms(2)])
qed

definition sample_secrets :: "string \<Rightarrow> Snapshot" where
  "sample_secrets x = sample_snapshot\<lparr>sn_Params := sample_secret x,
     sn_Users := Some [(''root'', \<lparr>ru_Name = ''root'', ru_Primary = True, ru_System = False, ru_Locked = False, ru_FullName = [],
        ru_PasswordCrypted = x, ru_SSHAuthorizedKeys = Some [x], ru_Groups = None, ru_Shell = [], ru_Sudo = []\<rparr>)],
     sn_Provisioning := zero_provisioning\<lparr>pv_Storage := zero_storage\<lparr>st_Encryption :=
        (st_Encryption zero_storage)\<lparr>enc_Passphrase := VStr x\<rparr>\<rparr>\<rparr>\<rparr>"

theorem inspect_hides_secrets_witness:
  "referenceFromSnapshot (sample_secrets ''a'') = referenceFromSnapshot (sample_secrets ''b'')
    \<and> sn_Users (sample_secrets ''a'') \<noteq> sn_Users (sample_secrets ''b'')"
proof
  show "sn_Users (sample_secrets ''a'') \<noteq> sn_Users (sample_secrets ''b'')" by code_simp
  show "referenceFromSnapshot (sample_secrets ''a'') = referenceFromSnapshot (sample_secrets ''b'')"
    by (rule inspect_hides_secrets; code_simp)
qed

text \<open>\<^verbatim>\<open>url.QueryUnescape\<close>.\<close>

fun queryUnescape :: "string \<Rightarrow> string option" where
  "queryUnescape [] = Some []"
| "queryUnescape (c # s) =
     (if c = CHR ''%'' then
        (case s of a # b # rest \<Rightarrow>
           (case (hex_val a, hex_val b) of
              (Some x, Some y) \<Rightarrow> map_option (Cons (char_of (16 * x + y))) (queryUnescape rest)
            | _ \<Rightarrow> None)
         | _ \<Rightarrow> None)
      else map_option (Cons (if c = CHR ''+'' then CHR '' '' else c)) (queryUnescape s))"

lemma hex_val_upper_hex: "n < 16 \<Longrightarrow> hex_val (upper_hex n) = Some n"
  by (drule less_16_cases) (auto simp: upper_hex_def hex_val_def)

lemma char_nibble: "of_char c div 16 < (16 :: nat)"
  by (rule less_mult_imp_div_less) (use nat_of_char_less_256 [of c] in simp)

lemma queryUnescape_char: "queryUnescape (query_char c @ s) = map_option (Cons c) (queryUnescape s)"
proof -
  note lt = char_nibble [of c]
  have eq: "char_of (16 * (of_char c div 16) + of_char c mod 16 :: nat) = c" by simp
  have "c \<noteq> CHR ''%'' \<and> c \<noteq> CHR ''+''" if "query_char c = [c]"
    using that by (auto simp: query_char_def unreserved_def split: if_splits)
  moreover have "query_char c = [c] \<or> c = CHR '' '' \<and> query_char c = ''+'' \<or>
      query_char c = CHR ''%'' # [upper_hex (of_char c div 16), upper_hex (of_char c mod 16)]"
    by (simp add: query_char_def)
  ultimately show ?thesis using lt eq by (auto simp: hex_val_upper_hex)
qed

lemma queryUnescape_queryEscape: "queryUnescape (queryEscape s) = Some s"
  by (induction s) (simp_all add: queryEscape_def queryUnescape_char)

lemma upper_hex_safe: "n < 16 \<Longrightarrow> upper_hex n \<notin> set ''&=?# ''"
  by (drule less_16_cases) (auto simp: upper_hex_def)

lemma query_char_safe:
  assumes "c \<in> set (query_char d)"
  shows "c \<notin> set ''&=?# ''"
proof (cases "query_char d = [d]")
  case True
  have "query_char x \<noteq> [x]" if "x \<in> set ''&=?# ''" for x
    using that by (auto simp: query_char_def unreserved_def)
  with True assms show ?thesis by auto
next
  case False
  then consider "query_char d = ''+''"
    | "query_char d = CHR ''%'' # [upper_hex (of_char d div 16), upper_hex (of_char d mod 16)]"
    by (auto simp: query_char_def split: if_splits)
  then show ?thesis
  proof cases
    case 2
    with assms have "c = CHR ''%'' \<or> c = upper_hex (of_char d div 16) \<or> c = upper_hex (of_char d mod 16)" by simp
    then show ?thesis
    proof (elim disjE)
      assume "c = upper_hex (of_char d div 16)"
      then show ?thesis by (simp only: upper_hex_safe [OF char_nibble] not_False_eq_True)
    next
      assume "c = upper_hex (of_char d mod 16)"
      then show ?thesis by (simp only: upper_hex_safe [OF mod_less_divisor] zero_less_numeral not_False_eq_True)
    qed simp
  qed (use assms in simp)
qed

text \<open>
  The parameters a boot template gets for its reference: the raw reference, and URL query strings from which
  the reference is recovered by unescaping and which contain no character that would end the query value; every
  other parameter stays.
\<close>

theorem reference_params:
  assumes "ApplyReferenceParams (Some es) ref = Some fs" "ref \<noteq> []"
  shows "map_of fs ''boot_ref'' = Some (VStr ref)
    \<and> (\<exists>q. map_of fs ''boot_ref_query'' = Some (VStr (''ref='' @ q)) \<and> map_of fs ''boot_ref_query_suffix'' = Some (VStr (''&ref='' @ q))
        \<and> map_of fs ''boot_ref_query_question'' = Some (VStr (''?ref='' @ q))
        \<and> queryUnescape q = Some ref \<and> set q \<inter> set ''&=?# '' = {})
    \<and> (k \<notin> {''boot_ref'', ''boot_ref_query'', ''boot_ref_query_suffix'', ''boot_ref_query_question''} \<longrightarrow> map_of fs k = map_of es k)"
proof -
  have "set (queryEscape ref) \<inter> set ''&=?# '' = {}"
    unfolding queryEscape_def using query_char_safe by (fastforce simp del: set_simps)
  with assms queryUnescape_queryEscape [of ref] show ?thesis
    by (auto simp: ApplyReferenceParams_def Let_def QueryParam_def TemplateParam_def)
qed

theorem reference_params_witness:
  "\<exists>fs. ApplyReferenceParams (Some [(''n'', VInt 3)]) ''a b'' = Some fs \<and> map_of fs ''n'' = Some (VInt 3)
     \<and> map_of fs ''boot_ref'' = Some (VStr ''a b'')"
proof -
  obtain fs where fs: "ApplyReferenceParams (Some [(''n'', VInt 3)]) ''a b'' = Some fs"
    by (simp add: ApplyReferenceParams_def Let_def)
  from reference_params [OF this, of "''n''"] fs show ?thesis by simp
qed

end
