(* ===== verification/Polling.thy ===== *)
theory Polling
  imports BootSession
begin

text \<open>
  Polling (\<^verbatim>\<open>polling/polling.go\<close>): the answer to a host that polls for a boot script, and the choice of a target by
  an operator for a host that waits. A \<^verbatim>\<open>Service\<close> works on three parts of the state, the state store, the event log
  and the backend of events and sessions; the tables of a backend are disjoint, so they are separate here.

  The environment of the process is the argument \<open>osenv\<close>. What the clock, \<^verbatim>\<open>ulid.Make\<close> and the generator of references
  return during one request is the record \<open>Tick\<close>. A panic is the error \<open>Panic\<close>; the HTTP server recovers from it, so
  the state reached before it stays.
\<close>

subsection \<open>Data\<close>

datatype ManualAction = BootAction | RetryAction | TimeoutAction

datatype poll_error =
    InvalidMACError
  | NotBooting
  | NoBootScript
  | ResolveFailed error
  | RenderFailed string
  | StoreFailed store_error
  | Panic

record Tick =
  tk_now :: time
  tk_id :: ulid
  tk_ref :: string

text \<open>\<open>sp_render\<close> is \<^verbatim>\<open>templateRenderer.RenderTemplate\<close>: script, parameters and environment to a text or an error.\<close>

record ('s, 'p) Service =
  sp_serverStates :: "'s StateStore"
  sp_resolver :: "Resolver option"
  sp_render :: "string \<Rightarrow> tparams \<Rightarrow> string \<Rightarrow> string + string"
  sp_bootSessions :: "'p SessionStore option"
  sp_baseURL :: string

record ('s, 'p) World =
  wd_states :: 's
  wd_log :: "'p Log"
  wd_db :: 'p

definition NewService ::
    "'s StateStore \<Rightarrow> Resolver option \<Rightarrow> (string \<Rightarrow> tparams \<Rightarrow> string \<Rightarrow> string + string) \<Rightarrow> string \<Rightarrow> ('s, 'p) Service" where
  "NewService serverStates resolver templateRenderer baseURL =
     \<lparr>sp_serverStates = serverStates, sp_resolver = resolver, sp_render = templateRenderer, sp_bootSessions = None,
      sp_baseURL = baseURL\<rparr>"

definition WithBootSessions :: "'p SessionStore \<Rightarrow> ('s, 'p) Service \<Rightarrow> ('s, 'p) Service" where
  "WithBootSessions sessions s = s\<lparr>sp_bootSessions := Some sessions\<rparr>"

definition maxRetry :: int where
  "maxRetry = 10"

subsection \<open>Scripts\<close>

text \<open>The lines of a script, each followed by a newline.\<close>

definition script_lines :: "string list \<Rightarrow> string" where
  "script_lines ls = concat (map (\<lambda>l. l @ [CHR 0x0A]) ls)"

definition genStartScript :: "string \<Rightarrow> string" where
  "genStartScript baseURL = script_lines
     [''#!ipxe'', ''echo Shoelaces starts polling'', ''chain --autofree --replace '' @ [CHR 0x5C],
      ''    http://'' @ baseURL @ ''/poll/1/${netX/mac:hexhyp}'', ''#'', ''#'', ''# Do'',
      ''#    curl http://'' @ baseURL @ ''/poll/1/06-66-de-ad-be-ef'',
      ''# to get an idea about what the iPXE client will receive.'']"

definition genRetryScript :: "('s, 'p) Service \<Rightarrow> string \<Rightarrow> string" where
  "genRetryScript s mac = script_lines
     [''#!ipxe'', ''prompt --key 0x02 --timeout 7000 shoelaces: Press Ctrl-B for manual override... '' @ [CHR 0x5C],
      ''  && chain -ar http://'' @ sp_baseURL s @ ''/ipxemenu '' @ [CHR 0x5C],
      ''  || chain -ar http://'' @ sp_baseURL s @ ''/poll/1/'' @ MacColonToDash mac, [],
      ''# Note: the iPXE client will see the above code as an endless loop.'',
      ''# However, Shoelaces server can break that loop to enable further booting.'']"

definition timeoutScript :: string where
  "timeoutScript = script_lines [''#!ipxe'', ''echo'', ''echo Shoelaces reached the maximum number of retries'', ''exit'']"

definition StartScript :: "('s, 'p) Service \<Rightarrow> string" where
  "StartScript s = genStartScript (sp_baseURL s)"

subsection \<open>Resolving a boot target\<close>

text \<open>An assignment to a nil map panics: \<^const>\<open>None\<close>.\<close>

definition setHostName :: "params \<Rightarrow> string \<Rightarrow> params option" where
  "setHostName ps mac =
     (if lookup_map ps ''hostname'' \<noteq> None then Some ps
      else case ps of None \<Rightarrow> None
        | Some es \<Rightarrow>
            (let hostname = MacColonToDash mac
             in case map_of es ''hostnamePrefix'' of
                  Some (VStr hnPrefix) \<Rightarrow> Some (Some (AList.update ''hostname'' (VStr (hnPrefix @ hostname)) es))
                | _ \<Rightarrow> Some (Some (AList.update ''hostname'' (VStr hostname) es))))"

definition generatedBootParams ::
    "params \<Rightarrow> string \<Rightarrow> string \<Rightarrow> string \<Rightarrow> Server \<Rightarrow> MatchType \<Rightarrow> params option" where
  "generatedBootParams ps structuredHostname baseURL envName srv matchType =
     (let generated = [(''baseURL'', VStr (BaseURLforEnvName baseURL envName))]
      in if lookup_map ps ''hostname'' = None \<and> structuredHostname \<noteq> [] then
           Some (Some (AList.update ''hostname'' (VStr structuredHostname) generated))
         else if matchType = MatchHostname \<and> sv_Hostname srv \<noteq> [] then
           Some (Some (AList.update ''hostname'' (VStr (sv_Hostname srv)) generated))
         else case setHostName (copyParams ps) (sv_Mac srv) of
           None \<Rightarrow> None
         | Some hostnameParams \<Rightarrow> Some (Some (AList.update ''hostname''
             (case lookup_map hostnameParams ''hostname'' of None \<Rightarrow> VNil | Some v \<Rightarrow> v) generated)))"

definition resolveBootTarget ::
    "env_lookup \<Rightarrow> Resolver \<Rightarrow> ResolveRequest \<Rightarrow> string \<Rightarrow> Server \<Rightarrow> poll_error + ResolveResult \<times> Server" where
  "resolveBootTarget osenv resolver request baseURL srv =
     (case Resolve osenv resolver request of
        Inl e \<Rightarrow> Inl (ResolveFailed e)
      | Inr result \<Rightarrow>
          if \<not> HasTarget result then Inr (result, srv)
          else case generatedBootParams (rr_Params result) (net_Hostname (pv_Network (rr_Provisioning result))) baseURL
                      (tc_Environment (rr_Target result)) srv (rr_MatchType result) of
            None \<Rightarrow> Inl Panic
          | Some generated \<Rightarrow>
              (case Resolve osenv resolver (request\<lparr>rq_GeneratedParams := generated\<rparr>) of
                 Inl e \<Rightarrow> Inl (ResolveFailed e)
               | Inr result \<Rightarrow> Inr (result, case lookup_map (rr_Params result) ''hostname'' of
                   Some (VStr hostname) \<Rightarrow> srv\<lparr>sv_Hostname := hostname\<rparr> | _ \<Rightarrow> srv)))"

definition bootTypeForMatch :: "MatchType \<Rightarrow> string" where
  "bootTypeForMatch matchType = (case matchType of
     MatchMAC \<Rightarrow> ''MAC Match'' | MatchIP \<Rightarrow> ''IP Match'' | MatchHostname \<Rightarrow> PtrMatchBoot
   | MatchNetwork \<Rightarrow> SubnetMatchBoot | MatchManual \<Rightarrow> ManualBoot | MatchUnmatched \<Rightarrow> [])"

definition targetOptions :: "TargetCandidate list \<Rightarrow> TargetOption slice" where
  "targetOptions targets = Some (map (\<lambda>t. \<lparr>to_Name = tc_Name t, to_Script = tc_Script t, to_Label = tc_Label t,
     to_Environment = tc_Environment t\<rparr>) targets)"

text \<open>A service without a resolver compiles the empty mappings.\<close>

definition service_resolver :: "('s, 'p) Service \<Rightarrow> error + Resolver" where
  "service_resolver s = (case sp_resolver s of Some r \<Rightarrow> Inr r | None \<Rightarrow> NewResolver (\<lambda>_. None) (\<lambda>_. None) None)"

definition poll_request :: "Server \<Rightarrow> string \<Rightarrow> params \<Rightarrow> ResolveRequest" where
  "poll_request srv manualTarget ps =
     \<lparr>rq_Mac = sv_Mac srv, rq_IP = sv_IP srv, rq_Hostname = sv_Hostname srv, rq_ManualTarget = manualTarget,
      rq_Params = ps, rq_GeneratedParams = None, rq_EnvLookup = None\<rparr>"

subsection \<open>Steps on the world\<close>

definition append_event ::
    "Tick \<Rightarrow> int \<Rightarrow> Server \<Rightarrow> string \<Rightarrow> string \<Rightarrow> params \<Rightarrow> ('s, 'p) World \<Rightarrow> store_error option \<times> ('s, 'p) World" where
  "append_event tk eventType srv bootType script ps w =
     (case LogAppendEvent (tk_id tk) (tk_now tk) eventType srv bootType script ps (wd_log w) (wd_db w) of
        (err, el, p) \<Rightarrow> (err, w\<lparr>wd_log := el, wd_db := p\<rparr>))"

definition genBootScript ::
    "Tick \<Rightarrow> ('s, 'p) Service \<Rightarrow> Server \<Rightarrow> string \<Rightarrow> string \<Rightarrow> params \<Rightarrow> ResolvedUser gomap \<Rightarrow> ProvisioningConfig
      \<Rightarrow> ('s, 'p) World \<Rightarrow> (poll_error + string) \<times> ('s, 'p) World" where
  "genBootScript tk s srv scriptName envName ps users provisioning w =
     (let render = (\<lambda>renderParams w. (case sp_render s scriptName
            (ParamsWithProvisioning renderParams (entries users) provisioning) envName of
              Inl e \<Rightarrow> (Inl (RenderFailed e), w) | Inr text \<Rightarrow> (Inr text, w)))
      in case sp_bootSessions s of
           None \<Rightarrow> render (copyParams ps) w
         | Some sessions \<Rightarrow>
             (case Create (tk_now tk) (tk_ref tk) sessions
                \<lparr>sn_Ref = [], sn_Server = srv, sn_Target = scriptName, sn_Environment = envName, sn_Params = ps,
                 sn_Users = users, sn_Provisioning = provisioning, sn_CreatedAt = zero_time, sn_ExpiresAt = zero_time\<rparr> (wd_db w) of
                (Inl err, p) \<Rightarrow> (Inl (StoreFailed err), w\<lparr>wd_db := p\<rparr>)
              | (Inr ref, p) \<Rightarrow> render (ApplyReferenceParams (copyParams ps) ref) (w\<lparr>wd_db := p\<rparr>)))"

definition chooseManualAction ::
    "Tick \<Rightarrow> ('s, 'p) Service \<Rightarrow> Server \<Rightarrow> TargetOption slice \<Rightarrow> ('s, 'p) World
      \<Rightarrow> (store_error + Script option \<times> ManualAction) \<times> ('s, 'p) World" where
  "chooseManualAction tk s srv allowedTargets w =
     (let st = sp_serverStates s; mac = sv_Mac srv
      in case GetState st mac (wd_states w) of
        Inr m \<Rightarrow>
          if se_Target m \<noteq> InitTarget then
            (case DeleteState st mac (wd_states w) of
               (Some err, x) \<Rightarrow> (Inl err, w\<lparr>wd_states := x\<rparr>)
             | (None, x) \<Rightarrow> (Inr (Some \<lparr>sc_Name = se_Target m, sc_Environment = se_Environment m, sc_Params = se_Params m,
                 sc_Users = se_Users m, sc_Provisioning = se_Provisioning m\<rparr>, BootAction), w\<lparr>wd_states := x\<rparr>))
          else if se_Retry m \<le> maxRetry then
            (case SaveState st (m\<lparr>se_Retry := se_Retry m + 1, se_LastAccess := unix (tk_now tk)\<rparr>) (wd_states w) of
               (Some err, x) \<Rightarrow> (Inl err, w\<lparr>wd_states := x\<rparr>)
             | (None, x) \<Rightarrow> (Inr (None, RetryAction), w\<lparr>wd_states := x\<rparr>))
          else
            (case DeleteState st mac (wd_states w) of
               (Some err, x) \<Rightarrow> (Inl err, w\<lparr>wd_states := x\<rparr>)
             | (None, x) \<Rightarrow> (Inr (None, TimeoutAction), w\<lparr>wd_states := x\<rparr>))
      | Inl err \<Rightarrow>
          if err \<noteq> NoRows then (Inl err, w)
          else case QueueServer st (tk_now tk) srv allowedTargets (wd_states w) of
            (Some err, x) \<Rightarrow> (Inl err, w\<lparr>wd_states := x\<rparr>)
          | (None, x) \<Rightarrow> (Inr (None, RetryAction), snd (append_event tk HostPoll srv [] [] None (w\<lparr>wd_states := x\<rparr>))))"

definition manualAction ::
    "Tick \<Rightarrow> ('s, 'p) Service \<Rightarrow> Server \<Rightarrow> TargetOption slice \<Rightarrow> ('s, 'p) World \<Rightarrow> (poll_error + string) \<times> ('s, 'p) World" where
  "manualAction tk s srv allowedTargets w =
     (case chooseManualAction tk s srv allowedTargets w of
        (Inl err, w) \<Rightarrow> (Inl (StoreFailed err), w)
      | (Inr (script, RetryAction), w) \<Rightarrow> (Inr (genRetryScript s (sv_Mac srv)), w)
      | (Inr (script, TimeoutAction), w) \<Rightarrow> (Inr timeoutScript, w)
      | (Inr (None, BootAction), w) \<Rightarrow> (Inl Panic, w)
      | (Inr (Some script, BootAction), w) \<Rightarrow>
          (case setHostName (sc_Params script) (sv_Mac srv) of
             None \<Rightarrow> (Inl Panic, w)
           | Some ps \<Rightarrow>
               (case lookup_map ps ''hostname'' of
                  Some (VStr hostname) \<Rightarrow>
                    (case append_event tk HostBoot (srv\<lparr>sv_Hostname := hostname\<rparr>) ManualBoot (sc_Name script) ps w of
                       (Some err, w) \<Rightarrow> (Inl (StoreFailed err), w)
                     | (None, w) \<Rightarrow> genBootScript tk s (srv\<lparr>sv_Hostname := hostname\<rparr>) (sc_Name script)
                         (sc_Environment script) ps (sc_Users script) (sc_Provisioning script) w)
                | _ \<Rightarrow> (Inl Panic, w))))"

definition Poll :: "env_lookup \<Rightarrow> Tick \<Rightarrow> ('s, 'p) Service \<Rightarrow> Server \<Rightarrow> ('s, 'p) World \<Rightarrow> (poll_error + string) \<times> ('s, 'p) World" where
  "Poll osenv tk s srv w =
     (case service_resolver s of
        Inl e \<Rightarrow> (Inl (ResolveFailed e), w)
      | Inr resolver \<Rightarrow>
          (case resolveBootTarget osenv resolver (poll_request srv [] None) (sp_baseURL s) srv of
             Inl e \<Rightarrow> (Inl e, w)
           | Inr (result, resolvedServer) \<Rightarrow>
               if HasTarget result then
                 (case append_event tk HostBoot resolvedServer (bootTypeForMatch (rr_MatchType result))
                         (tc_Script (rr_Target result)) (rr_Params result) w of
                    (Some err, w) \<Rightarrow> (Inl (StoreFailed err), w)
                  | (None, w) \<Rightarrow> genBootScript tk s resolvedServer (tc_Script (rr_Target result))
                      (tc_Environment (rr_Target result)) (rr_Params result) (rr_Users result) (rr_Provisioning result) w)
               else manualAction tk s srv (targetOptions (rr_AllowedTargets result)) w))"

text \<open>\<^verbatim>\<open>UpdateTarget\<close>: the first component says whether the error is one of the input.\<close>

definition UpdateTarget ::
    "env_lookup \<Rightarrow> Tick \<Rightarrow> ('s, 'p) Service \<Rightarrow> Server \<Rightarrow> string \<Rightarrow> params \<Rightarrow> ('s, 'p) World
      \<Rightarrow> (bool \<times> poll_error option) \<times> ('s, 'p) World" where
  "UpdateTarget osenv tk s srv targetName ps w =
     (if \<not> IsValidMAC (sv_Mac srv) then ((True, Some InvalidMACError), w)
      else case service_resolver s of
        Inl e \<Rightarrow> ((False, Some (ResolveFailed e)), w)
      | Inr resolver \<Rightarrow>
          (case GetState (sp_serverStates s) (sv_Mac srv) (wd_states w) of
             Inl err \<Rightarrow> if err = NoRows then ((True, Some NotBooting), w) else ((False, Some (StoreFailed err)), w)
           | Inr state \<Rightarrow>
               (case resolveBootTarget osenv resolver (poll_request (se_Server state) targetName (copyParams ps))
                       (sp_baseURL s) (se_Server state) of
                  Inl e \<Rightarrow> ((True, Some e), w)
                | Inr (result, resolvedServer) \<Rightarrow>
                    if \<not> HasTarget result then ((True, Some NoBootScript), w)
                    else case sp_render s (tc_Script (rr_Target result)) (ParamsWithProvisioning (rr_Params result)
                                (entries (rr_Users result)) (rr_Provisioning result)) (tc_Environment (rr_Target result)) of
                      Inl e \<Rightarrow> ((True, Some (RenderFailed e)), w)
                    | Inr _ \<Rightarrow>
                        (case append_event tk UserSelection resolvedServer [] (tc_Script (rr_Target result)) None w of
                           (Some err, w) \<Rightarrow> ((False, Some (StoreFailed err)), w)
                         | (None, w) \<Rightarrow>
                             (case SaveState (sp_serverStates s)
                                (state\<lparr>se_Server := resolvedServer, se_Target := tc_Script (rr_Target result),
                                  se_Environment := tc_Environment (rr_Target result), se_Params := rr_Params result,
                                  se_Users := rr_Users result, se_Provisioning := rr_Provisioning result,
                                  se_LastAccess := unix (tk_now tk)\<rparr>) (wd_states w) of
                                (Some err, x) \<Rightarrow> ((False, Some (StoreFailed err)), w\<lparr>wd_states := x\<rparr>)
                              | (None, x) \<Rightarrow> ((False, None), w\<lparr>wd_states := x\<rparr>))))))"

definition ListServers :: "('s, 'p) Service \<Rightarrow> ('s, 'p) World \<Rightarrow> store_error + Server list" where
  "ListServers s w = ListWaiting (sp_serverStates s) (wd_states w)"

text \<open>The functions of the package for a caller without a service; they know no boot sessions.\<close>

definition GenStartScript :: "string \<Rightarrow> string" where
  "GenStartScript baseURL = genStartScript baseURL"

definition pkg_ListServers :: "States \<Rightarrow> Server list" where
  "pkg_ListServers serverStates = (case ListWaiting states_store serverStates of Inl _ \<Rightarrow> [] | Inr servers \<Rightarrow> servers)"

definition pkg_UpdateTarget ::
    "env_lookup \<Rightarrow> Tick \<Rightarrow> Resolver option \<Rightarrow> (string \<Rightarrow> tparams \<Rightarrow> string \<Rightarrow> string + string) \<Rightarrow> string \<Rightarrow> Server \<Rightarrow> string
      \<Rightarrow> params \<Rightarrow> (States, 'p) World \<Rightarrow> (bool \<times> poll_error option) \<times> (States, 'p) World" where
  "pkg_UpdateTarget osenv tk resolver templateRenderer baseURL srv targetName ps w =
     UpdateTarget osenv tk (NewService states_store resolver templateRenderer baseURL) srv targetName ps w"

definition pkg_Poll ::
    "env_lookup \<Rightarrow> Tick \<Rightarrow> Resolver option \<Rightarrow> (string \<Rightarrow> tparams \<Rightarrow> string \<Rightarrow> string + string) \<Rightarrow> string \<Rightarrow> Server
      \<Rightarrow> (States, 'p) World \<Rightarrow> (poll_error + string) \<times> (States, 'p) World" where
  "pkg_Poll osenv tk resolver templateRenderer baseURL srv w =
     Poll osenv tk (NewService states_store resolver templateRenderer baseURL) srv w"

subsection \<open>Facts\<close>

lemma append_event_states [simp]: "wd_states (snd (append_event tk t srv boot script ps w)) = wd_states w"
  by (simp add: append_event_def split: prod.splits)

lemma append_event_statesI: "append_event tk t srv boot script ps w = (err, w') \<Longrightarrow> wd_states w' = wd_states w"
  using append_event_states [of tk t srv boot script ps w] by simp

lemma genBootScript_states: "wd_states (snd (genBootScript tk s srv script env ps users prov w)) = wd_states w"
  by (simp add: genBootScript_def Let_def split: option.splits sum.splits prod.splits)

lemma genBootScript_text:
  "genBootScript tk s srv script env ps users prov w = (Inr text, w') \<Longrightarrow> \<exists>tps. sp_render s script tps env = Inr text"
  by (auto simp: genBootScript_def Let_def split: option.splits sum.splits prod.splits)

lemma setHostName_Some: "setHostName (Some es) mac \<noteq> None"
  by (auto simp: setHostName_def Let_def split: option.splits val.splits)

lemma setHostName_sets:
  assumes "setHostName ps mac = Some qs"
  shows "lookup_map qs ''hostname'' \<noteq> None \<and> (lookup_map ps ''hostname'' \<noteq> None \<longrightarrow> qs = ps)
    \<and> (k \<noteq> ''hostname'' \<longrightarrow> lookup_map qs k = lookup_map ps k)"
  using assms by (auto simp: setHostName_def Let_def split: option.splits val.splits if_splits)

text \<open>A result with a target has parameters, so computing the generated ones never writes to a nil map.\<close>

lemma Resolve_params: "Resolve osenv r q = Inr result \<Longrightarrow> HasTarget result \<Longrightarrow> rr_Params result \<noteq> None"
  by (auto simp: Resolve_def resolveManual_def finishResult_def Let_def bindE_Inr HasTarget_def zero_result_def
      split: if_splits option.splits prod.splits)

lemma generatedBootParams_Some: "rr_Params result \<noteq> None \<Longrightarrow> generatedBootParams (rr_Params result) h u e srv mt \<noteq> None"
proof -
  assume "rr_Params result \<noteq> None"
  then obtain es where es: "rr_Params result = Some es" by blast
  moreover obtain qs where "setHostName (Some es) (sv_Mac srv) = Some qs" using setHostName_Some by blast
  ultimately show ?thesis by (simp add: generatedBootParams_def Let_def)
qed

lemma resolveBootTarget_no_panic: "resolveBootTarget osenv r q u srv \<noteq> Inl Panic"
proof
  assume panic: "resolveBootTarget osenv r q u srv = Inl Panic"
  then obtain result where result: "Resolve osenv r q = Inr result" "HasTarget result"
    by (auto simp: resolveBootTarget_def split: sum.splits if_splits)
  obtain g where "generatedBootParams (rr_Params result) (net_Hostname (pv_Network (rr_Provisioning result))) u
      (tc_Environment (rr_Target result)) srv (rr_MatchType result) = Some g"
    using generatedBootParams_Some [OF Resolve_params [OF result]] by blast
  with panic result show False by (simp add: resolveBootTarget_def split: sum.splits)
qed

fun is_text :: "val \<Rightarrow> bool" where
  "is_text (VStr s) = True"
| "is_text v = False"

lemma genBootScript_no_panic: "fst (genBootScript tk s srv script env ps users prov w) \<noteq> Inl Panic"
  by (simp add: genBootScript_def Let_def split: option.splits sum.splits prod.splits)

lemma setHostName_hostname:
  "setHostName ps mac = (if lookup_map ps ''hostname'' = None \<and> ps = None then None
     else Some (if lookup_map ps ''hostname'' = None then the (setHostName ps mac) else ps))"
  "lookup_map ps ''hostname'' = None \<Longrightarrow> setHostName ps mac = Some qs \<Longrightarrow> \<exists>h. lookup_map qs ''hostname'' = Some (VStr h)"
  by (auto simp: setHostName_def Let_def split: option.splits val.splits if_splits)

text \<open>
  The abstract polling protocol of a host without an automatic target: the answer, and the states after it.
\<close>

fun spec_poll :: "time \<Rightarrow> string \<Rightarrow> skeletons \<Rightarrow> ManualAction \<times> skeletons" where
  "spec_poll now mac v = (case v mac of
     None \<Rightarrow> (RetryAction, v(mac \<mapsto> (InitTarget, [], 1, unix now)))
   | Some (target, env, retry, la) \<Rightarrow>
       if target \<noteq> InitTarget then (BootAction, v(mac := None))
       else if retry \<le> maxRetry then (RetryAction, v(mac \<mapsto> (target, env, retry + 1, unix now)))
       else (TimeoutAction, v(mac := None)))"

definition state_script :: "State \<Rightarrow> Script" where
  "state_script m = \<lparr>sc_Name = se_Target m, sc_Environment = se_Environment m, sc_Params = se_Params m,
     sc_Users = se_Users m, sc_Provisioning = se_Provisioning m\<rparr>"

context state_store
begin

lemma choose_new:
  assumes "ok (wd_states w)" "sp_serverStates s = st" "view (wd_states w) (sv_Mac srv) = None"
  shows "\<exists>w'. chooseManualAction tk s srv ts w = (Inr (None, RetryAction), w') \<and> ok (wd_states w')
    \<and> skeleton (view (wd_states w')) = (skeleton (view (wd_states w)))(sv_Mac srv \<mapsto> (InitTarget, [], 1, unix (tk_now tk)))"
proof -
  obtain x x' where q: "kept (waiting_state (tk_now tk) srv ts) = Some x'" "QueueServer st (tk_now tk) srv ts (wd_states w) = (None, x)"
    "ok x" "view x = (view (wd_states w))(sv_Mac srv \<mapsto> x')" using queue [OF assms(1)] by blast
  with kept_fields [OF q(1)] assms show ?thesis
    by (auto simp: chooseManualAction_def Let_def get skeleton_def state_skeleton_def waiting_state_def fun_eq_iff)
qed

lemma choose_delete:
  assumes "ok (wd_states w)" "sp_serverStates s = st" "view (wd_states w) (sv_Mac srv) = Some m"
    and "se_Target m \<noteq> InitTarget \<or> maxRetry < se_Retry m"
  shows "\<exists>w'. chooseManualAction tk s srv ts w = (Inr (if se_Target m \<noteq> InitTarget then (Some (state_script m), BootAction)
      else (None, TimeoutAction)), w') \<and> ok (wd_states w') \<and> view (wd_states w') = (view (wd_states w))(sv_Mac srv := None)
      \<and> wd_log w' = wd_log w \<and> wd_db w' = wd_db w"
  using delete [OF assms(1), of "sv_Mac srv"] assms
  by (auto simp: chooseManualAction_def Let_def get state_script_def)

lemma choose_retry:
  assumes "ok (wd_states w)" "sp_serverStates s = st" "view (wd_states w) (sv_Mac srv) = Some m"
    and "se_Target m = InitTarget" "se_Retry m \<le> maxRetry"
  shows "\<exists>w'. chooseManualAction tk s srv ts w = (Inr (None, RetryAction), w') \<and> ok (wd_states w')
    \<and> skeleton (view (wd_states w')) = (skeleton (view (wd_states w)))
        (sv_Mac srv \<mapsto> (InitTarget, se_Environment m, se_Retry m + 1, unix (tk_now tk)))"
proof -
  let ?m = "m\<lparr>se_Retry := se_Retry m + 1, se_LastAccess := unix (tk_now tk)\<rparr>"
  obtain m' where m': "kept ?m = Some m'" using savable [OF assms(1,3)] by blast
  have mac: "sv_Mac (se_Server ?m) = sv_Mac srv" using keyed [OF assms(1,3)] by simp
  obtain x where "SaveState st ?m (wd_states w) = (None, x)" "ok x" "view x = (view (wd_states w))(sv_Mac srv \<mapsto> m')"
    using save [OF assms(1) m'] unfolding mac by blast
  with kept_fields [OF m'] assms show ?thesis
    by (auto simp: chooseManualAction_def Let_def get skeleton_def state_skeleton_def fun_eq_iff)
qed

lemma choose_refines:
  assumes "ok (wd_states w)" "sp_serverStates s = st"
  shows "\<exists>script act w'. chooseManualAction tk s srv ts w = (Inr (script, act), w') \<and> ok (wd_states w')
    \<and> (act, skeleton (view (wd_states w'))) = spec_poll (tk_now tk) (sv_Mac srv) (skeleton (view (wd_states w)))
    \<and> script = (if act = BootAction then map_option state_script (view (wd_states w) (sv_Mac srv)) else None)"
proof (cases "view (wd_states w) (sv_Mac srv)")
  case None
  with choose_new [OF assms, of srv] show ?thesis by (force simp: skeleton_def)
next
  case (Some m)
  have sk: "skeleton (view (wd_states w)) (sv_Mac srv) = Some (se_Target m, se_Environment m, se_Retry m, se_LastAccess m)"
    using Some by (simp add: skeleton_def state_skeleton_def)
  show ?thesis
  proof (cases "se_Target m = InitTarget \<and> se_Retry m \<le> maxRetry")
    case True
    with choose_retry [OF assms Some] sk show ?thesis by force
  next
    case False
    then have "se_Target m \<noteq> InitTarget \<or> maxRetry < se_Retry m" by auto
    from choose_delete [OF assms Some this, of tk ts] obtain w' where w': "chooseManualAction tk s srv ts w =
        (Inr (if se_Target m \<noteq> InitTarget then (Some (state_script m), BootAction) else (None, TimeoutAction)), w')"
      "ok (wd_states w')" "view (wd_states w') = (view (wd_states w))(sv_Mac srv := None)" by blast
    have "skeleton (view (wd_states w')) = (skeleton (view (wd_states w)))(sv_Mac srv := None)"
      unfolding w'(3) by (auto simp: skeleton_def fun_eq_iff)
    with w' False sk Some show ?thesis by (cases "se_Target m = InitTarget") auto
  qed
qed

end

subsection \<open>Polling hosts\<close>

text \<open>The resolver leaves the target of the host to an operator.\<close>

definition needs_choice :: "env_lookup \<Rightarrow> ('s, 'p) Service \<Rightarrow> Server \<Rightarrow> bool" where
  "needs_choice osenv s srv = (case service_resolver s of Inl _ \<Rightarrow> False
     | Inr r \<Rightarrow> (case Resolve osenv r (poll_request srv [] None) of Inl _ \<Rightarrow> False | Inr result \<Rightarrow> \<not> HasTarget result))"

fun polls :: "env_lookup \<Rightarrow> ('s, 'p) Service \<Rightarrow> Server \<Rightarrow> Tick list \<Rightarrow> ('s, 'p) World
    \<Rightarrow> (poll_error + string) list \<times> ('s, 'p) World" where
  "polls osenv s srv [] w = ([], w)"
| "polls osenv s srv (tk # tks) w =
     (case Poll osenv tk s srv w of (r, w') \<Rightarrow> (case polls osenv s srv tks w' of (rs, w'') \<Rightarrow> (r # rs, w'')))"

lemma polls_append:
  "polls osenv s srv (tks @ tks') w =
     (let (rs, w') = polls osenv s srv tks w; (rs', w'') = polls osenv s srv tks' w' in (rs @ rs', w''))"
  by (induction tks arbitrary: w) (simp_all add: Let_def case_prod_beta)

lemma Poll_choice:
  assumes "needs_choice osenv s srv"
  shows "\<exists>ts. \<forall>tk w. Poll osenv tk s srv w = manualAction tk s srv ts w"
proof -
  obtain r result where "service_resolver s = Inr r" "Resolve osenv r (poll_request srv [] None) = Inr result" "\<not> HasTarget result"
    using assms by (auto simp: needs_choice_def split: sum.splits)
  then show ?thesis
    by (intro exI [of _ "targetOptions (rr_AllowedTargets result)"]) (simp add: Poll_def resolveBootTarget_def)
qed

lemma manualAction_states:
  "wd_states (snd (manualAction tk s srv ts w)) = wd_states (snd (chooseManualAction tk s srv ts w))"
  by (auto simp: manualAction_def genBootScript_states dest: append_event_statesI
      split: prod.splits sum.splits option.splits ManualAction.splits val.splits)

lemma Poll_cases:
  "wd_states (snd (Poll osenv tk s srv w)) = wd_states w \<or> (\<exists>ts. Poll osenv tk s srv w = manualAction tk s srv ts w)"
  unfolding Poll_def
  by (auto simp: genBootScript_states dest: append_event_statesI split: sum.splits prod.splits option.splits)

lemma resolveBootTarget_server:
  "resolveBootTarget osenv r q u srv = Inr (result, srv') \<Longrightarrow> srv' = srv\<lparr>sv_Hostname := sv_Hostname srv'\<rparr>"
  unfolding resolveBootTarget_def by (auto split: sum.splits if_splits option.splits val.splits)

text \<open>Every interaction of the service with its state: a poll, a choice of an operator, a sweep.\<close>

inductive service_step :: "env_lookup \<Rightarrow> ('s, 'p) Service \<Rightarrow> ('s, 'p) World \<Rightarrow> ('s, 'p) World \<Rightarrow> bool"
  for osenv :: env_lookup and s :: "('s, 'p) Service" where
  poll: "service_step osenv s w (snd (Poll osenv tk s srv w))"
| update: "service_step osenv s w (snd (UpdateTarget osenv tk s srv targetName ps w))"
| clean: "service_step osenv s w (w\<lparr>wd_states := cleaner_tick (sp_serverStates s) now (wd_states w)\<rparr>)"

inductive reachable :: "env_lookup \<Rightarrow> ('s, 'p) Service \<Rightarrow> ('s, 'p) World \<Rightarrow> ('s, 'p) World \<Rightarrow> bool"
  for osenv :: env_lookup and s :: "('s, 'p) Service" and w0 :: "('s, 'p) World" where
  start: "reachable osenv s w0 w0"
| step: "reachable osenv s w0 w \<Longrightarrow> service_step osenv s w w' \<Longrightarrow> reachable osenv s w0 w'"

definition retry_bounds :: "skeletons \<Rightarrow> bool" where
  "retry_bounds v \<longleftrightarrow> (\<forall>mac t e r la. v mac = Some (t, e, r, la) \<longrightarrow> 1 \<le> r \<and> r \<le> maxRetry + 1)"

lemma retry_bounds_upd:
  "retry_bounds v \<Longrightarrow> 1 \<le> r \<Longrightarrow> r \<le> maxRetry + 1 \<Longrightarrow> retry_bounds (v(mac \<mapsto> (t, e, r, la)))"
  "retry_bounds v \<Longrightarrow> retry_bounds (v(mac := None))"
  by (auto simp: retry_bounds_def)

lemma retry_bounds_poll: "retry_bounds v \<Longrightarrow> spec_poll now mac v = (act, v') \<Longrightarrow> retry_bounds v'"
proof -
  assume v: "retry_bounds v" "spec_poll now mac v = (act, v')"
  then consider "v' = v(mac \<mapsto> (InitTarget, [], 1, unix now))" | "v' = v(mac := None)"
    | t e r la where "v mac = Some (t, e, r, la)" "r \<le> maxRetry" "v' = v(mac \<mapsto> (t, e, r + 1, unix now))"
    by (auto split: option.splits if_splits)
  then show ?thesis
  proof cases
    case (3 t e r la)
    then have "1 \<le> r" using v(1) unfolding retry_bounds_def by blast
    with 3 show ?thesis by (simp add: retry_bounds_upd(1) [OF v(1)])
  qed (simp_all add: retry_bounds_upd [OF v(1)] maxRetry_def)
qed

lemma retry_bounds_sub: "retry_bounds v \<Longrightarrow> (\<And>mac x. v' mac = Some x \<Longrightarrow> v mac = Some x) \<Longrightarrow> retry_bounds v'"
  unfolding retry_bounds_def by blast

context state_store
begin

lemma poll_refines:
  assumes "ok (wd_states w)" "sp_serverStates s = st" "needs_choice osenv s srv"
  shows "\<exists>act w'. snd (Poll osenv tk s srv w) = w' \<and> ok (wd_states w')
    \<and> (act, skeleton (view (wd_states w'))) = spec_poll (tk_now tk) (sv_Mac srv) (skeleton (view (wd_states w)))
    \<and> (act = RetryAction \<longrightarrow> fst (Poll osenv tk s srv w) = Inr (genRetryScript s (sv_Mac srv)))
    \<and> (act = TimeoutAction \<longrightarrow> fst (Poll osenv tk s srv w) = Inr timeoutScript)"
proof -
  obtain ts where poll: "Poll osenv tk s srv w = manualAction tk s srv ts w" using Poll_choice [OF assms(3)] by blast
  from choose_refines [OF assms(1,2), of tk srv ts] obtain script act w1
    where c: "chooseManualAction tk s srv ts w = (Inr (script, act), w1)" "ok (wd_states w1)"
      "(act, skeleton (view (wd_states w1))) = spec_poll (tk_now tk) (sv_Mac srv) (skeleton (view (wd_states w)))" by blast
  have "wd_states (snd (manualAction tk s srv ts w)) = wd_states w1" using manualAction_states c(1) by (metis snd_conv)
  then show ?thesis unfolding poll
    by (intro exI [of _ act]) (use c in \<open>auto simp: manualAction_def simp del: spec_poll.simps split: option.splits\<close>)
qed

lemma polls_retry:
  assumes "sp_serverStates s = st" "needs_choice osenv s srv"
  shows "ok (wd_states w) \<Longrightarrow> skeleton (view (wd_states w)) (sv_Mac srv) = Some (InitTarget, e, r, la) \<Longrightarrow>
    r + int (length tks) \<le> maxRetry + 1 \<Longrightarrow>
    \<exists>w' la'. polls osenv s srv tks w = (replicate (length tks) (Inr (genRetryScript s (sv_Mac srv))), w') \<and> ok (wd_states w')
      \<and> skeleton (view (wd_states w')) (sv_Mac srv) = Some (InitTarget, e, r + int (length tks), la')"
proof (induction tks arbitrary: w r la)
  case (Cons tk tks)
  then have "spec_poll (tk_now tk) (sv_Mac srv) (skeleton (view (wd_states w))) = (RetryAction,
      (skeleton (view (wd_states w)))(sv_Mac srv \<mapsto> (InitTarget, e, r + 1, unix (tk_now tk))))" by simp
  with poll_refines [OF Cons.prems(1) assms, of tk] obtain w1 where w1: "Poll osenv tk s srv w = (Inr (genRetryScript s (sv_Mac srv)), w1)"
    "ok (wd_states w1)" "skeleton (view (wd_states w1)) (sv_Mac srv) = Some (InitTarget, e, r + 1, unix (tk_now tk))"
    by (auto simp: prod_eq_iff simp del: spec_poll.simps)
  with Cons.IH [OF w1(2,3)] Cons.prems(3) show ?case by (auto simp: algebra_simps)
qed simp

lemma poll_until_timeout:
  assumes "sp_serverStates s = st" "needs_choice osenv s srv" "ok (wd_states w)"
    and "GetState st (sv_Mac srv) (wd_states w) = Inl NoRows" "length tks = 12"
  shows "\<exists>w'. polls osenv s srv tks w = (replicate 11 (Inr (genRetryScript s (sv_Mac srv))) @ [Inr timeoutScript], w')
    \<and> ok (wd_states w') \<and> GetState st (sv_Mac srv) (wd_states w') = Inl NoRows"
proof -
  let ?mac = "sv_Mac srv" and ?retry = "Inr (genRetryScript s (sv_Mac srv)) :: poll_error + string"
  obtain tk tks' last where tks: "tks = tk # tks' @ [last]" "length tks' = 10"
    using assms(5) by (cases tks; cases "tl tks" rule: rev_cases) auto
  have "skeleton (view (wd_states w)) ?mac = None" using assms(3,4) by (auto simp: get skeleton_def split: option.splits)
  then have sp1: "spec_poll (tk_now tk) ?mac (skeleton (view (wd_states w))) =
      (RetryAction, (skeleton (view (wd_states w)))(?mac \<mapsto> (InitTarget, [], 1, unix (tk_now tk))))" by simp
  from poll_refines [OF assms(3,1,2), of tk] obtain w1 where w1: "Poll osenv tk s srv w = (?retry, w1)" "ok (wd_states w1)"
    "skeleton (view (wd_states w1)) ?mac = Some (InitTarget, [], 1, unix (tk_now tk))"
    unfolding sp1 by (auto simp: prod_eq_iff)
  have "1 + int (length tks') \<le> maxRetry + 1" using tks(2) by (simp add: maxRetry_def)
  from polls_retry [OF assms(1,2) w1(2,3) this] obtain w2 la where w2: "polls osenv s srv tks' w1 = (replicate 10 ?retry, w2)"
    "ok (wd_states w2)" "skeleton (view (wd_states w2)) ?mac = Some (InitTarget, [], 11, la)" using tks(2) by auto
  then have sp3: "spec_poll (tk_now last) ?mac (skeleton (view (wd_states w2))) =
      (TimeoutAction, (skeleton (view (wd_states w2)))(?mac := None))" by (simp add: maxRetry_def)
  from poll_refines [OF w2(2) assms(1,2), of last] obtain w3 where w3: "Poll osenv last s srv w2 = (Inr timeoutScript, w3)"
    "ok (wd_states w3)" "skeleton (view (wd_states w3)) ?mac = None"
    unfolding sp3 by (auto simp: prod_eq_iff)
  have "GetState st ?mac (wd_states w3) = Inl NoRows" using w3(2,3) by (auto simp: get skeleton_def)
  moreover have "polls osenv s srv tks w = (?retry # replicate 10 ?retry @ [Inr timeoutScript], w3)"
    unfolding tks(1) using w1(1) w2(1) w3(1) by (simp add: polls_append)
  moreover have "?retry # replicate 10 ?retry = replicate 11 ?retry" by (simp add: numeral_eq_Suc)
  ultimately show ?thesis using w3(2) by (metis append_Cons)
qed

end

subsection \<open>Choices of operators\<close>

text \<open>The state that a successful choice saves.\<close>

definition chosen_state :: "time \<Rightarrow> ResolveResult \<Rightarrow> Server \<Rightarrow> State \<Rightarrow> State" where
  "chosen_state now result srv state =
     state\<lparr>se_Server := srv, se_Target := tc_Script (rr_Target result), se_Environment := tc_Environment (rr_Target result),
       se_Params := rr_Params result, se_Users := rr_Users result, se_Provisioning := rr_Provisioning result,
       se_LastAccess := unix now\<rparr>"

lemma UpdateTarget_cases:
  assumes "UpdateTarget osenv tk s srv targetName ps w = ((inputErr, err), w')"
  obtains (unchanged) "wd_states w' = wd_states w" "inputErr \<Longrightarrow> w' = w" "err \<noteq> None"
    | (saved) resolver state result srv' w1 x where "service_resolver s = Inr resolver" "\<not> inputErr"
      "GetState (sp_serverStates s) (sv_Mac srv) (wd_states w) = Inr state"
      "resolveBootTarget osenv resolver (poll_request (se_Server state) targetName ps) (sp_baseURL s) (se_Server state) = Inr (result, srv')"
      "HasTarget result" "wd_states w1 = wd_states w"
      "SaveState (sp_serverStates s) (chosen_state (tk_now tk) result srv' state) (wd_states w) = (map_option (\<lambda>e. case e of StoreFailed e \<Rightarrow> e) err, x)"
      "w' = w1\<lparr>wd_states := x\<rparr>" "err = None \<or> (\<exists>e. err = Some (StoreFailed e))"
proof (cases "err = None \<or> wd_states w' \<noteq> wd_states w \<or> inputErr \<and> w' \<noteq> w")
  case False
  then show ?thesis by (intro unchanged) auto
next
  case True
  then have "\<exists>resolver state result srv' w1 x. service_resolver s = Inr resolver \<and> \<not> inputErr \<and>
      GetState (sp_serverStates s) (sv_Mac srv) (wd_states w) = Inr state \<and>
      resolveBootTarget osenv resolver (poll_request (se_Server state) targetName ps) (sp_baseURL s) (se_Server state) = Inr (result, srv') \<and>
      HasTarget result \<and> wd_states w1 = wd_states w \<and>
      SaveState (sp_serverStates s) (chosen_state (tk_now tk) result srv' state) (wd_states w) = (map_option (\<lambda>e. case e of StoreFailed e \<Rightarrow> e) err, x) \<and>
      w' = w1\<lparr>wd_states := x\<rparr> \<and> (err = None \<or> (\<exists>e. err = Some (StoreFailed e)))"
    using assms unfolding UpdateTarget_def
    by (auto simp: chosen_state_def dest!: append_event_statesI split: if_splits sum.splits prod.splits option.splits)
  then show ?thesis using saved by blast
qed

context state_store
begin

lemma update_saves:
  assumes "ok (wd_states w)" "sp_serverStates s = st"
    and "UpdateTarget osenv tk s srv targetName ps w = ((inputErr, None), w')"
  shows "\<exists>resolver state result srv' x'. service_resolver s = Inr resolver \<and> view (wd_states w) (sv_Mac srv) = Some state
    \<and> resolveBootTarget osenv resolver (poll_request (se_Server state) targetName ps) (sp_baseURL s) (se_Server state) = Inr (result, srv')
    \<and> HasTarget result \<and> kept (chosen_state (tk_now tk) result srv' state) = Some x' \<and> ok (wd_states w')
    \<and> view (wd_states w') = (view (wd_states w))(sv_Mac srv \<mapsto> x')"
  using assms(3)
proof (cases rule: UpdateTarget_cases)
  case (saved resolver state result srv' w1 x)
  have state: "view (wd_states w) (sv_Mac srv) = Some state"
    using saved(3) assms(1,2) by (simp add: get split: option.splits)
  obtain x' where x': "kept (chosen_state (tk_now tk) result srv' state) = Some x'"
    using saved(7) save_fails [OF assms(1)] assms(2)
    by (cases "kept (chosen_state (tk_now tk) result srv' state)") fastforce+
  have "sv_Mac (se_Server (chosen_state (tk_now tk) result srv' state)) = sv_Mac srv'" by (simp add: chosen_state_def)
  also have "\<dots> = sv_Mac (se_Server state)" using resolveBootTarget_server [OF saved(4)]
    by (metis Server.select_convs(1) Server.surjective Server.update_convs(3))
  also have "\<dots> = sv_Mac srv" using keyed [OF assms(1) state] .
  finally have mac: "sv_Mac (se_Server (chosen_state (tk_now tk) result srv' state)) = sv_Mac srv" .
  obtain y where y: "SaveState st (chosen_state (tk_now tk) result srv' state) (wd_states w) = (None, y)" "ok y"
    "view y = (view (wd_states w))(sv_Mac srv \<mapsto> x')" using save [OF assms(1) x'] unfolding mac by blast
  then have "wd_states w' = y" using saved(7,8) assms(2) by simp
  with saved state x' y show ?thesis by blast
qed simp

lemma update_succeeds:
  assumes "ok (wd_states w)" "sp_serverStates s = st" "IsValidMAC (sv_Mac srv)" "service_resolver s = Inr resolver"
    and "view (wd_states w) (sv_Mac srv) = Some state"
    and "resolveBootTarget osenv resolver (poll_request (se_Server state) targetName ps) (sp_baseURL s) (se_Server state) = Inr (result, srv')"
    and "HasTarget result" "\<And>script tps env. \<not> isl (sp_render s script tps env)"
    and "kept (chosen_state (tk_now tk) result srv' state) \<noteq> None" "lg_commands (wd_log w) = Some (memory_events i)"
  shows "\<exists>w1. UpdateTarget osenv tk s srv targetName ps w = ((False, None), w1)"
proof -
  obtain x' where "kept (chosen_state (tk_now tk) result srv' state) = Some x'" using assms(9) by blast
  from save [OF assms(1) this] obtain y where
    y: "SaveState st (chosen_state (tk_now tk) result srv' state) (wd_states w) = (None, y)" by blast
  obtain out where out: "sp_render s (tc_Script (rr_Target result)) (ParamsWithProvisioning (rr_Params result)
      (entries (rr_Users result)) (rr_Provisioning result)) (tc_Environment (rr_Target result)) = Inr out"
    using assms(8) by (metis sum.collapse(2))
  obtain w1 where w1: "append_event tk UserSelection srv' [] (tc_Script (rr_Target result)) None w = (None, w1)"
    using assms(10) by (simp add: append_event_def LogAppendEvent_def Let_def memory_events_def case_prod_beta)
  show ?thesis
    using assms(2-7) y out w1 append_event_statesI [OF w1]
    by (simp add: UpdateTarget_def get [OF assms(1)] chosen_state_def)
qed

lemma update_error:
  assumes "ok (wd_states w)" "sp_serverStates s = st"
    and "UpdateTarget osenv tk s srv targetName ps w = ((inputErr, Some e), w')"
  shows "wd_states w' = wd_states w \<and> (inputErr \<longrightarrow> w' = w)"
  using assms(3)
proof (cases rule: UpdateTarget_cases)
  case (saved resolver state result srv' w1 x)
  then obtain err where sv: "SaveState st (chosen_state (tk_now tk) result srv' state) (wd_states w) = (Some err, x)"
    using assms(2) by auto
  have none: "kept (chosen_state (tk_now tk) result srv' state) = None"
  proof (rule ccontr)
    assume "kept (chosen_state (tk_now tk) result srv' state) \<noteq> None"
    then obtain x' where "kept (chosen_state (tk_now tk) result srv' state) = Some x'" by blast
    from state_store.save [OF state_store_axioms assms(1) this] sv show False by auto
  qed
  have "x = wd_states w" using save_fails [OF assms(1) none] sv by auto
  with saved show ?thesis by simp
qed simp

lemma update_error_states:
  "ok (wd_states w) \<Longrightarrow> sp_serverStates s = st \<Longrightarrow> UpdateTarget osenv tk s srv targetName ps w = ((inputErr, Some e), w') \<Longrightarrow>
   wd_states w' = wd_states w"
  using update_error by blast

text \<open>The invariant of the service: every state was retried between once and eleven times.\<close>

lemma step_invariant:
  assumes "service_step osenv s w w'" "sp_serverStates s = st" "ok (wd_states w)" "retry_bounds (skeleton (view (wd_states w)))"
  shows "ok (wd_states w') \<and> retry_bounds (skeleton (view (wd_states w')))"
  using assms(1)
proof cases
  case (poll tk srv)
  from Poll_cases [of osenv tk s srv w] show ?thesis
  proof (elim disjE exE)
    fix ts assume "Poll osenv tk s srv w = manualAction tk s srv ts w"
    then have w': "wd_states w' = wd_states (snd (chooseManualAction tk s srv ts w))"
      using poll manualAction_states [of tk s srv ts w] by simp
    from choose_refines [OF assms(3,2), of tk srv ts] obtain script act w1
      where c: "chooseManualAction tk s srv ts w = (Inr (script, act), w1)" "ok (wd_states w1)"
        "(act, skeleton (view (wd_states w1))) = spec_poll (tk_now tk) (sv_Mac srv) (skeleton (view (wd_states w)))" by blast
    show ?thesis using retry_bounds_poll [OF assms(4) c(3) [symmetric]] c(1,2) unfolding w' by simp
  qed (use poll assms in simp)
next
  case (update tk srv targetName ps)
  obtain inputErr err where u: "UpdateTarget osenv tk s srv targetName ps w = ((inputErr, err), w')"
    unfolding update by (metis surj_pair prod.collapse)
  show ?thesis
  proof (cases err)
    case None
    from update_saves [OF assms(3,2) u [unfolded None]] obtain state result srv' x'
      where x': "view (wd_states w) (sv_Mac srv) = Some state" "kept (chosen_state (tk_now tk) result srv' state) = Some x'"
        "ok (wd_states w')" "view (wd_states w') = (view (wd_states w))(sv_Mac srv \<mapsto> x')" by blast
    have "se_Retry x' = se_Retry state" using kept_fields [OF x'(2)] by (simp add: chosen_state_def)
    moreover have "1 \<le> se_Retry state \<and> se_Retry state \<le> maxRetry + 1"
      using assms(4) x'(1) by (force simp: retry_bounds_def skeleton_def state_skeleton_def)
    moreover have "skeleton (view (wd_states w')) = (skeleton (view (wd_states w)))(sv_Mac srv \<mapsto> state_skeleton x')"
      unfolding x'(4) by (auto simp: skeleton_def fun_eq_iff)
    ultimately show ?thesis using x'(3) retry_bounds_upd(1) [OF assms(4)] by (simp add: state_skeleton_def)
  next
    case (Some e)
    from update_error_states [OF assms(3,2) u [unfolded Some]] assms(3,4) show ?thesis by simp
  qed
next
  case (clean now)
  obtain n where n: "DeleteStatesBefore st (now - StateExpireAfter) (wd_states w) = (Inr n, cleaner_tick st now (wd_states w))"
    using cleaner_tick_before [OF assms(3)] by blast
  obtain n2 s2 where r: "DeleteStatesBefore st (now - StateExpireAfter) (wd_states w) = (Inr n2, s2)" "ok s2"
    "\<forall>mac x. view s2 mac = Some x \<longrightarrow> view (wd_states w) mac = Some x"
    using before [OF assms(3), of "now - StateExpireAfter"] by blast
  from n r(1) have s2: "s2 = cleaner_tick st now (wd_states w)" by simp
  have "retry_bounds (skeleton (view s2))"
    by (rule retry_bounds_sub [OF assms(4)]) (use r(3) in \<open>auto simp: skeleton_def\<close>)
  with r(2) show ?thesis unfolding clean assms(2) s2 by simp
qed

lemma reachable_invariant:
  assumes "reachable osenv s w0 w" "sp_serverStates s = st" "ok (wd_states w0)" "retry_bounds (skeleton (view (wd_states w0)))"
  shows "ok (wd_states w) \<and> retry_bounds (skeleton (view (wd_states w)))"
  using assms(1)
proof (induction rule: reachable.induct)
  case (step w w')
  then show ?case using step_invariant assms(2) by blast
qed (use assms in blast)

lemma poll_panic:
  assumes "ok (wd_states w)" "sp_serverStates s = st" "needs_choice osenv s srv"
    and "GetState st (sv_Mac srv) (wd_states w) = Inr x" "se_Target x \<noteq> InitTarget" "Poll osenv tk s srv w = (res, w')"
  shows "(res = Inl Panic \<longleftrightarrow> (case lookup_map (se_Params x) ''hostname'' of None \<Rightarrow> se_Params x = None | Some v \<Rightarrow> \<not> is_text v))
    \<and> GetState st (sv_Mac srv) (wd_states w') = Inl NoRows"
proof -
  obtain ts where poll: "manualAction tk s srv ts w = (res, w')" using Poll_choice [OF assms(3)] assms(6) by metis
  have v: "view (wd_states w) (sv_Mac srv) = Some x" using assms(1,4) by (simp add: get split: option.splits)
  from choose_delete [OF assms(1,2) v, of tk ts] assms(5) obtain w3
    where c: "chooseManualAction tk s srv ts w = (Inr (Some (state_script x), BootAction), w3)" "ok (wd_states w3)"
      "view (wd_states w3) = (view (wd_states w))(sv_Mac srv := None)" by auto
  have "wd_states w' = wd_states w3" using manualAction_states [of tk s srv ts w] poll c(1) by simp
  then have gone: "GetState st (sv_Mac srv) (wd_states w') = Inl NoRows" using c(2,3) by (simp add: get)
  let ?ps = "se_Params x" and ?mac = "sv_Mac srv"
  have boots: "res \<noteq> Inl Panic" if "setHostName ?ps ?mac = Some ps" "lookup_map ps ''hostname'' = Some (VStr h)" for ps h
    using poll that genBootScript_no_panic [of tk s]
    by (auto simp: manualAction_def c(1) state_script_def split: prod.splits option.splits) (metis fst_conv)
  have panics: "res = Inl Panic" if "setHostName ?ps ?mac = Some ps" "lookup_map ps ''hostname'' = Some v" "\<not> is_text v" for ps v
    using poll that by (cases v) (auto simp: manualAction_def c(1) state_script_def)
  show ?thesis
  proof (cases "lookup_map ?ps ''hostname''")
    case None
    show ?thesis
    proof (cases ?ps)
      case (Some es)
      then obtain qs where qs: "setHostName ?ps ?mac = Some qs" using setHostName_Some by force
      with setHostName_hostname(2) [OF None] boots None Some gone show ?thesis by auto
    qed (use None gone poll setHostName_hostname(1) [of ?ps ?mac] in \<open>auto simp: manualAction_def c(1) state_script_def\<close>)
  next
    case (Some v)
    then have "setHostName ?ps ?mac = Some ?ps" by (simp add: setHostName_def)
    with boots panics Some gone show ?thesis by (cases v) auto
  qed
qed

lemma chosen_boots_once:
  assumes "ok (wd_states w)" "sp_serverStates s = st" "UpdateTarget osenv tk s srv targetName ps w = ((inputErr, None), w1)"
    and "needs_choice osenv s srv" "Poll osenv tk' s srv w1 = (res, w2)"
  shows "\<exists>resolver state result srv'. service_resolver s = Inr resolver \<and> GetState st (sv_Mac srv) (wd_states w) = Inr state
    \<and> resolveBootTarget osenv resolver (poll_request (se_Server state) targetName ps) (sp_baseURL s) (se_Server state) = Inr (result, srv')
    \<and> HasTarget result
    \<and> (tc_Script (rr_Target result) \<noteq> InitTarget \<longrightarrow> GetState st (sv_Mac srv) (wd_states w2) = Inl NoRows
        \<and> (\<forall>text. res = Inr text \<longrightarrow>
            (\<exists>tps. sp_render s (tc_Script (rr_Target result)) tps (tc_Environment (rr_Target result)) = Inr text)))"
proof -
  from update_saves [OF assms(1-3)] obtain resolver state result srv' x'
    where u: "service_resolver s = Inr resolver" "view (wd_states w) (sv_Mac srv) = Some state"
      "resolveBootTarget osenv resolver (poll_request (se_Server state) targetName ps) (sp_baseURL s) (se_Server state) = Inr (result, srv')"
      "HasTarget result" "kept (chosen_state (tk_now tk) result srv' state) = Some x'" "ok (wd_states w1)"
      "view (wd_states w1) = (view (wd_states w))(sv_Mac srv \<mapsto> x')" by blast
  have x': "se_Target x' = tc_Script (rr_Target result)" "se_Environment x' = tc_Environment (rr_Target result)"
    using kept_fields [OF u(5)] by (simp_all add: chosen_state_def)
  have "GetState st (sv_Mac srv) (wd_states w2) = Inl NoRows \<and> (\<forall>text. res = Inr text \<longrightarrow>
            (\<exists>tps. sp_render s (se_Target x') tps (se_Environment x') = Inr text))" if "se_Target x' \<noteq> InitTarget"
  proof -
    obtain ts where poll: "Poll osenv tk' s srv w1 = manualAction tk' s srv ts w1" using Poll_choice [OF assms(4)] by blast
    have v: "view (wd_states w1) (sv_Mac srv) = Some x'" using u(7) by simp
    from choose_delete [OF u(6) assms(2) v, of tk' ts] that obtain w3
      where c: "chooseManualAction tk' s srv ts w1 = (Inr (Some (state_script x'), BootAction), w3)" "ok (wd_states w3)"
        "view (wd_states w3) = (view (wd_states w1))(sv_Mac srv := None)" by auto
    have "wd_states w2 = wd_states w3" using manualAction_states [of tk' s srv ts w1] assms(5) poll c(1) by simp
    then have "GetState st (sv_Mac srv) (wd_states w2) = Inl NoRows" using c(2,3) by (simp add: get)
    moreover have "\<exists>tps. sp_render s (se_Target x') tps (se_Environment x') = Inr out" if "res = Inr out" for out
      using assms(5) that unfolding poll manualAction_def c(1)
      by (auto simp: state_script_def dest: genBootScript_text split: option.splits val.splits prod.splits)
    ultimately show ?thesis by blast
  qed
  with u x' assms(1) show ?thesis by (auto simp: get)
qed

end

subsection \<open>Properties\<close>

definition sample_render :: "string \<Rightarrow> tparams \<Rightarrow> string \<Rightarrow> string + string" where
  "sample_render script ps env = Inr (''# '' @ script)"

definition sample_service :: "(store, store) Service" where
  "sample_service = NewService persistent_store (Some sample_resolver) sample_render ''boot:8081''"

definition sample_world :: "(store, store) World" where
  "sample_world = \<lparr>wd_states = new_store, wd_log = memory_log, wd_db = new_store\<rparr>"

definition sample_host :: Server where
  "sample_host = NewServer ''06:66:de:ad:be:ef'' ''10.0.0.9'' ''web1''"

definition sample_tick :: "nat \<Rightarrow> Tick" where
  "sample_tick n = \<lparr>tk_now = int n * 7000000000, tk_id = n + 1, tk_ref = ''r'' @ nat_str n\<rparr>"

lemma sample_service_facts [simp]:
  "sp_serverStates sample_service = persistent_store" "wd_states sample_world = new_store"
  by (simp_all add: sample_service_def NewService_def sample_world_def)

lemma get_new: "GetState persistent_store mac new_store = Inl NoRows"
proof -
  have "view_persistent new_store mac = None" by (simp add: view_persistent_def view_rows_def new_store_def)
  then show ?thesis by (simp add: pstore.get)
qed

lemma sample_needs_choice: "needs_choice sample_env sample_service sample_host"
  by code_simp


definition sample_polled :: "(store, store) World" where
  "sample_polled = snd (Poll sample_env (sample_tick 0) sample_service sample_host sample_world)"


text \<open>
  Polling ends: a host for which no target is chosen is told to retry exactly eleven times; the twelfth poll is
  answered with the timeout script, after which the host is forgotten and the protocol starts over.
\<close>

theorem poll_times_out:
  assumes "sp_serverStates s = persistent_store" "needs_choice osenv s srv" "ok_persistent (wd_states w)"
    and "GetState persistent_store (sv_Mac srv) (wd_states w) = Inl NoRows" "length ticks = 12"
  shows "\<exists>w'. polls osenv s srv ticks w = (replicate 11 (Inr (genRetryScript s (sv_Mac srv))) @ [Inr timeoutScript], w')
    \<and> GetState persistent_store (sv_Mac srv) (wd_states w') = Inl NoRows"
  using pstore.poll_until_timeout [OF assms] by blast

theorem poll_times_out_witness:
  "last (fst (polls sample_env sample_service sample_host (map sample_tick [0..<12]) sample_world)) = Inr timeoutScript
    \<and> length (fst (polls sample_env sample_service sample_host (map sample_tick [0..<12]) sample_world)) = 12"
proof -
  have new: "GetState persistent_store (sv_Mac sample_host) (wd_states sample_world) = Inl NoRows"
    by (simp add: get_new)
  have ok: "ok_persistent (wd_states sample_world)" by simp
  have "length (map sample_tick [0..<12]) = 12" by simp
  from poll_times_out [OF sample_service_facts(1) sample_needs_choice ok new this] show ?thesis by auto
qed

text \<open>
  C20. A choice that is refused changes nothing: after any error the states of all hosts are as before, and after an
  error of the input (an invalid MAC, a host that does not wait, a target that is not allowed, a template that does
  not render) so are the events and everything else.
\<close>

theorem update_error_safe:
  assumes "sp_serverStates s = persistent_store" "ok_persistent (wd_states w)"
    and "UpdateTarget osenv tk s srv targetName ps w = ((inputErr, Some e), w')"
  shows "wd_states w' = wd_states w \<and> (inputErr \<longrightarrow> w' = w)"
  using pstore.update_error [OF assms(2,1,3)] .

lemma sample_polled_ok: "ok_persistent (wd_states sample_polled)"
proof -
  have "ok_persistent (wd_states sample_world)" by simp
  from pstore.poll_refines [OF this sample_service_facts(1) sample_needs_choice, of "sample_tick 0"]
  show ?thesis by (auto simp: sample_polled_def)
qed

theorem update_error_safe_witness:
  "\<exists>w'. UpdateTarget sample_env (sample_tick 1) sample_service sample_host ''windows'' None sample_polled =
      ((True, Some (ResolveFailed (TargetNotFound ''windows''))), w') \<and> w' = sample_polled"
proof -
  obtain w' where u: "UpdateTarget sample_env (sample_tick 1) sample_service sample_host ''windows'' None sample_polled =
      ((True, Some (ResolveFailed (TargetNotFound ''windows''))), w')"
  proof -
    have "fst (UpdateTarget sample_env (sample_tick 1) sample_service sample_host ''windows'' None sample_polled) =
        (True, Some (ResolveFailed (TargetNotFound ''windows'')))" by code_simp
    then show ?thesis by (intro that) (simp add: prod_eq_iff)
  qed
  from update_error_safe [OF sample_service_facts(1) sample_polled_ok u] u show ?thesis by simp
qed


definition sample_waiting :: "(store, store) World" where
  "sample_waiting = sample_world\<lparr>wd_states := snd (QueueServer persistent_store 0 sample_host None new_store)\<rparr>"

definition sample_waiting_state :: State where
  "sample_waiting_state = waiting_state 0 sample_host None"

definition sample_chosen_result :: "ResolveResult \<times> Server" where
  "sample_chosen_result = projr (resolveBootTarget sample_env sample_resolver
     (poll_request sample_host ''debian'' None) ''boot:8081'' sample_host)"

lemma sample_waiting_facts:
  "ok_persistent (wd_states sample_waiting)" "view_persistent (wd_states sample_waiting) (sv_Mac sample_host) = Some sample_waiting_state"
  "se_Server sample_waiting_state = sample_host" "lg_commands (wd_log sample_waiting) = Some (memory_events 1)"
proof -
  show ok: "ok_persistent (wd_states sample_waiting)"
    using pstore.queue [OF ok_persistent_new, of 0 sample_host None] by (auto simp: sample_waiting_def)
  have "GetState persistent_store (sv_Mac sample_host) (wd_states sample_waiting) = Inr sample_waiting_state" by code_simp
  with ok show "view_persistent (wd_states sample_waiting) (sv_Mac sample_host) = Some sample_waiting_state"
    by (simp add: pstore.get split: option.splits)
  show "se_Server sample_waiting_state = sample_host" by code_simp
  show "lg_commands (wd_log sample_waiting) = Some (memory_events 1)"
    by (simp add: sample_waiting_def sample_world_def memory_log_def NewLog_def)
qed

lemma kept_text_params:
  assumes "list_all (is_text \<circ> snd) (entries (rr_Params result))"
    and "enc_Passphrase (st_Encryption (pv_Storage (rr_Provisioning result))) = VNil"
    and "ins_ConfigParams (pv_Installer (rr_Provisioning result)) = None"
  shows "kept_json (chosen_state now result srv state) \<noteq> None"
proof -
  have str: "marshal v \<noteq> None" if "is_text v" for v using that by (cases v) simp_all
  have "marshal_params (rr_Params result) \<noteq> None"
  proof (cases "rr_Params result")
    case (Some es)
    have "marshal (VMap es) \<noteq> None"
      by (rule marshal_map_Some, rule str) (use assms(1) Some in \<open>auto simp: list_all_iff\<close>)
    with Some show ?thesis by (simp add: marshal_params_def)
  qed (simp add: marshal_params_def)
  moreover have "json_provisioning (rr_Provisioning result) \<noteq> None"
    using assms(2,3) by (simp add: json_provisioning_def through_json_def Let_def)
  ultimately have "\<exists>r. recordFromState (chosen_state now result srv state) = Inr r"
    by (auto simp: recordFromState_def chosen_state_def)
  then show ?thesis using kept_json_None by fastforce
qed

definition good_choice :: "poll_error + ResolveResult \<times> Server \<Rightarrow> bool" where
  "good_choice r = (case r of Inl _ \<Rightarrow> False
     | Inr (result, srv) \<Rightarrow> HasTarget result \<and> tc_Script (rr_Target result) \<noteq> InitTarget
         \<and> list_all (is_text \<circ> snd) (entries (rr_Params result))
         \<and> enc_Passphrase (st_Encryption (pv_Storage (rr_Provisioning result))) = VNil
         \<and> ins_ConfigParams (pv_Installer (rr_Provisioning result)) = None)"

lemma sample_chosen_good:
  "good_choice (resolveBootTarget sample_env sample_resolver (poll_request sample_host ''debian'' None) ''boot:8081'' sample_host)"
  by code_simp

lemma sample_chosen_facts:
  "resolveBootTarget sample_env sample_resolver (poll_request sample_host ''debian'' None) ''boot:8081'' sample_host =
     Inr (fst sample_chosen_result, snd sample_chosen_result)"
  "HasTarget (fst sample_chosen_result)" "tc_Script (rr_Target (fst sample_chosen_result)) \<noteq> InitTarget"
  "kept_json (chosen_state 7000000000 (fst sample_chosen_result) (snd sample_chosen_result) sample_waiting_state) \<noteq> None"
proof -
  obtain result srv where r: "resolveBootTarget sample_env sample_resolver (poll_request sample_host ''debian'' None) ''boot:8081'' sample_host
      = Inr (result, srv)" and good: "good_choice (Inr (result, srv))"
    using sample_chosen_good by (cases "resolveBootTarget sample_env sample_resolver (poll_request sample_host ''debian'' None) ''boot:8081'' sample_host")
      (auto simp: good_choice_def)
  from r have parts: "fst sample_chosen_result = result" "snd sample_chosen_result = srv" by (simp_all add: sample_chosen_result_def)
  from good have facts: "HasTarget result" "tc_Script (rr_Target result) \<noteq> InitTarget"
    "list_all (is_text \<circ> snd) (entries (rr_Params result))"
    "enc_Passphrase (st_Encryption (pv_Storage (rr_Provisioning result))) = VNil"
    "ins_ConfigParams (pv_Installer (rr_Provisioning result)) = None" by (simp_all add: good_choice_def)
  show "resolveBootTarget sample_env sample_resolver (poll_request sample_host ''debian'' None) ''boot:8081'' sample_host =
     Inr (fst sample_chosen_result, snd sample_chosen_result)" unfolding parts by (rule r)
  show "HasTarget (fst sample_chosen_result)" "tc_Script (rr_Target (fst sample_chosen_result)) \<noteq> InitTarget"
    unfolding parts by (rule facts)+
  show "kept_json (chosen_state 7000000000 (fst sample_chosen_result) (snd sample_chosen_result) sample_waiting_state) \<noteq> None"
    unfolding parts by (rule kept_text_params [OF facts(3-5)])
qed

lemma sample_service_parts:
  "service_resolver sample_service = Inr sample_resolver" "sp_baseURL sample_service = ''boot:8081''"
  "sp_render sample_service = sample_render"
  by (simp_all add: service_resolver_def sample_service_def NewService_def)

lemma sample_update:
  "\<exists>w1. UpdateTarget sample_env (sample_tick 1) sample_service sample_host ''debian'' None sample_waiting = ((False, None), w1)"
proof (rule pstore.update_succeeds [OF sample_waiting_facts(1) sample_service_facts(1) _ sample_service_parts(1) sample_waiting_facts(2)])
  show "IsValidMAC (sv_Mac sample_host)" by code_simp
  show "resolveBootTarget sample_env sample_resolver (poll_request (se_Server sample_waiting_state) ''debian'' None)
      (sp_baseURL sample_service) (se_Server sample_waiting_state) = Inr (fst sample_chosen_result, snd sample_chosen_result)"
    unfolding sample_waiting_facts(3) sample_service_parts(2) by (rule sample_chosen_facts(1))
  show "HasTarget (fst sample_chosen_result)" by (rule sample_chosen_facts(2))
  show "\<not> isl (sp_render sample_service script tps env)" for script tps env
    by (simp add: sample_service_parts(3) sample_render_def)
  have "tk_now (sample_tick 1) = 7000000000" by (simp add: sample_tick_def)
  then show "kept_json (chosen_state (tk_now (sample_tick 1)) (fst sample_chosen_result) (snd sample_chosen_result) sample_waiting_state) \<noteq> None"
    using sample_chosen_facts(4) by simp
qed (rule sample_waiting_facts(4))


text \<open>
  C21. In every state the service can reach by polls, choices and sweeps, the retry count of every host is between 1
  and 11.
\<close>

theorem reachable_retry_bounds:
  assumes "sp_serverStates s = persistent_store" "reachable osenv s w0 w" "wd_states w0 = new_store"
    and "GetState persistent_store mac (wd_states w) = Inr x"
  shows "1 \<le> se_Retry x \<and> se_Retry x \<le> 11"
proof -
  have "retry_bounds (skeleton (view_persistent (wd_states w0)))" "ok_persistent (wd_states w0)"
    by (simp_all add: assms(3) retry_bounds_def)
  with pstore.reachable_invariant [OF assms(2,1)] have "ok_persistent (wd_states w)" "retry_bounds (skeleton (view_persistent (wd_states w)))"
    by blast+
  moreover from this(1) assms(4) have "view_persistent (wd_states w) mac = Some x" by (simp add: pstore.get split: option.splits)
  ultimately show ?thesis by (force simp: retry_bounds_def skeleton_def state_skeleton_def maxRetry_def)
qed

theorem reachable_retry_bounds_witness:
  "\<exists>x. GetState persistent_store (sv_Mac sample_host) (wd_states sample_polled) = Inr x \<and> 1 \<le> se_Retry x \<and> se_Retry x \<le> 11"
proof -
  have "reachable sample_env sample_service sample_world sample_polled"
    unfolding sample_polled_def by (rule reachable.step [OF reachable.start service_step.poll])
  moreover have "\<not> isl (GetState persistent_store (sv_Mac sample_host) (wd_states sample_polled))" by code_simp
  then obtain x where "GetState persistent_store (sv_Mac sample_host) (wd_states sample_polled) = Inr x"
    by (cases "GetState persistent_store (sv_Mac sample_host) (wd_states sample_polled)") simp_all
  ultimately show ?thesis using reachable_retry_bounds [OF sample_service_facts(1) _ sample_service_facts(2)] by blast
qed


definition sample_numbered :: State where
  "sample_numbered = sample_waiting_state\<lparr>se_Target := ''debian.ipxe'', se_Params := Some [(''hostname'', VInt 7)]\<rparr>"

definition sample_numbered_world :: "(store, store) World" where
  "sample_numbered_world = sample_world\<lparr>wd_states := snd (SaveState persistent_store sample_numbered new_store)\<rparr>"


text \<open>
  C22. A host that the rules give a target boots without waiting: a poll leaves every state alone, and a script it
  answers with is that of a target which the rule of the host allows.
\<close>

theorem automatic_boot:
  assumes "sp_resolver s = Some r" "NewResolver rx up mo = Inr r"
    and "resolveBootTarget osenv r (poll_request srv [] None) (sp_baseURL s) srv = Inr (result, srv')" "HasTarget result"
    and "Poll osenv tk s srv w = (res, w')"
  shows "wd_states w' = wd_states w \<and> rr_TargetName result \<in> set (allowed_names r (poll_request srv [] None))
    \<and> (\<forall>text. res = Inr text \<longrightarrow>
        (\<exists>t tps. map_of (rv_targets r) (rr_TargetName result) = Some t \<and> sp_render s (tg_Script t) tps (tg_Environment t) = Inr text))"
proof -
  obtain g where g: "Resolve osenv r ((poll_request srv [] None)\<lparr>rq_GeneratedParams := g\<rparr>) = Inr result"
    using assms(3,4) by (auto simp: resolveBootTarget_def split: sum.splits if_splits option.splits)
  have same: "allowed_names r ((poll_request srv [] None)\<lparr>rq_GeneratedParams := g\<rparr>) = allowed_names r (poll_request srv [] None)"
    by (simp add: allowed_names_def findPolicy_def cong: option.case_cong)
  note target = Resolve_target [OF NewResolver_closed [OF assms(2)] g, unfolded same]
  then obtain t where t: "rr_TargetName result \<in> set (allowed_names r (poll_request srv [] None))"
    "map_of (rv_targets r) (rr_TargetName result) = Some t" "rr_Target result = targetCandidate (rr_TargetName result) t"
    using assms(4) by metis
  have resolver: "service_resolver s = Inr r" using assms(1) by (simp add: service_resolver_def)
  show ?thesis
  proof (cases "append_event tk HostBoot srv' (bootTypeForMatch (rr_MatchType result)) (tc_Script (rr_Target result)) (rr_Params result) w")
    case (Pair err w1)
    then have "wd_states w1 = wd_states w" by (rule append_event_statesI)
    moreover have "wd_states w' = wd_states w1" "\<And>out. res = Inr out \<Longrightarrow> \<exists>tps. sp_render s (tg_Script t) tps (tg_Environment t) = Inr out"
      using assms(3-5) Pair genBootScript_states [of tk s srv' "tc_Script (rr_Target result)" "tc_Environment (rr_Target result)"
          "rr_Params result" "rr_Users result" "rr_Provisioning result" w1] t(3)
      by (auto simp: Poll_def resolver targetCandidate_def dest: genBootScript_text split: option.splits)
    ultimately show ?thesis using t by simp
  qed
qed

definition sample_auto_host :: Server where
  "sample_auto_host = NewServer ''52:54:00:12:34:56'' ''10.0.0.7'' ''db1''"

definition sample_auto_result :: "ResolveResult \<times> Server" where
  "sample_auto_result = projr (resolveBootTarget sample_env sample_resolver (poll_request sample_auto_host [] None)
     (sp_baseURL sample_service) sample_auto_host)"

theorem automatic_boot_witness:
  "wd_states (snd (Poll sample_env (sample_tick 0) sample_service sample_auto_host sample_world)) = new_store
    \<and> rr_TargetName (fst sample_auto_result) = ''debian''
    \<and> ''debian'' \<in> set (allowed_names sample_resolver (poll_request sample_auto_host [] None))"
proof -
  have "\<not> isl (resolveBootTarget sample_env sample_resolver (poll_request sample_auto_host [] None) (sp_baseURL sample_service) sample_auto_host)"
    by code_simp
  then have res: "resolveBootTarget sample_env sample_resolver (poll_request sample_auto_host [] None) (sp_baseURL sample_service)
      sample_auto_host = Inr (fst sample_auto_result, snd sample_auto_result)" by (simp add: sample_auto_result_def)
  have name: "rr_TargetName (fst sample_auto_result) = ''debian''" by code_simp
  then have has: "HasTarget (fst sample_auto_result)" by (simp add: HasTarget_def)
  have r: "sp_resolver sample_service = Some sample_resolver" by (simp add: sample_service_def NewService_def)
  obtain out w' where p: "Poll sample_env (sample_tick 0) sample_service sample_auto_host sample_world = (out, w')"
    by (cases "Poll sample_env (sample_tick 0) sample_service sample_auto_host sample_world")
  from automatic_boot [OF r sample_resolver_ok res has p] p name show ?thesis by simp
qed

end
