(* ===== verification/Templates.thy ===== *)
theory Templates
  imports Projection Utils
begin

text \<open>
  Templates (\<^verbatim>\<open>templates/templates.go\<close>): the index of the parsed templates of every environment, the
  variables a template needs, the checks of the parameters of an installer template, and rendering.

  The library \<^verbatim>\<open>text/template\<close> enters in three ways. Its parse trees are the datatype \<open>node\<close>, with the nodes
  \<^verbatim>\<open>walkTemplateNode\<close> distinguishes. The set of trees a \<^verbatim>\<open>*template.Template\<close> holds is a map from names to
  trees, on which \<open>AddParseTree\<close> is spelled out. Parsing and executing are the two functions of an \<open>engine\<close>,
  which is an argument of the definitions that use it; executing gives the text written so far and the error,
  since a failed execution leaves its partial output in the buffer.
\<close>

subsection \<open>Parse trees\<close>

datatype node =
    NilNode
  | ActionNode node
  | BranchNode node node node
  | ChainNode node "string list"
  | CommandNode "node list"
  | CommentNode
  | FieldNode "string list"
  | IfNode node node node
  | ListNode "node list"
  | PipeNode "node list"
  | RangeNode node node node
  | TemplateNode string node
  | TextNode string
  | WithNode node node node
  | OtherNode

text \<open>\<open>tr_String\<close> is the text \<^verbatim>\<open>Root.String()\<close> gives.\<close>

record tree =
  tr_Root :: node
  tr_String :: string

text \<open>\<^verbatim>\<open>parse.IsEmptyTree\<close> (a nil node is empty; nodes that cannot stand at the top of a list make it panic).\<close>

fun IsEmptyTree :: "node \<Rightarrow> bool" where
  "IsEmptyTree NilNode = True"
| "IsEmptyTree CommentNode = True"
| "IsEmptyTree (ListNode nodes) = list_all IsEmptyTree nodes"
| "IsEmptyTree (TextNode t) = (trimSpace t = [])"
| "IsEmptyTree _ = False"

text \<open>
  \<^verbatim>\<open>(*template.Template).AddParseTree\<close>, which never fails: an empty tree does not replace a tree that is there.
\<close>

definition AddParseTree :: "string \<Rightarrow> tree \<Rightarrow> tree entries \<Rightarrow> tree entries" where
  "AddParseTree name tr obj =
     (if map_of obj name \<noteq> None \<and> IsEmptyTree (tr_Root tr) then obj else AList.update name tr obj)"

text \<open>
  \<open>en_Parse name content\<close>: the templates \<^verbatim>\<open>parsed.Templates()\<close> in some order, each with its tree unless it has
  none. \<open>en_Execute trees name data\<close>: what \<^verbatim>\<open>ExecuteTemplate\<close> writes, and its error.
\<close>

record engine =
  en_Parse :: "string \<Rightarrow> string \<Rightarrow> string + (string \<times> tree option) list"
  en_Execute :: "tree entries \<Rightarrow> string \<Rightarrow> tparams \<Rightarrow> string \<times> string option"

subsection \<open>State\<close>

definition defaultEnvironment :: string where
  "defaultEnvironment = ''default''"

record TemplateEnvironment =
  te_templateObj :: "tree entries"
  te_templateVars :: "string list entries"
  te_templateRefs :: "string list entries"
  te_templateEmbedded :: "bool entries"
  te_templateBodies :: "string entries"

record ShoelacesTemplates =
  st_envTemplates :: "TemplateEnvironment entries"
  st_dataDir :: string
  st_envDir :: string
  st_tplExt :: string

definition empty_environment :: TemplateEnvironment where
  "empty_environment = \<lparr>te_templateObj = [], te_templateVars = [], te_templateRefs = [], te_templateEmbedded = [],
     te_templateBodies = []\<rparr>"

definition NewTemplates :: ShoelacesTemplates where
  "NewTemplates = \<lparr>st_envTemplates = [(defaultEnvironment, empty_environment)], st_dataDir = [], st_envDir = [],
     st_tplExt = []\<rparr>"

text \<open>Reading a key of a map that may not have it gives the zero value.\<close>

definition list_at :: "'a list entries \<Rightarrow> string \<Rightarrow> 'a list" where
  "list_at m k = (case map_of m k of None \<Rightarrow> [] | Some vs \<Rightarrow> vs)"

definition flag_at :: "bool entries \<Rightarrow> string \<Rightarrow> bool" where
  "flag_at m k \<longleftrightarrow> map_of m k = Some True"

definition body_at :: "TemplateEnvironment \<Rightarrow> string \<Rightarrow> string" where
  "body_at e name = (case map_of (te_templateBodies e) name of None \<Rightarrow> [] | Some b \<Rightarrow> b)"

definition env_at :: "ShoelacesTemplates \<Rightarrow> string \<Rightarrow> TemplateEnvironment" where
  "env_at s env = (case map_of (st_envTemplates s) env of None \<Rightarrow> empty_environment | Some e \<Rightarrow> e)"

definition cloneTemplateIndex :: "string list entries \<Rightarrow> string list entries" where
  "cloneTemplateIndex index = put_all [] index"

definition cloneTemplateEmbeddedIndex :: "bool entries \<Rightarrow> bool entries" where
  "cloneTemplateEmbeddedIndex index = put_all [] index"

definition cloneTemplateBodyIndex :: "string entries \<Rightarrow> string entries" where
  "cloneTemplateBodyIndex index = put_all [] index"

definition checkAddEnvironment :: "string \<Rightarrow> ShoelacesTemplates \<Rightarrow> ShoelacesTemplates" where
  "checkAddEnvironment environment s =
     (if map_of (st_envTemplates s) environment \<noteq> None then s
      else let d = env_at s defaultEnvironment
           in s\<lparr>st_envTemplates := AList.update environment
                  \<lparr>te_templateObj = put_all [] (te_templateObj d),
                   te_templateVars = cloneTemplateIndex (te_templateVars d),
                   te_templateRefs = cloneTemplateIndex (te_templateRefs d),
                   te_templateEmbedded = cloneTemplateEmbeddedIndex (te_templateEmbedded d),
                   te_templateBodies = cloneTemplateBodyIndex (te_templateBodies d)\<rparr> (st_envTemplates s)\<rparr>)"

subsection \<open>The variables of a parse tree\<close>

definition normalizeVariableName :: "string \<Rightarrow> string" where
  "normalizeVariableName variable =
     (let v = trimSpace variable
      in if v = [] then []
         else case Prelude.fields v of [] \<Rightarrow> [] | f # _ \<Rightarrow> trimPrefix f ''.'')"

text \<open>The two callbacks update variables of their caller, here the state \<open>st\<close> that the walk threads.\<close>

fun walkTemplateNode :: "node \<Rightarrow> (string \<Rightarrow> 's \<Rightarrow> 's) \<Rightarrow> (string \<Rightarrow> 's \<Rightarrow> 's) \<Rightarrow> 's \<Rightarrow> 's" where
  "walkTemplateNode NilNode addVariable addRef st = st"
| "walkTemplateNode (ActionNode pipe) addVariable addRef st = walkTemplateNode pipe addVariable addRef st"
| "walkTemplateNode (BranchNode pipe lst elseList) addVariable addRef st =
     walkTemplateNode elseList addVariable addRef
       (walkTemplateNode lst addVariable addRef (walkTemplateNode pipe addVariable addRef st))"
| "walkTemplateNode (ChainNode n field) addVariable addRef st =
     addVariable (normalizeVariableName (join ''.'' field)) (walkTemplateNode n addVariable addRef st)"
| "walkTemplateNode (CommandNode args) addVariable addRef st =
     fold (\<lambda>arg. walkTemplateNode arg addVariable addRef) args st"
| "walkTemplateNode (FieldNode ident) addVariable addRef st =
     addVariable (normalizeVariableName (join ''.'' ident)) st"
| "walkTemplateNode (IfNode pipe lst elseList) addVariable addRef st =
     walkTemplateNode elseList addVariable addRef
       (walkTemplateNode lst addVariable addRef (walkTemplateNode pipe addVariable addRef st))"
| "walkTemplateNode (ListNode nodes) addVariable addRef st =
     fold (\<lambda>child. walkTemplateNode child addVariable addRef) nodes st"
| "walkTemplateNode (PipeNode cmds) addVariable addRef st =
     fold (\<lambda>cmd. walkTemplateNode cmd addVariable addRef) cmds st"
| "walkTemplateNode (RangeNode pipe lst elseList) addVariable addRef st =
     walkTemplateNode elseList addVariable addRef
       (walkTemplateNode lst addVariable addRef (walkTemplateNode pipe addVariable addRef st))"
| "walkTemplateNode (TemplateNode name pipe) addVariable addRef st =
     walkTemplateNode pipe addVariable addRef (addRef name st)"
| "walkTemplateNode (WithNode pipe lst elseList) addVariable addRef st =
     walkTemplateNode elseList addVariable addRef
       (walkTemplateNode lst addVariable addRef (walkTemplateNode pipe addVariable addRef st))"
| "walkTemplateNode _ addVariable addRef st = st"

definition add_new :: "string \<Rightarrow> string list \<Rightarrow> string list" where
  "add_new x xs = (if StringInSlice x xs then xs else xs @ [x])"

definition extractTemplateInfo :: "node \<Rightarrow> string list \<times> string list" where
  "extractTemplateInfo root =
     walkTemplateNode root
       (\<lambda>variable (variables, refs). (if variable \<noteq> [] then add_new variable variables else variables, refs))
       (\<lambda>ref (variables, refs). (variables, if ref \<noteq> [] then add_new ref refs else refs))
       ([], [])"

subsection \<open>Adding templates\<close>

definition path_base :: "string \<Rightarrow> string" where
  "path_base p =
     (let stripped = rev (dropWhile (\<lambda>c. c = CHR ''/'') (rev p))
      in if p = [] then ''.'' else if stripped = [] then ''/'' else last (split_on CHR ''/'' stripped))"

text \<open>The body of the loop over the parsed templates.\<close>

definition add_parsed :: "bool \<Rightarrow> string \<Rightarrow> string \<times> tree option \<Rightarrow> TemplateEnvironment \<Rightarrow> TemplateEnvironment" where
  "add_parsed embedded sourceName parsedTemplate e =
     (case parsedTemplate of
        (name, None) \<Rightarrow> e
      | (name, Some tr) \<Rightarrow>
          if name = sourceName \<and> trimSpace (tr_String tr) = [] then e
          else let info = extractTemplateInfo (tr_Root tr);
                   body = tr_String tr;
                   oldBody = body_at e name
               in \<lparr>te_templateObj = AddParseTree name tr (te_templateObj e),
                   te_templateVars = AList.update name (fst info) (te_templateVars e),
                   te_templateRefs = AList.update name (snd info) (te_templateRefs e),
                   te_templateEmbedded = AList.update name
                     (embedded \<or> (flag_at (te_templateEmbedded e) name \<and> oldBody = body)) (te_templateEmbedded e),
                   te_templateBodies = AList.update name body (te_templateBodies e)\<rparr>)"

definition addTemplateContent ::
    "engine \<Rightarrow> string \<Rightarrow> string \<Rightarrow> string \<Rightarrow> bool \<Rightarrow> ShoelacesTemplates \<Rightarrow> string option \<times> ShoelacesTemplates" where
  "addTemplateContent en source content environment embedded s =
     (let s = checkAddEnvironment environment s; sourceName = path_base source
      in case en_Parse en sourceName content of
           Inl err \<Rightarrow> (Some err, s)
         | Inr parsed \<Rightarrow>
             (None, s\<lparr>st_envTemplates := AList.update environment
                (fold (add_parsed embedded sourceName) parsed (env_at s environment)) (st_envTemplates s)\<rparr>))"

definition addTemplate ::
    "engine \<Rightarrow> (string \<Rightarrow> string + string) \<Rightarrow> string \<Rightarrow> string \<Rightarrow> ShoelacesTemplates \<Rightarrow> string option \<times> ShoelacesTemplates" where
  "addTemplate en readFile path environment s =
     (case readFile path of
        Inl err \<Rightarrow> (Some err, s)
      | Inr content \<Rightarrow> addTemplateContent en path content environment False s)"

text \<open>An index out of range panics: \<^const>\<open>None\<close>.\<close>

definition getEnvFromPath :: "ShoelacesTemplates \<Rightarrow> string \<Rightarrow> string option" where
  "getEnvFromPath s path =
     (let envPath = path_join [st_dataDir s, st_envDir s]
      in if hasPrefix path envPath then
           (case split_on CHR ''/'' (trimPrefix path envPath) of _ # env # _ \<Rightarrow> Some env | _ \<Rightarrow> None)
         else Some defaultEnvironment)"

subsection \<open>Loading\<close>

text \<open>
  A walk visits paths in lexical order and hands each to the callback with the error of reading it, if any
  (\<^verbatim>\<open>filepath.Walk\<close>, \<^verbatim>\<open>fs.WalkDir\<close>); it stops at the first error the callback returns. The visited paths are
  an argument. The process may end: \<open>ExitEmbedded\<close> and \<open>ExitParse\<close> are calls of \<^verbatim>\<open>os.Exit(1)\<close>, \<open>WalkPanic\<close> and
  \<open>IndexPanic\<close> are panics.
\<close>

datatype load_error = ExitEmbedded string | ExitParse string | WalkPanic string | IndexPanic

type_synonym visit = "string \<times> string option"

fun walk :: "(visit \<Rightarrow> 's \<Rightarrow> load_error + string option \<times> 's) \<Rightarrow> visit list \<Rightarrow> 's \<Rightarrow> load_error + string option \<times> 's" where
  "walk callback [] s = Inr (None, s)"
| "walk callback (v # vs) s = bindE (callback v s)
     (\<lambda>(err, s). case err of Some e \<Rightarrow> Inr (Some e, s) | None \<Rightarrow> walk callback vs s)"

definition scan_embedded ::
    "engine \<Rightarrow> (string \<Rightarrow> string + string) \<Rightarrow> (string \<Rightarrow> bool) \<Rightarrow> visit \<Rightarrow> ShoelacesTemplates
      \<Rightarrow> load_error + string option \<times> ShoelacesTemplates" where
  "scan_embedded en readFile isDir v s =
     (case v of (p, err) \<Rightarrow>
        if err \<noteq> None \<or> isDir p then Inr (err, s)
        else if hasSuffix p (st_tplExt s) then
          (case readFile p of
             Inl e \<Rightarrow> Inr (Some e, s)
           | Inr content \<Rightarrow> Inr (addTemplateContent en p content defaultEnvironment True s))
        else Inr (None, s))"

definition parseEmbeddedProvisioningTemplates ::
    "engine \<Rightarrow> (string \<Rightarrow> string + string) \<Rightarrow> (string \<Rightarrow> bool) \<Rightarrow> visit list \<Rightarrow> ShoelacesTemplates
      \<Rightarrow> load_error + ShoelacesTemplates" where
  "parseEmbeddedProvisioningTemplates en readFile isDir visits s =
     bindE (walk (scan_embedded en readFile isDir) visits s)
       (\<lambda>(err, s). case err of Some e \<Rightarrow> Inl (ExitEmbedded e) | None \<Rightarrow> Inr s)"

definition tplScannerDefault ::
    "engine \<Rightarrow> (string \<Rightarrow> string + string) \<Rightarrow> visit \<Rightarrow> ShoelacesTemplates
      \<Rightarrow> load_error + string option \<times> ShoelacesTemplates" where
  "tplScannerDefault en readFile v s =
     (case v of (p, err) \<Rightarrow>
        if hasPrefix p (path_join [st_dataDir s, st_envDir s]) then Inr (err, s)
        else if hasSuffix p (st_tplExt s) then
          (case addTemplate en readFile p defaultEnvironment s of
             (Some e, s) \<Rightarrow> Inl (ExitParse e)
           | (None, s) \<Rightarrow> Inr (err, s))
        else Inr (err, s))"

definition tplScannerOverride ::
    "engine \<Rightarrow> (string \<Rightarrow> string + string) \<Rightarrow> visit \<Rightarrow> ShoelacesTemplates
      \<Rightarrow> load_error + string option \<times> ShoelacesTemplates" where
  "tplScannerOverride en readFile v s =
     (case v of (p, err) \<Rightarrow>
        if hasSuffix p (st_tplExt s) then
          (case getEnvFromPath s p of
             None \<Rightarrow> Inl IndexPanic
           | Some env \<Rightarrow>
               (case addTemplate en readFile p env s of
                  (Some e, s) \<Rightarrow> Inl (ExitParse e)
                | (None, s) \<Rightarrow> Inr (err, s)))
        else Inr (err, s))"

text \<open>The parameter \<^verbatim>\<open>envs\<close> is not used; \<open>embedded\<close> is the embedded file system, \<open>walkDir\<close> a walk of the disk.\<close>

definition ParseTemplates ::
    "engine \<Rightarrow> (string \<Rightarrow> string + string) \<times> (string \<Rightarrow> bool) \<times> visit list \<Rightarrow> (string \<Rightarrow> string + string)
      \<Rightarrow> (string \<Rightarrow> visit list) \<Rightarrow> string \<Rightarrow> string \<Rightarrow> string \<Rightarrow> ShoelacesTemplates \<Rightarrow> load_error + ShoelacesTemplates" where
  "ParseTemplates en embedded readFile walkDir dataDir envDir tplExt s =
     (case embedded of (readEmbedded, isDir, visits) \<Rightarrow>
        bindE (parseEmbeddedProvisioningTemplates en readEmbedded isDir visits
                 (s\<lparr>st_dataDir := dataDir, st_envDir := envDir, st_tplExt := tplExt\<rparr>))
          (\<lambda>s. bindE (walk (tplScannerDefault en readFile) (walkDir dataDir) s)
            (\<lambda>(err, s). case err of
               Some e \<Rightarrow> Inl (WalkPanic e)
             | None \<Rightarrow>
                 bindE (walk (tplScannerOverride en readFile) (walkDir (path_join [dataDir, envDir])) s)
                   (\<lambda>(err, s). Inr s))))"

subsection \<open>Listing variables\<close>

text \<open>
  \<^verbatim>\<open>collectVariables\<close> of a reference, inside the loop over the references \<open>refs\<close> of its caller: \<open>visited\<close> is the
  map the calls share, and the result is the list of the caller and the map after the loop.
\<close>

definition add_all :: "string list \<Rightarrow> string list \<Rightarrow> string list" where
  "add_all vs variables = fold add_new vs variables"

function (sequential) collectRefs ::
    "TemplateEnvironment \<Rightarrow> string list \<Rightarrow> string list \<Rightarrow> string list \<Rightarrow> string list \<times> string list" where
  "collectRefs e [] visited variables = (variables, visited)"
| "collectRefs e (ref # refs) visited variables =
     (if ref \<in> set visited then collectRefs e refs visited (add_all [] variables)
      else case collectRefs e (list_at (te_templateRefs e) ref) (ref # visited)
                  (add_all (list_at (te_templateVars e) ref) []) of
             (vs, visited') \<Rightarrow> collectRefs e refs visited' (add_all vs variables))"
  by pat_completeness auto

lemma collectRefs_visited:
  "collectRefs_dom (e, refs, visited, variables) \<Longrightarrow> set visited \<subseteq> set (snd (collectRefs e refs visited variables))"
proof (induction e refs visited variables rule: collectRefs.pinduct)
  case (1 e visited variables)
  then show ?case by (simp add: collectRefs.psimps)
next
  case (2 e ref refs visited variables)
  show ?case
  proof (cases "ref \<in> set visited")
    case True
    with 2 show ?thesis by (simp add: collectRefs.psimps)
  next
    case False
    obtain vs visited' where inner: "collectRefs e (list_at (te_templateRefs e) ref) (ref # visited)
        (add_all (list_at (te_templateVars e) ref) []) = (vs, visited')" by fastforce
    from "2.IH"(2) [OF False] inner have "set (ref # visited) \<subseteq> set visited'" by simp
    with "2.IH"(3) [OF False inner [symmetric]] "2.hyps" False inner show ?thesis
      by (auto simp: collectRefs.psimps)
  qed
qed

text \<open>A call on a reference either visits a template with references for the first time, or has an empty list.\<close>

termination collectRefs
proof (relation "measures [\<lambda>(e, refs, visited, variables). card (fst ` set (te_templateRefs e) - set visited),
    \<lambda>(e, refs, visited, variables). length refs]", goal_cases)
  case 1
  then show ?case by simp
next
  case (2 e ref refs visited variables)
  then show ?case by simp
next
  case (3 e ref refs visited variables)
  let ?K = "fst ` set (te_templateRefs e)"
  have sub: "card (?K - set (ref # visited)) \<le> card (?K - set visited)"
    by (rule card_mono) auto
  show ?case
  proof (cases "ref \<in> ?K")
    case True
    have "card (?K - set (ref # visited)) < card (?K - set visited)"
      by (rule psubset_card_mono) (use True 3 in auto)
    then show ?thesis by simp
  next
    case False
    then have "list_at (te_templateRefs e) ref = []"
      by (simp add: list_at_def map_of_eq_None_iff [THEN iffD2])
    with sub show ?thesis by auto
  qed
next
  case (4 e ref refs visited variables vs visited')
  from collectRefs_visited [OF 4(3)] 4(2) have "set (ref # visited) \<subseteq> set visited'" by (metis snd_conv)
  then have "card (fst ` set (te_templateRefs e) - set visited') \<le> card (fst ` set (te_templateRefs e) - set visited)"
    by (intro card_mono) auto
  then show ?case by auto
qed

definition collectVariables :: "TemplateEnvironment \<Rightarrow> string \<Rightarrow> string list \<Rightarrow> string list \<times> string list" where
  "collectVariables e templateName visited =
     (if templateName \<in> set visited then ([], visited)
      else collectRefs e (list_at (te_templateRefs e) templateName) (templateName # visited)
             (add_all (list_at (te_templateVars e) templateName) []))"

definition listVariables :: "TemplateEnvironment \<Rightarrow> string \<Rightarrow> string list" where
  "listVariables e templateName = fst (collectVariables e templateName [])"

definition ListVariables :: "ShoelacesTemplates \<Rightarrow> string \<Rightarrow> string \<Rightarrow> string list" where
  "ListVariables s templateName envName =
     (let envName = (if envName = [] then defaultEnvironment else envName)
      in case map_of (st_envTemplates s) envName of Some e \<Rightarrow> listVariables e templateName | None \<Rightarrow> [])"

text \<open>The loop over the references calls \<^verbatim>\<open>collectVariables\<close>, as in the source.\<close>

lemma collectRefs_calls:
  "collectRefs e (ref # refs) visited variables =
     (case collectVariables e ref visited of (vs, visited') \<Rightarrow> collectRefs e refs visited' (add_all vs variables))"
  by (simp add: collectVariables_def)

subsection \<open>Shell quoting\<close>

fun escape_quotes :: "string \<Rightarrow> string" where
  "escape_quotes [] = []"
| "escape_quotes (c # s) = (if c = CHR 0x27 then [CHR 0x27, CHR 0x5C, CHR 0x27, CHR 0x27] else [c]) @ escape_quotes s"

definition shellQuote :: "tval \<Rightarrow> string" where
  "shellQuote v =
     (let printed = sprintT v
      in if printed = [] then [CHR 0x27, CHR 0x27] else [CHR 0x27] @ escape_quotes printed @ [CHR 0x27])"

subsection \<open>Checks of installer parameters\<close>

text \<open>\<^verbatim>\<open>TemplatePanic\<close>: executing through the nil \<^verbatim>\<open>templateObj\<close> of an unknown environment.\<close>

datatype render_error =
    ExecFailed string
  | TemplatePanic
  | MissingVariables string
  | NoEncryptionSupport string
  | BadStorageMode string
  | BadEncryptionEnabled string
  | PassphraseMissing
  | CipherEmpty
  | HashEmpty
  | KeySizeNotPositive
  | BadTPMEnabled string
  | TPMWithoutEncryption
  | TPMStorageMode
  | TPMInitramfs
  | TPMDeviceEmpty
  | TPMDeviceUnsafe
  | TPMPCRsEmpty
  | TPMPCRsUnsafe
  | TPMPCRsMalformed
  | BadSHA256Bank string
  | BadRaidLevel string
  | RaidDeviceCountBad nat
  | RaidDeviceNotUnderDev nat
  | RaidDeviceHasGlob nat
  | BadBootDegraded string

text \<open>\<^verbatim>\<open>fmt.Sprint(paramMap[key])\<close>, where a missing key gives nil; then \<^verbatim>\<open>strings.TrimSpace\<close> of it.\<close>

definition sprint_at :: "tparams \<Rightarrow> string \<Rightarrow> string" where
  "sprint_at params key = (case map_of params key of None \<Rightarrow> ''<nil>'' | Some v \<Rightarrow> sprintT v)"

definition trim_at :: "tparams \<Rightarrow> string \<Rightarrow> string" where
  "trim_at params key = trimSpace (sprint_at params key)"

text \<open>\<^verbatim>\<open>if value, ok := paramMap[key]; ok { text = fmt.Sprint(value) }\<close> with the empty text before.\<close>

definition present_at :: "tparams \<Rightarrow> string \<Rightarrow> string" where
  "present_at params key = (case map_of params key of None \<Rightarrow> [] | Some v \<Rightarrow> sprintT v)"

definition set_text :: "string \<Rightarrow> string \<Rightarrow> tparams \<Rightarrow> tparams" where
  "set_text key v params = AList.update key (TVal (VStr v)) params"

text \<open>\<^verbatim>\<open>strconv.Atoi\<close>: an optional sign and digits, within 64 bits.\<close>

fun digits_value :: "nat \<Rightarrow> string \<Rightarrow> nat option" where
  "digits_value n [] = Some n"
| "digits_value n (c # s) = (if is_digit c then digits_value (10 * n + (of_char c - 48)) s else None)"

definition atoi :: "string \<Rightarrow> int option" where
  "atoi s =
     (let body = (if s \<noteq> [] \<and> hd s \<in> {CHR ''-'', CHR ''+''} then tl s else s);
          neg = (s \<noteq> [] \<and> hd s = CHR ''-'')
      in if body = [] then None
         else case digits_value 0 body of None \<Rightarrow> None
           | Some n \<Rightarrow> (let i = (if neg then - int n else int n)
                       in if - (2 ^ 63) \<le> i \<and> i < 2 ^ 63 then Some i else None))"

definition isStorageEncryptionEnabled :: "tparams \<Rightarrow> bool" where
  "isStorageEncryptionEnabled params \<longleftrightarrow> equalFold (trim_at params ''storage_encryption_enabled'') ''true''"

definition params_provisioning :: "tparams \<Rightarrow> ProvisioningConfig option" where
  "params_provisioning params = (case map_of params ''provisioning'' of Some (TProv p) \<Rightarrow> Some p | _ \<Rightarrow> None)"

definition hasInstallerExtraTemplate :: "tparams \<Rightarrow> string \<Rightarrow> bool" where
  "hasInstallerExtraTemplate params configName =
     (case params_provisioning params of None \<Rightarrow> False
      | Some p \<Rightarrow> ins_ExtraTemplate (pv_Installer p) \<noteq> [] \<and> ins_ExtraTemplate (pv_Installer p) \<noteq> configName)"

definition isUnsupportedEncryptedInstallerTemplate :: "string \<Rightarrow> bool" where
  "isUnsupportedEncryptedInstallerTemplate configName =
     (if configName \<in> set [''centos.ipxe'', ''centos.ks'', ''coreos.ipxe'', ''cloudconfig-coreos'', ''preseed/storage'',
           ''preseed/ubuntu-minimal'', ''storage.ipxe'', ''ubuntu-minimal.ipxe''] then True
      else if hasPrefix configName ''preseed/'' \<and> configName \<noteq> ''preseed/debian'' then True
      else if hasSuffix configName ''.ks'' then True
      else if hasPrefix configName ''cloudconfig'' \<or> hasPrefix configName ''cloud-config/'' then True
      else False)"

definition validateDebianTPMPreseedParams :: "tparams \<Rightarrow> string \<Rightarrow> render_error + tparams" where
  "validateDebianTPMPreseedParams params encryptionEnabled =
     (let enabled = trim_at params ''storage_encryption_tpm_enabled''
      in if enabled \<noteq> ''true'' \<and> enabled \<noteq> ''false'' then Inl (BadTPMEnabled enabled)
         else let params = set_text ''storage_encryption_tpm_enabled'' enabled params
         in if enabled = ''false'' then Inr params
         else if encryptionEnabled \<noteq> ''true'' then Inl TPMWithoutEncryption
         else if trim_at params ''storage_mode'' \<notin> set [''regular'', ''raid''] then Inl TPMStorageMode
         else if trim_at params ''storage_encryption_tpm_initramfs'' \<noteq> ''dracut'' then Inl TPMInitramfs
         else let device = trim_at params ''storage_encryption_tpm_device''
         in if device = [] then Inl TPMDeviceEmpty
         else if ContainsShellUnsafeValue device then Inl TPMDeviceUnsafe
         else let params = set_text ''storage_encryption_tpm_device'' device params;
                  pcrs = trim_at params ''storage_encryption_tpm_pcrs''
         in if pcrs = [] then Inl TPMPCRsEmpty
         else if ContainsShellUnsafeValue pcrs then Inl TPMPCRsUnsafe
         else if \<not> IsTPMPCRSelection pcrs then Inl TPMPCRsMalformed
         else let params = set_text ''storage_encryption_tpm_pcrs'' pcrs params;
                  requireSHA256Bank = trim_at params ''storage_encryption_tpm_require_sha256_bank''
         in if requireSHA256Bank \<noteq> ''true'' \<and> requireSHA256Bank \<noteq> ''false'' then Inl (BadSHA256Bank requireSHA256Bank)
         else Inr (set_text ''storage_encryption_tpm_require_sha256_bank'' requireSHA256Bank params))"

definition validateDebianEncryptionPreseedParams :: "tparams \<Rightarrow> render_error + tparams" where
  "validateDebianEncryptionPreseedParams params =
     (let enabled = trim_at params ''storage_encryption_enabled''
      in if enabled \<noteq> ''true'' \<and> enabled \<noteq> ''false'' then Inl (BadEncryptionEnabled enabled)
         else bindE (validateDebianTPMPreseedParams (set_text ''storage_encryption_enabled'' enabled params) enabled)
           (\<lambda>params.
              if enabled = ''false'' then Inr params
              else if trimSpace (present_at params ''storage_encryption_passphrase'') = [] then Inl PassphraseMissing
              else if trim_at params ''storage_encryption_cipher'' = [] then Inl CipherEmpty
              else if trim_at params ''storage_encryption_hash'' = [] then Inl HashEmpty
              else case atoi (trim_at params ''storage_encryption_key_size'') of
                     None \<Rightarrow> Inl KeySizeNotPositive
                   | Some keySize \<Rightarrow> if keySize \<le> 0 then Inl KeySizeNotPositive else Inr params))"

definition defaultRAIDPartitionParams :: "tparams \<Rightarrow> nat \<Rightarrow> string \<Rightarrow> tparams" where
  "defaultRAIDPartitionParams params index device = setDefaults params (device_partition_writes index device)"

definition raid_device_error :: "nat \<Rightarrow> string \<Rightarrow> render_error option" where
  "raid_device_error i device =
     (if \<not> hasPrefix device ''/dev/'' then Some (RaidDeviceNotUnderDev i)
      else if containsAny device ''*?['' then Some (RaidDeviceHasGlob i) else None)"

definition validateDebianRAIDPreseedParams :: "tparams \<Rightarrow> render_error + tparams" where
  "validateDebianRAIDPreseedParams params =
     (let level = trim_at params ''storage_raid_level''
      in if level \<noteq> ''1'' then Inl (BadRaidLevel level)
         else let devices = Prelude.fields (present_at params ''storage_raid_devices'')
         in if length devices \<noteq> 2 then Inl (RaidDeviceCountBad (length devices))
         else case each_idx_err raid_device_error 0 devices of Some e \<Rightarrow> Inl e
         | None \<Rightarrow>
             let params = setDefaultParamValue params ''storage_raid_device_0'' (devices ! 0);
                 params = setDefaultParamValue params ''storage_raid_device_1'' (devices ! 1);
                 params = defaultRAIDPartitionParams params 0 (trim_at params ''storage_raid_device_0'');
                 params = defaultRAIDPartitionParams params 1 (trim_at params ''storage_raid_device_1'');
                 bootDegraded = trim_at params ''storage_raid_boot_degraded''
             in if bootDegraded \<noteq> ''true'' \<and> bootDegraded \<noteq> ''false'' then Inl (BadBootDegraded bootDegraded)
                else Inr params)"

definition validateDebianPreseedParams :: "tparams \<Rightarrow> render_error + tparams" where
  "validateDebianPreseedParams params =
     (let mode = trim_at params ''storage_mode''
      in if mode \<in> set [''regular'', ''lvm''] then validateDebianEncryptionPreseedParams params
         else if mode = ''raid'' then
           bindE (validateDebianRAIDPreseedParams params) validateDebianEncryptionPreseedParams
         else Inl (BadStorageMode mode))"

definition debian_templates :: "string list" where
  "debian_templates = [''preseed/debian'', ''generated/debian/luks-tpm-setup.sh'', ''generated/plain/luks-tpm.passphrase'',
     ''generated/plain/luks-tpm-reenroll.env'']"

definition validateRenderParams :: "string \<Rightarrow> tparams \<Rightarrow> bool \<Rightarrow> render_error + tparams" where
  "validateRenderParams configName params embeddedTemplate =
     (if configName \<in> set debian_templates then validateDebianPreseedParams params
      else if isStorageEncryptionEnabled params \<and> isUnsupportedEncryptedInstallerTemplate configName \<and> embeddedTemplate
          \<and> \<not> hasInstallerExtraTemplate params configName then Inl (NoEncryptionSupport configName)
      else Inr params)"

subsection \<open>Rendering\<close>

text \<open>\<^verbatim>\<open>ParamsWithProvisioning\<close> of a map that may already hold the attached structs.\<close>

definition ParamsWithUsersT :: "tparams \<Rightarrow> ResolvedUser entries \<Rightarrow> tparams" where
  "ParamsWithUsersT params users =
     (if users \<noteq> [] then AList.update ''users'' (TUsers (NewTemplateUsers users)) params else params)"

definition ParamsWithProvisioningT :: "tparams \<Rightarrow> ResolvedUser entries \<Rightarrow> ProvisioningConfig \<Rightarrow> tparams" where
  "ParamsWithProvisioningT params users p =
     projectProvisioningParams
       (AList.update ''provisioning'' (TProv (copyProvisioningConfig p)) (ParamsWithUsersT params users)) p"

lemma ParamsWithProvisioningT_plain:
  "ParamsWithProvisioning params users p = ParamsWithProvisioningT (map (\<lambda>(k, v). (k, TVal v)) (entries params)) users p"
  by (simp add: ParamsWithProvisioning_def ParamsWithProvisioningT_def ParamsWithUsers_def ParamsWithUsersT_def Let_def)

definition execute_at :: "engine \<Rightarrow> ShoelacesTemplates \<Rightarrow> string \<Rightarrow> string \<Rightarrow> tparams \<Rightarrow> render_error + string \<times> string option" where
  "execute_at en s envName name params =
     (case map_of (st_envTemplates s) envName of
        None \<Rightarrow> Inl TemplatePanic
      | Some e \<Rightarrow> Inr (en_Execute en (te_templateObj e) name params))"

definition withInstallerExtra ::
    "engine \<Rightarrow> ShoelacesTemplates \<Rightarrow> tparams \<Rightarrow> string \<Rightarrow> string \<Rightarrow> render_error + tparams" where
  "withInstallerExtra en s params envName configName =
     (let copied = set_text ''installerExtra'' [] params
      in case params_provisioning copied of
           None \<Rightarrow> Inr copied
         | Some p \<Rightarrow>
             let extra = ins_ExtraTemplate (pv_Installer p)
             in if extra = [] \<or> extra = configName then Inr copied
                else bindE (execute_at en s envName extra copied)
                  (\<lambda>(b, err). bindE
                     (if err \<noteq> None \<and> envName \<noteq> defaultEnvironment then execute_at en s defaultEnvironment extra copied
                      else Inr (b, err))
                     (\<lambda>(b, err). case err of Some e \<Rightarrow> Inl (ExecFailed e)
                        | None \<Rightarrow> Inr (set_text ''installerExtra'' b copied))))"

definition isEmbeddedTemplate :: "ShoelacesTemplates \<Rightarrow> string \<Rightarrow> string \<Rightarrow> bool" where
  "isEmbeddedTemplate s templateName envName =
     (let envName = (if envName = [] then defaultEnvironment else envName)
      in case map_of (st_envTemplates s) envName of
           Some e \<Rightarrow> flag_at (te_templateEmbedded e) templateName | None \<Rightarrow> False)"

fun missingVariables :: "tparams \<Rightarrow> string list \<Rightarrow> string \<Rightarrow> string" where
  "missingVariables params [] missing = missing"
| "missingVariables params (v # vs) missing =
     (if \<not> KeyInMap v (Some params)
      then missingVariables params vs ((if missing \<noteq> [] then missing @ '', '' else missing) @ v)
      else missingVariables params vs missing)"

text \<open>The buffer is not reset before the fallback, so the text a failed execution wrote stays in front.\<close>

definition execute_fallback ::
    "engine \<Rightarrow> ShoelacesTemplates \<Rightarrow> string \<Rightarrow> string \<Rightarrow> tparams \<Rightarrow> render_error + (string list \<times> string) \<times> string option" where
  "execute_fallback en s envName configName params =
     bindE (execute_at en s envName configName params)
       (\<lambda>(b, err).
          if err \<noteq> None \<and> envName \<noteq> defaultEnvironment then
            bindE (execute_at en s defaultEnvironment configName params)
              (\<lambda>(b', err). Inr ((listVariables (env_at s defaultEnvironment) configName, b @ b'), err))
          else Inr ((listVariables (env_at s envName) configName, b), err))"

definition RenderTemplate ::
    "engine \<Rightarrow> ShoelacesTemplates \<Rightarrow> string \<Rightarrow> tval gomap \<Rightarrow> string \<Rightarrow> render_error + string" where
  "RenderTemplate en s configName paramMap envName =
     (let envName = (if envName = [] then defaultEnvironment else envName);
          params = entries paramMap;
          provisioning = (case params_provisioning params of None \<Rightarrow> zero_provisioning | Some p \<Rightarrow> p)
      in bindE (withInstallerExtra en s (ParamsWithProvisioningT params [] provisioning) envName configName)
        (\<lambda>params. bindE (validateRenderParams configName params (isEmbeddedTemplate s configName envName))
          (\<lambda>params. bindE (execute_fallback en s envName configName params)
            (\<lambda>((requiredVariables, r), err).
               case err of Some e \<Rightarrow> Inl (ExecFailed e)
               | None \<Rightarrow> if contains r ''<no value>'' then
                            Inl (MissingVariables (missingVariables params requiredVariables []))
                         else Inr r))))"

subsection \<open>Queries\<close>

definition HasTemplate :: "ShoelacesTemplates \<Rightarrow> string \<Rightarrow> string \<Rightarrow> bool" where
  "HasTemplate s configName envName =
     (let envName = (if envName = [] then defaultEnvironment else envName)
      in if (case map_of (st_envTemplates s) envName of
               Some e \<Rightarrow> map_of (te_templateObj e) configName \<noteq> None | None \<Rightarrow> False) then True
         else if envName \<noteq> defaultEnvironment then
           map_of (te_templateObj (env_at s defaultEnvironment)) configName \<noteq> None
         else False)"

definition HasTemplateOverride :: "ShoelacesTemplates \<Rightarrow> string \<Rightarrow> string \<Rightarrow> bool" where
  "HasTemplateOverride s configName envName =
     (if envName = [] \<or> envName = defaultEnvironment then HasTemplate s configName defaultEnvironment
      else case map_of (st_envTemplates s) envName of
             None \<Rightarrow> False
           | Some templateEnv \<Rightarrow>
               if map_of (te_templateObj templateEnv) configName = None then False
               else let defaultEnv = env_at s defaultEnvironment
                    in if map_of (te_templateObj defaultEnv) configName = None then True
                       else body_at templateEnv configName \<noteq> body_at defaultEnv configName)"

subsection \<open>Engines for samples\<close>

text \<open>
  An engine for templates without actions: a file is one template whose text is its content, and executing it
  writes that text. \<open>define_engine\<close> reads a file as the definition of one empty template, named by the content.
\<close>

definition plain_engine :: engine where
  "plain_engine =
     \<lparr>en_Parse = (\<lambda>name content. Inr [(name, Some \<lparr>tr_Root = ListNode [TextNode content], tr_String = content\<rparr>)]),
      en_Execute = (\<lambda>trees name data. case map_of trees name of
        None \<Rightarrow> ([], Some ''no such template'') | Some tr \<Rightarrow> (tr_String tr, None))\<rparr>"

definition define_engine :: engine where
  "define_engine = plain_engine\<lparr>en_Parse := (\<lambda>name content.
     Inr [(name, Some \<lparr>tr_Root = ListNode [TextNode []], tr_String = []\<rparr>), (content, Some \<lparr>tr_Root = ListNode [], tr_String = []\<rparr>)])\<rparr>"

end
