(* ===== verification/TemplateLoading.thy ===== *)
theory TemplateLoading
  imports Templates
begin

text \<open>
  Facts on loading templates: the index of every environment agrees with the parse trees, and what an override changes.
\<close>

subsection \<open>Facts: loading\<close>

lemma walk_inv:
  assumes "walk callback vs s = Inr (err, s')" "I s"
    and "\<And>v s r s'. callback v s = Inr (r, s') \<Longrightarrow> I s \<Longrightarrow> I s'"
  shows "I s'"
  using assms(1,2)
proof (induction vs arbitrary: s)
  case (Cons v vs)
  then obtain r s1 where cb: "callback v s = Inr (r, s1)" by (cases "callback v s") auto
  with Cons.prems(2) assms(3) have "I s1" by blast
  with Cons cb show ?case by (cases r) auto
qed simp

text \<open>The index of an environment agrees with its trees.\<close>

definition distinct_keys :: "TemplateEnvironment \<Rightarrow> bool" where
  "distinct_keys e \<longleftrightarrow> distinct (map fst (te_templateObj e)) \<and> distinct (map fst (te_templateVars e))
     \<and> distinct (map fst (te_templateRefs e)) \<and> distinct (map fst (te_templateBodies e))"

definition index_entry :: "TemplateEnvironment \<Rightarrow> string \<Rightarrow> bool" where
  "index_entry e name \<longleftrightarrow> (case map_of (te_templateObj e) name of
      None \<Rightarrow> list_at (te_templateVars e) name = [] \<and> list_at (te_templateRefs e) name = []
                \<and> map_of (te_templateBodies e) name = None
    | Some tr \<Rightarrow> (list_at (te_templateVars e) name, list_at (te_templateRefs e) name) = extractTemplateInfo (tr_Root tr)
        \<and> map_of (te_templateBodies e) name = Some (tr_String tr))"

definition indexed :: "TemplateEnvironment \<Rightarrow> bool" where
  "indexed e \<longleftrightarrow> distinct_keys e \<and> (\<forall>name. index_entry e name)"

definition all_indexed :: "ShoelacesTemplates \<Rightarrow> bool" where
  "all_indexed s \<longleftrightarrow> map_of (st_envTemplates s) defaultEnvironment \<noteq> None
     \<and> (\<forall>env e. map_of (st_envTemplates s) env = Some e \<longrightarrow> indexed e)"

text \<open>The parser gives no empty template besides the one of the file itself, whose text is then blank.\<close>

definition no_empty_defines :: "engine \<Rightarrow> bool" where
  "no_empty_defines en \<longleftrightarrow> (\<forall>src content parsed name tr. en_Parse en src content = Inr parsed \<longrightarrow> (name, Some tr) \<in> set parsed
     \<longrightarrow> IsEmptyTree (tr_Root tr) \<longrightarrow> name = src \<and> trimSpace (tr_String tr) = [])"

lemma list_at_update [simp]: "list_at (AList.update k v m) x = (if x = k then v else list_at m x)"
  by (simp add: list_at_def)

lemma add_parsed_skip [simp]:
  "add_parsed embedded src (name, None) e = e"
  "trimSpace (tr_String tr) = [] \<Longrightarrow> add_parsed embedded src (src, Some tr) e = e"
  by (simp_all add: add_parsed_def)

lemma add_parsed_fields:
  assumes "\<not> (name = src \<and> trimSpace (tr_String tr) = [])"
  shows "te_templateObj (add_parsed embedded src (name, Some tr) e) = AddParseTree name tr (te_templateObj e)"
    "te_templateVars (add_parsed embedded src (name, Some tr) e) =
       AList.update name (fst (extractTemplateInfo (tr_Root tr))) (te_templateVars e)"
    "te_templateRefs (add_parsed embedded src (name, Some tr) e) =
       AList.update name (snd (extractTemplateInfo (tr_Root tr))) (te_templateRefs e)"
    "te_templateBodies (add_parsed embedded src (name, Some tr) e) = AList.update name (tr_String tr) (te_templateBodies e)"
  using assms by (auto simp: add_parsed_def Let_def)

lemma add_parsed_indexed:
  assumes "indexed e" "IsEmptyTree (tr_Root tr) \<Longrightarrow> name = src \<and> trimSpace (tr_String tr) = []"
  shows "indexed (add_parsed embedded src (name, Some tr) e)"
proof (cases "name = src \<and> trimSpace (tr_String tr) = []")
  case False
  with assms(2) have "\<not> IsEmptyTree (tr_Root tr)" by blast
  then have add: "AddParseTree name tr (te_templateObj e) = AList.update name tr (te_templateObj e)"
    by (simp add: AddParseTree_def)
  have "index_entry (add_parsed embedded src (name, Some tr) e) n" for n
    using assms(1) by (cases "n = name") (auto simp: indexed_def index_entry_def add_parsed_fields [OF False] add cong: option.case_cong)
  moreover have "distinct_keys (add_parsed embedded src (name, Some tr) e)"
    using assms(1) by (simp add: indexed_def distinct_keys_def add_parsed_fields [OF False] add distinct_update)
  ultimately show ?thesis by (simp add: indexed_def)
qed (use assms in auto)

lemma fold_add_parsed_indexed:
  assumes "indexed e"
    and "\<forall>name tr. (name, Some tr) \<in> set parsed \<longrightarrow> IsEmptyTree (tr_Root tr) \<longrightarrow> name = src \<and> trimSpace (tr_String tr) = []"
  shows "indexed (fold (add_parsed embedded src) parsed e)"
  using assms
proof (induction parsed arbitrary: e)
  case (Cons p parsed)
  have "indexed (add_parsed embedded src p e)"
  proof (cases p)
    case (Pair name t)
    with Cons.prems show ?thesis by (cases t) (auto intro: add_parsed_indexed)
  qed
  with Cons.IH Cons.prems(2) show ?case by simp
qed simp

lemma clone_lookup [simp]: "distinct (map fst m) \<Longrightarrow> map_of (put_all [] m) k = map_of m k"
  by (simp add: map_of_put_all split: option.splits)

lemma checkAdd_env:
  "map_of (st_envTemplates (checkAddEnvironment env s)) x = (case map_of (st_envTemplates s) x of Some e \<Rightarrow> Some e
    | None \<Rightarrow> if x = env then map_of (st_envTemplates (checkAddEnvironment env s)) env else None)"
  by (auto simp: checkAddEnvironment_def Let_def split: option.splits)

lemma checkAdd_indexed:
  assumes "all_indexed s"
  shows "all_indexed (checkAddEnvironment env s)" "map_of (st_envTemplates (checkAddEnvironment env s)) env \<noteq> None"
proof -
  let ?d = "env_at s defaultEnvironment"
  from assms have d: "indexed ?d" by (auto simp: all_indexed_def env_at_def)
  define c where "c = \<lparr>te_templateObj = put_all [] (te_templateObj ?d),
                   te_templateVars = cloneTemplateIndex (te_templateVars ?d),
                   te_templateRefs = cloneTemplateIndex (te_templateRefs ?d),
                   te_templateEmbedded = cloneTemplateEmbeddedIndex (te_templateEmbedded ?d),
                   te_templateBodies = cloneTemplateBodyIndex (te_templateBodies ?d)\<rparr>"
  have "indexed c"
    using d by (auto simp: c_def indexed_def distinct_keys_def index_entry_def cloneTemplateIndex_def
        cloneTemplateBodyIndex_def distinct_put_all list_at_def cong: option.case_cong)
  moreover have "checkAddEnvironment env s = (if map_of (st_envTemplates s) env \<noteq> None then s
      else s\<lparr>st_envTemplates := AList.update env c (st_envTemplates s)\<rparr>)"
    unfolding checkAddEnvironment_def Let_def c_def by (rule refl)
  ultimately show "all_indexed (checkAddEnvironment env s)" "map_of (st_envTemplates (checkAddEnvironment env s)) env \<noteq> None"
    using assms by (auto simp: all_indexed_def)
qed

lemma addTemplateContent_indexed:
  assumes "no_empty_defines en" "all_indexed s" "addTemplateContent en source content env embedded s = (err, s')"
  shows "all_indexed s'"
proof (cases "en_Parse en (path_base source) content")
  case (Inl e)
  with assms checkAdd_indexed(1) show ?thesis by (auto simp: addTemplateContent_def Let_def)
next
  case (Inr parsed)
  let ?s = "checkAddEnvironment env s"
  note C = checkAdd_indexed [OF assms(2), of env]
  then obtain e where e: "map_of (st_envTemplates ?s) env = Some e" "indexed e" by (auto simp: all_indexed_def)
  have "indexed (fold (add_parsed embedded (path_base source)) parsed e)"
    using assms(1) Inr by (intro fold_add_parsed_indexed e(2)) (simp add: no_empty_defines_def)
  moreover have "s' = ?s\<lparr>st_envTemplates := AList.update env
      (fold (add_parsed embedded (path_base source)) parsed e) (st_envTemplates ?s)\<rparr>"
    using assms(3) Inr e(1) by (simp add: addTemplateContent_def Let_def env_at_def)
  ultimately show ?thesis using C(1) by (auto simp: all_indexed_def)
qed

lemma addTemplate_indexed:
  assumes "no_empty_defines en" "all_indexed s" "addTemplate en readFile p env s = (err, s')"
  shows "all_indexed s'"
  using assms addTemplateContent_indexed by (auto simp: addTemplate_def split: sum.splits)

lemma scanners_indexed:
  assumes "no_empty_defines en" "all_indexed s"
  shows "scan_embedded en readFile isDir v s = Inr (r, s') \<Longrightarrow> all_indexed s'"
    and "tplScannerDefault en readFile v s = Inr (r, s') \<Longrightarrow> all_indexed s'"
    and "tplScannerOverride en readFile v s = Inr (r, s') \<Longrightarrow> all_indexed s'"
  using assms(2)
  by (auto simp: scan_embedded_def dest: addTemplateContent_indexed [OF assms]
      split: prod.splits if_splits sum.splits)
    (auto simp: tplScannerDefault_def tplScannerOverride_def dest: addTemplate_indexed [OF assms]
      split: prod.splits if_splits option.splits)

lemma all_indexed_config [simp]:
  "all_indexed (s\<lparr>st_dataDir := a, st_envDir := b, st_tplExt := c\<rparr>) = all_indexed s"
  by (simp add: all_indexed_def)

lemma all_indexed_new: "all_indexed NewTemplates"
  by (simp add: all_indexed_def NewTemplates_def indexed_def distinct_keys_def index_entry_def empty_environment_def list_at_def)

lemma fold_add_parsed_other:
  "name \<notin> fst ` set parsed \<Longrightarrow>
     map_of (te_templateObj (fold (add_parsed embedded src) parsed e)) name = map_of (te_templateObj e) name
     \<and> map_of (te_templateBodies (fold (add_parsed embedded src) parsed e)) name = map_of (te_templateBodies e) name
     \<and> list_at (te_templateVars (fold (add_parsed embedded src) parsed e)) name = list_at (te_templateVars e) name"
proof (induction parsed arbitrary: e)
  case (Cons p parsed)
  obtain n t where p: "p = (n, t)" by fastforce
  with Cons.prems have "name \<noteq> n" by auto
  then have "map_of (te_templateObj (add_parsed embedded src p e)) name = map_of (te_templateObj e) name
     \<and> map_of (te_templateBodies (add_parsed embedded src p e)) name = map_of (te_templateBodies e) name
     \<and> list_at (te_templateVars (add_parsed embedded src p e)) name = list_at (te_templateVars e) name"
    by (auto simp: p add_parsed_def Let_def AddParseTree_def split: option.splits)
  with Cons show ?case by simp
qed simp

lemma fold_add_parsed_at:
  assumes "distinct (map fst parsed)" "(name, Some tr) \<in> set parsed" "\<not> (name = src \<and> trimSpace (tr_String tr) = [])"
  shows "map_of (te_templateObj (fold (add_parsed embedded src) parsed e)) name =
      (if IsEmptyTree (tr_Root tr) \<and> map_of (te_templateObj e) name \<noteq> None then map_of (te_templateObj e) name else Some tr)
     \<and> map_of (te_templateBodies (fold (add_parsed embedded src) parsed e)) name = Some (tr_String tr)
     \<and> list_at (te_templateVars (fold (add_parsed embedded src) parsed e)) name = fst (extractTemplateInfo (tr_Root tr))"
proof -
  from assms(2) obtain us vs where split: "parsed = us @ (name, Some tr) # vs" by (auto simp: in_set_conv_decomp)
  let ?u = "fold (add_parsed embedded src) us e"
  have "name \<notin> fst ` set us" "name \<notin> fst ` set vs" using assms(1) split by auto
  note O = fold_add_parsed_other [OF this(1), of embedded src e]
    fold_add_parsed_other [OF this(2), of embedded src "add_parsed embedded src (name, Some tr) ?u"]
  then show ?thesis by (simp add: split add_parsed_fields [OF assms(3)] AddParseTree_def)
qed

lemma addTemplateContent_None:
  assumes "addTemplateContent en source content env embedded s = (None, s')" "en_Parse en (path_base source) content = Inr parsed"
  shows "env_at s' env = fold (add_parsed embedded (path_base source)) parsed (env_at (checkAddEnvironment env s) env)"
    and "x \<noteq> env \<Longrightarrow> map_of (st_envTemplates s') x = map_of (st_envTemplates s) x"
    and "map_of (st_envTemplates s') env \<noteq> None"
  using assms by (auto simp: addTemplateContent_def Let_def env_at_def checkAddEnvironment_def)

lemma ParseTemplates_indexed:
  assumes "no_empty_defines en"
    and "ParseTemplates en embedded readFile walkDir dataDir envDir tplExt NewTemplates = Inr s"
  shows "all_indexed s"
proof -
  obtain readEmbedded isDir visits where emb: "embedded = (readEmbedded, isDir, visits)" by (cases embedded) auto
  let ?s0 = "NewTemplates\<lparr>st_dataDir := dataDir, st_envDir := envDir, st_tplExt := tplExt\<rparr>"
  from assms(2) obtain s1 s2 err where
    w1: "walk (scan_embedded en readEmbedded isDir) visits ?s0 = Inr (None, s1)"
    and w2: "walk (tplScannerDefault en readFile) (walkDir dataDir) s1 = Inr (None, s2)"
    and w3: "walk (tplScannerOverride en readFile) (walkDir (path_join [dataDir, envDir])) s2 = Inr (err, s)"
    by (auto simp: ParseTemplates_def parseEmbeddedProvisioningTemplates_def emb bindE_Inr split: option.splits)
  have "all_indexed s1"
    by (rule walk_inv [OF w1]) (auto simp: all_indexed_new intro: scanners_indexed(1) [OF assms(1)])
  then have "all_indexed s2"
    by (rule walk_inv [OF w2]) (rule scanners_indexed(2) [OF assms(1)])
  then show ?thesis
    by (rule walk_inv [OF w3]) (rule scanners_indexed(3) [OF assms(1)])
qed

subsection \<open>Samples\<close>

definition sample_loaded :: ShoelacesTemplates where
  "sample_loaded = snd (addTemplateContent plain_engine ''preseed/debian'' ''d-i'' defaultEnvironment True NewTemplates)"

lemma plain_no_empty: "no_empty_defines plain_engine"
  by (simp add: no_empty_defines_def plain_engine_def)

lemma sample_loaded_indexed: "all_indexed sample_loaded"
  unfolding sample_loaded_def
  by (rule addTemplateContent_indexed [OF plain_no_empty all_indexed_new]) (rule prod.collapse [symmetric])

definition sample_parsed :: "load_error + ShoelacesTemplates" where
  "sample_parsed =
     ParseTemplates plain_engine (\<lambda>_. Inr ''d-i'', \<lambda>_. False, [(''debian.slc'', None)]) (\<lambda>_. Inr ''mine'')
       (\<lambda>_. [(''/d/env/prod/debian.slc'', None)]) ''/d'' ''env'' ''.slc'' NewTemplates"

subsection \<open>Properties\<close>



lemma addTemplateContent_effect:
  assumes "addTemplateContent en source content env embedded s = (None, s')"
    and "en_Parse en (path_base source) content = Inr parsed" "distinct (map fst parsed)" "all_indexed s" "env \<noteq> []"
  shows "\<forall>name tr. (name, Some tr) \<in> set parsed \<longrightarrow> \<not> IsEmptyTree (tr_Root tr)
        \<longrightarrow> \<not> (name = path_base source \<and> trimSpace (tr_String tr) = [])
        \<longrightarrow> map_of (te_templateObj (env_at s' env)) name = Some tr \<and> HasTemplate s' name env"
    and "\<forall>name. name \<notin> fst ` set parsed \<longrightarrow> map_of (te_templateObj (env_at s' env)) name =
        map_of (te_templateObj (env_at s (if map_of (st_envTemplates s) env = None then defaultEnvironment else env))) name"
    and "\<forall>other. other \<noteq> env \<longrightarrow> map_of (st_envTemplates s') other = map_of (st_envTemplates s) other"
proof -
  note E = addTemplateContent_None [OF assms(1,2)]
  from E(2) show "\<forall>other. other \<noteq> env \<longrightarrow> map_of (st_envTemplates s') other = map_of (st_envTemplates s) other" by blast
  have "distinct (map fst (te_templateObj (env_at s defaultEnvironment)))"
    using assms(4) by (auto simp: all_indexed_def env_at_def indexed_def distinct_keys_def)
  then have old: "map_of (te_templateObj (env_at (checkAddEnvironment env s) env)) n =
      map_of (te_templateObj (env_at s (if map_of (st_envTemplates s) env = None then defaultEnvironment else env))) n" for n
    by (auto simp: checkAddEnvironment_def env_at_def Let_def)
  show "\<forall>name. name \<notin> fst ` set parsed \<longrightarrow> map_of (te_templateObj (env_at s' env)) name =
      map_of (te_templateObj (env_at s (if map_of (st_envTemplates s) env = None then defaultEnvironment else env))) name"
    using fold_add_parsed_other old by (simp add: E(1))
  have "map_of (te_templateObj (env_at s' env)) name = Some tr \<and> HasTemplate s' name env"
    if "(name, Some tr) \<in> set parsed" "\<not> IsEmptyTree (tr_Root tr)" "\<not> (name = path_base source \<and> trimSpace (tr_String tr) = [])" for name tr
  proof -
    have "map_of (te_templateObj (env_at s' env)) name = Some tr"
      using fold_add_parsed_at [OF assms(3) that(1,3)] that(2) by (simp add: E(1))
    with E(3) assms(5) show ?thesis
      by (auto simp: HasTemplate_def Let_def env_at_def split: option.splits)
  qed
  then show "\<forall>name tr. (name, Some tr) \<in> set parsed \<longrightarrow> \<not> IsEmptyTree (tr_Root tr)
        \<longrightarrow> \<not> (name = path_base source \<and> trimSpace (tr_String tr) = [])
        \<longrightarrow> map_of (te_templateObj (env_at s' env)) name = Some tr \<and> HasTemplate s' name env" by blast
qed

text \<open>
  Adding a file to an environment: every non-empty template it defines is the one the environment executes
  from then on, templates it does not define stay as they were or are inherited from the default environment,
  and no other environment changes.
\<close>

theorem override_takes_effect:
  assumes "addTemplateContent en source content env embedded s = (None, s')"
    and "en_Parse en (path_base source) content = Inr parsed" "distinct (map fst parsed)" "all_indexed s" "env \<noteq> []"
  shows "(\<forall>name tr. (name, Some tr) \<in> set parsed \<longrightarrow> \<not> IsEmptyTree (tr_Root tr)
        \<longrightarrow> \<not> (name = path_base source \<and> trimSpace (tr_String tr) = [])
        \<longrightarrow> map_of (te_templateObj (env_at s' env)) name = Some tr \<and> HasTemplate s' name env)
    \<and> (\<forall>name. name \<notin> fst ` set parsed \<longrightarrow> map_of (te_templateObj (env_at s' env)) name =
        map_of (te_templateObj (env_at s (if map_of (st_envTemplates s) env = None then defaultEnvironment else env))) name)
    \<and> (\<forall>other. other \<noteq> env \<longrightarrow> map_of (st_envTemplates s') other = map_of (st_envTemplates s) other)"
  using addTemplateContent_effect [OF assms] by blast

theorem override_takes_effect_witness:
  "map_of (te_templateObj (env_at (snd (addTemplateContent plain_engine ''motd'' ''hello'' ''prod'' False sample_loaded)) ''prod'')) ''motd''
     = Some \<lparr>tr_Root = ListNode [TextNode ''hello''], tr_String = ''hello''\<rparr>
   \<and> map_of (te_templateObj (env_at (snd (addTemplateContent plain_engine ''motd'' ''hello'' ''prod'' False sample_loaded)) ''prod'')) ''debian''
     = Some \<lparr>tr_Root = ListNode [TextNode ''d-i''], tr_String = ''d-i''\<rparr>"
proof -
  let ?p = "[(''motd'', Some \<lparr>tr_Root = ListNode [TextNode ''hello''], tr_String = ''hello''\<rparr>)]"
  let ?s = "snd (addTemplateContent plain_engine ''motd'' ''hello'' ''prod'' False sample_loaded)"
  have add: "addTemplateContent plain_engine ''motd'' ''hello'' ''prod'' False sample_loaded = (None, ?s)"
    by (simp add: addTemplateContent_def plain_engine_def Let_def)
  have base: "path_base ''motd'' = ''motd''" by code_simp
  have parse: "en_Parse plain_engine (path_base ''motd'') ''hello'' = Inr ?p" by (simp add: plain_engine_def base)
  note W = override_takes_effect [OF add parse _ sample_loaded_indexed]
  have t: "trimSpace ''hello'' = ''hello''" by code_simp
  have old: "map_of (st_envTemplates sample_loaded) ''prod'' = None
    \<and> map_of (te_templateObj (env_at sample_loaded defaultEnvironment)) ''debian''
        = Some \<lparr>tr_Root = ListNode [TextNode ''d-i''], tr_String = ''d-i''\<rparr>" by code_simp
  from W old show ?thesis by (simp add: t base)
qed

lemma empty_override_facts:
  assumes "addTemplateContent en source content env embedded s = (None, s')"
    and "en_Parse en (path_base source) content = Inr parsed" "distinct (map fst parsed)" "all_indexed s"
    and "(name, Some tr) \<in> set parsed" "IsEmptyTree (tr_Root tr)" "name \<noteq> path_base source" "env \<notin> {[], defaultEnvironment}"
    and "map_of (st_envTemplates s) env = None" "map_of (te_templateObj (env_at s defaultEnvironment)) name = Some old"
    and "tr_String old \<noteq> tr_String tr"
  shows "map_of (te_templateObj (env_at s' env)) name = Some old" "HasTemplateOverride s' name env"
    "list_at (te_templateVars (env_at s' env)) name = fst (extractTemplateInfo (tr_Root tr))"
proof -
  note E = addTemplateContent_None [OF assms(1,2)]
  have d: "indexed (env_at s defaultEnvironment)" and "map_of (st_envTemplates s) defaultEnvironment \<noteq> None"
    using assms(4) by (auto simp: all_indexed_def env_at_def)
  then have keys: "distinct (map fst (te_templateObj (env_at s defaultEnvironment)))"
    by (simp add: indexed_def distinct_keys_def)
  then have "map_of (te_templateObj (env_at (checkAddEnvironment env s) env)) name = Some old"
    using assms(9,10) by (simp add: checkAddEnvironment_def env_at_def Let_def)
  with fold_add_parsed_at [OF assms(3,5), of "path_base source" embedded "env_at (checkAddEnvironment env s) env"] assms(6,7)
  have new: "map_of (te_templateObj (env_at s' env)) name = Some old"
    "map_of (te_templateBodies (env_at s' env)) name = Some (tr_String tr)"
    "list_at (te_templateVars (env_at s' env)) name = fst (extractTemplateInfo (tr_Root tr))"
    by (simp_all add: E(1))
  then show "map_of (te_templateObj (env_at s' env)) name = Some old"
    "list_at (te_templateVars (env_at s' env)) name = fst (extractTemplateInfo (tr_Root tr))" by blast+
  have same: "env_at s' defaultEnvironment = env_at s defaultEnvironment"
    using E(2) [of defaultEnvironment] assms(8) by (auto simp: env_at_def)
  have "body_at (env_at s defaultEnvironment) name = tr_String old"
    using d assms(10) by (auto simp: indexed_def index_entry_def body_at_def dest!: spec [of _ name])
  moreover have "body_at (env_at s' env) name = tr_String tr" using new(2) by (simp add: body_at_def)
  moreover obtain e where "map_of (st_envTemplates s') env = Some e" "e = env_at s' env"
    using E(3) by (auto simp: env_at_def)
  ultimately show "HasTemplateOverride s' name env"
    using new(1) assms(8,10,11) same by (simp add: HasTemplateOverride_def Let_def)
qed

text \<open>
  An override that defines a template as empty has no effect on what is executed: the inherited tree stays,
  although the index takes the empty one, so the override is reported and the variables of the inherited
  template are not listed.
\<close>

theorem empty_override_ignored:
  assumes "addTemplateContent en source content env embedded s = (None, s')"
    and "en_Parse en (path_base source) content = Inr parsed" "distinct (map fst parsed)" "all_indexed s"
    and "(name, Some tr) \<in> set parsed" "IsEmptyTree (tr_Root tr)" "name \<noteq> path_base source" "env \<notin> {[], defaultEnvironment}"
    and "map_of (st_envTemplates s) env = None" "map_of (te_templateObj (env_at s defaultEnvironment)) name = Some old"
    and "tr_String old \<noteq> tr_String tr"
  shows "(map_of (te_templateObj (env_at s' env)) name = Some old)
    \<and> (HasTemplateOverride s' name env)
    \<and> (list_at (te_templateVars (env_at s' env)) name = fst (extractTemplateInfo (tr_Root tr)))"
  using empty_override_facts [OF assms] by blast

theorem empty_override_ignored_witness:
  "map_of (te_templateObj (env_at (snd (addTemplateContent define_engine ''motd'' ''debian'' ''prod'' False sample_loaded)) ''prod'')) ''debian''
     = Some \<lparr>tr_Root = ListNode [TextNode ''d-i''], tr_String = ''d-i''\<rparr>
   \<and> HasTemplateOverride (snd (addTemplateContent define_engine ''motd'' ''debian'' ''prod'' False sample_loaded)) ''debian'' ''prod''"
proof -
  let ?p = "[(''motd'', Some \<lparr>tr_Root = ListNode [TextNode []], tr_String = []\<rparr>), (''debian'', Some \<lparr>tr_Root = ListNode [], tr_String = []\<rparr>)]"
  let ?s = "snd (addTemplateContent define_engine ''motd'' ''debian'' ''prod'' False sample_loaded)"
  have add: "addTemplateContent define_engine ''motd'' ''debian'' ''prod'' False sample_loaded = (None, ?s)"
    by (simp add: addTemplateContent_def define_engine_def Let_def)
  have base: "path_base ''motd'' = ''motd''" by code_simp
  have parse: "en_Parse define_engine (path_base ''motd'') ''debian'' = Inr ?p" by (simp add: define_engine_def base)
  have old: "map_of (st_envTemplates sample_loaded) ''prod'' = None"
    "map_of (te_templateObj (env_at sample_loaded defaultEnvironment)) ''debian''
        = Some \<lparr>tr_Root = ListNode [TextNode ''d-i''], tr_String = ''d-i''\<rparr>" by code_simp+
  show ?thesis
    using empty_override_ignored [OF add parse _ sample_loaded_indexed _ _ _ _ old, of "\<lparr>tr_Root = ListNode [], tr_String = []\<rparr>"]
    by (simp add: base defaultEnvironment_def)
qed

end
