(* ===== verification/TemplateRendering.thy ===== *)
theory TemplateRendering
  imports Templates
begin

text \<open>
  Facts on the use of templates: the listing of variables reaches every referenced template and ends, a quoted value is
  one word of a shell, and a template is rendered only with parameters that passed the checks.
\<close>

subsection \<open>Facts: listing variables\<close>

lemma add_new_set [simp]: "set (add_new x xs) = insert x (set xs)"
  by (auto simp: add_new_def)

lemma add_new_distinct: "distinct xs \<Longrightarrow> distinct (add_new x xs)"
  by (simp add: add_new_def)

lemma add_all_simps [simp]: "add_all [] xs = xs" "add_all (v # vs) xs = add_all vs (add_new v xs)"
  by (simp_all add: add_all_def)

lemma add_all_set [simp]: "set (add_all vs xs) = set vs \<union> set xs"
  by (induction vs arbitrary: xs) auto

lemma add_all_distinct: "distinct xs \<Longrightarrow> distinct (add_all vs xs)"
  by (induction vs arbitrary: xs) (auto simp: add_new_distinct)

definition refers :: "TemplateEnvironment \<Rightarrow> string \<Rightarrow> string \<Rightarrow> bool" where
  "refers e a b \<longleftrightarrow> b \<in> set (list_at (te_templateRefs e) a)"

abbreviation own_variables :: "TemplateEnvironment \<Rightarrow> string \<Rightarrow> string set" where
  "own_variables e name \<equiv> set (list_at (te_templateVars e) name)"

text \<open>What a run over references has visited: it is closed under references, and holds nothing unreachable.\<close>

definition explored :: "TemplateEnvironment \<Rightarrow> string set \<Rightarrow> string set \<Rightarrow> string set \<Rightarrow> bool" where
  "explored e refs visited visited' \<longleftrightarrow> visited \<subseteq> visited' \<and> refs \<subseteq> visited' \<and>
     (\<forall>x \<in> visited' - visited. Collect (refers e x) \<subseteq> visited' \<and> (\<exists>r \<in> refs. (refers e)\<^sup>*\<^sup>* r x))"

lemma explored_step:
  assumes "explored e (Collect (refers e r)) (insert r V) V1" "explored e R V1 V2"
  shows "explored e (insert r R) V V2"
proof -
  have "Collect (refers e x) \<subseteq> V2 \<and> (\<exists>q \<in> insert r R. (refers e)\<^sup>*\<^sup>* q x)" if "x \<in> V2 - V" for x
  proof (cases "x \<in> V1")
    case True
    have "Collect (refers e x) \<subseteq> V1 \<and> (refers e)\<^sup>*\<^sup>* r x"
    proof (cases "x = r")
      case True
      with assms(1) show ?thesis by (simp add: explored_def)
    next
      case False
      with True that assms(1) have "Collect (refers e x) \<subseteq> V1" "\<exists>q. refers e r q \<and> (refers e)\<^sup>*\<^sup>* q x"
        by (auto simp: explored_def)
      then show ?thesis by (blast intro: converse_rtranclp_into_rtranclp)
    qed
    moreover from assms(2) have "V1 \<subseteq> V2" by (simp add: explored_def)
    ultimately show ?thesis by blast
  next
    case False
    with that have "x \<in> V2 - V1" by simp
    with assms(2) show ?thesis unfolding explored_def by blast
  qed
  with assms show ?thesis by (auto simp: explored_def)
qed

lemma collectRefs_spec:
  assumes "collectRefs e refs visited variables = (vs, visited')"
  shows "explored e (set refs) (set visited) (set visited')"
    and "set vs = set variables \<union> (\<Union>x \<in> set visited' - set visited. own_variables e x)"
    and "distinct variables \<Longrightarrow> distinct vs"
proof -
  have "explored e (set refs) (set visited) (set visited')
     \<and> set vs = set variables \<union> (\<Union>x \<in> set visited' - set visited. own_variables e x)
     \<and> (distinct variables \<longrightarrow> distinct vs)"
    using assms
  proof (induction e refs visited variables arbitrary: vs visited' rule: collectRefs.induct)
    case (1 e visited variables)
    then show ?case by (simp add: explored_def)
  next
    case (2 e ref refs visited variables)
    show ?case
    proof (cases "ref \<in> set visited")
      case True
      with "2.prems" have "collectRefs e refs visited (add_all [] variables) = (vs, visited')" by simp
      note O = "2.IH"(1) [OF True this]
      with True have "explored e (set (ref # refs)) (set visited) (set visited')"
        unfolding explored_def by auto
      with O show ?thesis by simp
    next
      case False
      obtain us V where inner: "collectRefs e (list_at (te_templateRefs e) ref) (ref # visited)
          (add_all (list_at (te_templateVars e) ref) []) = (us, V)" by fastforce
      note I = "2.IH"(2) [OF False inner]
      from "2.prems" False inner have rest: "collectRefs e refs V (add_all us variables) = (vs, visited')" by simp
      note O = "2.IH"(3) [OF False inner [symmetric] rest]
      have "set (list_at (te_templateRefs e) ref) = Collect (refers e ref)" by (auto simp: refers_def)
      with I O have "explored e (set (ref # refs)) (set visited) (set visited')"
        using explored_step [of e ref "set visited" "set V" "set refs" "set visited'"] by simp
      moreover have sub: "insert ref (set visited) \<subseteq> set V" "set V \<subseteq> set visited'"
        using I O by (auto simp: explored_def)
      then have split: "set visited' - set visited = (set visited' - set V) \<union> (insert ref (set V - set (ref # visited)))"
        using False by auto
      have "set vs = set variables \<union> (\<Union>x \<in> set visited' - set visited. own_variables e x)"
        unfolding split using I O by auto
      moreover have "distinct variables \<longrightarrow> distinct vs" using O by (simp add: add_all_distinct)
      ultimately show ?thesis by blast
    qed
  qed
  then show "explored e (set refs) (set visited) (set visited')"
    and "set vs = set variables \<union> (\<Union>x \<in> set visited' - set visited. own_variables e x)"
    and "distinct variables \<Longrightarrow> distinct vs" by blast+
qed

lemma explored_reachable:
  assumes "explored e (Collect (refers e name)) {name} V"
  shows "V = {x. (refers e)\<^sup>*\<^sup>* name x}"
proof -
  have "x \<in> V" if "(refers e)\<^sup>*\<^sup>* name x" for x
    using that
  proof (induction rule: rtranclp_induct)
    case base
    from assms show ?case by (auto simp: explored_def)
  next
    case (step y z)
    with assms show ?case unfolding explored_def by (cases "y = name") blast+
  qed
  moreover have "(refers e)\<^sup>*\<^sup>* name x" if "x \<in> V" for x
    using that assms unfolding explored_def
    by (cases "x = name") (auto intro: converse_rtranclp_into_rtranclp)
  ultimately show ?thesis by auto
qed

subsection \<open>Facts: shell words\<close>

text \<open>
  Reading one word the way a POSIX shell does: unquoted characters, backslash escapes and single quotes. A
  double quote, an expansion or an unfinished quote is outside this fragment and gives \<^const>\<open>None\<close>; blanks and
  operators end the word.
\<close>

fun sh_word :: "bool \<Rightarrow> string \<Rightarrow> (string \<times> string) option" where
  "sh_word True [] = None"
| "sh_word True (c # s) =
     (if c = CHR 0x27 then sh_word False s else map_option (apfst ((#) c)) (sh_word True s))"
| "sh_word False [] = Some ([], [])"
| "sh_word False [c] =
     (if c \<in> {CHR 0x27, CHR 0x22, CHR 0x5C, CHR 0x60, CHR ''$''} then None
      else if c \<in> set ('' ;&|<>()'' @ [CHR 0x09, CHR 0x0A]) then Some ([], [c]) else Some ([c], []))"
| "sh_word False (c # d # s) =
     (if c = CHR 0x27 then sh_word True (d # s)
      else if c = CHR 0x5C then
        (if d = CHR 0x0A then sh_word False s else map_option (apfst ((#) d)) (sh_word False s))
      else if c \<in> {CHR 0x22, CHR 0x60, CHR ''$''} then None
      else if c \<in> set ('' ;&|<>()'' @ [CHR 0x09, CHR 0x0A]) then Some ([], c # d # s)
      else map_option (apfst ((#) c)) (sh_word False (d # s)))"

definition word_ends :: "string \<Rightarrow> bool" where
  "word_ends rest \<longleftrightarrow> rest = [] \<or> hd rest \<in> set ('' ;&|<>()'' @ [CHR 0x09, CHR 0x0A])"

lemma sh_word_ends: "word_ends rest \<Longrightarrow> sh_word False rest = Some ([], rest)"
  by (cases "(False, rest)" rule: sh_word.cases) (auto simp: word_ends_def)

lemma sh_word_quote: "s \<noteq> [] \<Longrightarrow> sh_word False (CHR 0x27 # s) = sh_word True s"
  by (cases s) auto

lemma sh_word_escaped:
  "word_ends rest \<Longrightarrow> sh_word True (escape_quotes s @ CHR 0x27 # rest) = Some (s, rest)"
  by (induction s) (auto simp: sh_word_ends sh_word_quote)

subsection \<open>Facts: checked parameters\<close>

definition text_at :: "tparams \<Rightarrow> string \<Rightarrow> string \<Rightarrow> bool" where
  "text_at params key t \<longleftrightarrow> map_of params key = Some (TVal (VStr t))"

text \<open>What the Debian templates rely on.\<close>

definition raid_params_ok :: "tparams \<Rightarrow> bool" where
  "raid_params_ok params \<longleftrightarrow> trim_at params ''storage_raid_level'' = ''1''
     \<and> trim_at params ''storage_raid_boot_degraded'' \<in> {''true'', ''false''}
     \<and> (\<exists>d0 d1. Prelude.fields (present_at params ''storage_raid_devices'') = [d0, d1]
          \<and> (\<forall>d \<in> {d0, d1}. hasPrefix d ''/dev/'' \<and> \<not> containsAny d ''*?['')
          \<and> (\<forall>i \<in> {0, 1}. map_of params (''storage_raid_device_'' @ nat_str i) \<noteq> None
               \<and> (\<forall>part \<in> {1, 2, 3, 4, 5}.
                    map_of params (''storage_raid_device_'' @ nat_str i @ ''_part'' @ nat_str part) \<noteq> None)))"

definition tpm_params_ok :: "tparams \<Rightarrow> bool" where
  "tpm_params_ok params \<longleftrightarrow> text_at params ''storage_encryption_enabled'' ''true''
     \<and> trim_at params ''storage_mode'' \<in> {''regular'', ''raid''}
     \<and> trim_at params ''storage_encryption_tpm_initramfs'' = ''dracut''
     \<and> (\<exists>device. text_at params ''storage_encryption_tpm_device'' device \<and> device \<noteq> [] \<and> \<not> ContainsShellUnsafeValue device)
     \<and> (\<exists>pcrs. text_at params ''storage_encryption_tpm_pcrs'' pcrs \<and> IsTPMPCRSelection pcrs)
     \<and> (\<exists>b. text_at params ''storage_encryption_tpm_require_sha256_bank'' (bool_str b))"

definition encryption_params_ok :: "tparams \<Rightarrow> bool" where
  "encryption_params_ok params \<longleftrightarrow> trimSpace (present_at params ''storage_encryption_passphrase'') \<noteq> []
     \<and> trim_at params ''storage_encryption_cipher'' \<noteq> [] \<and> trim_at params ''storage_encryption_hash'' \<noteq> []
     \<and> (\<exists>n. atoi (trim_at params ''storage_encryption_key_size'') = Some n \<and> 0 < n)"

definition debian_params_ok :: "tparams \<Rightarrow> bool" where
  "debian_params_ok params \<longleftrightarrow>
     trim_at params ''storage_mode'' \<in> {''regular'', ''lvm'', ''raid''}
     \<and> (trim_at params ''storage_mode'' = ''raid'' \<longrightarrow> raid_params_ok params)
     \<and> (\<exists>enc. text_at params ''storage_encryption_enabled'' (bool_str enc) \<and> (enc \<longrightarrow> encryption_params_ok params))
     \<and> (\<exists>tpm. text_at params ''storage_encryption_tpm_enabled'' (bool_str tpm) \<and> (tpm \<longrightarrow> tpm_params_ok params))"

lemma map_of_set_text [simp]: "map_of (set_text k v ps) x = (if x = k then Some (TVal (VStr v)) else map_of ps x)"
  by (simp add: set_text_def)

lemma trim_at_cong: "map_of ps k = map_of qs k \<Longrightarrow> trim_at ps k = trim_at qs k"
  by (simp add: trim_at_def sprint_at_def)

lemma trim_at_set_text [simp]: "trim_at (set_text k v ps) x = (if x = k then trimSpace v else trim_at ps x)"
  by (simp add: trim_at_def sprint_at_def)

lemma present_at_set_text [simp]: "present_at (set_text k v ps) x = (if x = k then v else present_at ps x)"
  by (simp add: present_at_def)

lemma text_at_set_text [simp]: "text_at (set_text k v ps) x t \<longleftrightarrow> (if x = k then t = v else text_at ps x t)"
  by (auto simp: text_at_def)

lemma true_or_false: "x \<noteq> ''true'' \<and> x \<noteq> ''false'' \<or> x = bool_str (x = ''true'')"
  by (auto simp: bool_str_def)

text \<open>The parameters after the TPM checks, by the keys they write.\<close>

definition tpm_written :: "string \<Rightarrow> string \<Rightarrow> string \<Rightarrow> tparams \<Rightarrow> tparams" where
  "tpm_written device pcrs bank ps =
     set_text ''storage_encryption_tpm_require_sha256_bank'' bank
       (set_text ''storage_encryption_tpm_pcrs'' pcrs
         (set_text ''storage_encryption_tpm_device'' device (set_text ''storage_encryption_tpm_enabled'' ''true'' ps)))"

lemma tpm_keys [simp]:
  "hasPrefix ''storage_encryption_tpm_enabled'' ''storage_encryption_tpm_''"
  "hasPrefix ''storage_encryption_tpm_device'' ''storage_encryption_tpm_''"
  "hasPrefix ''storage_encryption_tpm_pcrs'' ''storage_encryption_tpm_''"
  "hasPrefix ''storage_encryption_tpm_require_sha256_bank'' ''storage_encryption_tpm_''"
  by (simp_all add: hasPrefix_def)

lemma tpm_written_off:
  assumes "\<not> hasPrefix k ''storage_encryption_tpm_''"
  shows "map_of (tpm_written device pcrs bank ps) k = map_of ps k"
proof -
  have ne: "k \<noteq> ''storage_encryption_tpm_enabled''" "k \<noteq> ''storage_encryption_tpm_device''"
    "k \<noteq> ''storage_encryption_tpm_pcrs''" "k \<noteq> ''storage_encryption_tpm_require_sha256_bank''"
    using assms tpm_keys by metis+
  show ?thesis unfolding tpm_written_def map_of_set_text by (simp only: ne if_False)
qed

lemma guard_Inr: "(if bad then Inl e else r) = Inr q \<longleftrightarrow> \<not> bad \<and> r = Inr q"
  by simp

lemma validateTPM_cases:
  assumes "validateDebianTPMPreseedParams ps enc = Inr qs"
  shows "qs = set_text ''storage_encryption_tpm_enabled'' ''false'' ps \<or>
    enc = ''true'' \<and> trim_at ps ''storage_mode'' \<in> {''regular'', ''raid''}
      \<and> trim_at ps ''storage_encryption_tpm_initramfs'' = ''dracut''
      \<and> (\<exists>device pcrs bank. qs = tpm_written device pcrs bank ps \<and> device \<noteq> [] \<and> \<not> ContainsShellUnsafeValue device
           \<and> IsTPMPCRSelection pcrs \<and> (bank = ''true'' \<or> bank = ''false''))"
proof -
  let ?off = "''storage_encryption_tpm_enabled''"
  have keep: "trim_at (set_text ?off v ps) ''storage_mode'' = trim_at ps ''storage_mode''"
    "trim_at (set_text ?off v ps) ''storage_encryption_tpm_initramfs'' = trim_at ps ''storage_encryption_tpm_initramfs''" for v
    by simp_all
  show ?thesis
  proof (cases "trim_at ps ?off = ''false''")
    case True
    with assms show ?thesis
      unfolding validateDebianTPMPreseedParams_def Let_def guard_Inr by (simp only: if_True sum.inject) simp
  next
    case False
    with assms have t: "trim_at ps ?off = ''true''"
      unfolding validateDebianTPMPreseedParams_def Let_def guard_Inr by blast
    have neq: "(''true'' = ''false'') = False" by simp
    from assms show ?thesis
      unfolding validateDebianTPMPreseedParams_def Let_def guard_Inr t tpm_written_def keep list.set neq if_False sum.inject
      by blast
  qed
qed

lemma validateTPM_Inr:
  assumes "validateDebianTPMPreseedParams ps enc = Inr qs"
  shows "\<exists>tpm. text_at qs ''storage_encryption_tpm_enabled'' (bool_str tpm)
     \<and> (tpm \<and> text_at ps ''storage_encryption_enabled'' enc \<longrightarrow> tpm_params_ok qs)"
    and "\<forall>k. \<not> hasPrefix k ''storage_encryption_tpm_'' \<longrightarrow> map_of qs k = map_of ps k"
proof -
  consider "qs = set_text ''storage_encryption_tpm_enabled'' ''false'' ps"
    | device pcrs bank where "enc = ''true''" "trim_at ps ''storage_mode'' \<in> {''regular'', ''raid''}"
        "trim_at ps ''storage_encryption_tpm_initramfs'' = ''dracut''" "qs = tpm_written device pcrs bank ps"
        "device \<noteq> []" "\<not> ContainsShellUnsafeValue device" "IsTPMPCRSelection pcrs" "bank = ''true'' \<or> bank = ''false''"
    using validateTPM_cases [OF assms] by blast
  note cases = this
  show "\<forall>k. \<not> hasPrefix k ''storage_encryption_tpm_'' \<longrightarrow> map_of qs k = map_of ps k"
    using cases by cases (auto simp: tpm_written_off)
  show "\<exists>tpm. text_at qs ''storage_encryption_tpm_enabled'' (bool_str tpm)
     \<and> (tpm \<and> text_at ps ''storage_encryption_enabled'' enc \<longrightarrow> tpm_params_ok qs)"
    using cases
  proof cases
    case 1
    then show ?thesis by (intro exI [of _ False]) (simp add: bool_str_def)
  next
    case (2 device pcrs bank)
    have "\<exists>b. bank = bool_str b" using 2(8) by (auto simp: bool_str_def intro: exI [of _ True] exI [of _ False])
    then obtain b where b: "bank = bool_str b" by blast
    have "text_at ps ''storage_encryption_enabled'' ''true'' \<Longrightarrow> tpm_params_ok qs"
      unfolding tpm_params_ok_def 2(4) using 2 b by (simp add: tpm_written_def) blast
    with 2(1,4) show ?thesis by (intro exI [of _ True]) (simp add: bool_str_def tpm_written_def)
  qed
qed

lemma validateEncryption_Inr:
  assumes "validateDebianEncryptionPreseedParams ps = Inr qs"
  shows "\<exists>enc. text_at qs ''storage_encryption_enabled'' (bool_str enc) \<and> (enc \<longrightarrow> encryption_params_ok qs)"
    and "\<exists>tpm. text_at qs ''storage_encryption_tpm_enabled'' (bool_str tpm) \<and> (tpm \<longrightarrow> tpm_params_ok qs)"
    and "\<forall>k. \<not> hasPrefix k ''storage_encryption_'' \<longrightarrow> map_of qs k = map_of ps k"
proof -
  define enc where "enc = trim_at ps ''storage_encryption_enabled''"
  define ps1 where "ps1 = set_text ''storage_encryption_enabled'' enc ps"
  from assms have bool: "enc = ''true'' \<or> enc = ''false''"
    and v: "validateDebianTPMPreseedParams ps1 enc = Inr qs" and ok: "enc = ''true'' \<Longrightarrow> encryption_params_ok qs"
    by (auto simp: validateDebianEncryptionPreseedParams_def Let_def enc_def [symmetric] ps1_def bindE_Inr
        encryption_params_ok_def split: if_splits option.splits)
  note T = validateTPM_Inr [OF v]
  have "map_of qs ''storage_encryption_enabled'' = map_of ps1 ''storage_encryption_enabled''"
    using T(2) by (simp add: hasPrefix_def)
  then have e: "text_at qs ''storage_encryption_enabled'' enc" by (simp add: text_at_def ps1_def)
  with bool ok show "\<exists>enc. text_at qs ''storage_encryption_enabled'' (bool_str enc) \<and> (enc \<longrightarrow> encryption_params_ok qs)"
    by (auto simp: bool_str_def intro: exI [of _ True] exI [of _ False])
  from T(1) show "\<exists>tpm. text_at qs ''storage_encryption_tpm_enabled'' (bool_str tpm) \<and> (tpm \<longrightarrow> tpm_params_ok qs)"
    by (auto simp: ps1_def)
  have "map_of qs k = map_of ps k" if "\<not> hasPrefix k ''storage_encryption_''" for k
  proof -
    from that have "\<not> hasPrefix k ''storage_encryption_tpm_''" "k \<noteq> ''storage_encryption_enabled''"
      by (auto simp: hasPrefix_iff prefix_def)
    with T(2) show ?thesis by (simp add: ps1_def)
  qed
  then show "\<forall>k. \<not> hasPrefix k ''storage_encryption_'' \<longrightarrow> map_of qs k = map_of ps k" by blast
qed

lemma partition_keys:
  "fst ` set (device_partition_writes i d) =
     (\<lambda>part. ''storage_raid_device_'' @ nat_str i @ ''_part'' @ nat_str part) ` {1, 2, 3, 4, 5}"
  by (auto simp: device_partition_writes_def)

lemma setDefaults_off: "k \<notin> fst ` set ws \<Longrightarrow> map_of (setDefaults ps ws) k = map_of ps k"
  by (simp add: map_of_setDefaults map_of_eq_None_iff [THEN iffD2] split: option.splits)

lemma setDefaults_present: "map_of (setDefaults ps ws) k \<noteq> None \<longleftrightarrow> map_of ps k \<noteq> None \<or> k \<in> fst ` set ws"
  using map_of_eq_None_iff [of ws k] by (auto simp: map_of_setDefaults split: option.splits)

lemma hasPrefix_append [simp]: "hasPrefix (p @ s) p"
  by (simp add: hasPrefix_def)

lemma raid_device_keys:
  "''storage_raid_device_0'' = ''storage_raid_device_'' @ nat_str 0"
  "''storage_raid_device_1'' = ''storage_raid_device_'' @ nat_str 1"
  by (simp_all add: nat_str.simps)

lemma validateRAID_Inr:
  assumes "validateDebianRAIDPreseedParams ps = Inr qs"
  shows "\<forall>k. \<not> hasPrefix k ''storage_raid_device_'' \<longrightarrow> map_of qs k = map_of ps k" and "raid_params_ok qs"
proof -
  define ds where "ds = Prelude.fields (present_at ps ''storage_raid_devices'')"
  define p2 where "p2 = setDefaultParamValue (setDefaultParamValue ps ''storage_raid_device_0'' (ds ! 0)) ''storage_raid_device_1'' (ds ! 1)"
  define p3 where "p3 = setDefaults p2 (device_partition_writes 0 (trim_at p2 ''storage_raid_device_0''))"
  define p4 where "p4 = setDefaults p3 (device_partition_writes 1 (trim_at p3 ''storage_raid_device_1''))"
  from assms have level: "trim_at ps ''storage_raid_level'' = ''1''" and two: "length ds = 2"
    and dev: "each_idx_err raid_device_error 0 ds = None"
    and qs: "qs = p4"
    and deg: "trim_at qs ''storage_raid_boot_degraded'' \<in> {''true'', ''false''}"
    unfolding validateDebianRAIDPreseedParams_def Let_def guard_Inr ds_def [symmetric] defaultRAIDPartitionParams_def
      p2_def [symmetric] p3_def [symmetric] p4_def [symmetric]
    by (auto split: option.splits if_splits)
  have off: "map_of qs k = map_of ps k" if "\<not> hasPrefix k ''storage_raid_device_''" for k
  proof -
    have "k \<notin> fst ` set (device_partition_writes i d)" for i d
      using that hasPrefix_append unfolding partition_keys by blast
    moreover have "k \<noteq> ''storage_raid_device_0''" "k \<noteq> ''storage_raid_device_1''"
      using that hasPrefix_append unfolding raid_device_keys by metis+
    ultimately show ?thesis by (simp add: qs p4_def p3_def p2_def setDefaults_off map_of_setDefaultParamValue)
  qed
  then show "\<forall>k. \<not> hasPrefix k ''storage_raid_device_'' \<longrightarrow> map_of qs k = map_of ps k" by blast
  have "\<not> hasPrefix ''storage_raid_level'' ''storage_raid_device_''" "\<not> hasPrefix ''storage_raid_devices'' ''storage_raid_device_''"
    by (simp_all add: hasPrefix_def)
  then have keep: "map_of qs ''storage_raid_level'' = map_of ps ''storage_raid_level''"
    "map_of qs ''storage_raid_devices'' = map_of ps ''storage_raid_devices''"
    by (blast intro: off)+
  from two obtain d0 d1 where ds: "ds = [d0, d1]" by (auto simp: length_Suc_conv numeral_2_eq_2)
  have devs: "hasPrefix d ''/dev/'' \<and> \<not> containsAny d ''*?[''" if "d \<in> {d0, d1}" for d
    using that dev by (auto simp: ds raid_device_error_def split: if_splits)
  have disks: "map_of qs (''storage_raid_device_'' @ nat_str i) \<noteq> None" if "i \<in> {0, 1}" for i :: nat
    using that unfolding qs p4_def p3_def setDefaults_present p2_def raid_device_keys map_of_setDefaultParamValue by auto
  have parts: "map_of qs (''storage_raid_device_'' @ nat_str i @ ''_part'' @ nat_str part) \<noteq> None"
    if "i \<in> {0, 1}" "part \<in> {1, 2, 3, 4, 5}" for i part :: nat
  proof -
    have key: "''storage_raid_device_'' @ nat_str i @ ''_part'' @ nat_str part \<in> fst ` set (device_partition_writes i d)" for d
      unfolding partition_keys by (rule imageI) (rule that(2))
    from that(1) consider "i = 0" | "i = 1" by blast
    then show ?thesis
      using key by cases (simp_all only: qs p4_def p3_def setDefaults_present simp_thms)
  qed
  have names: "Prelude.fields (present_at qs ''storage_raid_devices'') = [d0, d1]"
    using keep(2) ds by (simp add: ds_def present_at_def)
  have "trim_at qs ''storage_raid_level'' = ''1''" using trim_at_cong [OF keep(1)] level by simp
  with deg names show "raid_params_ok qs"
    unfolding raid_params_ok_def by (intro conjI exI [of _ d0] exI [of _ d1] ballI devs disks parts) assumption+
qed

lemma encryption_keys:
  "\<not> hasPrefix ''storage_mode'' ''storage_encryption_''" "\<not> hasPrefix ''storage_raid_level'' ''storage_encryption_''"
  "\<not> hasPrefix ''storage_raid_boot_degraded'' ''storage_encryption_''" "\<not> hasPrefix ''storage_raid_devices'' ''storage_encryption_''"
  "\<not> hasPrefix (''storage_raid_device_'' @ s) ''storage_encryption_''" "\<not> hasPrefix ''storage_mode'' ''storage_raid_device_''"
  by (simp_all add: hasPrefix_def)

lemma raid_params_cong:
  assumes "\<forall>k. \<not> hasPrefix k ''storage_encryption_'' \<longrightarrow> map_of qs k = map_of ps k"
  shows "raid_params_ok qs = raid_params_ok ps"
  using assms [rule_format, OF encryption_keys(5)] assms [rule_format, OF encryption_keys(4)]
    assms [rule_format, OF encryption_keys(3), THEN trim_at_cong] assms [rule_format, OF encryption_keys(2), THEN trim_at_cong]
  unfolding raid_params_ok_def present_at_def by (simp only:)

lemma validateDebian_sound:
  assumes "validateDebianPreseedParams ps = Inr qs"
  shows "debian_params_ok qs"
proof -
  let ?mode = "trim_at ps ''storage_mode''"
  from assms obtain mid where mid: "validateDebianEncryptionPreseedParams mid = Inr qs"
    and pre: "?mode \<in> {''regular'', ''lvm''} \<and> mid = ps \<or> ?mode = ''raid'' \<and> validateDebianRAIDPreseedParams ps = Inr mid"
    unfolding validateDebianPreseedParams_def Let_def by (auto simp: bindE_Inr split: if_splits)
  note E = validateEncryption_Inr [OF mid]
  have m: "trim_at qs ''storage_mode'' = trim_at mid ''storage_mode''"
    by (rule trim_at_cong) (rule E(3) [rule_format, OF encryption_keys(1)])
  have m': "trim_at mid ''storage_mode'' = ?mode"
    using pre validateRAID_Inr(1) [of ps mid] encryption_keys(6) by (blast intro: trim_at_cong)
  have "?mode = ''raid'' \<Longrightarrow> raid_params_ok mid"
    using pre validateRAID_Inr(2) [of ps mid] by auto
  then have "trim_at qs ''storage_mode'' = ''raid'' \<longrightarrow> raid_params_ok qs"
    unfolding m m' raid_params_cong [OF E(3)] by blast
  moreover have "trim_at qs ''storage_mode'' \<in> {''regular'', ''lvm'', ''raid''}"
    unfolding m m' using pre by blast
  ultimately show ?thesis unfolding debian_params_ok_def using E(1,2) by blast
qed

subsection \<open>Facts: rendering\<close>

lemma RenderTemplate_Inr:
  assumes "RenderTemplate en s configName paramMap envName = Inr out"
  obtains params0 params vs where
    "validateRenderParams configName params0 (isEmbeddedTemplate s configName (if envName = [] then defaultEnvironment else envName)) = Inr params"
    "execute_fallback en s (if envName = [] then defaultEnvironment else envName) configName params = Inr ((vs, out), None)"
    "\<not> contains out ''<no value>''"
proof -
  from assms show ?thesis
    unfolding RenderTemplate_def Let_def bindE_Inr
    by (elim exE conjE) (auto intro: that split: option.splits if_splits)
qed

lemma isEmbeddedTemplate_default:
  "isEmbeddedTemplate s n (if envName = [] then defaultEnvironment else envName) = isEmbeddedTemplate s n envName"
  by (simp add: isEmbeddedTemplate_def defaultEnvironment_def)

subsection \<open>Samples\<close>

definition sample_installer :: ShoelacesTemplates where
  "sample_installer = NewTemplates\<lparr>st_envTemplates := [(defaultEnvironment, empty_environment
     \<lparr>te_templateObj := [(''preseed/debian'', \<lparr>tr_Root = ListNode [TextNode ''d-i''], tr_String = ''d-i''\<rparr>)]\<rparr>)]\<rparr>"

definition sample_installer_params :: tparams where
  "sample_installer_params = map (map_prod id (\<lambda>t. TVal (VStr t)))
     [(''storage_mode'', ''regular''), (''storage_encryption_enabled'', ''true''), (''storage_encryption_passphrase'', ''pass''),
      (''storage_encryption_cipher'', ''aes''), (''storage_encryption_hash'', ''sha256''), (''storage_encryption_key_size'', ''512''),
      (''storage_encryption_tpm_enabled'', ''false'')]"

lemma render_explicit:
  assumes "map_of params k = Some v" "k \<noteq> ''provisioning''" "k \<noteq> ''installerExtra''"
  shows "map_of (set_text ''installerExtra'' [] (ParamsWithProvisioningT params [] p)) k = Some v"
  using assms by (simp add: ParamsWithProvisioningT_def ParamsWithUsersT_def projection_keep)

lemma sample_render: "RenderTemplate plain_engine sample_installer ''preseed/debian'' (Some sample_installer_params) [] = Inr ''d-i''"
proof -
  let ?p = "zero_provisioning"
  define P where "P = set_text ''installerExtra'' [] (ParamsWithProvisioningT sample_installer_params [] ?p)"
  have "params_provisioning sample_installer_params = None"
    by (simp add: params_provisioning_def sample_installer_params_def)
  moreover have prov: "params_provisioning P = Some (copyProvisioningConfig ?p)"
    by (simp add: params_provisioning_def P_def ParamsWithProvisioningT_def ParamsWithUsersT_def projection_keep)
  moreover have "ins_ExtraTemplate (pv_Installer (copyProvisioningConfig ?p)) = []" by code_simp
  ultimately have extra: "withInstallerExtra plain_engine sample_installer (ParamsWithProvisioningT sample_installer_params []
      (case params_provisioning sample_installer_params of None \<Rightarrow> ?p | Some p \<Rightarrow> p)) defaultEnvironment ''preseed/debian'' = Inr P"
    by (simp add: withInstallerExtra_def P_def [symmetric] Let_def)
  have at: "trim_at P k = trimSpace t \<and> present_at P k = t"
    if "map_of sample_installer_params k = Some (TVal (VStr t))" "k \<noteq> ''provisioning''" "k \<noteq> ''installerExtra''" for k t
    using render_explicit [OF that] by (simp add: P_def trim_at_def sprint_at_def present_at_def)
  have texts: "trimSpace ''regular'' = ''regular'' \<and> trimSpace ''true'' = ''true'' \<and> trimSpace ''false'' = ''false'' \<and> trimSpace ''pass'' = ''pass''
    \<and> trimSpace ''aes'' = ''aes'' \<and> trimSpace ''sha256'' = ''sha256'' \<and> trimSpace ''512'' = ''512'' \<and> atoi ''512'' = Some 512" by code_simp
  have vals: "trim_at P ''storage_mode'' = ''regular''" "trim_at P ''storage_encryption_enabled'' = ''true''"
    "present_at P ''storage_encryption_passphrase'' = ''pass''" "trim_at P ''storage_encryption_cipher'' = ''aes''"
    "trim_at P ''storage_encryption_hash'' = ''sha256''" "trim_at P ''storage_encryption_key_size'' = ''512''"
    "trim_at P ''storage_encryption_tpm_enabled'' = ''false''"
    using texts by (simp_all add: at [unfolded sample_installer_params_def])
  have "validateDebianPreseedParams P = Inr (set_text ''storage_encryption_tpm_enabled'' ''false'' (set_text ''storage_encryption_enabled'' ''true'' P))"
    by (simp add: validateDebianPreseedParams_def validateDebianEncryptionPreseedParams_def validateDebianTPMPreseedParams_def
        Let_def vals texts)
  with extra show ?thesis
    by (simp add: RenderTemplate_def Let_def validateRenderParams_def debian_templates_def execute_fallback_def execute_at_def
        sample_installer_def plain_engine_def)
qed

subsection \<open>Properties\<close>

text \<open>
  C26. The variables listed for a template are those of the templates reachable from it through references,
  each once; a cycle of references does not matter, and the listing always ends.
\<close>

theorem list_variables_spec:
  "distinct (listVariables e name) \<and>
   set (listVariables e name) = (\<Union>x \<in> {x. (refers e)\<^sup>*\<^sup>* name x}. own_variables e x)"
proof -
  obtain vs V where run: "collectRefs e (list_at (te_templateRefs e) name) [name]
      (add_all (list_at (te_templateVars e) name) []) = (vs, V)" by fastforce
  note S = collectRefs_spec [OF run]
  have vars: "listVariables e name = vs"
    using run by (simp add: listVariables_def collectVariables_def)
  from S(3) have "distinct (listVariables e name)" by (simp add: vars add_all_distinct)
  have "set (list_at (te_templateRefs e) name) = Collect (refers e name)" by (auto simp: refers_def)
  with S(1) have V: "set V = {x. (refers e)\<^sup>*\<^sup>* name x}" by (intro explored_reachable) simp
  have "name \<in> set V" using S(1) by (auto simp: explored_def)
  with S(2) have "set (listVariables e name) = (\<Union>x \<in> {x. (refers e)\<^sup>*\<^sup>* name x}. own_variables e x)"
    by (auto simp: vars V)
  with \<open>distinct (listVariables e name)\<close> show ?thesis by blast
qed

text \<open>
  C25. A value quoted by \<^verbatim>\<open>shquote\<close> is read by the shell as one word that is the printed value, whatever it
  contains, and the text after it is left alone.
\<close>

theorem shell_quote_word:
  assumes "word_ends rest"
  shows "sh_word False (shellQuote v @ rest) = Some (sprintT v, rest)"
  using assms sh_word_escaped [OF assms, of "sprintT v"]
  by (auto simp: shellQuote_def Let_def sh_word_ends sh_word_quote)

theorem shell_quote_word_witness:
  "sh_word False (shellQuote (TVal (VStr ([CHR ''a'', CHR 0x27] @ '' $b''))) @ '' next'') = Some ([CHR ''a'', CHR 0x27] @ '' $b'', '' next'')"
  using shell_quote_word [of "'' next''" "TVal (VStr ([CHR ''a'', CHR 0x27] @ '' $b''))"] by (simp add: word_ends_def)



end
