(* ===== verification/Environment.thy ===== *)
theory Environment
  imports Polling TemplateLoading TemplateRendering
begin

text \<open>
  The environment (package \<^verbatim>\<open>environment\<close>): options and their defaults, the base URL, the legacy rule tables the UI
  shows, the choice of the backend, the retention sweeps, and \<^verbatim>\<open>New\<close>, which puts a server together. A fatal error at
  startup is a value of \<open>startup_error\<close>. The pages of the UI are read in \<open>HttpServer\<close>. Log output and the
  tickers are left out: a tick of a retention cleaner is a call of its sweep.
\<close>

subsection \<open>Options\<close>

record TFTPConfig =
  tf_Enabled :: bool
  tf_Addr :: string
  tf_Root :: string
  tf_Readonly :: bool
  tf_Timeout :: time

definition DefaultTFTPConfig :: TFTPConfig where
  "DefaultTFTPConfig = \<lparr>tf_Enabled = False, tf_Addr = '':69'', tf_Root = ''./tftp'', tf_Readonly = True,
     tf_Timeout = 5 * 1000000000\<rparr>"

record Options =
  op_BindAddr :: string
  op_BaseURL :: string
  op_DataDir :: string
  op_UIDir :: string
  op_UIOverrideDirSet :: bool
  op_EnvDir :: string
  op_TemplateExtension :: string
  op_MappingsFile :: string
  op_Debug :: bool
  op_LogLevel :: string
  op_LogHandler :: string
  op_TFTP :: "TFTPConfig option"
  op_Persistence :: Config

text \<open>The zero \<^verbatim>\<open>persistence.Config\<close>.\<close>

definition zero_config :: Config where
  "zero_config = \<lparr>cf_Backend = [], cf_Path = [], cf_Retention = \<lparr>rc_Events = 0, rc_EventsSweepInterval = 0,
     rc_BootSessions = 0, rc_BootSessionsSweepInterval = 0\<rparr>\<rparr>"

definition DefaultOptions :: Options where
  "DefaultOptions = \<lparr>op_BindAddr = '':8081'', op_BaseURL = [], op_DataDir = [], op_UIDir = [], op_UIOverrideDirSet = False,
     op_EnvDir = ''env_overrides'', op_TemplateExtension = ''.slc'', op_MappingsFile = ''mappings.yaml'', op_Debug = False,
     op_LogLevel = [], op_LogHandler = [], op_TFTP = Some DefaultTFTPConfig, op_Persistence = DefaultConfig\<rparr>"

record 'p Environment =
  nv_HostnameMaps :: "((string \<Rightarrow> bool) \<times> Script) list"
  nv_NetworkMaps :: "(IPNet \<times> Script) list"
  nv_MappingResolver :: "Resolver option"
  nv_ParamsBlacklist :: "string list"
  nv_Templates :: ShoelacesTemplates
  nv_Environments :: "string list"
  nv_BootSessions :: "'p SessionStore option"
  nv_BindAddr :: string
  nv_BaseURL :: string
  nv_DataDir :: string
  nv_UIDir :: string
  nv_UIOverrideDirSet :: bool
  nv_EnvDir :: string
  nv_TFTP :: "TFTPConfig option"
  nv_TemplateExtension :: string
  nv_MappingsFile :: string
  nv_Debug :: bool
  nv_LogLevel :: string
  nv_LogHandler :: string
  nv_PersistenceConfig :: Config

definition default_environment :: "'p Environment" where
  "default_environment =
     \<lparr>nv_HostnameMaps = [], nv_NetworkMaps = [], nv_MappingResolver = None, nv_ParamsBlacklist = [''baseURL''],
      nv_Templates = NewTemplates, nv_Environments = [], nv_BootSessions = None, nv_BindAddr = [], nv_BaseURL = [],
      nv_DataDir = [], nv_UIDir = [], nv_UIOverrideDirSet = False, nv_EnvDir = [], nv_TFTP = None,
      nv_TemplateExtension = [], nv_MappingsFile = [], nv_Debug = False, nv_LogLevel = [], nv_LogHandler = [],
      nv_PersistenceConfig = DefaultConfig\<rparr>"

definition or_default :: "string \<Rightarrow> string \<Rightarrow> string" where
  "or_default v d = (if v = [] then d else v)"

definition applyOptions :: "Options \<Rightarrow> 'p Environment \<Rightarrow> 'p Environment" where
  "applyOptions options env =
     (let defaults = DefaultOptions
      in env\<lparr>nv_BindAddr := or_default (op_BindAddr options) (op_BindAddr defaults),
             nv_BaseURL := op_BaseURL options,
             nv_DataDir := op_DataDir options,
             nv_UIDir := op_UIDir options,
             nv_UIOverrideDirSet := op_UIOverrideDirSet options,
             nv_EnvDir := or_default (op_EnvDir options) (op_EnvDir defaults),
             nv_TemplateExtension := or_default (op_TemplateExtension options) (op_TemplateExtension defaults),
             nv_MappingsFile := or_default (op_MappingsFile options) (op_MappingsFile defaults),
             nv_Debug := op_Debug options,
             nv_LogLevel := op_LogLevel options,
             nv_LogHandler := op_LogHandler options,
             nv_TFTP := (if op_TFTP options = None then op_TFTP defaults else op_TFTP options),
             nv_PersistenceConfig := ApplyDefaults (op_Persistence options)\<rparr>)"

subsection \<open>Addresses\<close>

text \<open>\<open>cut_last c s\<close>: the text before and after the last occurrence of \<open>c\<close>.\<close>

definition cut_last :: "char \<Rightarrow> string \<Rightarrow> (string \<times> string) option" where
  "cut_last c s =
     (if c \<notin> set s then None
      else Some (rev (tl (dropWhile (\<lambda>d. d \<noteq> c) (rev s))), rev (takeWhile (\<lambda>d. d \<noteq> c) (rev s))))"

text \<open>\<^verbatim>\<open>net.SplitHostPort\<close>; \<^const>\<open>None\<close> for its errors.\<close>

definition SplitHostPort :: "string \<Rightarrow> (string \<times> string) option" where
  "SplitHostPort hostport =
     (case cut_last CHR '':'' hostport of
        None \<Rightarrow> None
      | Some (front, port) \<Rightarrow>
          if hd hostport = CHR ''['' then
            (if CHR '']'' \<notin> set hostport then None
             else let host = takeWhile (\<lambda>d. d \<noteq> CHR '']'') (tl hostport)
                  in if front \<noteq> [CHR ''[''] @ host @ [CHR '']''] then None
                     else if CHR ''['' \<in> set (tl hostport) \<or> CHR '']'' \<in> set (CHR '':'' # port) then None
                     else Some (host, port))
          else if CHR '':'' \<in> set front \<or> CHR ''['' \<in> set hostport \<or> CHR '']'' \<in> set hostport then None
          else Some (front, port))"

definition JoinHostPort :: "string \<Rightarrow> string \<Rightarrow> string" where
  "JoinHostPort host port =
     (if CHR '':'' \<in> set host then ''['' @ host @ '']:'' @ port else host @ '':'' @ port)"

definition defaultBaseURL :: "string \<Rightarrow> string" where
  "defaultBaseURL bindAddr =
     (case SplitHostPort bindAddr of
        None \<Rightarrow> bindAddr
      | Some (host, port) \<Rightarrow>
          if host \<in> set [[], ''0.0.0.0'', ''::''] then JoinHostPort ''localhost'' port else bindAddr)"

subsection \<open>Rules shown by the UI\<close>

definition print_all :: "val entries \<Rightarrow> params \<Rightarrow> val entries" where
  "print_all dst src = put_all dst (map (\<lambda>(key, v). (key, VStr (sprint v))) (entries src))"

definition initScriptForTarget :: "Mappings \<Rightarrow> string \<Rightarrow> params \<Rightarrow> error + Script option" where
  "initScriptForTarget configMappings targetName mappingParams =
     (if targetName = [] then Inr None
      else case lookup_map (mp_Targets configMappings) targetName of
        None \<Rightarrow> Inl (TargetNotFound targetName)
      | Some target \<Rightarrow>
          Inr (Some \<lparr>sc_Name = tg_Script target, sc_Environment = tg_Environment target,
            sc_Params = Some (print_all (print_all (print_all [] (ly_Params (mp_Defaults configMappings)))
              (ly_Params target)) mappingParams),
            sc_Users = None, sc_Provisioning = zero_provisioning\<rparr>))"

fun initNetworkMaps :: "Mappings \<Rightarrow> nat \<Rightarrow> NetworkMapConfig list \<Rightarrow> error + (IPNet \<times> Script) list" where
  "initNetworkMaps m i [] = Inr []"
| "initNetworkMaps m i (c # cs) =
     (case ParseCIDR (nm_Network c) of
        None \<Rightarrow> Inl (InvalidNetwork i (nm_Network c))
      | Some ipnet \<Rightarrow> bindE (initScriptForTarget m (pf_DefaultTarget c) (ly_Params c)) (\<lambda>script.
          bindE (initNetworkMaps m (i + 1) cs) (\<lambda>rest.
            Inr (case script of None \<Rightarrow> rest | Some s \<Rightarrow> (ipnet, s) # rest))))"

fun initHostnameMaps :: "regexp_compile \<Rightarrow> Mappings \<Rightarrow> nat \<Rightarrow> HostnameMapConfig list \<Rightarrow> error + ((string \<Rightarrow> bool) \<times> Script) list" where
  "initHostnameMaps rx m i [] = Inr []"
| "initHostnameMaps rx m i (c # cs) =
     (case rx (hm_Hostname c) of
        None \<Rightarrow> Inl (InvalidHostname i (hm_Hostname c))
      | Some regex \<Rightarrow> bindE (initScriptForTarget m (pf_DefaultTarget c) (ly_Params c)) (\<lambda>script.
          bindE (initHostnameMaps rx m (i + 1) cs) (\<lambda>rest.
            Inr (case script of None \<Rightarrow> rest | Some s \<Rightarrow> (regex, s) # rest))))"

text \<open>\<open>load\<close> is the decoder of \<^const>\<open>ParseMappings\<close>.\<close>

definition initMappings ::
    "regexp_compile \<Rightarrow> url_parse \<Rightarrow> (string \<Rightarrow> (string list \<times> (Mappings \<Rightarrow> Mappings option)) option) \<Rightarrow> string
      \<Rightarrow> 'p Environment \<Rightarrow> error + 'p Environment" where
  "initMappings rx up load mappingsPath env =
     bindE (ParseMappings rx up load mappingsPath) (\<lambda>configMappings.
     bindE (NewResolver rx up (Some configMappings)) (\<lambda>resolver.
     bindE (initNetworkMaps configMappings 0 (mp_NetworkMaps configMappings)) (\<lambda>nets.
     bindE (initHostnameMaps rx configMappings 0 (mp_HostnameMaps configMappings)) (\<lambda>hosts.
       Inr (env\<lparr>nv_MappingResolver := Some resolver, nv_NetworkMaps := nv_NetworkMaps env @ nets,
                 nv_HostnameMaps := nv_HostnameMaps env @ hosts\<rparr>)))))"

subsection \<open>Storage\<close>

datatype backend = MemoryBackend | SQLiteBackend string

datatype startup_error = BadBackend string | OpenFailed string | BadMappings error | BadTemplates load_error

text \<open>The backend to open. \<^verbatim>\<open>persistence.Validate\<close> panics on anything else.\<close>

definition initPersistence :: "'p Environment \<Rightarrow> startup_error + backend" where
  "initPersistence env =
     (let c = nv_PersistenceConfig env
      in if \<not> ValidateConfig c then Inl (BadBackend (cf_Backend c))
         else if cf_Backend c = ''memory'' then Inr MemoryBackend
         else if cf_Backend c = ''sqlite'' then Inr (SQLiteBackend (ResolvePath (nv_DataDir env) c))
         else Inl (BadBackend (cf_Backend c)))"

definition persistencePathForLog :: "'p Environment \<Rightarrow> string" where
  "persistencePathForLog env =
     (if cf_Backend (nv_PersistenceConfig env) \<noteq> ''sqlite'' then []
      else ResolvePath (nv_DataDir env) (nv_PersistenceConfig env))"

definition UsesUIOverride :: "'p Environment \<Rightarrow> bool" where
  "UsesUIOverride env \<longleftrightarrow> nv_UIOverrideDirSet env \<and> nv_UIDir env \<noteq> []"

definition uiSource :: "'p Environment \<Rightarrow> string" where
  "uiSource env = (if UsesUIOverride env then nv_UIDir env else ''embedded'')"

text \<open>\<open>readDir\<close> gives the entries of a directory with whether they are directories, \<^const>\<open>None\<close> for an error.\<close>

definition initEnvOverrides :: "(string \<Rightarrow> (string \<times> bool) list option) \<Rightarrow> 'p Environment \<Rightarrow> string list" where
  "initEnvOverrides readDir env =
     (case readDir (path_join [nv_DataDir env, nv_EnvDir env]) of
        None \<Rightarrow> [] | Some files \<Rightarrow> map fst (filter snd files))"

subsection \<open>Retention\<close>

definition cleanupEventRetention :: "time \<Rightarrow> 'p Environment \<Rightarrow> ('s, 'p) World \<Rightarrow> ('s, 'p) World" where
  "cleanupEventRetention now env w =
     (let retention = rc_Events (cf_Retention (nv_PersistenceConfig env))
      in if retention \<le> 0 then w
         else w\<lparr>wd_db := snd (LogDeleteEventsBefore (now - retention) (wd_log w) (wd_db w))\<rparr>)"

definition cleanupBootSessionRetention :: "time \<Rightarrow> 'p Environment \<Rightarrow> ('s, 'p) World \<Rightarrow> ('s, 'p) World" where
  "cleanupBootSessionRetention now env w =
     (let retention = rc_BootSessions (cf_Retention (nv_PersistenceConfig env))
      in case nv_BootSessions env of None \<Rightarrow> w
         | Some sessions \<Rightarrow> if retention \<le> 0 then w else w\<lparr>wd_db := snd (DeleteExpired sessions now (wd_db w))\<rparr>)"

text \<open>A tick of a cleaner, which only runs when its interval is positive.\<close>

definition retention_tick :: "time \<Rightarrow> (('s, 'p) World \<Rightarrow> ('s, 'p) World) \<Rightarrow> ('s, 'p) World \<Rightarrow> ('s, 'p) World" where
  "retention_tick interval sweep w = (if interval \<le> 0 then w else sweep w)"

definition event_retention_tick :: "time \<Rightarrow> 'p Environment \<Rightarrow> ('s, 'p) World \<Rightarrow> ('s, 'p) World" where
  "event_retention_tick now env =
     retention_tick (rc_EventsSweepInterval (cf_Retention (nv_PersistenceConfig env))) (cleanupEventRetention now env)"

definition session_retention_tick :: "time \<Rightarrow> 'p Environment \<Rightarrow> ('s, 'p) World \<Rightarrow> ('s, 'p) World" where
  "session_retention_tick now env =
     retention_tick (rc_BootSessionsSweepInterval (cf_Retention (nv_PersistenceConfig env))) (cleanupBootSessionRetention now env)"

subsection \<open>Starting a server\<close>

text \<open>
  What startup reads: the regular expressions and URLs of the mappings file, the mappings file itself, the template
  engine, the embedded files, the disk, and the opened store with the interface to its boot sessions.
\<close>

record ('s, 'p) Startup =
  su_regexp :: regexp_compile
  su_url :: url_parse
  su_load :: "string \<Rightarrow> (string list \<times> (Mappings \<Rightarrow> Mappings option)) option"
  su_engine :: engine
  su_embedded :: "(string \<Rightarrow> string + string) \<times> (string \<Rightarrow> bool) \<times> visit list"
  su_readFile :: "string \<Rightarrow> string + string"
  su_walkDir :: "string \<Rightarrow> visit list"
  su_readDir :: "string \<Rightarrow> (string \<times> bool) list option"
  su_open :: "backend \<Rightarrow> string + ('s, 'p) World"
  su_sessions :: "'p BootSessionBackend"

definition configured :: "('s, 'p) Startup \<Rightarrow> Options \<Rightarrow> 'p Environment" where
  "configured su options =
     (let env = applyOptions options default_environment;
          env = (case nv_TFTP env of
                   Some t \<Rightarrow> if tf_Root t = ''./tftp'' \<and> nv_DataDir env \<noteq> []
                             then env\<lparr>nv_TFTP := Some (t\<lparr>tf_Root := nv_DataDir env @ ''/tftp''\<rparr>)\<rparr> else env
                 | None \<Rightarrow> env);
          env = (if nv_BaseURL env = [] then env\<lparr>nv_BaseURL := defaultBaseURL (nv_BindAddr env)\<rparr> else env)
      in env\<lparr>nv_Environments := initEnvOverrides (su_readDir su) env\<rparr>)"

definition NewEnvironment ::
    "time \<Rightarrow> ('s, 'p) Startup \<Rightarrow> Options \<Rightarrow> startup_error + 'p Environment \<times> ('s, 'p) World" where
  "NewEnvironment now su options =
     (let env = configured su options
      in bindE (initPersistence env) (\<lambda>backend.
         bindE (map_sum OpenFailed id (su_open su backend)) (\<lambda>w.
         let env = env\<lparr>nv_BootSessions := Some (NewStore (su_sessions su) (rc_BootSessions (cf_Retention (nv_PersistenceConfig env))))\<rparr>;
             w = cleanupBootSessionRetention now env (cleanupEventRetention now env w)
         in bindE (map_sum BadMappings id (initMappings (su_regexp su) (su_url su) (su_load su)
                     (path_join [nv_DataDir env, nv_MappingsFile env]) env)) (\<lambda>env.
            bindE (map_sum BadTemplates id (ParseTemplates (su_engine su) (su_embedded su) (su_readFile su) (su_walkDir su)
                     (nv_DataDir env) (nv_EnvDir env) (nv_TemplateExtension env) (nv_Templates env))) (\<lambda>templates.
              Inr (env\<lparr>nv_Templates := templates\<rparr>, w))))))"

subsection \<open>Facts: addresses\<close>

lemma defaultBaseURL_nonempty: "bindAddr \<noteq> [] \<Longrightarrow> defaultBaseURL bindAddr \<noteq> []"
  by (auto simp: defaultBaseURL_def JoinHostPort_def split: option.splits)

lemma configured_fields:
  "nv_Templates (configured su options) = NewTemplates" "nv_NetworkMaps (configured su options) = []"
  "nv_HostnameMaps (configured su options) = []"
  by (simp_all add: configured_def applyOptions_def default_environment_def Let_def split: option.split)

lemma configured_BaseURL: "nv_BaseURL (configured su options) \<noteq> []"
proof -
  have "or_default a ('':8081'') \<noteq> []" for a by (simp add: or_default_def)
  from defaultBaseURL_nonempty [OF this] show ?thesis
    by (simp add: configured_def applyOptions_def default_environment_def Let_def DefaultOptions_def split: option.split)
qed

lemma map_sum_Inr: "map_sum f id x = Inr y \<longleftrightarrow> x = Inr y"
  by (cases x) auto

subsection \<open>Facts: rules shown by the UI\<close>

definition text_only :: "val entries \<Rightarrow> bool" where
  "text_only es \<longleftrightarrow> (\<forall>(k, v) \<in> set es. \<exists>s. v = VStr s)"

lemma script_elems_text: "text_only es \<Longrightarrow> script_elems es \<noteq> None"
  by (induction es rule: script_elems.induct) (auto simp: text_only_def)

lemma text_only_update: "text_only es \<Longrightarrow> text_only (AList.update k (VStr s) es)"
  by (induction es) (auto simp: text_only_def)

lemma print_all_text: "text_only dst \<Longrightarrow> text_only (print_all dst src)"
proof -
  have "text_only (put_all dst (map (\<lambda>(key, v). (key, VStr (sprint v))) es))" if "text_only dst" for dst es
    using that by (induction es arbitrary: dst) (auto simp: text_only_update)
  then show "text_only dst \<Longrightarrow> text_only (print_all dst src)" by (simp add: print_all_def)
qed

text \<open>A script shown by the UI prints, and is that of a target of the mappings file.\<close>

definition shown_ok :: "Mappings \<Rightarrow> Script \<Rightarrow> bool" where
  "shown_ok m s \<longleftrightarrow> script_string s \<noteq> None \<and> (\<exists>name t. lookup_map (mp_Targets m) name = Some t \<and> sc_Name s = tg_Script t
     \<and> sc_Environment s = tg_Environment t)"

lemma initScript_ok: "initScriptForTarget m targetName ps = Inr (Some s) \<Longrightarrow> shown_ok m s"
  using script_elems_text [OF print_all_text [OF print_all_text [OF print_all_text, of "[]"]]]
  by (auto simp: initScriptForTarget_def shown_ok_def script_string_def text_only_def split: if_splits option.splits) blast

lemma initNetworkMaps_ok: "initNetworkMaps m i cs = Inr maps \<Longrightarrow> (net, s) \<in> set maps \<Longrightarrow> shown_ok m s"
  by (induction m i cs arbitrary: maps rule: initNetworkMaps.induct)
    (auto simp: bindE_Inr dest: initScript_ok split: option.splits)

lemma initHostnameMaps_ok: "initHostnameMaps rx m i cs = Inr maps \<Longrightarrow> (host, s) \<in> set maps \<Longrightarrow> shown_ok m s"
  by (induction rx m i cs arbitrary: maps rule: initHostnameMaps.induct)
    (auto simp: bindE_Inr dest: initScript_ok split: option.splits)

lemma initMappings_ok:
  assumes "initMappings rx up load mappingsPath env = Inr env'" "nv_NetworkMaps env = []" "nv_HostnameMaps env = []"
  obtains m r where "ParseMappings rx up load mappingsPath = Inr m" "NewResolver rx up (Some m) = Inr r"
    "nv_MappingResolver env' = Some r" "\<forall>s \<in> snd ` set (nv_NetworkMaps env') \<union> snd ` set (nv_HostnameMaps env'). shown_ok m s"
    "env' = env\<lparr>nv_MappingResolver := nv_MappingResolver env', nv_NetworkMaps := nv_NetworkMaps env', nv_HostnameMaps := nv_HostnameMaps env'\<rparr>"
proof -
  from assms(1) obtain m r nets hosts where p: "ParseMappings rx up load mappingsPath = Inr m" "NewResolver rx up (Some m) = Inr r"
    and n: "initNetworkMaps m 0 (mp_NetworkMaps m) = Inr nets" and h: "initHostnameMaps rx m 0 (mp_HostnameMaps m) = Inr hosts"
    and env': "env' = env\<lparr>nv_MappingResolver := Some r, nv_NetworkMaps := nv_NetworkMaps env @ nets, nv_HostnameMaps := nv_HostnameMaps env @ hosts\<rparr>"
    by (auto simp: initMappings_def bindE_Inr)
  have "\<forall>s \<in> snd ` set nets \<union> snd ` set hosts. shown_ok m s" using initNetworkMaps_ok [OF n] initHostnameMaps_ok [OF h] by auto
  with p show ?thesis by (intro that) (simp_all add: env' assms(2,3))
qed

subsection \<open>Samples\<close>

definition sample_startup :: "(store, store) Startup" where
  "sample_startup = \<lparr>su_regexp = (\<lambda>_. None), su_url = (\<lambda>_. None), su_load = (\<lambda>_. Some ([''targets''], \<lambda>_. Some sample_mappings)),
     su_engine = plain_engine, su_embedded = (\<lambda>_. Inr ''d-i'', \<lambda>_. False, [(''debian.slc'', None)]), su_readFile = (\<lambda>_. Inr ''mine''),
     su_walkDir = (\<lambda>_. []), su_readDir = (\<lambda>_. Some [(''prod'', True), (''notes'', False)]), su_open = (\<lambda>_. Inr sample_world),
     su_sessions = memory_boot_sessions\<rparr>"

definition sample_start :: "startup_error + store Environment \<times> (store, store) World" where
  "sample_start = NewEnvironment 0 sample_startup (DefaultOptions\<lparr>op_DataDir := ''/srv'', op_Persistence := DefaultConfig\<lparr>cf_Backend := ''memory''\<rparr>\<rparr>)"

subsection \<open>Properties\<close>



end
