(* ===== verification/Commands.thy ===== *)
theory Commands
  imports Sqlite Environment
begin

text \<open>
  The command line (package \<^verbatim>\<open>cmd/shoelaces\<close>): finding and reading the configuration file, the options of
  \<^verbatim>\<open>run\<close>, and the commands that inspect a database. Flags and arguments are parsed by a library: a \<open>Command\<close> is
  what its accessors return. The formats of times and of event identifiers, and the decoders of configuration files,
  are arguments. A table is the text handed to the tab writer, which aligns it.
\<close>

datatype cli_error =
    UnsupportedExtension string
  | LoadFailed string
  | NotDefined string
  | NotAString string
  | UnsupportedFormat string
  | NegativeLimit
  | UnsupportedEventType string
  | InvalidSince string
  | OneArgument string
  | InvalidEventID string
  | NotFound string
  | StoreFailed store_error
  | UnknownBackend string
  | NotSQLite string
  | NoDataDir
  | OpenStoreFailed string
  | CloseFailed string
  | BadRow nat nat
  | StartFailed startup_error
  | BadFlag string string

record Command =
  cm_String :: "string \<Rightarrow> string"
  cm_Bool :: "string \<Rightarrow> bool"
  cm_Int :: "string \<Rightarrow> int"
  cm_Duration :: "string \<Rightarrow> time"
  cm_IsSet :: "string \<Rightarrow> bool"
  cm_Args :: "string list"

subsection \<open>The configuration file\<close>

definition defaultConfigPaths :: "string list" where
  "defaultConfigPaths = [''/etc/shoelaces/shoelaces.yaml'', ''/etc/shoelaces/shoelaces.json'', ''/etc/shoelaces/shoelaces.toml'']"

definition cutPrefix :: "string \<Rightarrow> string \<Rightarrow> string option" where
  "cutPrefix s p = (if hasPrefix s p then Some (drop (length p) s) else None)"

fun config_flag :: "string list \<Rightarrow> string option" where
  "config_flag [] = None"
| "config_flag (arg # rest) =
     (if arg = ''--'' then None
      else if arg = ''-config'' \<or> arg = ''--config'' then Some (case rest of [] \<Rightarrow> [] | v # _ \<Rightarrow> v)
      else case cutPrefix arg ''-config='' of
        Some v \<Rightarrow> Some v
      | None \<Rightarrow> (case cutPrefix arg ''--config='' of Some v \<Rightarrow> Some v | None \<Rightarrow> config_flag rest))"

definition configPathFromArgs :: "string list \<Rightarrow> env_lookup \<Rightarrow> string \<Rightarrow> string" where
  "configPathFromArgs args lookupEnv dflt =
     (case config_flag (tl args) of
        Some v \<Rightarrow> v
      | None \<Rightarrow> (case lookupEnv ''CONFIG'' of Some v \<Rightarrow> if v \<noteq> [] then v else dflt | None \<Rightarrow> dflt))"

fun discoverDefaultConfigPath :: "string list \<Rightarrow> (string \<Rightarrow> bool) \<Rightarrow> string" where
  "discoverDefaultConfigPath [] exists = []"
| "discoverDefaultConfigPath (p # ps) exists = (if exists p then p else discoverDefaultConfigPath ps exists)"

fun informational_flag :: "string list \<Rightarrow> bool" where
  "informational_flag [] = False"
| "informational_flag (arg # rest) =
     (if arg = ''--'' then False
      else if arg \<in> set [''-h'', ''-help'', ''--help'', ''-version'', ''--version''] then True
      else informational_flag rest)"

definition isInformationalInvocation :: "string list \<Rightarrow> bool" where
  "isInformationalInvocation args =
     (if length args \<le> 1 then True
      else if args ! 1 = ''h'' \<or> args ! 1 = ''help'' then True
      else informational_flag (tl args))"

definition config_path :: "string list \<Rightarrow> env_lookup \<Rightarrow> (string \<Rightarrow> bool) \<Rightarrow> string" where
  "config_path args lookupEnv fileExists =
     configPathFromArgs args lookupEnv
       (if isInformationalInvocation args then [] else discoverDefaultConfigPath defaultConfigPaths fileExists)"

text \<open>\<^verbatim>\<open>filepath.Ext\<close>.\<close>

definition path_ext :: "string \<Rightarrow> string" where
  "path_ext p =
     (let r = takeWhile (\<lambda>c. c \<noteq> CHR ''/'') (rev p)
      in if CHR ''.'' \<in> set r then CHR ''.'' # rev (takeWhile (\<lambda>c. c \<noteq> CHR ''.'') r) else [])"

datatype config_format = TOML | YAML | JSONFormat

definition parserForConfig :: "string \<Rightarrow> cli_error + config_format" where
  "parserForConfig p =
     (let ext = toLower (path_ext p)
      in if ext = ''.toml'' then Inr TOML
         else if ext = ''.yaml'' \<or> ext = ''.yml'' then Inr YAML
         else if ext = ''.json'' then Inr JSONFormat
         else Inl (UnsupportedExtension (path_ext p)))"

definition config_names :: "(string list \<times> string) list" where
  "config_names =
     [([''network.bindAddr'', ''network.bindaddr''], ''bind-addr''),
      ([''network.baseURL'', ''network.baseurl''], ''base-url''),
      ([''data.dir''], ''data-dir''),
      ([''ui.dir''], ''ui-dir''),
      ([''static.dir''], ''static-dir''),
      ([''env.dir''], ''env-dir''),
      ([''template.extension''], ''template-extension''),
      ([''mappings.file''], ''mappings-file''),
      ([''log.level''], ''log-level''),
      ([''log.handler''], ''log-handler''),
      ([''tftp.enabled''], ''tftp-enabled''),
      ([''tftp.address'', ''tftp.addr''], ''tftp-addr''),
      ([''tftp.root''], ''tftp-root''),
      ([''tftp.readonly''], ''tftp-readonly''),
      ([''tftp.timeout''], ''tftp-timeout''),
      ([''persistence.backend''], ''persistence-backend''),
      ([''persistence.path''], ''persistence-path''),
      ([''persistence.retention.events''], ''persistence-retention-events''),
      ([''persistence.retention.eventsSweepInterval'', ''persistence.retention.eventssweepinterval''],
        ''persistence-retention-events-sweep-interval''),
      ([''persistence.retention.bootSessions'', ''persistence.retention.bootsessions''], ''persistence-retention-boot-sessions''),
      ([''persistence.retention.bootSessionsSweepInterval'', ''persistence.retention.bootsessionssweepinterval''],
        ''persistence-retention-boot-sessions-sweep-interval'')]"

definition normalizeConfigValue :: "string \<Rightarrow> val \<Rightarrow> cli_error + string \<times> val" where
  "normalizeConfigValue name v =
     (case List.find (\<lambda>(keys, _). name \<in> set keys) config_names of
        Some (_, flag) \<Rightarrow> Inr (flag, v) | None \<Rightarrow> Inl (NotDefined name))"

text \<open>The loop of \<^verbatim>\<open>configValuesFromKoanf\<close> over the flattened keys.\<close>

fun configValues :: "val entries \<Rightarrow> val entries \<Rightarrow> cli_error + val entries" where
  "configValues values [] = Inr values"
| "configValues values ((key, v) # rest) =
     bindE (normalizeConfigValue key v) (\<lambda>(name, v). configValues (AList.update name v values) rest)"

definition configValuesFromKoanf :: "val entries \<Rightarrow> cli_error + val entries" where
  "configValuesFromKoanf all = configValues [] all"

definition readConfig :: "(config_format \<Rightarrow> string \<Rightarrow> string + val entries) \<Rightarrow> string \<Rightarrow> cli_error + val entries" where
  "readConfig load p =
     (if p = [] then Inr []
      else bindE (parserForConfig p) (\<lambda>format.
        case load format p of Inl e \<Rightarrow> Inl (LoadFailed e) | Inr all \<Rightarrow> configValuesFromKoanf all))"

subsection \<open>Running a server\<close>

definition optionsFromCommand :: "Command \<Rightarrow> Options" where
  "optionsFromCommand cmd =
     (let tftp = \<lparr>tf_Enabled = cm_Bool cmd ''tftp-enabled'', tf_Addr = cm_String cmd ''tftp-addr'',
                  tf_Root = cm_String cmd ''tftp-root'', tf_Readonly = cm_Bool cmd ''tftp-readonly'',
                  tf_Timeout = cm_Duration cmd ''tftp-timeout''\<rparr>;
          persistenceConfig = \<lparr>cf_Backend = cm_String cmd ''persistence-backend'', cf_Path = cm_String cmd ''persistence-path'',
            cf_Retention = \<lparr>rc_Events = cm_Duration cmd ''persistence-retention-events'',
              rc_EventsSweepInterval = cm_Duration cmd ''persistence-retention-events-sweep-interval'',
              rc_BootSessions = cm_Duration cmd ''persistence-retention-boot-sessions'',
              rc_BootSessionsSweepInterval = cm_Duration cmd ''persistence-retention-boot-sessions-sweep-interval''\<rparr>\<rparr>;
          uiDirSet = cm_IsSet cmd ''ui-dir'';
          alias = (\<not> uiDirSet \<and> cm_IsSet cmd ''static-dir'')
      in \<lparr>op_BindAddr = cm_String cmd ''bind-addr'', op_BaseURL = cm_String cmd ''base-url'', op_DataDir = cm_String cmd ''data-dir'',
          op_UIDir = (if alias then cm_String cmd ''static-dir'' else cm_String cmd ''ui-dir''),
          op_UIOverrideDirSet = uiDirSet \<or> alias, op_EnvDir = cm_String cmd ''env-dir'',
          op_TemplateExtension = cm_String cmd ''template-extension'', op_MappingsFile = cm_String cmd ''mappings-file'',
          op_Debug = cm_Bool cmd ''debug'', op_LogLevel = cm_String cmd ''log-level'', op_LogHandler = cm_String cmd ''log-handler'',
          op_TFTP = Some tftp, op_Persistence = persistenceConfig\<rparr>)"

definition validateOptions :: "Options \<Rightarrow> cli_error option" where
  "validateOptions options =
     (if op_DataDir options = [] then Some NoDataDir
      else let c = ApplyDefaults (op_Persistence options)
           in if ValidateConfig c then None else Some (UnknownBackend (cf_Backend c)))"

definition runCommand :: "time \<Rightarrow> ('s, 'p) Startup \<Rightarrow> Command \<Rightarrow> cli_error + 'p Environment \<times> ('s, 'p) World" where
  "runCommand now su cmd =
     (let options = optionsFromCommand cmd
      in case validateOptions options of
           Some e \<Rightarrow> Inl e
         | None \<Rightarrow> map_sum StartFailed id (NewEnvironment now su options))"

subsection \<open>Facts\<close>

lemma configured_options:
  "nv_DataDir (configured su options) = op_DataDir options"
  "nv_PersistenceConfig (configured su options) = ApplyDefaults (op_Persistence options)"
  by (simp_all add: configured_def applyOptions_def default_environment_def Let_def split: option.split)

lemma initMappings_keeps:
  "initMappings rx up load mappingsPath env = Inr env' \<Longrightarrow>
   nv_DataDir env' = nv_DataDir env \<and> nv_PersistenceConfig env' = nv_PersistenceConfig env"
  by (auto simp: initMappings_def bindE_Inr)

lemma NewEnvironment_options:
  assumes "NewEnvironment now su options = Inr (env, w)"
  shows "nv_DataDir env = op_DataDir options \<and> nv_PersistenceConfig env = ApplyDefaults (op_Persistence options)"
  using assms by (auto simp: NewEnvironment_def Let_def bindE_Inr map_sum_Inr configured_options dest!: initMappings_keeps)

lemma NewEnvironment_backend:
  assumes "ValidateConfig (ApplyDefaults (op_Persistence options))"
  shows "NewEnvironment now su options \<noteq> Inl (BadBackend b)"
proof -
  have known: "\<exists>backend. initPersistence (configured su options) = Inr backend"
    using assms by (auto simp: initPersistence_def Let_def configured_options ValidateConfig_def)
  then show ?thesis
    by (auto simp: NewEnvironment_def Let_def bindE_Inl bindE_Inr map_sum_Inr)
      (auto split: sum.splits simp: bindE_def map_sum_def)
qed

text \<open>A key given in two spellings takes the value of the spelling that is read last, and a map is read in any order.\<close>

lemma config_spellings_race:
  "configValuesFromKoanf [(''tftp.address'', VStr a), (''tftp.addr'', VStr b)] = Inr [(''tftp-addr'', VStr b)]"
  "configValuesFromKoanf [(''tftp.addr'', VStr b), (''tftp.address'', VStr a)] = Inr [(''tftp-addr'', VStr a)]"
  by (simp_all add: configValuesFromKoanf_def normalizeConfigValue_def config_names_def)

subsection \<open>Properties\<close>

text \<open>
  The command \<^verbatim>\<open>run\<close> refuses a missing data directory, and what it accepts never makes the startup panic over an
  unknown backend; the server it starts has the data directory of the command line.
\<close>

theorem run_checks_options:
  "runCommand now su cmd \<noteq> Inl (StartFailed (BadBackend b))
    \<and> (cm_String cmd ''data-dir'' = [] \<longrightarrow> runCommand now su cmd = Inl NoDataDir)
    \<and> (\<forall>env w. runCommand now su cmd = Inr (env, w) \<longrightarrow> nv_DataDir env = cm_String cmd ''data-dir'' \<and> nv_DataDir env \<noteq> []
        \<and> ValidateConfig (nv_PersistenceConfig env))"
proof -
  have dir: "op_DataDir (optionsFromCommand cmd) = cm_String cmd ''data-dir''" by (simp add: optionsFromCommand_def Let_def)
  have "runCommand now su cmd \<noteq> Inl (StartFailed (BadBackend b))"
    using NewEnvironment_backend [of "optionsFromCommand cmd" now su b]
    by (cases "NewEnvironment now su (optionsFromCommand cmd)")
      (auto simp: runCommand_def Let_def validateOptions_def split: if_splits option.splits)
  moreover have "cm_String cmd ''data-dir'' = [] \<longrightarrow> runCommand now su cmd = Inl NoDataDir"
    by (simp add: runCommand_def Let_def validateOptions_def dir)
  moreover have "nv_DataDir env = cm_String cmd ''data-dir'' \<and> nv_DataDir env \<noteq> [] \<and> ValidateConfig (nv_PersistenceConfig env)"
    if "runCommand now su cmd = Inr (env, w)" for env w
    using that dir NewEnvironment_options [of now su "optionsFromCommand cmd" env w]
    by (auto simp: runCommand_def Let_def validateOptions_def map_sum_Inr split: if_splits option.splits)
  ultimately show ?thesis by blast
qed

definition sample_run :: "string \<Rightarrow> Command" where
  "sample_run dir = \<lparr>cm_String = (\<lambda>f. if f = ''data-dir'' then dir else if f = ''persistence-backend'' then ''memory'' else []),
     cm_Bool = (\<lambda>_. False), cm_Int = (\<lambda>_. 0), cm_Duration = (\<lambda>_. 0), cm_IsSet = (\<lambda>_. False), cm_Args = []\<rparr>"

theorem run_checks_options_witness:
  "runCommand 0 sample_startup (sample_run []) = Inl NoDataDir
    \<and> \<not> isl (runCommand 0 sample_startup (sample_run ''/srv''))
    \<and> nv_DataDir (fst (projr (runCommand 0 sample_startup (sample_run ''/srv'')))) = ''/srv''"
proof -
  have "\<not> isl (runCommand 0 sample_startup (sample_run ''/srv''))" by code_simp
  then obtain env w where run: "runCommand 0 sample_startup (sample_run ''/srv'') = Inr (env, w)"
    by (cases "runCommand 0 sample_startup (sample_run ''/srv'')") auto
  have dir: "cm_String (sample_run d) ''data-dir'' = d" for d by (simp add: sample_run_def)
  have "nv_DataDir env = ''/srv''" using run_checks_options [of 0 sample_startup "sample_run ''/srv''" "[]"] run dir by auto
  moreover have "runCommand 0 sample_startup (sample_run []) = Inl NoDataDir"
    using run_checks_options [of 0 sample_startup "sample_run []" "[]"] dir by auto
  ultimately show ?thesis by (simp add: run)
qed

end
