(* ===== verification/Inspection.thy ===== *)
theory Inspection
  imports Commands
begin

text \<open>
  The commands that inspect a database (\<^verbatim>\<open>cmd/shoelaces/{inspection_options,inspection_store,output,events,servers,boot_sessions}.go\<close>).
  A command gives the errors it reports and what it wrote: the value whose JSON encoding is written, or a table.
  Opening and closing the database are arguments.
\<close>

subsection \<open>Options and the store\<close>

definition stringConfigValue :: "val entries \<Rightarrow> string \<Rightarrow> cli_error + string" where
  "stringConfigValue values key =
     (case map_of values key of
        None \<Rightarrow> Inr [] | Some VNil \<Rightarrow> Inr [] | Some (VStr s) \<Rightarrow> Inr s | Some _ \<Rightarrow> Inl (NotAString key))"

definition stringInspectionConfigValue :: "val entries \<Rightarrow> string \<Rightarrow> string \<Rightarrow> env_lookup \<Rightarrow> cli_error + string" where
  "stringInspectionConfigValue values key env lookupEnv =
     (case lookupEnv env of Some v \<Rightarrow> Inr v | None \<Rightarrow> stringConfigValue values key)"

definition inspectionOptionsFromConfigWithEnv :: "val entries \<Rightarrow> env_lookup \<Rightarrow> cli_error + Options" where
  "inspectionOptionsFromConfigWithEnv values lookupEnv =
     bindE (stringInspectionConfigValue values ''data-dir'' ''DATA_DIR'' lookupEnv) (\<lambda>dataDir.
     bindE (stringInspectionConfigValue values ''persistence-backend'' ''PERSISTENCE_BACKEND'' lookupEnv) (\<lambda>backend.
     bindE (stringInspectionConfigValue values ''persistence-path'' ''PERSISTENCE_PATH'' lookupEnv) (\<lambda>path.
       let options = DefaultOptions; config = DefaultConfig;
           options = (if dataDir \<noteq> [] then options\<lparr>op_DataDir := dataDir\<rparr> else options);
           config = (if backend \<noteq> [] then config\<lparr>cf_Backend := backend\<rparr> else config);
           config = (if path \<noteq> [] then config\<lparr>cf_Path := path\<rparr> else config)
       in Inr (options\<lparr>op_Persistence := config\<rparr>))))"

record inspectionStore =
  is_Queries :: database
  is_Path :: string

definition openInspectionStoreUsing :: "Options \<Rightarrow> (string \<Rightarrow> string + database) \<Rightarrow> cli_error + inspectionStore" where
  "openInspectionStoreUsing options opener =
     (let config = ApplyDefaults (op_Persistence options)
      in if \<not> ValidateConfig config then Inl (UnknownBackend (cf_Backend config))
         else if cf_Backend config \<noteq> ''sqlite'' then Inl (NotSQLite (cf_Backend config))
         else if op_DataDir options = [] then Inl NoDataDir
         else let path = ResolvePath (op_DataDir options) config
              in case opener path of
                   Inl e \<Rightarrow> Inl (OpenStoreFailed e)
                 | Inr db \<Rightarrow> Inr \<lparr>is_Queries = db, is_Path = path\<rparr>)"

text \<open>The errors of a command, joined, and what it wrote.\<close>

type_synonym 'o outcome = "cli_error list \<times> 'o option"

definition withInspectionStoreUsing ::
    "Options \<Rightarrow> (Options \<Rightarrow> cli_error + inspectionStore) \<Rightarrow> (inspectionStore \<Rightarrow> string option)
      \<Rightarrow> (inspectionStore \<Rightarrow> cli_error + 'o) \<Rightarrow> 'o outcome" where
  "withInspectionStoreUsing options opener closer fn =
     (case opener options of
        Inl e \<Rightarrow> ([e], None)
      | Inr store \<Rightarrow>
          let closeErr = (case closer store of None \<Rightarrow> [] | Some e \<Rightarrow> [CloseFailed e])
          in case fn store of Inl e \<Rightarrow> (e # closeErr, None) | Inr out \<Rightarrow> (closeErr, Some out))"

text \<open>What a command of this package uses of the system: the variables, the database, and formats of the libraries.\<close>

record System =
  sy_lookupEnv :: env_lookup
  sy_open :: "string \<Rightarrow> string + database"
  sy_close :: "string \<Rightarrow> string option"
  sy_rfc3339 :: "time \<Rightarrow> string"
  sy_parseTime :: "string \<Rightarrow> time option"
  sy_ulid :: "ulid \<Rightarrow> string"
  sy_parseULID :: "string \<Rightarrow> ulid option"
  sy_now :: time

definition inspect_with :: "System \<Rightarrow> val entries \<Rightarrow> (Options \<Rightarrow> cli_error + (inspectionStore \<Rightarrow> cli_error + 'o)) \<Rightarrow> 'o outcome" where
  "inspect_with sys values prepare =
     (case inspectionOptionsFromConfigWithEnv values (sy_lookupEnv sys) of
        Inl e \<Rightarrow> ([e], None)
      | Inr options \<Rightarrow>
          (case prepare options of
             Inl e \<Rightarrow> ([e], None)
           | Inr fn \<Rightarrow> withInspectionStoreUsing options (\<lambda>options. openInspectionStoreUsing options (sy_open sys))
               (\<lambda>store. sy_close sys (is_Path store)) fn))"

subsection \<open>Output\<close>

datatype outputFormat = TableFormat | JSONOutput

definition parseOutputFormat :: "string \<Rightarrow> cli_error + outputFormat" where
  "parseOutputFormat v =
     (if v = ''table'' then Inr TableFormat else if v = ''json'' then Inr JSONOutput else Inl (UnsupportedFormat v))"

record tableOutput =
  tb_Headers :: "string list"
  tb_Rows :: "string list list"

definition tab :: string where "tab = [CHR 0x09]"

fun table_rows :: "nat \<Rightarrow> string list list \<Rightarrow> cli_error + string" where
  "table_rows n [] = Inr []"
| "table_rows n (row # rows) =
     (if length row \<noteq> n then Inl (BadRow (length row) n)
      else bindE (table_rows n rows) (\<lambda>rest. Inr (join tab row @ newline @ rest)))"

definition writeTableOutput :: "tableOutput \<Rightarrow> cli_error + string" where
  "writeTableOutput table =
     bindE (table_rows (length (tb_Headers table)) (tb_Rows table)) (\<lambda>rows.
       Inr ((if tb_Headers table \<noteq> [] then join tab (tb_Headers table) @ newline else []) @ rows))"

subsection \<open>Events\<close>

record eventListOptions =
  eo_MAC :: string
  eo_Type :: "int option"
  eo_Since :: "time option"
  eo_Limit :: int

record eventOutputRecord =
  eu_ID :: string
  eu_Type :: string
  eu_OccurredAt :: time
  eu_MAC :: string
  eu_IP :: string
  eu_Hostname :: string
  eu_BootType :: string
  eu_Script :: string
  eu_Message :: string

definition parseEventType :: "string \<Rightarrow> cli_error + int" where
  "parseEventType raw =
     (let normalized = toLower (trimSpace raw)
      in if normalized \<in> set [''host-poll'', ''host_poll'', ''poll''] then Inr HostPoll
         else if normalized \<in> set [''user-selection'', ''user_selection'', ''selection''] then Inr UserSelection
         else if normalized \<in> set [''host-boot'', ''host_boot'', ''boot''] then Inr HostBoot
         else if normalized \<in> set [''host-timeout'', ''host_timeout'', ''timeout''] then Inr HostTimeout
         else case atoi normalized of
           Some t \<Rightarrow> if t \<in> set [HostPoll, UserSelection, HostBoot, HostTimeout] then Inr t else Inl (UnsupportedEventType raw)
         | None \<Rightarrow> Inl (UnsupportedEventType raw))"

definition eventTypeName :: "int \<Rightarrow> string" where
  "eventTypeName t =
     (if t = HostPoll then ''host-poll'' else if t = UserSelection then ''user-selection''
      else if t = HostBoot then ''host-boot'' else if t = HostTimeout then ''host-timeout'' else int_str t)"

definition eventListOptionsFromCommand :: "System \<Rightarrow> Command \<Rightarrow> cli_error + eventListOptions" where
  "eventListOptionsFromCommand sys cmd =
     (if cm_Int cmd ''limit'' < 0 then Inl NegativeLimit
      else bindE (if cm_String cmd ''type'' = [] then Inr None
                  else bindE (parseEventType (cm_String cmd ''type'')) (\<lambda>t. Inr (Some t))) (\<lambda>type.
        bindE (if cm_String cmd ''since'' = [] then Inr None
               else case sy_parseTime sys (cm_String cmd ''since'') of
                      None \<Rightarrow> Inl (InvalidSince (cm_String cmd ''since'')) | Some t \<Rightarrow> Inr (Some t)) (\<lambda>since.
          Inr \<lparr>eo_MAC = toLower (cm_String cmd ''mac''), eo_Type = type, eo_Since = since, eo_Limit = cm_Int cmd ''limit''\<rparr>)))"

fun filterEventsLoop :: "eventListOptions \<Rightarrow> EventRecord list \<Rightarrow> EventRecord list \<Rightarrow> EventRecord list" where
  "filterEventsLoop opts filtered [] = filtered"
| "filterEventsLoop opts filtered (r # rs) =
     (if eo_MAC opts \<noteq> [] \<and> toLower (er_MAC r) \<noteq> eo_MAC opts then filterEventsLoop opts filtered rs
      else if (case eo_Type opts of None \<Rightarrow> False | Some t \<Rightarrow> er_Type r \<noteq> t) then filterEventsLoop opts filtered rs
      else if (case eo_Since opts of None \<Rightarrow> False | Some t \<Rightarrow> er_OccurredAt r < t) then filterEventsLoop opts filtered rs
      else let filtered = filtered @ [r]
           in if eo_Limit opts > 0 \<and> int (length filtered) \<ge> eo_Limit opts then filtered else filterEventsLoop opts filtered rs)"

definition filterEventRecords :: "EventRecord list \<Rightarrow> eventListOptions \<Rightarrow> EventRecord list" where
  "filterEventRecords records opts = filterEventsLoop opts [] records"

definition eventOutputRecordFromRecord :: "System \<Rightarrow> EventRecord \<Rightarrow> eventOutputRecord" where
  "eventOutputRecordFromRecord sys r =
     \<lparr>eu_ID = sy_ulid sys (er_ID r), eu_Type = eventTypeName (er_Type r), eu_OccurredAt = er_OccurredAt r, eu_MAC = er_MAC r,
      eu_IP = er_IP r, eu_Hostname = er_Hostname r, eu_BootType = er_BootType r, eu_Script = er_Script r, eu_Message = er_Message r\<rparr>"

definition eventTableOutput :: "System \<Rightarrow> eventOutputRecord list \<Rightarrow> tableOutput" where
  "eventTableOutput sys records =
     \<lparr>tb_Headers = [''TIME'', ''EVENT ID'', ''MAC'', ''HOSTNAME'', ''TYPE'', ''SCRIPT'', ''MESSAGE''],
      tb_Rows = map (\<lambda>r. [sy_rfc3339 sys (eu_OccurredAt r), eu_ID r, eu_MAC r, eu_Hostname r, eu_Type r, eu_Script r, eu_Message r]) records\<rparr>"

subsection \<open>Server states\<close>

record serverListOptions =
  so_MAC :: string
  so_Waiting :: bool

record serverStateOutputRecord =
  su_MAC :: string
  su_IP :: string
  su_Hostname :: string
  su_Target :: string
  su_Environment :: string
  su_Waiting :: bool
  su_Retry :: int
  su_LastAccess :: time
  su_AllowedTargets :: "TargetOption slice"
  su_Params :: params

definition serverStateIsWaiting :: "ServerStateRecord \<Rightarrow> bool" where
  "serverStateIsWaiting r \<longleftrightarrow> sr_Target r = [] \<or> sr_Target r = InitTarget"

definition serverListOptionsFromCommand :: "Command \<Rightarrow> serverListOptions" where
  "serverListOptionsFromCommand cmd = \<lparr>so_MAC = toLower (cm_String cmd ''mac''), so_Waiting = cm_Bool cmd ''waiting''\<rparr>"

fun filterServerStateRecords :: "ServerStateRecord list \<Rightarrow> serverListOptions \<Rightarrow> ServerStateRecord list" where
  "filterServerStateRecords [] opts = []"
| "filterServerStateRecords (r # rs) opts =
     (if so_MAC opts \<noteq> [] \<and> toLower (sr_MAC r) \<noteq> so_MAC opts then filterServerStateRecords rs opts
      else if so_Waiting opts \<and> \<not> serverStateIsWaiting r then filterServerStateRecords rs opts
      else r # filterServerStateRecords rs opts)"

text \<open>A decoder with \<^verbatim>\<open>UseNumber\<close>: a number keeps its text.\<close>

fun use_number :: "json \<Rightarrow> val" where
  "use_number JNull = VNil"
| "use_number (JBool b) = VBool b"
| "use_number (JStr s) = VStr s"
| "use_number (JInt i) = VOther (int_str i)"
| "use_number (JFloat t) = VOther t"
| "use_number (JArr js) = VList (map use_number js)"
| "use_number (JObj es) = VMap (put_all [] (map (\<lambda>(k, j). (k, use_number j)) es))"

definition decodeObjectJSON :: "json option \<Rightarrow> string \<Rightarrow> cli_error + params" where
  "decodeObjectJSON encoded field =
     (case encoded of
        None \<Rightarrow> Inr None
      | Some j \<Rightarrow> (case params_from use_number j of
                     None \<Rightarrow> Inl (StoreFailed (DecodeError field))
                   | Some ps \<Rightarrow> Inr (if entries ps = [] then None else ps)))"

definition decodeAllowedTargets :: "TargetOption slice option \<Rightarrow> TargetOption slice" where
  "decodeAllowedTargets encoded =
     (case encoded of None \<Rightarrow> None | Some ts \<Rightarrow> if elems ts = [] then None else ts)"

definition serverTargetOutputRecords :: "TargetOption slice \<Rightarrow> TargetOption slice" where
  "serverTargetOutputRecords targets = (if elems targets = [] then None else Some (elems targets))"

definition serverStateOutputRecordFromRecord :: "ServerStateRecord \<Rightarrow> cli_error + serverStateOutputRecord" where
  "serverStateOutputRecordFromRecord r =
     bindE (decodeObjectJSON (sr_ParamsJSON r) ''params'') (\<lambda>ps.
       Inr \<lparr>su_MAC = sr_MAC r, su_IP = sr_IP r, su_Hostname = sr_Hostname r, su_Target = sr_Target r,
            su_Environment = sr_Environment r, su_Waiting = serverStateIsWaiting r, su_Retry = sr_Retry r,
            su_LastAccess = sr_LastAccess r,
            su_AllowedTargets = serverTargetOutputRecords (decodeAllowedTargets (sr_AllowedTargetsJSON r)),
            su_Params = RedactParams ps\<rparr>)"

definition allowedTargetNames :: "TargetOption slice \<Rightarrow> string" where
  "allowedTargetNames targets = (if elems targets = [] then [] else join '','' (map to_Name (elems targets)))"

definition paramsSummary :: "params \<Rightarrow> string" where
  "paramsSummary ps = (if entries ps = [] then [] else join '','' (sort (map fst (entries ps))))"

definition serverStateTableOutput :: "System \<Rightarrow> serverStateOutputRecord list \<Rightarrow> tableOutput" where
  "serverStateTableOutput sys records =
     \<lparr>tb_Headers = [''MAC'', ''IP'', ''HOSTNAME'', ''TARGET'', ''ENVIRONMENT'', ''RETRY'', ''LAST ACCESS'', ''ALLOWED TARGETS'', ''PARAMS''],
      tb_Rows = map (\<lambda>r. [su_MAC r, su_IP r, su_Hostname r, su_Target r, su_Environment r, int_str (su_Retry r),
        sy_rfc3339 sys (su_LastAccess r), allowedTargetNames (su_AllowedTargets r), paramsSummary (su_Params r)]) records\<rparr>"

subsection \<open>Commands\<close>

datatype cli_output =
    TableText string
  | JSONEvents "eventOutputRecord list"
  | JSONEvent eventOutputRecord
  | JSONServers "serverStateOutputRecord list"
  | JSONServer serverStateOutputRecord
  | JSONReference Reference

definition write_table :: "tableOutput \<Rightarrow> cli_error + cli_output" where
  "write_table table = bindE (writeTableOutput table) (\<lambda>t. Inr (TableText t))"

definition writeEventOutput :: "System \<Rightarrow> outputFormat \<Rightarrow> eventOutputRecord list \<Rightarrow> cli_error + cli_output" where
  "writeEventOutput sys format records =
     (case format of JSONOutput \<Rightarrow> Inr (JSONEvents records) | TableFormat \<Rightarrow> write_table (eventTableOutput sys records))"

definition writeEventRecordOutput :: "System \<Rightarrow> outputFormat \<Rightarrow> eventOutputRecord \<Rightarrow> cli_error + cli_output" where
  "writeEventRecordOutput sys format r =
     (case format of JSONOutput \<Rightarrow> Inr (JSONEvent r) | TableFormat \<Rightarrow> write_table (eventTableOutput sys [r]))"

definition writeServerStateOutput :: "System \<Rightarrow> outputFormat \<Rightarrow> serverStateOutputRecord list \<Rightarrow> cli_error + cli_output" where
  "writeServerStateOutput sys format records =
     (case format of JSONOutput \<Rightarrow> Inr (JSONServers records) | TableFormat \<Rightarrow> write_table (serverStateTableOutput sys records))"

definition writeServerStateRecordOutput :: "System \<Rightarrow> outputFormat \<Rightarrow> serverStateOutputRecord \<Rightarrow> cli_error + cli_output" where
  "writeServerStateRecordOutput sys format r =
     (case format of JSONOutput \<Rightarrow> Inr (JSONServer r) | TableFormat \<Rightarrow> write_table (serverStateTableOutput sys [r]))"

definition bootSessionReferenceTableOutput :: "System \<Rightarrow> Reference \<Rightarrow> tableOutput" where
  "bootSessionReferenceTableOutput sys rf =
     \<lparr>tb_Headers = [''REF'', ''MAC'', ''HOSTNAME'', ''TARGET'', ''ENVIRONMENT'', ''CREATED'', ''EXPIRES''],
      tb_Rows = [[rf_Ref rf, sv_Mac (rf_Server rf), sv_Hostname (rf_Server rf), rf_Target rf, rf_Environment rf,
        sy_rfc3339 sys (rf_CreatedAt rf), sy_rfc3339 sys (rf_ExpiresAt rf)]]\<rparr>"

definition writeBootSessionReferenceOutput :: "System \<Rightarrow> outputFormat \<Rightarrow> Reference \<Rightarrow> cli_error + cli_output" where
  "writeBootSessionReferenceOutput sys format rf =
     (case format of JSONOutput \<Rightarrow> Inr (JSONReference rf) | TableFormat \<Rightarrow> write_table (bootSessionReferenceTableOutput sys rf))"

definition store_result :: "string \<Rightarrow> store_error + 'a \<Rightarrow> cli_error + 'a" where
  "store_result what r = (case r of Inr v \<Rightarrow> Inr v | Inl NoRows \<Rightarrow> Inl (NotFound what) | Inl e \<Rightarrow> Inl (StoreFailed e))"

definition eventsListCommand :: "System \<Rightarrow> val entries \<Rightarrow> Command \<Rightarrow> cli_output outcome" where
  "eventsListCommand sys values cmd =
     (case parseOutputFormat (cm_String cmd ''output'') of
        Inl e \<Rightarrow> ([e], None)
      | Inr format \<Rightarrow> inspect_with sys values (\<lambda>options.
          bindE (eventListOptionsFromCommand sys cmd) (\<lambda>listOptions. Inr (\<lambda>store.
            bindE (map_sum StoreFailed id (sq_ListEvents (is_Queries store))) (\<lambda>events.
              writeEventOutput sys format (map (eventOutputRecordFromRecord sys) (filterEventRecords events listOptions)))))))"

definition eventsGetCommand :: "System \<Rightarrow> val entries \<Rightarrow> Command \<Rightarrow> cli_output outcome" where
  "eventsGetCommand sys values cmd =
     (if length (cm_Args cmd) \<noteq> 1 then ([OneArgument ''event id''], None)
      else case sy_parseULID sys (hd (cm_Args cmd)) of
        None \<Rightarrow> ([InvalidEventID (hd (cm_Args cmd))], None)
      | Some i \<Rightarrow>
          (case parseOutputFormat (cm_String cmd ''output'') of
             Inl e \<Rightarrow> ([e], None)
           | Inr format \<Rightarrow> inspect_with sys values (\<lambda>options. Inr (\<lambda>store.
               bindE (store_result (sy_ulid sys i) (sq_GetEvent i (is_Queries store))) (\<lambda>r.
                 writeEventRecordOutput sys format (eventOutputRecordFromRecord sys r))))))"

definition serversListCommand :: "System \<Rightarrow> val entries \<Rightarrow> Command \<Rightarrow> cli_output outcome" where
  "serversListCommand sys values cmd =
     (case parseOutputFormat (cm_String cmd ''output'') of
        Inl e \<Rightarrow> ([e], None)
      | Inr format \<Rightarrow> inspect_with sys values (\<lambda>options. Inr (\<lambda>store.
          bindE (map_sum StoreFailed id (sq_ListServerStates (is_Queries store))) (\<lambda>states.
          bindE (map_res serverStateOutputRecordFromRecord (filterServerStateRecords states (serverListOptionsFromCommand cmd)))
            (\<lambda>records. writeServerStateOutput sys format records)))))"

definition serversGetCommand :: "System \<Rightarrow> val entries \<Rightarrow> Command \<Rightarrow> cli_output outcome" where
  "serversGetCommand sys values cmd =
     (if length (cm_Args cmd) \<noteq> 1 then ([OneArgument ''MAC address''], None)
      else let mac = toLower (hd (cm_Args cmd))
      in case parseOutputFormat (cm_String cmd ''output'') of
           Inl e \<Rightarrow> ([e], None)
         | Inr format \<Rightarrow> inspect_with sys values (\<lambda>options. Inr (\<lambda>store.
             bindE (store_result mac (sq_GetServerState mac (is_Queries store))) (\<lambda>state.
             bindE (serverStateOutputRecordFromRecord state) (\<lambda>r. writeServerStateRecordOutput sys format r)))))"

definition bootSessionsGetCommand :: "System \<Rightarrow> val entries \<Rightarrow> Command \<Rightarrow> cli_output outcome" where
  "bootSessionsGetCommand sys values cmd =
     (if length (cm_Args cmd) \<noteq> 1 then ([OneArgument ''boot-session ref''], None)
      else let ref = hd (cm_Args cmd)
      in case parseOutputFormat (cm_String cmd ''output'') of
           Inl e \<Rightarrow> ([e], None)
         | Inr format \<Rightarrow> inspect_with sys values (\<lambda>options. Inr (\<lambda>store.
             bindE (store_result ref (Inspect (sy_now sys) (NewStore sqlite_boot_sessions 0) ref (is_Queries store))) (\<lambda>rf.
               writeBootSessionReferenceOutput sys format rf))))"

subsection \<open>Facts: event types and filters\<close>

lemma event_type_roundtrip:
  "t \<in> {HostPoll, UserSelection, HostBoot, HostTimeout} \<Longrightarrow> parseEventType (eventTypeName t) = Inr t"
proof -
  have "\<forall>t \<in> set [HostPoll, UserSelection, HostBoot, HostTimeout]. parseEventType (eventTypeName t) = Inr t" by code_simp
  then show "t \<in> {HostPoll, UserSelection, HostBoot, HostTimeout} \<Longrightarrow> parseEventType (eventTypeName t) = Inr t" by auto
qed

definition selected :: "eventListOptions \<Rightarrow> EventRecord \<Rightarrow> bool" where
  "selected opts r \<longleftrightarrow> (eo_MAC opts = [] \<or> toLower (er_MAC r) = eo_MAC opts) \<and> (\<forall>t. eo_Type opts = Some t \<longrightarrow> er_Type r = t)
     \<and> (\<forall>t. eo_Since opts = Some t \<longrightarrow> t \<le> er_OccurredAt r)"

lemma filterEventsLoop_step:
  "filterEventsLoop opts filtered (r # rs) =
     (if \<not> selected opts r then filterEventsLoop opts filtered rs
      else if eo_Limit opts > 0 \<and> int (length filtered) + 1 \<ge> eo_Limit opts then filtered @ [r]
      else filterEventsLoop opts (filtered @ [r]) rs)"
  by (auto simp: selected_def Let_def split: option.splits)

declare filterEventsLoop.simps(2) [simp del]

lemma filterEventsLoop_all:
  "eo_Limit opts \<le> 0 \<Longrightarrow> filterEventsLoop opts filtered rs = filtered @ filter (selected opts) rs"
  by (induction rs arbitrary: filtered) (simp_all add: filterEventsLoop_step)

lemma filterEventsLoop_limit:
  "int (length filtered) < eo_Limit opts \<Longrightarrow>
   filterEventsLoop opts filtered rs = filtered @ take (nat (eo_Limit opts) - length filtered) (filter (selected opts) rs)"
proof (induction rs arbitrary: filtered)
  case (Cons r rs)
  obtain k where k: "nat (eo_Limit opts) - length filtered = Suc k"
    using Cons.prems by (cases "nat (eo_Limit opts) - length filtered") auto
  show ?case
  proof (cases "selected opts r \<and> int (length filtered) + 1 < eo_Limit opts")
    case True
    then have "filterEventsLoop opts (filtered @ [r]) rs = (filtered @ [r]) @ take k (filter (selected opts) rs)"
      using Cons.IH [of "filtered @ [r]"] k Suc_diff_Suc by (simp add: diff_Suc)
    with True k show ?thesis by (simp add: filterEventsLoop_step)
  next
    case False
    with Cons k show ?thesis by (cases k) (auto simp: filterEventsLoop_step)
  qed
qed simp

text \<open>The listed events are the first selected ones, up to the limit, and all of them without one.\<close>

lemma filterEventRecords_spec:
  "filterEventRecords rs opts =
     (if 0 < eo_Limit opts then take (nat (eo_Limit opts)) (filter (selected opts) rs) else filter (selected opts) rs)"
  using filterEventsLoop_all [of opts "[]" rs] filterEventsLoop_limit [of "[]" opts rs] by (simp add: filterEventRecords_def)

subsection \<open>Facts: lower-case addresses\<close>

lemma lower_char_not_upper: "\<not> (CHR ''A'' \<le> lower_char c \<and> lower_char c \<le> CHR ''Z'')"
  by (auto simp: lower_char_def less_eq_char_def)

lemma toLower_no_upper: "c \<in> set (toLower s) \<Longrightarrow> \<not> (CHR ''A'' \<le> c \<and> c \<le> CHR ''Z'')"
  using lower_char_not_upper by (induction s rule: toLower.induct) (auto simp: less_eq_char_def split: if_splits)

lemma filterServerStateRecords_filter:
  "filterServerStateRecords rs opts =
     filter (\<lambda>r. (so_MAC opts = [] \<or> toLower (sr_MAC r) = so_MAC opts) \<and> (so_Waiting opts \<longrightarrow> serverStateIsWaiting r)) rs"
  by (induction rs) auto

subsection \<open>Facts: secrets\<close>

text \<open>Two rows that show the same to the public: accounts and provisioning data, and sensitive parameters, may differ.\<close>

definition public_state :: "ServerStateRecord \<Rightarrow> ServerStateRecord \<Rightarrow> bool" where
  "public_state r r' \<longleftrightarrow> r\<lparr>sr_ParamsJSON := None, sr_UsersJSON := None, sr_ProvisioningJSON := None\<rparr>
       = r'\<lparr>sr_ParamsJSON := None, sr_UsersJSON := None, sr_ProvisioningJSON := None\<rparr>
     \<and> (\<exists>ps ps'. decodeObjectJSON (sr_ParamsJSON r) ''params'' = Inr ps \<and> decodeObjectJSON (sr_ParamsJSON r') ''params'' = Inr ps'
          \<and> same_public_params ps ps')"

lemma public_state_fields:
  assumes "public_state r r'"
  shows "sr_MAC r = sr_MAC r'" "sr_IP r = sr_IP r'" "sr_Hostname r = sr_Hostname r'" "sr_Target r = sr_Target r'"
    "sr_Environment r = sr_Environment r'" "sr_AllowedTargetsJSON r = sr_AllowedTargetsJSON r'" "sr_Retry r = sr_Retry r'"
    "sr_LastAccess r = sr_LastAccess r'"
  using assms by (cases r, cases r', simp add: public_state_def)+

lemma public_output:
  assumes "public_state r r'"
  shows "serverStateOutputRecordFromRecord r = serverStateOutputRecordFromRecord r'"
proof -
  obtain ps ps' where "decodeObjectJSON (sr_ParamsJSON r) ''params'' = Inr ps" "decodeObjectJSON (sr_ParamsJSON r') ''params'' = Inr ps'"
    "same_public_params ps ps'" using assms by (auto simp: public_state_def)
  then show ?thesis
    using public_state_fields [OF assms] RedactParams_public [of ps ps']
    by (simp add: serverStateOutputRecordFromRecord_def serverStateIsWaiting_def)
qed

lemma public_filter:
  "list_all2 public_state rs rs' \<Longrightarrow>
   map_res serverStateOutputRecordFromRecord (filterServerStateRecords rs opts) =
   map_res serverStateOutputRecordFromRecord (filterServerStateRecords rs' opts)"
proof (induction rs rs' rule: list_all2_induct)
  case (Cons r rs r' rs')
  then show ?case using public_output [OF Cons(1)] public_state_fields [OF Cons(1)] by (simp add: serverStateIsWaiting_def)
qed simp

subsection \<open>Properties\<close>

text \<open>
  C38. The listing of server states shows no secret: with databases whose rows differ only in accounts, in provisioning
  data and under sensitive parameter keys, the command prints the same, in either format.
\<close>

theorem servers_list_hides_secrets:
  assumes "sq_ListServerStates db = Inr rs" "sq_ListServerStates db' = Inr rs'" "list_all2 public_state rs rs'"
  shows "serversListCommand (sys\<lparr>sy_open := (\<lambda>_. Inr db)\<rparr>) values cmd = serversListCommand (sys\<lparr>sy_open := (\<lambda>_. Inr db')\<rparr>) values cmd"
proof -
  have out: "writeServerStateOutput (sys\<lparr>sy_open := g\<rparr>) = writeServerStateOutput sys" for g
    by (intro ext) (simp add: writeServerStateOutput_def serverStateTableOutput_def split: outputFormat.split)
  show ?thesis
    using public_filter [OF assms(3)] assms(1,2)
    by (simp add: serversListCommand_def inspect_with_def withInspectionStoreUsing_def openInspectionStoreUsing_def Let_def out
        split: sum.split)
qed

definition sample_row :: "string \<Rightarrow> string \<Rightarrow> ServerStateRecord" where
  "sample_row mac secret = \<lparr>sr_MAC = mac, sr_IP = ''10.0.0.1'', sr_Hostname = ''web1'', sr_Target = ''NOTARGET'', sr_Environment = [],
     sr_ParamsJSON = Some (JObj [(''hostname'', JStr ''web1''), (''rootPassword'', JStr secret)]), sr_UsersJSON = Some None,
     sr_ProvisioningJSON = Some zero_provisioning, sr_AllowedTargetsJSON = Some None, sr_Retry = 1, sr_LastAccess = 5\<rparr>"

definition sample_database :: "string \<Rightarrow> string \<Rightarrow> database" where
  "sample_database mac secret = snd (sq_UpsertServerState (sample_row mac secret) empty_database)"

definition sample_system :: "database \<Rightarrow> System" where
  "sample_system db = \<lparr>sy_lookupEnv = (\<lambda>k. if k = ''DATA_DIR'' then Some ''/srv'' else None), sy_open = (\<lambda>_. Inr db), sy_close = (\<lambda>_. None),
     sy_rfc3339 = int_str, sy_parseTime = (\<lambda>_. None), sy_ulid = nat_str, sy_parseULID = (\<lambda>_. None), sy_now = 0\<rparr>"

definition sample_command :: "string list \<Rightarrow> Command" where
  "sample_command args = \<lparr>cm_String = (\<lambda>f. if f = ''output'' then ''table'' else []), cm_Bool = (\<lambda>_. False), cm_Int = (\<lambda>_. 0),
     cm_Duration = (\<lambda>_. 0), cm_IsSet = (\<lambda>_. False), cm_Args = args\<rparr>"

theorem servers_list_hides_secrets_witness:
  "serversListCommand (sample_system (sample_database ''aa:bb'' ''hunter2'')) [] (sample_command []) =
     serversListCommand (sample_system (sample_database ''aa:bb'' ''other'')) [] (sample_command [])
   \<and> sample_database ''aa:bb'' ''hunter2'' \<noteq> sample_database ''aa:bb'' ''other''"
proof -
  have rows: "sq_ListServerStates (sample_database ''aa:bb'' ''hunter2'') = Inr [sample_row ''aa:bb'' ''hunter2'']"
    "sq_ListServerStates (sample_database ''aa:bb'' ''other'') = Inr [sample_row ''aa:bb'' ''other'']" by code_simp+
  have decoded: "decodeObjectJSON (sr_ParamsJSON (sample_row ''aa:bb'' s)) ''params'' = Inr (Some [(''hostname'', VStr ''web1''), (''rootPassword'', VStr s)])" for s
    by (simp add: sample_row_def decodeObjectJSON_def params_from_def)
  have sensitive: "IsSensitiveParamKey ''rootPassword''" by code_simp
  have "public_state (sample_row ''aa:bb'' ''hunter2'') (sample_row ''aa:bb'' ''other'')"
    unfolding public_state_def decoded by (simp add: sample_row_def same_public_params_def sensitive)
  with servers_list_hides_secrets [OF rows, of "sample_system empty_database" "[]" "sample_command []"] rows
  show ?thesis by (auto simp: sample_system_def sample_row_def)
qed

text \<open>
  A state is found by its address only if the stored spelling has no upper-case letter, since the argument of
  \<^verbatim>\<open>servers get\<close> is lower-cased and the column is not; \<^verbatim>\<open>servers list --mac\<close> compares both in lower case.
\<close>

lemma get_row_mac: "sq_GetServerState mac db = Inr r \<Longrightarrow> sr_MAC r = mac"
  by (auto simp: sq_GetServerState_def sql_GetServerState_def select_one_def bindE_Inr serverStateFromRow_def find_Some_iff
      split: option.splits)

lemma servers_get_lower_case:
  assumes "serversGetCommand sys values cmd = (errs, Some (JSONServer out))" "c \<in> set (su_MAC out)"
  shows "\<not> (CHR ''A'' \<le> c \<and> c \<le> CHR ''Z'')"
proof -
  have "su_MAC out = toLower (hd (cm_Args cmd))"
    using assms(1)
    by (auto simp: serversGetCommand_def inspect_with_def withInspectionStoreUsing_def Let_def bindE_Inr store_result_def
        serverStateOutputRecordFromRecord_def writeServerStateRecordOutput_def write_table_def
        dest: get_row_mac split: if_splits sum.splits outputFormat.splits store_error.splits)
      (metis outputFormat.exhaust)
  with assms(2) toLower_no_upper show ?thesis by metis
qed

lemma servers_list_any_case:
  "r \<in> set rs \<Longrightarrow> toLower mac = toLower (sr_MAC r) \<Longrightarrow> r \<in> set (filterServerStateRecords rs \<lparr>so_MAC = toLower mac, so_Waiting = False\<rparr>)"
  by (simp add: filterServerStateRecords_filter)

end
