(* ===== verification/Flags.thy ===== *)
theory Flags
  imports Inspection
begin

text \<open>
  The flags of the command \<^verbatim>\<open>run\<close> (\<^verbatim>\<open>cmd/shoelaces/run.go\<close>): a flag takes its value from the command line, then from
  its environment variable, then from the configuration file, then its default. The lookup is that of \<^verbatim>\<open>urfave/cli\<close>: a
  value of the configuration file is printed and parsed again, an empty text leaves a duration at its default and makes
  a switch false. \<open>given\<close> has the texts given on the command line, \<open>parseDuration\<close> is \<^verbatim>\<open>time.ParseDuration\<close>.
\<close>

subsection \<open>Flags\<close>

datatype flag_value = FString string | FBool bool | FDuration time

record cli_flag =
  fl_Name :: string
  fl_Value :: flag_value
  fl_Env :: "string option"

definition cli_flag :: "string \<Rightarrow> flag_value \<Rightarrow> string \<Rightarrow> cli_flag" where
  "cli_flag name v env = \<lparr>fl_Name = name, fl_Value = v, fl_Env = Some env\<rparr>"

definition run_flags :: "cli_flag list" where
  "run_flags =
     (let defaults = DefaultOptions; tftpDefaults = DefaultTFTPConfig; persistenceDefaults = DefaultConfig;
          retention = cf_Retention persistenceDefaults
      in [cli_flag ''bind-addr'' (FString (op_BindAddr defaults)) ''BIND_ADDR'',
          cli_flag ''base-url'' (FString (op_BaseURL defaults)) ''BASE_URL'',
          cli_flag ''data-dir'' (FString (op_DataDir defaults)) ''DATA_DIR'',
          cli_flag ''ui-dir'' (FString (op_UIDir defaults)) ''UI_DIR'',
          cli_flag ''static-dir'' (FString []) ''STATIC_DIR'',
          cli_flag ''env-dir'' (FString (op_EnvDir defaults)) ''ENV_DIR'',
          cli_flag ''template-extension'' (FString (op_TemplateExtension defaults)) ''TEMPLATE_EXTENSION'',
          cli_flag ''mappings-file'' (FString (op_MappingsFile defaults)) ''MAPPINGS_FILE'',
          \<lparr>fl_Name = ''debug'', fl_Value = FBool (op_Debug defaults), fl_Env = None\<rparr>,
          cli_flag ''log-level'' (FString (op_LogLevel defaults)) ''LOG_LEVEL'',
          cli_flag ''log-handler'' (FString (op_LogHandler defaults)) ''LOG_HANDLER'',
          cli_flag ''tftp-enabled'' (FBool (tf_Enabled tftpDefaults)) ''TFTP_ENABLED'',
          cli_flag ''tftp-addr'' (FString (tf_Addr tftpDefaults)) ''TFTP_ADDR'',
          cli_flag ''tftp-root'' (FString (tf_Root tftpDefaults)) ''TFTP_ROOT'',
          cli_flag ''tftp-readonly'' (FBool (tf_Readonly tftpDefaults)) ''TFTP_READONLY'',
          cli_flag ''tftp-timeout'' (FDuration (tf_Timeout tftpDefaults)) ''TFTP_TIMEOUT'',
          cli_flag ''persistence-backend'' (FString (cf_Backend persistenceDefaults)) ''PERSISTENCE_BACKEND'',
          cli_flag ''persistence-path'' (FString (cf_Path persistenceDefaults)) ''PERSISTENCE_PATH'',
          cli_flag ''persistence-retention-events'' (FDuration (rc_Events retention)) ''PERSISTENCE_RETENTION_EVENTS'',
          cli_flag ''persistence-retention-events-sweep-interval'' (FDuration (rc_EventsSweepInterval retention))
            ''PERSISTENCE_RETENTION_EVENTS_SWEEP_INTERVAL'',
          cli_flag ''persistence-retention-boot-sessions'' (FDuration (rc_BootSessions retention))
            ''PERSISTENCE_RETENTION_BOOT_SESSIONS'',
          cli_flag ''persistence-retention-boot-sessions-sweep-interval'' (FDuration (rc_BootSessionsSweepInterval retention))
            ''PERSISTENCE_RETENTION_BOOT_SESSIONS_SWEEP_INTERVAL''])"

subsection \<open>Values\<close>

definition ParseBool :: "string \<Rightarrow> bool option" where
  "ParseBool s =
     (if s \<in> set [''1'', ''t'', ''T'', ''TRUE'', ''true'', ''True''] then Some True
      else if s \<in> set [''0'', ''f'', ''F'', ''FALSE'', ''false'', ''False''] then Some False else None)"

fun parse_value :: "(string \<Rightarrow> time option) \<Rightarrow> flag_value \<Rightarrow> string \<Rightarrow> flag_value option" where
  "parse_value parseDuration (FString _) s = Some (FString s)"
| "parse_value parseDuration (FBool _) s = map_option FBool (ParseBool s)"
| "parse_value parseDuration (FDuration _) s = map_option FDuration (parseDuration s)"

fun empty_value :: "flag_value \<Rightarrow> flag_value" where
  "empty_value (FString _) = FString []"
| "empty_value (FBool _) = FBool False"
| "empty_value (FDuration d) = FDuration d"

definition flagSources :: "env_lookup \<Rightarrow> val entries \<Rightarrow> cli_flag \<Rightarrow> string option" where
  "flagSources lookupEnv values fl =
     (case fl_Env fl of
        None \<Rightarrow> None
      | Some env \<Rightarrow> (case lookupEnv env of Some v \<Rightarrow> Some v | None \<Rightarrow> map_option sprint (map_of values (fl_Name fl))))"

text \<open>The value of a flag and whether it is set.\<close>

definition flag_result ::
    "(string \<Rightarrow> time option) \<Rightarrow> (string \<Rightarrow> string option) \<Rightarrow> env_lookup \<Rightarrow> val entries \<Rightarrow> cli_flag \<Rightarrow> cli_error + flag_value \<times> bool" where
  "flag_result parseDuration given lookupEnv values fl =
     (let parsed = (\<lambda>s. case parse_value parseDuration (fl_Value fl) s of
             None \<Rightarrow> Inl (BadFlag (fl_Name fl) s) | Some v \<Rightarrow> Inr (v, True))
      in case given (fl_Name fl) of
           Some s \<Rightarrow> parsed s
         | None \<Rightarrow>
             (case flagSources lookupEnv values fl of
                None \<Rightarrow> Inr (fl_Value fl, False)
              | Some s \<Rightarrow> if s = [] then Inr (empty_value (fl_Value fl), True) else parsed s))"

fun flag_results ::
    "(string \<Rightarrow> time option) \<Rightarrow> (string \<Rightarrow> string option) \<Rightarrow> env_lookup \<Rightarrow> val entries \<Rightarrow> cli_flag list
      \<Rightarrow> cli_error + (flag_value \<times> bool) entries" where
  "flag_results parseDuration given lookupEnv values [] = Inr []"
| "flag_results parseDuration given lookupEnv values (fl # fls) =
     bindE (flag_result parseDuration given lookupEnv values fl) (\<lambda>v.
       bindE (flag_results parseDuration given lookupEnv values fls) (\<lambda>vs. Inr ((fl_Name fl, v) # vs)))"

text \<open>The accessors of a parsed command; one of another type than the flag gives the zero value.\<close>

definition parsed_command :: "(flag_value \<times> bool) entries \<Rightarrow> string list \<Rightarrow> Command" where
  "parsed_command results args =
     \<lparr>cm_String = (\<lambda>name. case map_of results name of Some (FString s, _) \<Rightarrow> s | _ \<Rightarrow> []),
      cm_Bool = (\<lambda>name. case map_of results name of Some (FBool b, _) \<Rightarrow> b | _ \<Rightarrow> False),
      cm_Int = (\<lambda>_. 0),
      cm_Duration = (\<lambda>name. case map_of results name of Some (FDuration d, _) \<Rightarrow> d | _ \<Rightarrow> 0),
      cm_IsSet = (\<lambda>name. case map_of results name of Some (_, b) \<Rightarrow> b | None \<Rightarrow> False),
      cm_Args = args\<rparr>"

definition run_options ::
    "(string \<Rightarrow> time option) \<Rightarrow> (string \<Rightarrow> string option) \<Rightarrow> env_lookup \<Rightarrow> val entries \<Rightarrow> cli_error + Options" where
  "run_options parseDuration given lookupEnv values =
     bindE (flag_results parseDuration given lookupEnv values run_flags)
       (\<lambda>results. Inr (optionsFromCommand (parsed_command results [])))"

subsection \<open>Facts\<close>

lemma flag_results_find:
  assumes "flag_results parseDuration given lookupEnv values fls = Inr results" "distinct (map fl_Name fls)" "fl \<in> set fls"
  shows "\<exists>v. flag_result parseDuration given lookupEnv values fl = Inr v \<and> map_of results (fl_Name fl) = Some v"
  using assms
proof (induction fls arbitrary: results)
  case (Cons f fls)
  then obtain v vs where r: "flag_result parseDuration given lookupEnv values f = Inr v"
      "flag_results parseDuration given lookupEnv values fls = Inr vs" "results = (fl_Name f, v) # vs"
    by (auto simp: bindE_Inr)
  show ?case
  proof (cases "fl = f")
    case False
    with Cons.prems have "fl \<in> set fls" "fl_Name fl \<noteq> fl_Name f" by (auto simp: image_iff)
    with Cons.IH [OF r(2)] Cons.prems(2) r(3) show ?thesis by simp
  qed (use r in simp)
qed simp

lemma run_flags_distinct: "distinct (map fl_Name run_flags)"
  by code_simp

lemma text_flag:
  assumes "fl_Value fl = FString d"
  shows "flag_result parseDuration given lookupEnv values fl = Inr
    (case given (fl_Name fl) of Some s \<Rightarrow> (FString s, True)
     | None \<Rightarrow> (case flagSources lookupEnv values fl of Some s \<Rightarrow> (FString s, True) | None \<Rightarrow> (FString d, False)))"
  using assms by (auto simp: flag_result_def Let_def split: option.splits)

text \<open>What \<^verbatim>\<open>run\<close> reads for a text flag that the command line does not give.\<close>

definition sourced :: "env_lookup \<Rightarrow> val entries \<Rightarrow> string \<Rightarrow> string \<Rightarrow> string \<Rightarrow> string" where
  "sourced lookupEnv values name env d =
     (case lookupEnv env of Some v \<Rightarrow> v | None \<Rightarrow> (case map_of values name of Some v \<Rightarrow> sprint v | None \<Rightarrow> d))"

lemma sourced_flag:
  assumes "flag_results parseDuration given lookupEnv values run_flags = Inr results" "given name = None"
    and "cli_flag name (FString d) env \<in> set run_flags"
  shows "cm_String (parsed_command results args) name = sourced lookupEnv values name env d"
proof -
  have n: "fl_Name (cli_flag name (FString d) env) = name" "fl_Value (cli_flag name (FString d) env) = FString d"
    "fl_Env (cli_flag name (FString d) env) = Some env" by (simp_all add: cli_flag_def)
  from flag_results_find [OF assms(1) run_flags_distinct assms(3)] assms(2) show ?thesis
    by (auto simp: text_flag [OF n(2)] n parsed_command_def sourced_def flagSources_def split: option.splits)
qed

definition text_setting :: "val entries \<Rightarrow> string \<Rightarrow> bool" where
  "text_setting values name \<longleftrightarrow> (case map_of values name of None \<Rightarrow> True | Some (VStr _) \<Rightarrow> True | _ \<Rightarrow> False)"

lemma inspection_sourced:
  "text_setting values name \<Longrightarrow> stringInspectionConfigValue values name env lookupEnv = Inr (sourced lookupEnv values name env [])"
  by (auto simp: text_setting_def stringInspectionConfigValue_def stringConfigValue_def sourced_def split: option.splits val.splits)

lemma sourced_or_default: "(if sourced lookupEnv values name env d = [] then d else sourced lookupEnv values name env d)
    = (if sourced lookupEnv values name env [] = [] then d else sourced lookupEnv values name env [])"
  by (auto simp: sourced_def split: option.splits)

subsection \<open>Properties\<close>


definition sample_values :: "val entries" where
  "sample_values = [(''data-dir'', VStr ''/srv''), (''persistence-path'', VStr ''boot.sqlite'')]"

definition sample_vars :: env_lookup where
  "sample_vars name = (if name = ''PERSISTENCE_BACKEND'' then Some [] else None)"


text \<open>
  A setting that the configuration file leaves empty is no text: the inspection commands take it as unset, while \<^verbatim>\<open>run\<close>
  reads the text that printing a nil value gives.
\<close>

lemma empty_setting_differs:
  assumes "run_options parseDuration given lookupEnv values = Inr options" "given ''data-dir'' = None" "lookupEnv ''DATA_DIR'' = None"
    and "map_of values ''data-dir'' = Some VNil" "inspectionOptionsFromConfigWithEnv values lookupEnv = Inr inspected"
  shows "op_DataDir options = ''<nil>'' \<and> op_DataDir inspected = []"
proof -
  obtain results where r: "flag_results parseDuration given lookupEnv values run_flags = Inr results"
      "options = optionsFromCommand (parsed_command results [])"
    using assms(1) by (auto simp: run_options_def bindE_Inr)
  have "cli_flag ''data-dir'' (FString []) ''DATA_DIR'' \<in> set run_flags" by (simp add: run_flags_def Let_def DefaultOptions_def)
  from sourced_flag [OF r(1) assms(2) this] have "op_DataDir options = ''<nil>''"
    using assms(3,4) by (simp add: r(2) optionsFromCommand_def Let_def sourced_def)
  moreover have "op_DataDir inspected = []"
    using assms(3-5) by (auto simp: inspectionOptionsFromConfigWithEnv_def stringInspectionConfigValue_def [of _ "''data-dir''"]
        stringConfigValue_def [of _ "''data-dir''"] bindE_Inr Let_def DefaultOptions_def)
  ultimately show ?thesis by simp
qed

end
