(* ===== verification/Requests.thy ===== *)
theory Requests
  imports Environment
begin

text \<open>
  The HTTP handlers (package \<^verbatim>\<open>handlers\<close>) and the list of iPXE scripts (\<^verbatim>\<open>ipxe/ipxescript.go\<close>). A handler is a
  function of the request and of the world; a response is a status with a message, a text, or the value whose JSON
  encoding is written. \<open>hr_Path\<close> and \<open>hr_RawPath\<close> are the fields of the URL, \<open>hr_URLParam\<close> is
  \<^verbatim>\<open>chi.URLParam\<close>, as the router sets it, \<open>hr_PostForm\<close> is \<^const>\<open>None\<close> where \<^verbatim>\<open>ParseForm\<close> fails, and
  \<open>hr_EnvName\<close> is what \<^verbatim>\<open>environmentMiddleware\<close> put into the context. The values of a form or of a query are never empty lists, as \<^verbatim>\<open>url.ParseQuery\<close> makes them.
\<close>

subsection \<open>Requests and responses\<close>

record Request =
  hr_Method :: string
  hr_Path :: string
  hr_RawPath :: string
  hr_EnvName :: string
  hr_Query :: "string list entries"
  hr_PostForm :: "string list entries option"
  hr_Host :: string
  hr_RemoteAddr :: string
  hr_URLParam :: string

datatype message =
    Msg string
  | PollMsg poll_error
  | RenderMsg render_error

datatype response =
    HttpError nat message
  | HttpText string
  | HttpServers "Server list"
  | HttpEvents "Event list entries"
  | HttpEvent Event
  | HttpReference Reference
  | HttpStrings "string list"
  | HttpRedirect string
  | HttpPanic

definition first_value :: "string list entries \<Rightarrow> string \<Rightarrow> string" where
  "first_value m k = (case map_of m k of Some (v # _) \<Rightarrow> v | _ \<Rightarrow> [])"

subsection \<open>The environment of a request\<close>

definition env_char :: "char \<Rightarrow> bool" where
  "env_char c \<longleftrightarrow> CHR ''a'' \<le> c \<and> c \<le> CHR ''z'' \<or> CHR ''A'' \<le> c \<and> c \<le> CHR ''Z'' \<or> is_digit c \<or> c = CHR ''_'' \<or> c = CHR ''-''"

text \<open>
  The matches 2 and 3 of \<^verbatim>\<open>^(:?/env\/([a-zA-Z0-9_-]+))?(\/.*)\<close> when the optional group takes part; a name ends where
  its characters end, since the next one has to be a slash.
\<close>

definition envRe :: "string \<Rightarrow> (string \<times> string) option" where
  "envRe path =
     (let p = (if path \<noteq> [] \<and> hd path = CHR '':'' then tl path else path);
          rest = drop 5 p; name = takeWhile env_char rest; tail = dropWhile env_char rest
      in if hasPrefix p ''/env/'' \<and> name \<noteq> [] \<and> tail \<noteq> [] \<and> hd tail = CHR ''/''
         then Some (name, takeWhile (\<lambda>c. c \<noteq> CHR 0x0A) tail) else None)"

definition environmentMiddleware :: "Request \<Rightarrow> Request" where
  "environmentMiddleware r =
     (case envRe (hr_Path r) of
        Some (name, rest) \<Rightarrow> r\<lparr>hr_Path := rest, hr_EnvName := name\<rparr>
      | None \<Rightarrow> r\<lparr>hr_EnvName := []\<rparr>)"

subsection \<open>Polling\<close>

definition validateMACAndIP :: "string \<Rightarrow> string \<Rightarrow> string option" where
  "validateMACAndIP mac ip =
     (if \<not> IsValidMAC mac then Some ''invalid MAC'' else if \<not> IsValidIP ip then Some ''invalid IP'' else None)"

definition StartPollingHandler :: "('s, 'p) Service \<Rightarrow> response" where
  "StartPollingHandler s = HttpText (StartScript s)"

text \<open>\<open>lookupHost\<close> is \<^verbatim>\<open>utils.ResolveHostname\<close>, a DNS lookup.\<close>

definition PollHandler ::
    "env_lookup \<Rightarrow> (string \<Rightarrow> string) \<Rightarrow> Tick \<Rightarrow> ('s, 'p) Service \<Rightarrow> Request \<Rightarrow> ('s, 'p) World \<Rightarrow> response \<times> ('s, 'p) World" where
  "PollHandler osenv lookupHost tk s r w =
     (case SplitHostPort (hr_RemoteAddr r) of
        None \<Rightarrow> (HttpError 500 (Msg ''address''), w)
      | Some (ip, _) \<Rightarrow>
          let mac = MacDashToColon (hr_URLParam r)
          in case validateMACAndIP mac ip of
               Some e \<Rightarrow> (HttpError 500 (Msg e), w)
             | None \<Rightarrow>
                 let host = (if hr_Host r = [] then lookupHost ip else hr_Host r)
                 in case Poll osenv tk s (NewServer mac ip host) w of
                      (Inl Panic, w) \<Rightarrow> (HttpPanic, w)
                    | (Inl e, w) \<Rightarrow> (HttpError 500 (PollMsg e), w)
                    | (Inr script, w) \<Rightarrow> (HttpText script, w))"

definition ServerListHandler :: "('s, 'p) Service \<Rightarrow> ('s, 'p) World \<Rightarrow> response" where
  "ServerListHandler s w =
     (case ListServers s w of
        Inl e \<Rightarrow> HttpError 500 (Msg ''failed to list waiting servers'') | Inr servers \<Rightarrow> HttpServers servers)"

text \<open>The state of the loop is the MAC address, the target, the environment and the parameters.\<close>

fun parsePostForm :: "string \<times> string \<times> string \<times> val entries \<Rightarrow> string list entries \<Rightarrow> string \<times> string \<times> string \<times> val entries" where
  "parsePostForm st [] = st"
| "parsePostForm (mac, scriptName, environment, ps) ((k, v) # form) =
     parsePostForm
       (if k = ''mac'' then (MacDashToColon (hd v), scriptName, environment, ps)
        else if k = ''target'' then (mac, hd v, environment, ps)
        else if k = ''environment'' then (mac, scriptName, hd v, ps)
        else (mac, scriptName, environment, AList.update k (VStr (hd v)) ps)) form"

definition UpdateTargetHandler ::
    "env_lookup \<Rightarrow> Tick \<Rightarrow> ('s, 'p) Service \<Rightarrow> Request \<Rightarrow> ('s, 'p) World \<Rightarrow> response \<times> ('s, 'p) World" where
  "UpdateTargetHandler osenv tk s r w =
     (case SplitHostPort (hr_RemoteAddr r) of
        None \<Rightarrow> (HttpError 500 (Msg ''address''), w)
      | Some (ip, _) \<Rightarrow>
          (case hr_PostForm r of
             None \<Rightarrow> (HttpError 400 (Msg ''form''), w)
           | Some form \<Rightarrow>
             (case parsePostForm ([], [], [], []) form of
             (mac, scriptName, environment, ps) \<Rightarrow>
               if mac = [] \<or> scriptName = [] then (HttpError 400 (Msg ''MAC address and target must not be empty''), w)
               else case UpdateTarget osenv tk s (NewServer mac ip []) scriptName (Some ps) w of
                      ((inputErr, Some Panic), w) \<Rightarrow> (HttpPanic, w)
                    | ((inputErr, Some e), w) \<Rightarrow> (HttpError (if inputErr then 400 else 500) (PollMsg e), w)
                    | ((inputErr, None), w) \<Rightarrow> (HttpRedirect ''/'', w))))"

subsection \<open>Events and references\<close>

definition event_encodes :: "Event \<Rightarrow> bool" where
  "event_encodes e \<longleftrightarrow> marshal_params (ev_Params e) \<noteq> None"

definition ListEventsHandler :: "('s, 'p) World \<Rightarrow> response" where
  "ListEventsHandler w =
     (case LogListEvents (wd_log w) (wd_db w) of
        Inl e \<Rightarrow> HttpError 500 (Msg ''failed to list events'')
      | Inr events \<Rightarrow>
          if list_all (\<lambda>(mac, es). list_all event_encodes es) events then HttpEvents events
          else HttpError 500 (Msg ''failed to marshal events''))"

text \<open>\<open>parse\<close> is \<^verbatim>\<open>ulid.Parse\<close>.\<close>

definition GetEventHandler :: "(string \<Rightarrow> ulid option) \<Rightarrow> Request \<Rightarrow> ('s, 'p) World \<Rightarrow> response" where
  "GetEventHandler parse r w =
     (let i = hr_URLParam r
      in if parse i = None then HttpError 400 (Msg ''invalid event id'')
         else case LogGetEvent parse i (wd_log w) (wd_db w) of
                Inl (EventStore NoRows) \<Rightarrow> HttpError 404 (Msg ''event not found'')
              | Inl e \<Rightarrow> HttpError 500 (Msg ''failed to get event'')
              | Inr e \<Rightarrow> if event_encodes e then HttpEvent e else HttpError 500 (Msg ''failed to marshal event''))"

definition reference_encodes :: "Reference \<Rightarrow> bool" where
  "reference_encodes rf \<longleftrightarrow> marshal_params (rf_Params rf) \<noteq> None \<and> marshal (rf_Users rf) \<noteq> None
     \<and> marshal (rf_Provisioning rf) \<noteq> None"

definition GetBootSessionReference :: "time \<Rightarrow> 'p Environment \<Rightarrow> Request \<Rightarrow> 'p \<Rightarrow> response" where
  "GetBootSessionReference now env r db =
     (let ref = hr_URLParam r
      in if ref = [] then HttpError 400 (Msg ''boot reference is required'')
         else case nv_BootSessions env of
           None \<Rightarrow> HttpError 400 (Msg ''boot references are not available'')
         | Some sessions \<Rightarrow>
             (case Inspect now sessions ref db of
                Inl NoRows \<Rightarrow> HttpError 404 (Msg ''boot reference not found'')
              | Inl e \<Rightarrow> HttpError 500 (Msg ''failed to inspect boot reference'')
              | Inr rf \<Rightarrow> if reference_encodes rf then HttpReference rf
                          else HttpError 500 (Msg ''failed to marshal boot reference'')))"

subsection \<open>Templates\<close>

definition firstQueryValues :: "Request \<Rightarrow> string entries" where
  "firstQueryValues r = map (\<lambda>(k, v). (k, hd v)) (filter (\<lambda>(k, v). v \<noteq> []) (hr_Query r))"

definition query_params :: "string entries \<Rightarrow> val entries" where
  "query_params q = map (\<lambda>(k, v). (k, VStr v)) q"

definition snapshot_variables :: "Snapshot \<Rightarrow> string \<Rightarrow> string entries \<Rightarrow> tparams" where
  "snapshot_variables snapshot ref q =
     (let params = put_all (put_all [] (entries (sn_Params snapshot))) (query_params q)
      in ParamsWithProvisioning (ApplyReferenceParams (Some params) ref) (entries (sn_Users snapshot)) (sn_Provisioning snapshot))"

definition resolveTemplateRequest ::
    "time \<Rightarrow> 'p Environment \<Rightarrow> Request \<Rightarrow> bool \<Rightarrow> 'p \<Rightarrow> response + tparams \<times> string" where
  "resolveTemplateRequest now env r requireRef db =
     (let queryParams = firstQueryValues r;
          ref = (case map_of queryParams QueryParam of None \<Rightarrow> [] | Some v \<Rightarrow> v);
          finish = (\<lambda>variables envName.
            Inr (AList.update ''baseURL'' (TVal (VStr (BaseURLforEnvName (nv_BaseURL env) envName))) variables, envName))
      in if requireRef \<and> ref = [] then Inl (HttpError 400 (Msg ''boot reference is required''))
         else if ref = [] then
           finish (put_all [] (map (\<lambda>(k, v). (k, TVal v)) (query_params queryParams))) (hr_EnvName r)
         else case nv_BootSessions env of
           None \<Rightarrow> Inl (HttpError 400 (Msg ''boot references are not available''))
         | Some sessions \<Rightarrow>
             (case Get now sessions ref db of
                Inl NoRows \<Rightarrow> Inl (HttpError 404 (Msg ''boot reference not found''))
              | Inl e \<Rightarrow> Inl (HttpError 500 (Msg ''failed to resolve boot reference''))
              | Inr snapshot \<Rightarrow>
                  finish (snapshot_variables snapshot ref (AList.delete QueryParam queryParams))
                    (if sn_Environment snapshot \<noteq> [] then sn_Environment snapshot else hr_EnvName r)))"

definition render_response :: "engine \<Rightarrow> ShoelacesTemplates \<Rightarrow> string \<Rightarrow> tparams \<times> string \<Rightarrow> response" where
  "render_response en templates name resolved =
     (case RenderTemplate en templates name (Some (fst resolved)) (snd resolved) of
        Inl TemplatePanic \<Rightarrow> HttpPanic
      | Inl e \<Rightarrow> HttpError 500 (RenderMsg e)
      | Inr text \<Rightarrow> HttpText text)"

definition TemplateHandler :: "time \<Rightarrow> engine \<Rightarrow> 'p Environment \<Rightarrow> Request \<Rightarrow> 'p \<Rightarrow> response" where
  "TemplateHandler now en env r db =
     (let configName = path_clean (hr_Path r)
      in if configName = [] then HttpError 404 (Msg ''No template name provided'')
         else case resolveTemplateRequest now env r False db of
                Inl resp \<Rightarrow> resp
              | Inr resolved \<Rightarrow> render_response en (nv_Templates env) configName resolved)"

definition GeneratedConfigHandler :: "time \<Rightarrow> engine \<Rightarrow> 'p Environment \<Rightarrow> Request \<Rightarrow> 'p \<Rightarrow> response" where
  "GeneratedConfigHandler now en env r db =
     (let configName = path_clean (hr_Path r)
      in if configName = [] \<or> configName = ''.'' then HttpError 404 (Msg ''No generated config name provided'')
         else case resolveTemplateRequest now env r True db of
                Inl resp \<Rightarrow> resp
              | Inr resolved \<Rightarrow> render_response en (nv_Templates env) (''generated/'' @ configName) resolved)"

definition TemplateParamsHandler :: "'p Environment \<Rightarrow> Request \<Rightarrow> response" where
  "TemplateParamsHandler env r =
     (let script = first_value (hr_Query r) ''script''; envName = first_value (hr_Query r) ''environment''
      in if script = [] then HttpError 500 (Msg ''Required script parameter'')
         else HttpStrings (Filter (ListVariables (nv_Templates env) script (if envName = [] then ''default'' else envName))
                (\<lambda>s. \<not> StringInSlice s (nv_ParamsBlacklist env))))"

subsection \<open>The iPXE menu\<close>

record ipxe_Script =
  ix_Name :: string
  ix_Env :: string
  ix_Path :: string

definition trimSuffix :: "string \<Rightarrow> string \<Rightarrow> string" where
  "trimSuffix s p = (if hasSuffix s p then take (length s - length p) s else s)"

definition scriptDirList :: "(string \<Rightarrow> (string \<times> bool) list option) \<Rightarrow> string \<Rightarrow> string \<Rightarrow> string list" where
  "scriptDirList readDir templateExtension datadir =
     (case readDir datadir of
        None \<Rightarrow> []
      | Some files \<Rightarrow> map (\<lambda>(name, isDir). trimSuffix name templateExtension)
          (filter (\<lambda>(name, isDir). \<not> (isDir \<or> \<not> hasSuffix name (''.ipxe'' @ templateExtension))) files))"

definition appendScriptsFromDir ::
    "(string \<Rightarrow> (string \<times> bool) list option) \<Rightarrow> ipxe_Script list \<Rightarrow> string \<Rightarrow> string \<Rightarrow> string \<Rightarrow> string \<Rightarrow> ipxe_Script list" where
  "appendScriptsFromDir readDir scripts templateExtension dir e p =
     scripts @ map (\<lambda>s. \<lparr>ix_Name = s, ix_Env = e, ix_Path = p\<rparr>) (scriptDirList readDir templateExtension dir)"

definition ScriptList :: "(string \<Rightarrow> (string \<times> bool) list option) \<Rightarrow> 'p Environment \<Rightarrow> ipxe_Script list" where
  "ScriptList readDir env =
     fold (\<lambda>e scripts. appendScriptsFromDir readDir scripts (nv_TemplateExtension env)
             (path_join [nv_DataDir env, nv_EnvDir env, e, ''ipxe'']) e (''/env/'' @ e @ ''/configs/''))
       (nv_Environments env)
       (appendScriptsFromDir readDir [] (nv_TemplateExtension env) (path_join [nv_DataDir env, ''ipxe'']) [] ''/configs/'')"

definition menu_item :: "ipxe_Script \<Rightarrow> string" where
  "menu_item s =
     (let desc = (if ix_Env s \<noteq> [] then ix_Name s @ '' ['' @ ix_Env s @ '']'' else ix_Name s)
      in ''item '' @ ix_Path s @ ix_Name s @ '' '' @ desc @ newline)"

definition IPXEMenu :: "(string \<Rightarrow> (string \<times> bool) list option) \<Rightarrow> 'p Environment \<Rightarrow> response" where
  "IPXEMenu readDir env =
     (let scripts = ScriptList readDir env
      in if scripts = [] then HttpError 500 (Msg ''No Scripts Found'')
         else HttpText (script_lines [''#!ipxe'', ''menu Choose target to boot''] @ concat (map menu_item scripts)
           @ script_lines [[], ''choose target'', ''echo -n Enter hostname or none:'', ''read hostname'',
               ''set baseurl '' @ nv_BaseURL env, ''# Boot it as intended.'', ''chain ${target}'']))"

subsection \<open>Facts: environments in paths\<close>

lemma env_char_slash: "\<not> env_char CHR ''/''"
  by code_simp

lemma envRe_env:
  assumes "name \<noteq> []" "list_all env_char name" "CHR 0x0A \<notin> set path"
  shows "envRe (''/env/'' @ name @ CHR ''/'' # path) = Some (name, CHR ''/'' # path)"
proof -
  have name: "takeWhile env_char (name @ CHR ''/'' # path) = name" "dropWhile env_char (name @ CHR ''/'' # path) = CHR ''/'' # path"
    using assms(2) env_char_slash by (auto simp: list_all_iff takeWhile_append2 dropWhile_append2)
  have "takeWhile (\<lambda>c. c \<noteq> CHR 0x0A) path = path" using assms(3) by (auto simp: takeWhile_eq_all_conv)
  with assms(1) name show ?thesis by (simp add: envRe_def hasPrefix_def env_char_slash)
qed

lemma envRe_bad_name:
  assumes "CHR ''/'' \<notin> set name" "\<not> list_all env_char name"
  shows "envRe (''/env/'' @ name @ CHR ''/'' # path) = None"
proof -
  obtain c where c: "c \<in> set name" "\<not> env_char c" using assms(2) by (auto simp: list_all_iff)
  then have drop: "dropWhile env_char (name @ CHR ''/'' # path) = dropWhile env_char name @ CHR ''/'' # path"
    by (rule dropWhile_append1)
  have "dropWhile env_char name \<noteq> []" using c by auto
  then obtain d ds where d: "dropWhile env_char name = d # ds" by (cases "dropWhile env_char name") auto
  then have "d \<in> set name" by (metis list.set_intros(1) set_dropWhileD)
  with assms(1) have "d \<noteq> CHR ''/''" by metis
  then show ?thesis by (simp add: envRe_def drop d)
qed

lemma envRe_other: "\<not> hasPrefix path ''/env/'' \<Longrightarrow> hd path \<noteq> CHR '':'' \<Longrightarrow> envRe path = None"
  by (simp add: envRe_def)

subsection \<open>Facts: template requests\<close>

text \<open>A request is resolved with a reference exactly by what the store gives for it.\<close>

definition with_base :: "'p Environment \<Rightarrow> string \<Rightarrow> tparams \<Rightarrow> tparams \<times> string" where
  "with_base env envName variables =
     (AList.update ''baseURL'' (TVal (VStr (BaseURLforEnvName (nv_BaseURL env) envName))) variables, envName)"

definition session_env :: "Request \<Rightarrow> Snapshot \<Rightarrow> string" where
  "session_env r snapshot = (if sn_Environment snapshot \<noteq> [] then sn_Environment snapshot else hr_EnvName r)"

lemma resolve_reference:
  assumes "map_of (firstQueryValues r) QueryParam = Some ref" "ref \<noteq> []" "nv_BootSessions env = Some s"
  shows "resolveTemplateRequest now env r requireRef db =
    (case Get now s ref db of
       Inl NoRows \<Rightarrow> Inl (HttpError 404 (Msg ''boot reference not found''))
     | Inl e \<Rightarrow> Inl (HttpError 500 (Msg ''failed to resolve boot reference''))
     | Inr snapshot \<Rightarrow> Inr (with_base env (session_env r snapshot)
         (snapshot_variables snapshot ref (AList.delete QueryParam (firstQueryValues r)))))"
  using assms by (simp add: resolveTemplateRequest_def Let_def with_base_def session_env_def split: sum.splits store_error.splits)

lemma resolve_required:
  assumes "resolveTemplateRequest now env r True db = Inr resolved"
  obtains ref s snapshot where "map_of (firstQueryValues r) QueryParam = Some ref" "ref \<noteq> []" "nv_BootSessions env = Some s"
    "Get now s ref db = Inr snapshot"
    "resolved = with_base env (session_env r snapshot)
       (snapshot_variables snapshot ref (AList.delete QueryParam (firstQueryValues r)))"
proof -
  from assms obtain ref where ref: "map_of (firstQueryValues r) QueryParam = Some ref" "ref \<noteq> []"
    by (auto simp: resolveTemplateRequest_def Let_def split: option.splits if_splits)
  moreover from assms ref obtain s where s: "nv_BootSessions env = Some s"
    by (auto simp: resolveTemplateRequest_def Let_def split: option.splits if_splits)
  ultimately show ?thesis
    using assms that by (auto simp: resolve_reference [OF ref s] split: sum.splits store_error.splits)
qed

lemma render_response_text:
  "render_response en templates name resolved = HttpText text \<longleftrightarrow>
     RenderTemplate en templates name (Some (fst resolved)) (snd resolved) = Inr text"
  by (auto simp: render_response_def split: sum.splits render_error.splits)

lemma map_of_query: "map_of (query_params q) k = map_option VStr (map_of q k)"
  by (induction q) (auto simp: query_params_def)

lemma lookup_session_params:
  assumes "k \<notin> {''boot_ref'', ''boot_ref_query'', ''boot_ref_query_suffix'', ''boot_ref_query_question''}"
  shows "lookup_map (ApplyReferenceParams (Some es) ref) k = map_of es k"
  using assms by (auto simp: ApplyReferenceParams_def Let_def lookup_map_def QueryParam_def TemplateParam_def)

lemma snapshot_variables_keep:
  assumes "lookup_map (ApplyReferenceParams (Some (put_all (put_all [] (entries (sn_Params snapshot))) (query_params q))) ref) k = Some v"
    and "k \<noteq> ''provisioning''" "k \<noteq> ''users'' \<or> entries (sn_Users snapshot) = []"
  shows "map_of (snapshot_variables snapshot ref q) k = Some (TVal v)"
  using assms projection_keep [of "attached _ _ _" k "TVal v"]
  by (simp add: snapshot_variables_def Let_def ParamsWithProvisioning_def map_of_attached flip: attached_def)

lemma plain_render:
  assumes "name \<notin> set debian_templates" "\<not> isEmbeddedTemplate s name defaultEnvironment"
    and "map_of (st_envTemplates s) defaultEnvironment = Some e" "map_of (te_templateObj e) name = Some tr"
    and "\<not> contains (tr_String tr) ''<no value>''"
    and p: "p = (case params_provisioning params of None \<Rightarrow> zero_provisioning | Some q \<Rightarrow> q)" and "ins_ExtraTemplate (pv_Installer (copyProvisioningConfig p)) = []"
  shows "RenderTemplate plain_engine s name (Some params) [] = Inr (tr_String tr)"
proof -
  let ?P = "set_text ''installerExtra'' [] (ParamsWithProvisioningT params [] p)"
  have "params_provisioning ?P = Some (copyProvisioningConfig p)"
    by (simp add: params_provisioning_def ParamsWithProvisioningT_def ParamsWithUsersT_def projection_keep)
  then have "withInstallerExtra plain_engine s (ParamsWithProvisioningT params [] p) defaultEnvironment name = Inr ?P"
    using assms(7) by (simp add: withInstallerExtra_def Let_def)
  then show ?thesis
    using assms(1-5) by (simp add: RenderTemplate_def Let_def p [symmetric] validateRenderParams_def execute_fallback_def execute_at_def plain_engine_def)
qed

lemma snapshot_provisioning:
  "params_provisioning (AList.update ''baseURL'' v (snapshot_variables snapshot ref q)) = Some (copyProvisioningConfig (sn_Provisioning snapshot))"
  by (simp add: params_provisioning_def snapshot_variables_def Let_def ParamsWithProvisioning_def projection_keep)

lemma ScriptList_items:
  assumes "s \<in> set (ScriptList readDir env)"
  shows "ix_Env s = [] \<and> ix_Path s = ''/configs/'' \<or> ix_Env s \<in> set (nv_Environments env) \<and> ix_Path s = ''/env/'' @ ix_Env s @ ''/configs/''"
proof -
  have "s \<in> set acc \<or> ix_Env s \<in> set es \<and> ix_Path s = ''/env/'' @ ix_Env s @ ''/configs/''"
    if "s \<in> set (fold (\<lambda>e scripts. appendScriptsFromDir readDir scripts (nv_TemplateExtension env)
             (path_join [nv_DataDir env, nv_EnvDir env, e, ''ipxe'']) e (''/env/'' @ e @ ''/configs/'')) es acc)" for es acc
    using that by (induction es arbitrary: acc) (fastforce simp: appendScriptsFromDir_def)+
  from this [OF assms [unfolded ScriptList_def]] show ?thesis by (auto simp: appendScriptsFromDir_def)
qed

subsection \<open>Samples\<close>

definition sample_ref_env :: "store Environment" where
  "sample_ref_env = default_environment\<lparr>nv_BaseURL := ''boot:8081'', nv_BootSessions := Some sample_sessions,
     nv_Templates := NewTemplates\<lparr>st_envTemplates := [(defaultEnvironment, empty_environment
       \<lparr>te_templateObj := [(''generated/motd'', \<lparr>tr_Root = ListNode [TextNode ''hi''], tr_String = ''hi''\<rparr>)]\<rparr>)]\<rparr>\<rparr>"

definition sample_ref_request :: Request where
  "sample_ref_request = \<lparr>hr_Method = ''GET'', hr_Path = ''motd'', hr_RawPath = [], hr_EnvName = [], hr_Query = [(''ref'', [''r1'']), (''disk'', [''sda''])], hr_PostForm = None,
     hr_Host = [], hr_RemoteAddr = [], hr_URLParam = []\<rparr>"

definition sample_stored :: Snapshot where
  "sample_stored = complete_snapshot (24 * hour) 5 ''r1'' sample_snapshot"

lemma sample_ref_facts:
  "map_of (firstQueryValues sample_ref_request) QueryParam = Some ''r1''" "nv_BootSessions sample_ref_env = Some sample_sessions"
  "path_clean (hr_Path sample_ref_request) = ''motd''" "Get 6 sample_sessions ''r1'' sample_created = Inr sample_stored"
  "session_env sample_ref_request sample_stored = []"
  by (code_simp, simp add: sample_ref_env_def, code_simp+)

lemma sample_generated:
  "render_response plain_engine (nv_Templates sample_ref_env) ''generated/motd''
     (with_base sample_ref_env [] (snapshot_variables sample_stored ''r1'' q)) = HttpText ''hi''"
proof -
  let ?tr = "\<lparr>tr_Root = ListNode [TextNode ''hi''], tr_String = ''hi''\<rparr>"
  let ?e = "empty_environment\<lparr>te_templateObj := [(''generated/motd'', ?tr)]\<rparr>"
  let ?s = "NewTemplates\<lparr>st_envTemplates := [(defaultEnvironment, ?e)]\<rparr>"
  have no: "\<not> contains (tr_String ?tr) ''<no value>''"
    "ins_ExtraTemplate (pv_Installer (copyProvisioningConfig (copyProvisioningConfig (sn_Provisioning sample_stored)))) = []"
    by code_simp+
  have "\<not> isEmbeddedTemplate ?s ''generated/motd'' defaultEnvironment" "''generated/motd'' \<notin> set debian_templates"
    by (simp_all add: isEmbeddedTemplate_def empty_environment_def flag_at_def defaultEnvironment_def debian_templates_def)
  from plain_render [OF this(2,1) _ _ no(1) _ no(2), of ?e] show ?thesis
    by (simp add: render_response_text with_base_def sample_ref_env_def snapshot_provisioning)
qed

subsection \<open>Properties\<close>

text \<open>
  C31. A generated file, which may hold secrets of the host, is only given for a boot reference that the store
  resolves, and it is rendered from the session stored under it: from its parameters, accounts and provisioning data,
  and for its environment.
\<close>

theorem generated_needs_reference:
  assumes "GeneratedConfigHandler now en env r db = HttpText text"
  shows "\<exists>ref s snapshot. map_of (firstQueryValues r) QueryParam = Some ref \<and> ref \<noteq> [] \<and> nv_BootSessions env = Some s
    \<and> Get now s ref db = Inr snapshot
    \<and> RenderTemplate en (nv_Templates env) (''generated/'' @ path_clean (hr_Path r))
        (Some (AList.update ''baseURL'' (TVal (VStr (BaseURLforEnvName (nv_BaseURL env) (session_env r snapshot))))
          (snapshot_variables snapshot ref (AList.delete QueryParam (firstQueryValues r)))))
        (session_env r snapshot) = Inr text"
proof -
  from assms obtain resolved where res: "resolveTemplateRequest now env r True db = Inr resolved"
    and out: "render_response en (nv_Templates env) (''generated/'' @ path_clean (hr_Path r)) resolved = HttpText text"
    by (auto simp: GeneratedConfigHandler_def Let_def resolveTemplateRequest_def split: if_splits sum.splits option.splits store_error.splits)
  from res show ?thesis
    by (rule resolve_required) (use out in \<open>auto simp: render_response_text with_base_def\<close>)
qed

theorem generated_needs_reference_witness:
  "GeneratedConfigHandler 6 plain_engine sample_ref_env sample_ref_request sample_created = HttpText ''hi''
    \<and> (\<exists>s snapshot. nv_BootSessions sample_ref_env = Some s \<and> Get 6 s ''r1'' sample_created = Inr snapshot)"
proof -
  have g: "GeneratedConfigHandler 6 plain_engine sample_ref_env sample_ref_request sample_created = HttpText ''hi''"
    using sample_generated
    by (simp add: GeneratedConfigHandler_def Let_def resolve_reference [OF sample_ref_facts(1) _ sample_ref_facts(2)] sample_ref_facts)
  from generated_needs_reference [OF g] g sample_ref_facts(1) show ?thesis by auto
qed



text \<open>
  A template rendered for a reference sees the reference itself and the base URL of its environment; any other
  variable is what the query says, and otherwise what the session stored.
\<close>

theorem request_variables:
  assumes "resolveTemplateRequest now env r requireRef db = Inr (vars, envName)"
    and "map_of (firstQueryValues r) QueryParam = Some ref" "ref \<noteq> []" "nv_BootSessions env = Some s"
    and "Get now s ref db = Inr snapshot" "distinct (map fst (hr_Query r))" "wf_map (sn_Params snapshot)"
    and "k \<notin> set [''users'', ''provisioning'', ''baseURL'', QueryParam, ''boot_ref'', ''boot_ref_query'', ''boot_ref_query_suffix'',
           ''boot_ref_query_question'']"
  shows "map_of vars ''boot_ref'' = Some (TVal (VStr ref))
    \<and> map_of vars ''baseURL'' = Some (TVal (VStr (BaseURLforEnvName (nv_BaseURL env) envName)))
    \<and> (case map_of (firstQueryValues r) k of
         Some v \<Rightarrow> map_of vars k = Some (TVal (VStr v))
       | None \<Rightarrow> \<forall>v. lookup_map (sn_Params snapshot) k = Some v \<longrightarrow> map_of vars k = Some (TVal v))"
proof -
  let ?q = "AList.delete QueryParam (firstQueryValues r)"
  let ?es = "put_all (put_all [] (entries (sn_Params snapshot))) (query_params ?q)"
  have vars: "vars = AList.update ''baseURL'' (TVal (VStr (BaseURLforEnvName (nv_BaseURL env) envName))) (snapshot_variables snapshot ref ?q)"
    using assms(1) by (auto simp: resolve_reference [OF assms(2-4)] assms(5) with_base_def)
  have dq: "distinct (map fst (firstQueryValues r))"
    using assms(6) by (auto simp: firstQueryValues_def comp_def case_prod_beta distinct_map_filter)
  have "map fst (query_params ?q) = map fst ?q" by (simp add: query_params_def case_prod_beta)
  then have "distinct (map fst (query_params ?q))" using dq by (simp add: distinct_delete)
  then have es: "map_of ?es k = (case map_of (firstQueryValues r) k of Some v \<Rightarrow> Some (VStr v) | None \<Rightarrow> lookup_map (sn_Params snapshot) k)"
    using assms(7,8) by (auto simp: map_of_put_all map_of_query delete_conv' wf_map_def lookup_map_def split: option.splits)
  have "map_of vars k = Some (TVal v)" if "map_of ?es k = Some v" for v
    using that assms(8) snapshot_variables_keep [of snapshot ?q ref k v] by (simp add: vars lookup_session_params)
  moreover have "lookup_map (ApplyReferenceParams (Some ?es) ref) ''boot_ref'' = Some (VStr ref)"
    using assms(3) by (simp add: ApplyReferenceParams_def Let_def lookup_map_def TemplateParam_def QueryParam_def)
  ultimately show ?thesis
    using es snapshot_variables_keep [of snapshot ?q ref "''boot_ref''"] by (auto simp: vars split: option.splits)
qed
lemma sample_ref_resolved:
  "resolveTemplateRequest 6 sample_ref_env sample_ref_request False sample_created =
     Inr (with_base sample_ref_env [] (snapshot_variables sample_stored ''r1'' (AList.delete QueryParam (firstQueryValues sample_ref_request))))"
  by (simp add: resolve_reference [OF sample_ref_facts(1) _ sample_ref_facts(2)] sample_ref_facts)

theorem request_variables_witness:
  "\<exists>vars. resolveTemplateRequest 6 sample_ref_env sample_ref_request False sample_created = Inr (vars, [])
    \<and> map_of vars ''disk'' = Some (TVal (VStr ''sda'')) \<and> map_of vars ''hostname'' = Some (TVal (VStr ''web1''))
    \<and> map_of vars ''boot_ref'' = Some (TVal (VStr ''r1''))"
proof -
  obtain vars where v: "resolveTemplateRequest 6 sample_ref_env sample_ref_request False sample_created = Inr (vars, [])"
    by (simp add: sample_ref_resolved with_base_def)
  have d: "distinct (map fst (hr_Query sample_ref_request))" "wf_map (sn_Params sample_stored)"
    "lookup_map (sn_Params sample_stored) ''hostname'' = Some (VStr ''web1'')"
    "map_of (firstQueryValues sample_ref_request) ''disk'' = Some ''sda''" "map_of (firstQueryValues sample_ref_request) ''hostname'' = None"
    by code_simp+
  note V = request_variables [OF v sample_ref_facts(1) _ sample_ref_facts(2,4) d(1,2)]
  show ?thesis using v V [of "''disk''"] V [of "''hostname''"] d(3-5) by (simp add: QueryParam_def)
qed

text \<open>
  An entry of the boot menu leads to the configuration of its environment exactly when the name of the
  environment is made of the characters the server reads in a path. Any directory counts as an environment, so the
  entries of one with another name, such as a dot, are looked up as paths of the default environment.
\<close>

theorem menu_entries:
  assumes "s \<in> set (ScriptList readDir env)" "\<forall>e \<in> set (nv_Environments env). e \<noteq> [] \<and> CHR ''/'' \<notin> set e"
    and "CHR 0x0A \<notin> set (ix_Name s)"
  shows "environmentMiddleware (r\<lparr>hr_Path := ix_Path s @ ix_Name s\<rparr>) =
    (if list_all env_char (ix_Env s) then r\<lparr>hr_Path := ''/configs/'' @ ix_Name s, hr_EnvName := ix_Env s\<rparr>
     else r\<lparr>hr_Path := ix_Path s @ ix_Name s, hr_EnvName := []\<rparr>)"
proof (cases "ix_Env s = []")
  case True
  then have "ix_Path s = ''/configs/''" using ScriptList_items [OF assms(1)] assms(2) by auto
  moreover have "envRe (''/configs/'' @ ix_Name s) = None" by (rule envRe_other) (simp_all add: hasPrefix_def)
  ultimately show ?thesis using True by (simp add: environmentMiddleware_def)
next
  case False
  then have e: "ix_Env s \<in> set (nv_Environments env)" "ix_Path s = ''/env/'' @ ix_Env s @ ''/configs/''"
    using ScriptList_items [OF assms(1)] by auto
  then have "CHR ''/'' \<notin> set (ix_Env s)" using assms(2) by metis
  then show ?thesis
    using envRe_env [OF False, of "''configs/'' @ ix_Name s"] envRe_bad_name [of "ix_Env s" "''configs/'' @ ix_Name s"] assms(3)
    by (auto simp: environmentMiddleware_def e(2))
qed

definition sample_menu_env :: "store Environment" where
  "sample_menu_env = sample_ref_env\<lparr>nv_DataDir := ''/srv'', nv_EnvDir := ''env'', nv_TemplateExtension := ''.slc'',
     nv_Environments := [''prod'', ''prod.eu'']\<rparr>"

definition sample_scripts :: "string \<Rightarrow> (string \<times> bool) list option" where
  "sample_scripts d = (if hasSuffix d ''/ipxe'' then Some [(''debian.ipxe.slc'', False)] else None)"

theorem menu_entries_witness:
  "hr_EnvName (environmentMiddleware (sample_ref_request\<lparr>hr_Path := ''/env/prod/configs/debian.ipxe''\<rparr>)) = ''prod''
   \<and> hr_EnvName (environmentMiddleware (sample_ref_request\<lparr>hr_Path := ''/env/prod.eu/configs/debian.ipxe''\<rparr>)) = []"
proof -
  let ?item = "\<lambda>e. \<lparr>ix_Name = ''debian.ipxe'', ix_Env = e, ix_Path = ''/env/'' @ e @ ''/configs/''\<rparr>"
  have items: "ScriptList sample_scripts sample_menu_env =
      [\<lparr>ix_Name = ''debian.ipxe'', ix_Env = [], ix_Path = ''/configs/''\<rparr>, ?item ''prod'', ?item ''prod.eu'']" by code_simp
  have envs: "\<forall>e \<in> set (nv_Environments sample_menu_env). e \<noteq> [] \<and> CHR ''/'' \<notin> set e" by (simp add: sample_menu_env_def)
  have names: "list_all env_char ''prod''" "\<not> list_all env_char ''prod.eu''" by code_simp+
  show ?thesis
    using menu_entries [of "?item ''prod''" sample_scripts sample_menu_env sample_ref_request]
      menu_entries [of "?item ''prod.eu''" sample_scripts sample_menu_env sample_ref_request] items envs names by simp
qed

end
