(* ===== verification/Paths.thy ===== *)
theory Paths
  imports GoPath
begin

text \<open>
  Facts on cleaned paths: the elements of a path, what it means to be at or below a directory, and that joining a
  directory with a cleaned absolute path never leaves it.
\<close>

subsection \<open>Elements\<close>

definition rooted :: "string \<Rightarrow> bool" where
  "rooted p \<longleftrightarrow> p \<noteq> [] \<and> hd p = CHR ''/''"

definition path_elems :: "string \<Rightarrow> string list" where
  "path_elems p = clean_elems (rooted p) [] (split_on CHR ''/'' p)"

text \<open>A path at or below a directory: its elements are those of the directory, followed by plain names.\<close>

definition below :: "string \<Rightarrow> string \<Rightarrow> bool" where
  "below dir p \<longleftrightarrow> rooted p = rooted dir \<and> (\<exists>es. list_all plain es \<and> path_elems p = path_elems dir @ es)"

lemma path_elems_form: "clean_form (rooted p) (path_elems p)"
  unfolding path_elems_def
proof (rule clean_elems_form)
  show "clean_form (rooted p) (rev [])"
    unfolding clean_form_def by (intro exI [of _ 0] exI [of _ "[]"]) simp
  show "\<forall>e \<in> set (split_on CHR ''/'' p). CHR ''/'' \<notin> set e" using split_on_free by blast
qed

lemma clean_form_free: "clean_form r es \<Longrightarrow> e \<in> set es \<Longrightarrow> e \<noteq> [] \<and> CHR ''/'' \<notin> set e"
proof -
  assume "clean_form r es" "e \<in> set es"
  then obtain n names where "es = replicate n ''..'' @ names" "list_all plain names" unfolding clean_form_def by blast
  with \<open>e \<in> set es\<close> have "e = ''..'' \<or> plain e" by (auto simp: list_all_iff split: if_splits)
  then show ?thesis by (auto simp: plain_def)
qed

lemma split_on_append: "split_on c (a @ c # b) = split_on c a @ split_on c b"
proof (induction a)
  case (Cons d a)
  obtain t ts where "split_on c a = t # ts" by (cases "split_on c a") auto
  with Cons show ?case by simp
qed simp

lemma clean_elems_append: "clean_elems r out (as @ bs) = clean_elems r (rev (clean_elems r out as)) bs"
  by (induction r out as rule: clean_elems.induct) auto

lemma path_clean_elems: "path_clean p = (if p = [] then ''.'' else if rooted p then ''/'' @ join ''/'' (path_elems p)
    else if path_elems p = [] then ''.'' else join ''/'' (path_elems p))"
  by (simp add: path_clean_def Let_def path_elems_def rooted_def)

lemma join_Cons_head: "es \<noteq> [] \<Longrightarrow> hd es \<noteq> [] \<Longrightarrow> join sep es \<noteq> [] \<and> hd (join sep es) = hd (hd es)"
  by (cases "(sep, es)" rule: join.cases) auto

lemma path_elems_clean: "p \<noteq> [] \<Longrightarrow> path_elems (path_clean p) = path_elems p \<and> rooted (path_clean p) = rooted p"
proof -
  assume p: "p \<noteq> []"
  let ?es = "path_elems p"
  note form = path_elems_form [of p]
  have split: "split_on CHR ''/'' (join ''/'' ?es) = ?es" if "?es \<noteq> []"
    using that clean_form_free [OF form] by (intro split_on_join) auto
  consider "rooted p" "?es = []" | "rooted p" "?es \<noteq> []" | "\<not> rooted p" "?es = []" | "\<not> rooted p" "?es \<noteq> []" by blast
  then show ?thesis
  proof cases
    case 1
    with p show ?thesis by (simp add: path_clean_elems) (simp add: path_elems_def rooted_def)
  next
    case 2
    have "path_elems (''/'' @ join ''/'' ?es) = clean_elems True [] ?es"
      using split 2 by (simp add: path_elems_def [of "CHR ''/'' # join ''/'' ?es"] rooted_def)
    also have "\<dots> = ?es" using clean_elems_id form 2 by simp
    finally show ?thesis using p 2 by (simp add: path_clean_elems) (simp add: rooted_def)
  next
    case 3
    with p show ?thesis by (simp add: path_clean_elems) (simp add: path_elems_def rooted_def)
  next
    case 4
    have h: "hd ?es \<noteq> []" "CHR ''/'' \<notin> set (hd ?es)" using clean_form_free [OF form, of "hd ?es"] 4 by auto
    from hd_in_set [OF h(1)] h(2) have "hd (hd ?es) \<noteq> CHR ''/''" by metis
    then have "\<not> rooted (join ''/'' ?es)"
      using join_Cons_head [of ?es "''/''"] 4 h(1) by (simp add: rooted_def)
    then have "path_elems (join ''/'' ?es) = clean_elems False [] ?es"
      using split 4 by (simp add: path_elems_def [of "join ''/'' ?es"])
    also have "\<dots> = ?es" using clean_elems_id form 4 by simp
    finally show ?thesis using p 4 \<open>\<not> rooted (join ''/'' ?es)\<close> by (simp add: path_clean_elems)
  qed
qed

lemma path_clean_nonempty: "path_clean p \<noteq> []"
proof -
  have "join ''/'' (path_elems p) \<noteq> []" if "path_elems p \<noteq> []"
    using join_Cons_head [OF that] clean_form_free [OF path_elems_form, of "hd (path_elems p)" p] that by simp
  then show ?thesis by (simp add: path_clean_elems)
qed

lemma path_join_nonempty: "e \<in> set es \<Longrightarrow> e \<noteq> [] \<Longrightarrow> path_join es \<noteq> []"
  by (auto simp: path_join_def Let_def path_clean_nonempty filter_empty_conv)

subsection \<open>Staying below a directory\<close>

lemma cleaned_plain:
  obtains es where "list_all plain es" "trimPrefix (path_clean (''/'' @ p)) ''/'' = join ''/'' es"
proof -
  have r: "rooted (''/'' @ p)" by (simp add: rooted_def)
  then have "clean_form True (path_elems (''/'' @ p))" using path_elems_form [of "''/'' @ p"] by simp
  then have "list_all plain (path_elems (''/'' @ p))" by (auto simp: clean_form_def)
  moreover have "trimPrefix (path_clean (''/'' @ p)) ''/'' = join ''/'' (path_elems (''/'' @ p))"
    using r by (simp add: path_clean_elems trimPrefix_def hasPrefix_def)
  ultimately show ?thesis using that by blast
qed

lemma below_refl: "below dir dir"
  by (auto simp: below_def intro: exI [of _ "[]"])

lemma below_clean: "p \<noteq> [] \<Longrightarrow> below dir (path_clean p) = below dir p"
  by (simp add: below_def path_elems_clean)

text \<open>An element that is a single dot, as the cleaned empty path, adds nothing.\<close>

lemma join_below:
  assumes "dir \<noteq> []" "list_all plain es"
  shows "below dir (path_join [dir, join ''/'' es])" "below dir (path_join [dir, if es = [] then ''.'' else join ''/'' es])"
proof -
  have step: "below dir (path_clean (dir @ CHR ''/'' # q))" if "split_on CHR ''/'' q = (if es = [] then [''.''] else es)" for q
  proof -
    have "path_elems (dir @ CHR ''/'' # q) = path_elems dir @ es" "rooted (dir @ CHR ''/'' # q) = rooted dir"
      using assms that by (auto simp: path_elems_def rooted_def split_on_append clean_elems_append clean_elems_plain)
    with assms(2) show ?thesis by (auto simp: below_clean) (auto simp: below_def)
  qed
  have ne: "join ''/'' es = [] \<longleftrightarrow> es = []"
    using assms(2) join_Cons_head [of es "''/''"] by (cases es) (auto simp: plain_def)
  have sp: "es \<noteq> [] \<Longrightarrow> split_on CHR ''/'' (join ''/'' es) = es"
    using assms(2) by (intro split_on_join) (auto simp: list_all_iff plain_def)
  show "below dir (path_join [dir, join ''/'' es])"
    using assms(1) step [of "join ''/'' es"] ne sp below_refl by (cases "es = []") (simp_all add: path_join_def below_clean)
  show "below dir (path_join [dir, if es = [] then ''.'' else join ''/'' es])"
    using assms(1) step [of "if es = [] then ''.'' else join ''/'' es"] ne sp by (cases "es = []") (simp_all add: path_join_def)
qed

end
