(* ===== verification/Static.thy ===== *)
theory Static
  imports Requests Paths
begin

text \<open>
  Static files (\<^verbatim>\<open>handlers/static.go\<close>): a request path is cleaned and looked up in layers, the directories of the
  environment and of the data directory on disk, and the embedded file system last. The disk and the embedded file
  systems are functions from paths to what is found there. Serving a file is writing its content; ranges and
  caching belong to \<^verbatim>\<open>http.ServeContent\<close>.
\<close>

subsection \<open>Layers\<close>

datatype fs_error = NotExist | FsError string

text \<open>A directory lists its entries, each with whether it is a directory; reading it or an entry may fail.\<close>

datatype fs_node = FileNode string | DirNode "string + (string \<times> (string + bool)) list"

type_synonym fs = "string \<Rightarrow> fs_error + fs_node"

record overlayLayer =
  ol_dir :: string
  ol_fsys :: "fs option"

definition disk_layer :: "string \<Rightarrow> overlayLayer" where
  "disk_layer dir = \<lparr>ol_dir = dir, ol_fsys = None\<rparr>"

definition layer_open :: "fs \<Rightarrow> overlayLayer \<Rightarrow> string \<Rightarrow> fs_error + fs_node" where
  "layer_open os l fp =
     (case ol_fsys l of Some fsys \<Rightarrow> fsys fp | None \<Rightarrow> os (path_clean (path_join [ol_dir l, fp])))"

definition cleanRequestPath :: "string \<Rightarrow> string" where
  "cleanRequestPath requestPath =
     (let cleaned = trimPrefix (path_clean (''/'' @ requestPath)) ''/'' in if cleaned = [] then ''.'' else cleaned)"

fun overlayPathStatus :: "fs \<Rightarrow> overlayLayer list \<Rightarrow> string \<Rightarrow> string + bool \<times> bool" where
  "overlayPathStatus os [] fp = Inr (False, False)"
| "overlayPathStatus os (l # ls) fp =
     (case layer_open os l fp of
        Inl NotExist \<Rightarrow> overlayPathStatus os ls fp
      | Inl (FsError e) \<Rightarrow> Inl e
      | Inr (FileNode _) \<Rightarrow> Inr (True, False)
      | Inr (DirNode _) \<Rightarrow> Inr (True, True))"

subsection \<open>Serving from layers\<close>

fun merge_entries :: "(string \<times> (string + bool)) list \<Rightarrow> bool entries \<Rightarrow> string + bool entries" where
  "merge_entries [] fileList = Inr fileList"
| "merge_entries ((name, info) # files) fileList =
     (if map_of fileList name \<noteq> None then merge_entries files fileList
      else case info of Inl e \<Rightarrow> Inl e | Inr isDir \<Rightarrow> merge_entries files (AList.update name isDir fileList))"

text \<open>The state of the loop over the layers: is a directory, its entries so far, the first file.\<close>

type_synonym overlay_state = "bool \<times> bool entries \<times> string option"

fun overlay_loop :: "fs \<Rightarrow> string \<Rightarrow> overlayLayer list \<Rightarrow> overlay_state \<Rightarrow> string + overlay_state" where
  "overlay_loop os fp [] st = Inr st"
| "overlay_loop os fp (l # ls) (isDir, fileList, firstFile) =
     (case layer_open os l fp of
        Inl NotExist \<Rightarrow> overlay_loop os fp ls (isDir, fileList, firstFile)
      | Inl (FsError e) \<Rightarrow> Inl e
      | Inr (DirNode (Inl e)) \<Rightarrow> Inl e
      | Inr (DirNode (Inr files)) \<Rightarrow>
          bindE (merge_entries files fileList) (\<lambda>fileList. overlay_loop os fp ls (True, fileList, firstFile))
      | Inr (FileNode content) \<Rightarrow>
          overlay_loop os fp ls (isDir, fileList, if firstFile = None then Some content else firstFile))"

definition index_line :: "string \<times> bool \<Rightarrow> string" where
  "index_line f =
     (let name = (if snd f then fst f @ ''/'' else fst f)
      in ''<a href='' @ [CHR 0x22] @ name @ [CHR 0x22] @ ''>'' @ name @ ''</a>'' @ newline)"

definition writeDirectoryIndex :: "bool entries \<Rightarrow> string" where
  "writeDirectoryIndex fileList =
     ''<pre>'' @ newline @ concat (map index_line (sort_key fst fileList)) @ ''</pre>'' @ newline"

definition overlay_serve :: "fs \<Rightarrow> overlayLayer list \<Rightarrow> string \<Rightarrow> response" where
  "overlay_serve os layers requestPath =
     (case overlay_loop os (cleanRequestPath requestPath) layers (False, [], None) of
        Inl e \<Rightarrow> HttpError 500 (Msg e)
      | Inr (isDir, fileList, firstFile) \<Rightarrow>
          if isDir then HttpText (writeDirectoryIndex fileList)
          else (case firstFile of None \<Rightarrow> HttpError 404 (Msg ''404 page not found'') | Some content \<Rightarrow> HttpText content))"

definition overlayLayersWithFS :: "fs \<Rightarrow> string list \<Rightarrow> overlayLayer list" where
  "overlayLayersWithFS lower diskDirs = map disk_layer diskDirs @ [\<lparr>ol_dir = [], ol_fsys = Some lower\<rparr>]"

definition OverlayFileServer :: "fs \<Rightarrow> string \<Rightarrow> string \<Rightarrow> string \<Rightarrow> response" where
  "OverlayFileServer os upper lower requestPath = overlay_serve os [disk_layer upper, disk_layer lower] requestPath"

definition OverlayFileServerWithFS :: "fs \<Rightarrow> fs \<Rightarrow> string list \<Rightarrow> string \<Rightarrow> response" where
  "OverlayFileServerWithFS os lower diskDirs requestPath = overlay_serve os (overlayLayersWithFS lower diskDirs) requestPath"

subsection \<open>Static configuration files\<close>

definition staticConfigEnvDiskLayers :: "'p Environment \<Rightarrow> string \<Rightarrow> overlayLayer list" where
  "staticConfigEnvDiskLayers env envName =
     (if envName = [] then [] else [disk_layer (path_join [nv_DataDir env, nv_EnvDir env, envName, ''static''])])"

definition staticConfigBaseDiskLayers :: "'p Environment \<Rightarrow> overlayLayer list" where
  "staticConfigBaseDiskLayers env = [disk_layer (path_join [nv_DataDir env, ''static''])]"

definition staticConfigDiskLayers :: "'p Environment \<Rightarrow> string \<Rightarrow> overlayLayer list" where
  "staticConfigDiskLayers env envName = staticConfigEnvDiskLayers env envName @ staticConfigBaseDiskLayers env"

definition isStaticTemplateSourcePath :: "'p Environment \<Rightarrow> string \<Rightarrow> bool" where
  "isStaticTemplateSourcePath env fp \<longleftrightarrow> nv_TemplateExtension env \<noteq> [] \<and> hasSuffix fp (nv_TemplateExtension env)"

text \<open>
  \<^verbatim>\<open>StaticConfigFileHandler.ServeHTTP\<close>. \<open>embedded\<close> is the embedded directory \<^verbatim>\<open>static\<close>. Resolving the template request
  twice gives the same result, so the flag that remembers it is not needed; \<open>serve_if\<close> and \<open>render_if\<close> are the steps
  that answer or go on.
\<close>

definition serve_if :: "fs \<Rightarrow> overlayLayer list \<Rightarrow> string \<Rightarrow> response \<Rightarrow> response" where
  "serve_if os layers path otherwise =
     (case overlayPathStatus os layers (cleanRequestPath path) of
        Inl e \<Rightarrow> HttpError 500 (Msg e)
      | Inr (found, _) \<Rightarrow> if found then overlay_serve os layers path else otherwise)"

definition render_if :: "engine \<Rightarrow> 'p Environment \<Rightarrow> bool \<Rightarrow> string \<Rightarrow> (response + tparams \<times> string) \<Rightarrow> response \<Rightarrow> response" where
  "render_if en env cond templateName resolved otherwise =
     (if cond then (case resolved of Inl resp \<Rightarrow> resp | Inr rt \<Rightarrow> render_response en (nv_Templates env) templateName rt)
      else otherwise)"

definition static_answer ::
    "engine \<Rightarrow> fs \<Rightarrow> fs \<Rightarrow> 'p Environment \<Rightarrow> string \<Rightarrow> (response + tparams \<times> string) \<Rightarrow> string \<Rightarrow> response" where
  "static_answer en os embedded env path resolved envName =
     (let fp = cleanRequestPath path; templateName = path_join [''static'', fp];
          embeddedLayer = \<lparr>ol_dir = [], ol_fsys = Some embedded\<rparr>;
          allLayers = staticConfigDiskLayers env envName @ [embeddedLayer]
      in case overlayPathStatus os allLayers fp of
           Inl e \<Rightarrow> HttpError 500 (Msg e)
         | Inr (True, True) \<Rightarrow> overlay_serve os allLayers path
         | _ \<Rightarrow>
             serve_if os (staticConfigEnvDiskLayers env envName) path
               (render_if en env (envName \<noteq> [] \<and> HasTemplateOverride (nv_Templates env) templateName envName) templateName resolved
                 (serve_if os (staticConfigBaseDiskLayers env) path
                   (render_if en env (HasTemplate (nv_Templates env) templateName []) templateName resolved
                     (serve_if os [embeddedLayer] path (HttpError 404 (Msg ''404 page not found'')))))))"

definition StaticConfigFileHandler ::
    "time \<Rightarrow> engine \<Rightarrow> fs \<Rightarrow> fs \<Rightarrow> 'p Environment \<Rightarrow> Request \<Rightarrow> 'p \<Rightarrow> response" where
  "StaticConfigFileHandler now en os embedded env r db =
     (if isStaticTemplateSourcePath env (cleanRequestPath (hr_Path r)) then HttpError 404 (Msg ''404 page not found'')
      else let resolved = resolveTemplateRequest now env r False db
           in if first_value (hr_Query r) QueryParam \<noteq> [] then
                (case resolved of
                   Inl resp \<Rightarrow> resp
                 | Inr (_, envName) \<Rightarrow> static_answer en os embedded env (hr_Path r) resolved envName)
              else static_answer en os embedded env (hr_Path r) resolved (hr_EnvName r))"

subsection \<open>Facts: layers\<close>

lemma open_below:
  assumes "dir \<noteq> []"
  shows "below dir (path_clean (path_join [dir, cleanRequestPath p]))"
proof -
  obtain es where es: "list_all plain es" "trimPrefix (path_clean (''/'' @ p)) ''/'' = join ''/'' es"
    by (rule cleaned_plain)
  have "join ''/'' es = [] \<longleftrightarrow> es = []"
    using es(1) join_Cons_head [of es "''/''"] by (cases es) (auto simp: plain_def)
  then have "cleanRequestPath p = (if es = [] then ''.'' else join ''/'' es)" unfolding cleanRequestPath_def es(2) Let_def by simp
  moreover have "path_join [dir, q] \<noteq> []" for q
    by (rule path_join_nonempty [of dir]) (simp_all add: assms)
  ultimately show ?thesis using join_below(2) [OF assms es(1)] by (simp add: below_clean)
qed

text \<open>Two disks that agree below the directories of some layers cannot be told apart through these layers.\<close>

definition agree :: "fs \<Rightarrow> fs \<Rightarrow> string set \<Rightarrow> bool" where
  "agree os os' dirs \<longleftrightarrow> (\<forall>d \<in> dirs. \<forall>p. below d p \<longrightarrow> os p = os' p)"

definition layer_dirs :: "overlayLayer list \<Rightarrow> string set" where
  "layer_dirs layers = ol_dir ` {l \<in> set layers. ol_fsys l = None}"

lemma layer_open_agree:
  assumes "agree os os' (layer_dirs layers)" "[] \<notin> layer_dirs layers" "l \<in> set layers"
  shows "layer_open os l (cleanRequestPath p) = layer_open os' l (cleanRequestPath p)"
proof (cases "ol_fsys l")
  case None
  with assms(3) have dir: "ol_dir l \<in> layer_dirs layers" by (auto simp: layer_dirs_def)
  with assms(2) have "ol_dir l \<noteq> []" by metis
  then have "below (ol_dir l) (path_clean (path_join [ol_dir l, cleanRequestPath p]))" by (rule open_below)
  with assms(1) dir None show ?thesis by (simp add: layer_open_def agree_def)
qed (simp add: layer_open_def)

lemma overlay_status_cong:
  "(\<And>l. l \<in> set layers \<Longrightarrow> layer_open os l fp = layer_open os' l fp) \<Longrightarrow> overlayPathStatus os layers fp = overlayPathStatus os' layers fp"
  by (induction layers) (simp_all split: sum.splits fs_error.splits fs_node.splits)

lemma overlay_loop_cong:
  "(\<And>l. l \<in> set layers \<Longrightarrow> layer_open os l fp = layer_open os' l fp) \<Longrightarrow> overlay_loop os fp layers st = overlay_loop os' fp layers st"
proof (induction layers arbitrary: st)
  case (Cons l layers)
  have IH: "overlay_loop os fp layers st = overlay_loop os' fp layers st" for st
    using Cons by simp
  obtain isDir fileList firstFile where st: "st = (isDir, fileList, firstFile)" by (cases st)
  show ?case unfolding st overlay_loop.simps IH using Cons.prems [of l] by simp
qed simp

lemma layers_agree:
  assumes "agree os os' (layer_dirs layers)" "[] \<notin> layer_dirs layers"
  shows "overlayPathStatus os layers (cleanRequestPath p) = overlayPathStatus os' layers (cleanRequestPath p)"
    "overlay_serve os layers p = overlay_serve os' layers p"
    "serve_if os layers p other = serve_if os' layers p other"
proof -
  note same = layer_open_agree [OF assms]
  show s: "overlayPathStatus os layers (cleanRequestPath p) = overlayPathStatus os' layers (cleanRequestPath p)"
    by (rule overlay_status_cong) (rule same)
  have "overlay_loop os (cleanRequestPath p) layers st = overlay_loop os' (cleanRequestPath p) layers st" for st
    by (rule overlay_loop_cong) (rule same)
  then show o: "overlay_serve os layers p = overlay_serve os' layers p" by (simp add: overlay_serve_def)
  show "serve_if os layers p other = serve_if os' layers p other" unfolding serve_if_def s o by (rule refl)
qed

text \<open>The directories of static files for an environment.\<close>

definition static_dirs :: "'p Environment \<Rightarrow> string \<Rightarrow> string set" where
  "static_dirs env envName = layer_dirs (staticConfigDiskLayers env envName)"

lemma static_answer_agree:
  assumes "agree os os' (static_dirs env envName)"
  shows "static_answer en os embedded env path resolved envName = static_answer en os' embedded env path resolved envName"
proof -
  let ?all = "staticConfigDiskLayers env envName @ [\<lparr>ol_dir = [], ol_fsys = Some embedded\<rparr>]"
  have ne: "path_join [nv_DataDir env, nv_EnvDir env, envName, ''static''] \<noteq> []" "path_join [nv_DataDir env, ''static''] \<noteq> []"
    by (rule path_join_nonempty [of "''static''"]; simp)+
  have dirs: "layer_dirs ?all = static_dirs env envName" "layer_dirs (staticConfigEnvDiskLayers env envName) \<subseteq> static_dirs env envName"
    "layer_dirs (staticConfigBaseDiskLayers env) \<subseteq> static_dirs env envName"
    "layer_dirs [\<lparr>ol_dir = [], ol_fsys = Some embedded\<rparr>] \<subseteq> static_dirs env envName"
    by (auto simp: layer_dirs_def static_dirs_def staticConfigDiskLayers_def)
  have none: "[] \<notin> static_dirs env envName"
    using ne by (auto simp: static_dirs_def layer_dirs_def staticConfigDiskLayers_def staticConfigEnvDiskLayers_def
        staticConfigBaseDiskLayers_def disk_layer_def split: if_splits)
  have sub: "agree os os' D \<and> [] \<notin> D" if "D \<subseteq> static_dirs env envName" for D
    using that assms none by (auto simp: agree_def)
  note A = layers_agree [OF conjunct1 [OF sub [OF equalityD1 [OF dirs(1)]]] conjunct2 [OF sub [OF equalityD1 [OF dirs(1)]]]]
  note E = layers_agree [OF conjunct1 [OF sub [OF dirs(2)]] conjunct2 [OF sub [OF dirs(2)]]]
  note B = layers_agree [OF conjunct1 [OF sub [OF dirs(3)]] conjunct2 [OF sub [OF dirs(3)]]]
  note F = layers_agree [OF conjunct1 [OF sub [OF dirs(4)]] conjunct2 [OF sub [OF dirs(4)]]]
  show ?thesis unfolding static_answer_def Let_def A(1,2) E(3) B(3) F(3) by (rule refl)
qed

definition static_env :: "time \<Rightarrow> 'p Environment \<Rightarrow> Request \<Rightarrow> 'p \<Rightarrow> string" where
  "static_env now env r db =
     (if first_value (hr_Query r) QueryParam = [] then hr_EnvName r
      else case resolveTemplateRequest now env r False db of Inl _ \<Rightarrow> [] | Inr (_, envName) \<Rightarrow> envName)"

text \<open>
  C35. No request path leaves the static directories: two disks that agree at and below the static directory of the
  data directory and that of the environment of the request give the same response to it, whatever the path
  contains.
\<close>

theorem static_confined:
  assumes "agree os os' (static_dirs env (static_env now env r db))"
  shows "StaticConfigFileHandler now en os embedded env r db = StaticConfigFileHandler now en os' embedded env r db"
  using assms
  by (auto simp: StaticConfigFileHandler_def Let_def static_env_def intro: static_answer_agree split: sum.splits prod.splits)

definition sample_data_env :: "store Environment" where
  "sample_data_env = default_environment\<lparr>nv_DataDir := ''/srv'', nv_EnvDir := ''env'', nv_TemplateExtension := ''.slc''\<rparr>"

definition sample_get :: "string \<Rightarrow> Request" where
  "sample_get path = \<lparr>hr_Method = ''GET'', hr_Path = path, hr_RawPath = [], hr_EnvName = [], hr_Query = [], hr_PostForm = None, hr_Host = [],
     hr_RemoteAddr = [], hr_URLParam = []\<rparr>"

definition no_files :: fs where "no_files = (\<lambda>p. Inl NotExist)"

definition secret_files :: fs where
  "secret_files = (\<lambda>p. if p = ''/etc/shadow'' then Inr (FileNode ''root'') else Inl NotExist)"

theorem static_confined_witness:
  "StaticConfigFileHandler 0 plain_engine secret_files no_files sample_data_env (sample_get ''../../etc/shadow'') new_store
     = StaticConfigFileHandler 0 plain_engine no_files no_files sample_data_env (sample_get ''../../etc/shadow'') new_store
   \<and> secret_files ''/etc/shadow'' = Inr (FileNode ''root'')"
proof -
  have dirs: "static_dirs sample_data_env [] = {''/srv/static''}"
  proof -
    have "path_join [''/srv'', ''static''] = ''/srv/static''" by code_simp
    then show ?thesis
      by (auto simp: static_dirs_def layer_dirs_def staticConfigDiskLayers_def staticConfigEnvDiskLayers_def
        staticConfigBaseDiskLayers_def disk_layer_def sample_data_env_def)
  qed
  have "path_elems ''/etc/shadow'' = [''etc'', ''shadow''] \<and> path_elems ''/srv/static'' = [''srv'', ''static'']" by code_simp
  then have "\<not> below ''/srv/static'' ''/etc/shadow''" by (auto simp: below_def)
  then have "agree secret_files no_files {''/srv/static''}" by (auto simp: agree_def secret_files_def no_files_def)
  moreover have "static_env 0 sample_data_env (sample_get ''../../etc/shadow'') new_store = []"
    by (simp add: static_env_def sample_get_def first_value_def)
  ultimately show ?thesis
    using static_confined [of secret_files no_files sample_data_env 0 "sample_get ''../../etc/shadow''" new_store plain_engine no_files]
    by (simp add: dirs) (simp add: secret_files_def)
qed

text \<open>
  A file is served from the first layer that has it, and a path that is a directory in some layer is listed with the
  entries of all layers.
\<close>

lemma overlay_first_file:
  assumes "\<forall>l \<in> set upper. layer_open os l (cleanRequestPath p) = Inl NotExist"
    and "layer_open os l (cleanRequestPath p) = Inr (FileNode content)"
    and "\<forall>l \<in> set lower. \<exists>c. layer_open os l (cleanRequestPath p) \<in> {Inl NotExist, Inr (FileNode c)}"
  shows "overlay_serve os (upper @ l # lower) p = HttpText content"
proof -
  let ?fp = "cleanRequestPath p"
  have lower: "overlay_loop os ?fp lower (False, [], Some content) = Inr (False, [], Some content)"
    using assms(3) by (induction lower) auto
  have "overlay_loop os ?fp (upper @ l # lower) (False, [], None) = overlay_loop os ?fp (l # lower) (False, [], None)"
    using assms(1) by (induction upper) auto
  then show ?thesis using assms(2) lower by (simp add: overlay_serve_def)
qed

end
