(* ===== verification/HttpServer.thy ===== *)
theory HttpServer
  imports Static
begin

text \<open>
  The HTTP server as a client sees it: the embedded file systems (\<^verbatim>\<open>webfs.go\<close>, \<^verbatim>\<open>provisioningfs.go\<close>), the pages
  (\<^verbatim>\<open>handlers/common.go\<close>), the routes (\<^verbatim>\<open>router/router.go\<close>), the middlewares (\<^verbatim>\<open>handlers/middleware.go\<close>) and
  their composition (\<^verbatim>\<open>cmd/shoelaces/main.go\<close>). A response is what was written: status, headers and body, beside what
  the recorder of the logging middleware saw. Routing follows \<^verbatim>\<open>chi\<close>: literal text before a parameter, a parameter
  before a wildcard. From \<^verbatim>\<open>net/http\<close> there are \<^verbatim>\<open>Error\<close>, \<^verbatim>\<open>Redirect\<close>, \<^verbatim>\<open>StripPrefix\<close> and \<^verbatim>\<open>FileServer\<close>; the
  headers \<^verbatim>\<open>ServeContent\<close> adds, ranges and conditional requests are left out.
\<close>

subsection \<open>Embedded files\<close>

text \<open>\<^verbatim>\<open>fs.ValidPath\<close> and \<^verbatim>\<open>fs.Sub\<close>, which fails for no constant directory; the embedded files are arguments.\<close>

definition ValidPath :: "string \<Rightarrow> bool" where
  "ValidPath name \<longleftrightarrow> name = ''.'' \<or> list_all plain (split_on CHR ''/'' name)"

definition mustSub :: "fs \<Rightarrow> string \<Rightarrow> fs" where
  "mustSub fsys dir = (\<lambda>name. if ValidPath name then fsys (path_join [dir, name]) else Inl (FsError ''invalid argument''))"

definition StaticFS :: "fs \<Rightarrow> fs" where
  "StaticFS embeddedWeb = mustSub embeddedWeb ''web''"

definition TemplateFS :: "fs \<Rightarrow> fs" where
  "TemplateFS embeddedWeb = mustSub embeddedWeb ''web/templates/html''"

definition ProvisioningDefaultsFS :: "fs \<Rightarrow> fs" where
  "ProvisioningDefaultsFS embeddedProvisioningDefaults = mustSub embeddedProvisioningDefaults ''configs/data-dir''"

definition embeddedStaticConfigLayer :: "fs \<Rightarrow> fs" where
  "embeddedStaticConfigLayer embeddedProvisioningDefaults = mustSub (ProvisioningDefaultsFS embeddedProvisioningDefaults) ''static''"

subsection \<open>Answers\<close>

text \<open>
  What a handler does with the response writer. A page is a sequence of templates, each with the texts it wrote and
  the error it ended with; \<open>FileError\<close> is the error of a file server, \<open>Moved\<close> its redirection.
\<close>

datatype http_answer =
    Plain response
  | Page "(string list \<times> string option) list"
  | FileError nat string
  | Moved string
  | NotAllowed "string list"

record page_vars =
  pg_BaseURL :: string
  pg_HostnameMaps :: "((string \<Rightarrow> bool) \<times> Script) list"
  pg_NetworkMaps :: "(IPNet \<times> Script) list"
  pg_Scripts :: "ipxe_Script list"

text \<open>
  The pages are read at startup, from the directory given for the UI or from the embedded files; \<open>parse\<close> is the parser
  of \<^verbatim>\<open>html/template\<close> on their contents, and \<^const>\<open>None\<close> is the panic of \<^verbatim>\<open>template.Must\<close>.
\<close>

definition read_file :: "fs \<Rightarrow> string \<Rightarrow> string option" where
  "read_file fsys name = (case fsys name of Inr (FileNode content) \<Rightarrow> Some content | _ \<Rightarrow> None)"

fun read_files :: "fs \<Rightarrow> string list \<Rightarrow> string list option" where
  "read_files fsys [] = Some []"
| "read_files fsys (name # names) =
     (case read_file fsys name of
        None \<Rightarrow> None
      | Some content \<Rightarrow> map_option (Cons content) (read_files fsys names))"

definition page_files :: "string list" where
  "page_files = [''header.html'', ''index.html'', ''events.html'', ''mappings.html'', ''footer.html'']"

definition initStaticTemplatesFromDisk :: "(string list \<Rightarrow> 'h option) \<Rightarrow> fs \<Rightarrow> 'p Environment \<Rightarrow> 'h option" where
  "initStaticTemplatesFromDisk parse os env =
     Option.bind (read_files os (map (\<lambda>f. path_join [nv_UIDir env, ''templates/html/'' @ f]) page_files)) parse"

definition initStaticTemplates :: "(string list \<Rightarrow> 'h option) \<Rightarrow> fs \<Rightarrow> fs \<Rightarrow> 'p Environment \<Rightarrow> 'h option" where
  "initStaticTemplates parse os embeddedWeb env =
     (if UsesUIOverride env then initStaticTemplatesFromDisk parse os env
      else Option.bind (read_files (TemplateFS embeddedWeb) page_files) parse)"

text \<open>\<open>html\<close> is \<^verbatim>\<open>ExecuteTemplate\<close> of the parsed pages.\<close>

definition RenderDefaultTemplate ::
    "(string \<Rightarrow> page_vars \<Rightarrow> string list \<times> string option) \<Rightarrow> (string \<Rightarrow> (string \<times> bool) list option)
      \<Rightarrow> string \<Rightarrow> 'p Environment \<Rightarrow> http_answer" where
  "RenderDefaultTemplate html readDir templateName env =
     (let tplVars = \<lparr>pg_BaseURL = nv_BaseURL env, pg_HostnameMaps = nv_HostnameMaps env, pg_NetworkMaps = nv_NetworkMaps env,
            pg_Scripts = ScriptList readDir env\<rparr>
      in Page (map (\<lambda>tmpl. html tmpl tplVars) [''header'', templateName, ''footer'']))"

subsection \<open>File servers\<close>

definition path_base :: "string \<Rightarrow> string" where
  "path_base p =
     (if p = [] then ''.''
      else let q = rev (dropWhile (\<lambda>c. c = CHR ''/'') (rev p)); b = rev (takeWhile (\<lambda>c. c \<noteq> CHR ''/'') (rev q))
           in if b = [] then ''/'' else b)"

text \<open>\<^verbatim>\<open>http.Dir.Open\<close> and \<^verbatim>\<open>Open\<close> of \<^verbatim>\<open>http.FS\<close>.\<close>

definition dir_open :: "fs \<Rightarrow> string \<Rightarrow> fs" where
  "dir_open os dir = (\<lambda>name.
     let p = trimPrefix (path_clean (''/'' @ name)) ''/''; p = (if p = [] then ''.'' else p)
     in if CHR 0x00 \<in> set p then Inl (FsError ''http: invalid or unsafe file path'')
        else os (path_join [if dir = [] then ''.'' else dir, p]))"

definition fs_open :: "fs \<Rightarrow> fs" where
  "fs_open fsys = (\<lambda>name. fsys (if name = ''/'' then ''.'' else trimPrefix name ''/''))"

fun toHTTPError :: "fs_error \<Rightarrow> http_answer" where
  "toHTTPError NotExist = FileError 404 ''404 page not found''"
| "toHTTPError (FsError e) =
     (if e = ''permission denied'' then FileError 403 ''403 Forbidden'' else FileError 500 ''500 Internal Server Error'')"

text \<open>\<open>listing\<close> is the page \<^verbatim>\<open>dirList\<close> writes for the entries of a directory.\<close>

fun list_directory :: "((string \<times> (string + bool)) list \<Rightarrow> string) \<Rightarrow> string + (string \<times> (string + bool)) list \<Rightarrow> http_answer" where
  "list_directory listing (Inl e) = Plain (HttpError 500 (Msg ''Error reading directory''))"
| "list_directory listing (Inr es) = Plain (HttpText (listing es))"

definition FileServer :: "((string \<times> (string + bool)) list \<Rightarrow> string) \<Rightarrow> fs \<Rightarrow> string \<Rightarrow> http_answer" where
  "FileServer listing open_file requestPath =
     (let url = (if hasPrefix requestPath ''/'' then requestPath else ''/'' @ requestPath); name = path_clean url
      in if hasSuffix url ''/index.html'' then Moved ''./''
         else case open_file name of
           Inl e \<Rightarrow> toHTTPError e
         | Inr (FileNode content) \<Rightarrow>
             if last url \<noteq> CHR ''/'' then Plain (HttpText content)
             else if path_base url = ''/'' then FileError 500 ''http: attempting to traverse a non-directory''
             else Moved (''../'' @ path_base url)
         | Inr (DirNode d) \<Rightarrow>
             if last url \<noteq> CHR ''/'' then Moved (path_base url @ ''/'')
             else case open_file (trimSuffix name ''/'' @ ''/index.html'') of
                    Inr (FileNode content) \<Rightarrow> Plain (HttpText content)
                  | Inr (DirNode d') \<Rightarrow> list_directory listing d'
                  | Inl _ \<Rightarrow> list_directory listing d)"

definition staticFileServer ::
    "((string \<times> (string + bool)) list \<Rightarrow> string) \<Rightarrow> fs \<Rightarrow> fs \<Rightarrow> 'p Environment \<Rightarrow> string \<Rightarrow> http_answer" where
  "staticFileServer listing os embeddedWeb env =
     (if UsesUIOverride env then FileServer listing (dir_open os (nv_UIDir env))
      else FileServer listing (fs_open (StaticFS embeddedWeb)))"

subsection \<open>Routes\<close>

datatype pattern =
    Exact string
  | Param string
  | Wildcard string

datatype endpoint =
    PageEndpoint string
  | StaticFiles
  | UpdateTargetEndpoint
  | ServerListEndpoint
  | ListEventsEndpoint
  | GetEventEndpoint
  | BootSessionEndpoint
  | TemplateParamsEndpoint
  | StaticConfigEndpoint
  | GeneratedConfigEndpoint
  | TemplateEndpoint
  | StartPollingEndpoint
  | PollEndpoint
  | MenuEndpoint

text \<open>A route of one method, or of every method the router knows.\<close>

record Route =
  rt_Method :: "string option"
  rt_Pattern :: pattern
  rt_Endpoint :: endpoint

definition route :: "string option \<Rightarrow> pattern \<Rightarrow> endpoint \<Rightarrow> Route" where
  "route m p e = \<lparr>rt_Method = m, rt_Pattern = p, rt_Endpoint = e\<rparr>"

definition shoelaces_routes :: "Route list" where
  "shoelaces_routes =
     [route (Some ''GET'') (Exact ''/'') (PageEndpoint ''index''),
      route (Some ''GET'') (Exact ''/events'') (PageEndpoint ''events''),
      route (Some ''GET'') (Exact ''/mappings'') (PageEndpoint ''mappings''),
      route None (Wildcard ''/static/'') StaticFiles,
      route (Some ''POST'') (Exact ''/update/target'') UpdateTargetEndpoint,
      route (Some ''GET'') (Exact ''/ajax/servers'') ServerListEndpoint,
      route (Some ''GET'') (Exact ''/ajax/events'') ListEventsEndpoint,
      route (Some ''GET'') (Param ''/ajax/events/'') GetEventEndpoint,
      route (Some ''GET'') (Param ''/ajax/boot-sessions/'') BootSessionEndpoint,
      route None (Exact ''/ajax/script/params'') TemplateParamsEndpoint,
      route None (Wildcard ''/configs/static/'') StaticConfigEndpoint,
      route None (Wildcard ''/configs/generated/'') GeneratedConfigEndpoint,
      route None (Wildcard ''/configs/'') TemplateEndpoint,
      route (Some ''GET'') (Exact ''/start'') StartPollingEndpoint,
      route (Some ''GET'') (Param ''/poll/1/'') PollEndpoint,
      route (Some ''GET'') (Exact ''/ipxemenu'') MenuEndpoint]"

definition chi_methods :: "string list" where
  "chi_methods = [''CONNECT'', ''DELETE'', ''GET'', ''HEAD'', ''OPTIONS'', ''PATCH'', ''POST'', ''PUT'', ''QUERY'', ''TRACE'']"

fun literal :: "pattern \<Rightarrow> string" where
  "literal (Exact s) = s"
| "literal (Param s) = s"
| "literal (Wildcard s) = s"

text \<open>The value of the parameter or of the wildcard, where the pattern matches.\<close>

definition match_pattern :: "pattern \<Rightarrow> string \<Rightarrow> string option" where
  "match_pattern p path =
     (let rest = drop (length (literal p)) path
      in if \<not> hasPrefix path (literal p) then None
         else case p of
           Exact _ \<Rightarrow> if rest = [] then Some [] else None
         | Param _ \<Rightarrow> if rest \<noteq> [] \<and> CHR ''/'' \<notin> set rest then Some rest else None
         | Wildcard _ \<Rightarrow> Some rest)"

fun matches :: "string \<Rightarrow> Route list \<Rightarrow> (Route \<times> string) list" where
  "matches path [] = []"
| "matches path (rt # rts) = (case match_pattern (rt_Pattern rt) path of Some v \<Rightarrow> [(rt, v)] | None \<Rightarrow> []) @ matches path rts"

text \<open>
  The tree of the router is searched with backtracking, more literal text first: of the routes that match the path and
  take the method, the one with the longest literal part wins.
\<close>

fun longest :: "(Route \<times> string) list \<Rightarrow> (Route \<times> string) option" where
  "longest [] = None"
| "longest (m # ms) =
     (case longest ms of
        None \<Rightarrow> Some m
      | Some n \<Rightarrow> if length (literal (rt_Pattern (fst n))) > length (literal (rt_Pattern (fst m))) then Some n else Some m)"

definition takes :: "string \<Rightarrow> Route \<Rightarrow> bool" where
  "takes method rt \<longleftrightarrow> (case rt_Method rt of None \<Rightarrow> method \<in> set chi_methods | Some m \<Rightarrow> method = m)"

definition allowed :: "(Route \<times> string) list \<Rightarrow> string list" where
  "allowed ms = concat (map (\<lambda>(rt, _). case rt_Method rt of None \<Rightarrow> chi_methods | Some m \<Rightarrow> [m]) ms)"

datatype routed = Found endpoint string | Refused "string list" | Missing

definition FindRoute :: "Route list \<Rightarrow> string \<Rightarrow> string \<Rightarrow> routed" where
  "FindRoute routes method path =
     (let ms = matches path routes
      in if method \<notin> set chi_methods then Refused []
         else case longest (filter (\<lambda>(rt, _). takes method rt) ms) of
                Some (rt, v) \<Rightarrow> Found (rt_Endpoint rt) v
              | None \<Rightarrow> if ms = [] then Missing else Refused (allowed ms))"

definition routePath :: "Request \<Rightarrow> string" where
  "routePath r = (let p = (if hr_RawPath r \<noteq> [] then hr_RawPath r else hr_Path r) in if p = [] then ''/'' else p)"

definition StripPrefix :: "string \<Rightarrow> Request \<Rightarrow> Request option" where
  "StripPrefix pre r =
     (let p = trimPrefix (hr_Path r) pre; rp = trimPrefix (hr_RawPath r) pre
      in if length p < length (hr_Path r) \<and> (hr_RawPath r = [] \<or> length rp < length (hr_RawPath r))
         then Some (r\<lparr>hr_Path := p, hr_RawPath := rp\<rparr>) else None)"

subsection \<open>The response writer\<close>

text \<open>
  The headers, status and body sent, and the status and the bytes that \<^verbatim>\<open>responseRecorder\<close> saw. Headers set and statuses
  written after the first write are not sent, but the recorder sees them.
\<close>

record ResponseWriter =
  rw_header :: "(string \<times> string) list"
  rw_sent :: "nat option"
  rw_body :: string
  rw_status :: nat
  rw_bytes :: nat

definition new_writer :: ResponseWriter where
  "new_writer = \<lparr>rw_header = [], rw_sent = None, rw_body = [], rw_status = 200, rw_bytes = 0\<rparr>"

definition header_add :: "string \<Rightarrow> string \<Rightarrow> ResponseWriter \<Rightarrow> ResponseWriter" where
  "header_add k v w = (if rw_sent w = None then w\<lparr>rw_header := rw_header w @ [(k, v)]\<rparr> else w)"

definition header_del :: "string \<Rightarrow> ResponseWriter \<Rightarrow> ResponseWriter" where
  "header_del k w = (if rw_sent w = None then w\<lparr>rw_header := filter (\<lambda>(k', _). k' \<noteq> k) (rw_header w)\<rparr> else w)"

definition header_set :: "string \<Rightarrow> string \<Rightarrow> ResponseWriter \<Rightarrow> ResponseWriter" where
  "header_set k v w = header_add k v (header_del k w)"

definition WriteHeader :: "nat \<Rightarrow> ResponseWriter \<Rightarrow> ResponseWriter" where
  "WriteHeader status w =
     w\<lparr>rw_status := status, rw_sent := (case rw_sent w of None \<Rightarrow> Some status | Some st \<Rightarrow> Some st)\<rparr>"

definition rec_Write :: "string \<Rightarrow> ResponseWriter \<Rightarrow> ResponseWriter" where
  "rec_Write p w =
     w\<lparr>rw_sent := (case rw_sent w of None \<Rightarrow> Some 200 | Some st \<Rightarrow> Some st), rw_body := rw_body w @ p,
       rw_bytes := rw_bytes w + length p\<rparr>"

definition http_Error :: "string \<Rightarrow> nat \<Rightarrow> ResponseWriter \<Rightarrow> ResponseWriter" where
  "http_Error err code w =
     rec_Write (err @ newline) (WriteHeader code (header_set ''X-Content-Type-Options'' ''nosniff''
       (header_set ''Content-Type'' ''text/plain; charset=utf-8'' (header_del ''Content-Length'' w))))"

definition serveError :: "string \<Rightarrow> nat \<Rightarrow> ResponseWriter \<Rightarrow> ResponseWriter" where
  "serveError err code w =
     http_Error err code (header_del ''Last-Modified'' (header_del ''Etag'' (header_del ''Content-Encoding''
       (header_del ''Cache-Control'' w))))"

definition renderTemplate :: "string list \<times> string option \<Rightarrow> ResponseWriter \<Rightarrow> ResponseWriter" where
  "renderTemplate part w =
     (let w = fold rec_Write (fst part) w
      in case snd part of None \<Rightarrow> w | Some err \<Rightarrow> http_Error err 500 w)"

definition write_json :: "string \<Rightarrow> ResponseWriter \<Rightarrow> ResponseWriter" where
  "write_json body w = rec_Write body (header_set ''Content-Type'' ''application/json'' w)"

text \<open>\<open>encode\<close> is \<^verbatim>\<open>json.Marshal\<close> of the value of a response, \<open>message\<close> the text of an error.\<close>

fun write_response :: "(response \<Rightarrow> string) \<Rightarrow> (message \<Rightarrow> string) \<Rightarrow> response \<Rightarrow> ResponseWriter \<Rightarrow> ResponseWriter" where
  "write_response encode message (HttpError code m) w = http_Error (message m) code w"
| "write_response encode message (HttpText s) w = rec_Write s w"
| "write_response encode message (HttpRedirect url) w = WriteHeader 302 (header_set ''Location'' url w)"
| "write_response encode message HttpPanic w = w"
| "write_response encode message resp w = write_json (encode resp) w"

fun write_answer :: "(response \<Rightarrow> string) \<Rightarrow> (message \<Rightarrow> string) \<Rightarrow> http_answer \<Rightarrow> ResponseWriter \<Rightarrow> ResponseWriter" where
  "write_answer encode message (Plain resp) w = write_response encode message resp w"
| "write_answer encode message (Page parts) w = fold renderTemplate parts w"
| "write_answer encode message (FileError code err) w = serveError err code w"
| "write_answer encode message (Moved url) w = WriteHeader 301 (header_set ''Location'' url w)"
| "write_answer encode message (NotAllowed methods) w =
     rec_Write [] (WriteHeader 405 (fold (header_add ''Allow'') methods w))"

subsection \<open>Serving a request\<close>

text \<open>What the handlers use beside the request and the world.\<close>

record ('s, 'p) App =
  ap_env :: "'p Environment"
  ap_service :: "('s, 'p) Service"
  ap_engine :: engine
  ap_osenv :: env_lookup
  ap_lookupHost :: "string \<Rightarrow> string"
  ap_parse :: "string \<Rightarrow> ulid option"
  ap_disk :: fs
  ap_embeddedWeb :: fs
  ap_embeddedDefaults :: fs
  ap_readDir :: "string \<Rightarrow> (string \<times> bool) list option"
  ap_listing :: "(string \<times> (string + bool)) list \<Rightarrow> string"
  ap_html :: "string \<Rightarrow> page_vars \<Rightarrow> string list \<times> string option"
  ap_encode :: "response \<Rightarrow> string"
  ap_message :: "message \<Rightarrow> string"

text \<open>An entry of the request log, and the state of a request: the writer, the world, the log and whether a handler panicked.\<close>

record log_entry =
  le_src :: string
  le_method :: string
  le_path :: string
  le_status :: nat
  le_bytes :: nat

record ('s, 'p) Conn =
  cn_writer :: ResponseWriter
  cn_world :: "('s, 'p) World"
  cn_log :: "log_entry list"
  cn_panic :: bool

type_synonym ('s, 'p) handler = "Request \<Rightarrow> ('s, 'p) Conn \<Rightarrow> ('s, 'p) Conn"

definition not_found :: http_answer where
  "not_found = Plain (HttpError 404 (Msg ''404 page not found''))"

definition stripped :: "string \<Rightarrow> Request \<Rightarrow> (Request \<Rightarrow> http_answer) \<Rightarrow> http_answer" where
  "stripped pre r h = (case StripPrefix pre r of None \<Rightarrow> not_found | Some r \<Rightarrow> h r)"

definition plain_answer :: "response \<times> 'w \<Rightarrow> http_answer \<times> 'w" where
  "plain_answer rw = (Plain (fst rw), snd rw)"

fun serve_endpoint :: "('s, 'p) App \<Rightarrow> Tick \<Rightarrow> endpoint \<Rightarrow> Request \<Rightarrow> ('s, 'p) World \<Rightarrow> http_answer \<times> ('s, 'p) World" where
  "serve_endpoint a tk (PageEndpoint name) r w = (RenderDefaultTemplate (ap_html a) (ap_readDir a) name (ap_env a), w)"
| "serve_endpoint a tk StaticFiles r w =
     (stripped ''/static/'' r (\<lambda>r. staticFileServer (ap_listing a) (ap_disk a) (ap_embeddedWeb a) (ap_env a) (hr_Path r)), w)"
| "serve_endpoint a tk UpdateTargetEndpoint r w = plain_answer (UpdateTargetHandler (ap_osenv a) tk (ap_service a) r w)"
| "serve_endpoint a tk ServerListEndpoint r w = (Plain (ServerListHandler (ap_service a) w), w)"
| "serve_endpoint a tk ListEventsEndpoint r w = (Plain (ListEventsHandler w), w)"
| "serve_endpoint a tk GetEventEndpoint r w = (Plain (GetEventHandler (ap_parse a) r w), w)"
| "serve_endpoint a tk BootSessionEndpoint r w = (Plain (GetBootSessionReference (tk_now tk) (ap_env a) r (wd_db w)), w)"
| "serve_endpoint a tk TemplateParamsEndpoint r w = (Plain (TemplateParamsHandler (ap_env a) r), w)"
| "serve_endpoint a tk StaticConfigEndpoint r w =
     (stripped ''/configs/static/'' r (\<lambda>r. Plain (StaticConfigFileHandler (tk_now tk) (ap_engine a) (ap_disk a)
       (embeddedStaticConfigLayer (ap_embeddedDefaults a)) (ap_env a) r (wd_db w))), w)"
| "serve_endpoint a tk GeneratedConfigEndpoint r w =
     (stripped ''/configs/generated/'' r (\<lambda>r. Plain (GeneratedConfigHandler (tk_now tk) (ap_engine a) (ap_env a) r (wd_db w))), w)"
| "serve_endpoint a tk TemplateEndpoint r w =
     (stripped ''/configs/'' r (\<lambda>r. Plain (TemplateHandler (tk_now tk) (ap_engine a) (ap_env a) r (wd_db w))), w)"
| "serve_endpoint a tk StartPollingEndpoint r w = (Plain (StartPollingHandler (ap_service a)), w)"
| "serve_endpoint a tk PollEndpoint r w = plain_answer (PollHandler (ap_osenv a) (ap_lookupHost a) tk (ap_service a) r w)"
| "serve_endpoint a tk MenuEndpoint r w = (Plain (IPXEMenu (ap_readDir a) (ap_env a)), w)"

definition routed_answer :: "('s, 'p) App \<Rightarrow> Tick \<Rightarrow> Request \<Rightarrow> ('s, 'p) World \<Rightarrow> http_answer \<times> ('s, 'p) World" where
  "routed_answer a tk r w =
     (case FindRoute shoelaces_routes (hr_Method r) (routePath r) of
        Found e v \<Rightarrow> serve_endpoint a tk e (r\<lparr>hr_URLParam := v\<rparr>) w
      | Refused methods \<Rightarrow> (NotAllowed methods, w)
      | Missing \<Rightarrow> (not_found, w))"

definition ShoelacesRouter :: "('s, 'p) App \<Rightarrow> Tick \<Rightarrow> ('s, 'p) handler" where
  "ShoelacesRouter a tk r c =
     (case routed_answer a tk r (cn_world c) of
        (ans, w) \<Rightarrow> c\<lparr>cn_writer := write_answer (ap_encode a) (ap_message a) ans (cn_writer c), cn_world := w,
          cn_panic := (case ans of Plain HttpPanic \<Rightarrow> True | _ \<Rightarrow> False)\<rparr>)"

subsection \<open>Middlewares\<close>

text \<open>
  A middleware makes a handler of a handler. The environment that \<^verbatim>\<open>contextMiddleware\<close> puts into the context is an
  argument of the handlers. A panic skips the rest of every middleware.
\<close>

definition write_first :: "(ResponseWriter \<Rightarrow> ResponseWriter) \<Rightarrow> ('s, 'p) handler \<Rightarrow> ('s, 'p) handler" where
  "write_first f h = (\<lambda>r c. h r (c\<lparr>cn_writer := f (cn_writer c)\<rparr>))"

definition secureHeadersMiddleware :: "('s, 'p) handler \<Rightarrow> ('s, 'p) handler" where
  "secureHeadersMiddleware = write_first (\<lambda>w.
     header_add ''Content-Security-Policy'' (''script-src '' @ [CHR 0x27] @ ''self'' @ [CHR 0x27])
       (header_add ''X-Frame-Options'' ''DENY'' (header_add ''X-Content-Type-Options'' ''nosniff''
         (header_add ''X-XSS-Protection'' ''1; mode=block'' w))))"

definition disableCacheMiddleware :: "('s, 'p) handler \<Rightarrow> ('s, 'p) handler" where
  "disableCacheMiddleware = write_first (header_add ''Cache-Control'' ''no-cache, no-store, must-revalidate'')"

definition environment_middleware :: "('s, 'p) handler \<Rightarrow> ('s, 'p) handler" where
  "environment_middleware h = (\<lambda>r c. h (environmentMiddleware r) c)"

definition loggingMiddleware :: "('s, 'p) handler \<Rightarrow> ('s, 'p) handler" where
  "loggingMiddleware h = (\<lambda>r c.
     let c = h r (c\<lparr>cn_writer := (cn_writer c)\<lparr>rw_status := 200, rw_bytes := 0\<rparr>\<rparr>)
     in if cn_panic c then c
        else c\<lparr>cn_log := cn_log c @ [\<lparr>le_src = hr_RemoteAddr r, le_method = hr_Method r, le_path = hr_Path r,
          le_status = rw_status (cn_writer c), le_bytes = rw_bytes (cn_writer c)\<rparr>]\<rparr>)"

definition MiddlewareChain :: "('s, 'p) handler \<Rightarrow> ('s, 'p) handler" where
  "MiddlewareChain h =
     secureHeadersMiddleware (disableCacheMiddleware (environment_middleware (loggingMiddleware h)))"

definition runServer :: "('s, 'p) App \<Rightarrow> Tick \<Rightarrow> Request \<Rightarrow> ('s, 'p) World \<Rightarrow> ('s, 'p) Conn" where
  "runServer a tk r w =
     MiddlewareChain (ShoelacesRouter a tk) r \<lparr>cn_writer = new_writer, cn_world = w, cn_log = [], cn_panic = False\<rparr>"

subsection \<open>Facts: headers\<close>

definition header_values :: "string \<Rightarrow> ResponseWriter \<Rightarrow> string list" where
  "header_values k w = map snd (filter (\<lambda>(k', _). k' = k) (rw_header w))"

lemma header_sent [simp]:
  "rw_sent (header_add k v w) = rw_sent w" "rw_sent (header_del k w) = rw_sent w" "rw_sent (header_set k v w) = rw_sent w"
  by (simp_all add: header_add_def header_del_def header_set_def)

lemma header_values_write [simp]:
  "header_values k (WriteHeader st w) = header_values k w" "header_values k (rec_Write p w) = header_values k w"
  "header_values k (fold rec_Write ps w) = header_values k w"
  by (induction ps arbitrary: w) (simp_all add: header_values_def WriteHeader_def rec_Write_def)

lemma header_values_del [simp]:
  "header_values k (header_del k' w) = (if k' = k \<and> rw_sent w = None then [] else header_values k w)"
  by (auto simp: header_values_def header_del_def case_prod_beta intro!: arg_cong [where f = "map snd"] filter_cong)

lemma header_values_add [simp]:
  "header_values k (header_add k' v w) = (if k' = k \<and> rw_sent w = None then header_values k w @ [v] else header_values k w)"
  by (simp add: header_values_def header_add_def)

lemma header_values_set [simp]:
  "header_values k (header_set k' v w) = (if k' = k \<and> rw_sent w = None then [v] else header_values k w)"
  by (simp add: header_set_def)

lemma header_values_allow [simp]: "k \<noteq> ''Allow'' \<Longrightarrow> header_values k (fold (header_add ''Allow'') ms w) = header_values k w"
  by (induction ms arbitrary: w) simp_all

text \<open>A header that only \<^verbatim>\<open>Error\<close> sets, and only to this value, or nothing sets at all.\<close>

definition settled :: "string \<Rightarrow> string \<Rightarrow> bool" where
  "settled k v \<longleftrightarrow> k \<notin> set [''Content-Type'', ''Content-Length'', ''Location'', ''Allow'', ''Content-Encoding'', ''Etag'', ''Last-Modified'']
     \<and> (k = ''X-Content-Type-Options'' \<longrightarrow> v = ''nosniff'')"

lemma settled_error: "settled k v \<Longrightarrow> header_values k w = [v] \<Longrightarrow> header_values k (http_Error e c w) = [v]"
  by (auto simp: settled_def http_Error_def)

lemma settled_page: "settled k v \<Longrightarrow> header_values k w = [v] \<Longrightarrow> header_values k (fold renderTemplate parts w) = [v]"
proof (induction parts arbitrary: w)
  case (Cons part parts)
  have "header_values k (renderTemplate part w) = [v]"
    using Cons.prems settled_error [OF Cons.prems(1)] by (simp add: renderTemplate_def Let_def split: option.splits)
  with Cons show ?case by simp
qed simp

lemma settled_response:
  assumes "settled k v" "header_values k w = [v]"
  shows "header_values k (write_response enc msg resp w) = [v]"
  using assms settled_error [OF assms] by (cases resp) (auto simp: settled_def write_json_def)

lemma settled_answer:
  assumes "settled k v" "header_values k w = [v]" "k = ''Cache-Control'' \<longrightarrow> (\<forall>code e. ans \<noteq> FileError code e)"
  shows "header_values k (write_answer enc msg ans w) = [v]"
  using assms settled_response [OF assms(1,2)] settled_page [OF assms(1,2)]
  by (cases ans) (auto simp: settled_def serveError_def http_Error_def)

text \<open>The writer as the handler of a request finds it.\<close>

definition prepared :: "ResponseWriter" where
  "prepared = new_writer\<lparr>rw_header := [(''X-XSS-Protection'', ''1; mode=block''), (''X-Content-Type-Options'', ''nosniff''),
     (''X-Frame-Options'', ''DENY''), (''Content-Security-Policy'', ''script-src '' @ [CHR 0x27] @ ''self'' @ [CHR 0x27]),
     (''Cache-Control'', ''no-cache, no-store, must-revalidate'')]\<rparr>"

lemma runServer_eq:
  "runServer a tk r w = loggingMiddleware (ShoelacesRouter a tk) (environmentMiddleware r)
     \<lparr>cn_writer = prepared, cn_world = w, cn_log = [], cn_panic = False\<rparr>"
  by (simp add: runServer_def MiddlewareChain_def secureHeadersMiddleware_def disableCacheMiddleware_def
      environment_middleware_def write_first_def prepared_def header_add_def new_writer_def)

lemma logging_writer [simp]:
  "cn_writer (loggingMiddleware h r c) = cn_writer (h r (c\<lparr>cn_writer := (cn_writer c)\<lparr>rw_status := 200, rw_bytes := 0\<rparr>\<rparr>))"
  "cn_world (loggingMiddleware h r c) = cn_world (h r (c\<lparr>cn_writer := (cn_writer c)\<lparr>rw_status := 200, rw_bytes := 0\<rparr>\<rparr>))"
  by (simp_all add: loggingMiddleware_def Let_def)

lemma runServer_answer:
  assumes "routed_answer a tk (environmentMiddleware r) w = (ans, w')"
  shows "cn_writer (runServer a tk r w) = write_answer (ap_encode a) (ap_message a) ans prepared" "cn_world (runServer a tk r w) = w'"
  using assms by (simp_all add: runServer_eq ShoelacesRouter_def prepared_def new_writer_def)

subsection \<open>Facts: routes\<close>

lemma route_missing: "matches path routes = [] \<Longrightarrow> m \<in> set chi_methods \<Longrightarrow> FindRoute routes m path = Missing"
  by (simp add: FindRoute_def)

lemmas routing = FindRoute_def shoelaces_routes_def route_def match_pattern_def hasPrefix_def takes_def Let_def

lemma route_poll: "m \<noteq> [] \<Longrightarrow> CHR ''/'' \<notin> set m \<Longrightarrow> FindRoute shoelaces_routes ''GET'' (''/poll/1/'' @ m) = Found PollEndpoint m"
  by (simp add: routing chi_methods_def)

lemma route_generated: "m \<in> set chi_methods \<Longrightarrow>
    FindRoute shoelaces_routes m (''/configs/generated/'' @ p) = Found GeneratedConfigEndpoint p"
  by (simp add: routing)

lemma route_template: "m \<in> set chi_methods \<Longrightarrow> \<not> hasPrefix p ''static/'' \<Longrightarrow> \<not> hasPrefix p ''generated/'' \<Longrightarrow>
    FindRoute shoelaces_routes m (''/configs/'' @ p) = Found TemplateEndpoint p"
  by (simp add: routing)

lemma route_pages:
  "\<forall>(path, page) \<in> set [(''/'', ''index''), (''/events'', ''events''), (''/mappings'', ''mappings'')].
     FindRoute shoelaces_routes ''GET'' path = Found (PageEndpoint page) []"
  by code_simp

lemma route_env: "m \<in> set chi_methods \<Longrightarrow> FindRoute shoelaces_routes m (''/env/'' @ p) = Missing"
  by (rule route_missing) (simp add: routing)

lemma matches_set: "(rt, v) \<in> set (matches path routes) \<longleftrightarrow> rt \<in> set routes \<and> match_pattern (rt_Pattern rt) path = Some v"
  by (induction routes) (auto split: option.splits)

lemma static_route: "rt \<in> set shoelaces_routes \<Longrightarrow> rt_Endpoint rt = StaticFiles \<Longrightarrow> rt_Pattern rt = Wildcard ''/static/''"
  by (auto simp: shoelaces_routes_def route_def)

lemma file_error_route:
  assumes "routed_answer a tk r w = (FileError code e, w')"
  shows "hasPrefix (routePath r) ''/static/''"
proof -
  obtain ep v where f: "FindRoute shoelaces_routes (hr_Method r) (routePath r) = Found ep v"
      "serve_endpoint a tk ep (r\<lparr>hr_URLParam := v\<rparr>) w = (FileError code e, w')"
    using assms by (auto simp: routed_answer_def not_found_def split: routed.splits)
  then have "ep = StaticFiles"
    by (cases ep) (auto simp: plain_answer_def stripped_def not_found_def RenderDefaultTemplate_def Let_def split: option.splits)
  moreover obtain rt where "(rt, v) \<in> set (matches (routePath r) shoelaces_routes)" "rt_Endpoint rt = ep"
  proof -
    have sub: "longest ms = Some m \<Longrightarrow> m \<in> set ms" for ms m
      by (induction ms arbitrary: m) (auto split: option.splits if_splits)
    from f(1) show ?thesis
      by (auto simp: FindRoute_def Let_def intro: that split: if_splits option.splits prod.splits dest!: sub)
  qed
  ultimately have "match_pattern (Wildcard ''/static/'') (routePath r) = Some v" using static_route by (auto simp: matches_set)
  then show ?thesis by (simp add: match_pattern_def Let_def split: if_splits)
qed

subsection \<open>Facts: polling over HTTP\<close>

text \<open>What clients see of a sequence of requests: status and body of each answer.\<close>

definition seen :: "('s, 'p) Conn \<Rightarrow> nat option \<times> string" where
  "seen c = (rw_sent (cn_writer c), rw_body (cn_writer c))"

fun http_session :: "('s, 'p) App \<Rightarrow> (Tick \<times> Request) list \<Rightarrow> ('s, 'p) World \<Rightarrow> (nat option \<times> string) list \<times> ('s, 'p) World" where
  "http_session a [] w = ([], w)"
| "http_session a ((tk, r) # rs) w =
     (let c = runServer a tk r w; (out, w') = http_session a rs (cn_world c) in (seen c # out, w'))"

definition polling_host :: "('s, 'p) App \<Rightarrow> Request \<Rightarrow> string \<Rightarrow> Server \<Rightarrow> bool" where
  "polling_host a r m srv \<longleftrightarrow> hr_Method r = ''GET'' \<and> hr_RawPath r = [] \<and> hr_Path r = ''/poll/1/'' @ m \<and> m \<noteq> [] \<and> CHR ''/'' \<notin> set m
     \<and> (case SplitHostPort (hr_RemoteAddr r) of None \<Rightarrow> False
        | Some (ip, _) \<Rightarrow> validateMACAndIP (MacDashToColon m) ip = None
            \<and> srv = NewServer (MacDashToColon m) ip (if hr_Host r = [] then ap_lookupHost a ip else hr_Host r))"

lemma env_plain:
  assumes "hasPrefix (hr_Path r) ''/''" "\<not> hasPrefix (hr_Path r) ''/env/''"
  shows "environmentMiddleware r = r\<lparr>hr_EnvName := []\<rparr>"
proof -
  have "hd (hr_Path r) \<noteq> CHR '':''" using assms(1) by (cases "hr_Path r") (simp_all add: hasPrefix_def)
  then have "envRe (hr_Path r) = None" using assms(2) by (rule envRe_other [rotated])
  then show ?thesis by (simp add: environmentMiddleware_def)
qed

lemma prepared_sent [simp]: "rw_sent prepared = None" "rw_body prepared = []"
  by (simp_all add: prepared_def new_writer_def)

lemma http_poll:
  assumes "polling_host a r m srv" "Poll (ap_osenv a) tk (ap_service a) srv w = (Inr script, w')"
  shows "seen (runServer a tk r w) = (Some 200, script)" "cn_world (runServer a tk r w) = w'"
proof -
  note h = assms(1) [unfolded polling_host_def]
  from h have e: "environmentMiddleware r = r\<lparr>hr_EnvName := []\<rparr>" by (intro env_plain) (simp_all add: hasPrefix_def)
  have "routed_answer a tk (environmentMiddleware r) w = (Plain (HttpText script), w')"
    using h assms(2) route_poll [of m]
    by (auto simp: e routed_answer_def routePath_def Let_def plain_answer_def PollHandler_def split: option.splits)
  from runServer_answer [OF this] show "seen (runServer a tk r w) = (Some 200, script)" "cn_world (runServer a tk r w) = w'"
    by (simp_all add: seen_def rec_Write_def)
qed

lemma http_polls:
  assumes "polling_host a r m srv" "polls (ap_osenv a) (ap_service a) srv tks w = (map Inr scripts, w')"
  shows "http_session a (map (\<lambda>tk. (tk, r)) tks) w = (map (\<lambda>s. (Some 200, s)) scripts, w')"
  using assms(2)
proof (induction tks arbitrary: w scripts)
  case (Cons tk tks)
  then obtain script rest w1 where s: "Poll (ap_osenv a) tk (ap_service a) srv w = (Inr script, w1)" "scripts = script # rest"
      "polls (ap_osenv a) (ap_service a) srv tks w1 = (map Inr rest, w')"
    by (auto split: prod.splits simp: Cons_eq_map_conv)
  with Cons.IH [OF s(3)] http_poll [OF assms(1) s(1)] show ?case by (simp add: Let_def)
qed simp

subsection \<open>Facts: pages\<close>

lemma writes_sent: "rw_sent (fold rec_Write ps w) = (case rw_sent w of None \<Rightarrow> if ps = [] then None else Some 200 | Some st \<Rightarrow> Some st)"
  "rw_status (fold rec_Write ps w) = rw_status w"
  by (induction ps arbitrary: w) (auto simp: rec_Write_def split: option.splits)

lemma part_sent:
  "rw_sent (renderTemplate part w) = (case rw_sent w of Some st \<Rightarrow> Some st
     | None \<Rightarrow> if fst part \<noteq> [] then Some 200 else if snd part \<noteq> None then Some 500 else None)"
  "rw_status (renderTemplate part w) = (if snd part = None then rw_status w else 500)"
  by (auto simp: renderTemplate_def Let_def http_Error_def WriteHeader_def rec_Write_def [of "_ @ _"] header_set_def header_add_def
      header_del_def writes_sent split: option.splits)

lemma parts_sent:
  "rw_sent (fold renderTemplate parts w) = (case rw_sent w of Some st \<Rightarrow> Some st
     | None \<Rightarrow> (case filter (\<lambda>part. fst part \<noteq> [] \<or> snd part \<noteq> None) parts of [] \<Rightarrow> None
         | part # _ \<Rightarrow> Some (if fst part \<noteq> [] then 200 else 500)))"
  "rw_status (fold renderTemplate parts w) = (if list_all (\<lambda>part. snd part = None) parts then rw_status w else 500)"
  by (induction parts arbitrary: w) (auto simp: part_sent split: option.splits)

text \<open>Startup needs every page in the directory given for the UI: one missing file is a panic.\<close>

lemma read_files_missing: "name \<in> set names \<Longrightarrow> read_file fsys name = None \<Longrightarrow> read_files fsys names = None"
  by (induction names) (auto split: option.splits)

lemma missing_page_panics:
  assumes "UsesUIOverride env" "f \<in> set page_files" "read_file os (path_join [nv_UIDir env, ''templates/html/'' @ f]) = None"
  shows "initStaticTemplates parse os embeddedWeb env = None"
proof -
  have "read_files os (map (\<lambda>f. path_join [nv_UIDir env, ''templates/html/'' @ f]) page_files) = None"
    using assms(2,3) by (intro read_files_missing) auto
  with assms(1) show ?thesis by (simp add: initStaticTemplates_def initStaticTemplatesFromDisk_def)
qed

subsection \<open>Facts: generated files\<close>

lemma clean_plain_name:
  assumes "plain name"
  shows "path_clean name = name" "path_clean (''./generated/'' @ name) = ''generated/'' @ name"
proof -
  have n: "split_on CHR ''/'' name = [name]" using assms split_on_join [of "[name]" "CHR ''/''"] by (simp add: plain_def)
  have h: "hd name \<noteq> CHR ''/''" using assms by (cases name) (auto simp: plain_def)
  show "path_clean name = name" using assms h by (simp add: path_clean_def n Let_def clean_elems_plain plain_def)
  have "split_on CHR ''/'' (''./generated/'' @ name) = [''.'', ''generated'', name]"
    using split_on_append [of "CHR ''/''" "''.''" "''generated/'' @ name"] split_on_append [of "CHR ''/''" "''generated''" name] n by simp
  then show "path_clean (''./generated/'' @ name) = ''generated/'' @ name"
    using assms by (auto simp: path_clean_def Let_def plain_def)
qed

lemma strip_prefix: "hr_RawPath r = [] \<Longrightarrow> hr_Path r = pre @ p \<Longrightarrow> pre \<noteq> [] \<Longrightarrow> StripPrefix pre r = Some (r\<lparr>hr_Path := p, hr_RawPath := []\<rparr>)"
  by (simp add: StripPrefix_def Let_def trimPrefix_def hasPrefix_def)

text \<open>The variables of a template rendered without a reference: the query and the base URL.\<close>

definition query_variables :: "'p Environment \<Rightarrow> Request \<Rightarrow> tparams" where
  "query_variables env r = AList.update ''baseURL'' (TVal (VStr (BaseURLforEnvName (nv_BaseURL env) [])))
     (put_all [] (map (\<lambda>(k, v). (k, TVal v)) (query_params (firstQueryValues r))))"

lemma resolve_unreferenced:
  assumes "map_of (firstQueryValues r) QueryParam = None" "hr_EnvName r = []"
  shows "resolveTemplateRequest now env r False db = Inr (query_variables env r, [])"
    "resolveTemplateRequest now env r True db = Inl (HttpError 400 (Msg ''boot reference is required''))"
  using assms by (simp_all add: resolveTemplateRequest_def Let_def query_variables_def)

lemma query_update [simp]: "firstQueryValues (r\<lparr>hr_Path := p\<rparr>) = firstQueryValues r" "firstQueryValues (r\<lparr>hr_RawPath := p\<rparr>) = firstQueryValues r"
  "firstQueryValues (r\<lparr>hr_EnvName := p\<rparr>) = firstQueryValues r" "firstQueryValues (r\<lparr>hr_URLParam := p\<rparr>) = firstQueryValues r"
  by (simp_all add: firstQueryValues_def)

lemma variables_update [simp]: "query_variables env (r\<lparr>hr_Path := p\<rparr>) = query_variables env r"
  "query_variables env (r\<lparr>hr_RawPath := p\<rparr>) = query_variables env r" "query_variables env (r\<lparr>hr_EnvName := p\<rparr>) = query_variables env r"
  "query_variables env (r\<lparr>hr_URLParam := p\<rparr>) = query_variables env r"
  by (simp_all add: query_variables_def)

lemma error_sent: "rw_sent (http_Error e c w) = (case rw_sent w of None \<Rightarrow> Some c | Some st \<Rightarrow> Some st)"
  by (simp add: http_Error_def WriteHeader_def rec_Write_def split: option.splits)

subsection \<open>Samples\<close>

definition sample_html :: "string \<Rightarrow> page_vars \<Rightarrow> string list \<times> string option" where
  "sample_html name vars = (if name = ''index'' then ([''<ul>''], Some ''no script'') else ([name], None))"

definition sample_app :: "(store, store) App" where
  "sample_app = \<lparr>ap_env = sample_ref_env, ap_service = sample_service, ap_engine = plain_engine, ap_osenv = sample_env,
     ap_lookupHost = (\<lambda>_. []), ap_parse = (\<lambda>_. None), ap_disk = no_files, ap_embeddedWeb = no_files,
     ap_embeddedDefaults = no_files, ap_readDir = (\<lambda>_. None), ap_listing = (\<lambda>_. []), ap_html = sample_html,
     ap_encode = (\<lambda>_. ''{}''), ap_message = (\<lambda>_. ''error'')\<rparr>"

definition sample_poll :: Request where
  "sample_poll = \<lparr>hr_Method = ''GET'', hr_Path = ''/poll/1/06-66-de-ad-be-ef'', hr_RawPath = [], hr_EnvName = [], hr_Query = [],
     hr_PostForm = None, hr_Host = ''web1'', hr_RemoteAddr = ''10.0.0.9:4000'', hr_URLParam = []\<rparr>"

lemma sample_polling_host: "polling_host sample_app sample_poll ''06-66-de-ad-be-ef'' sample_host"
proof -
  have "SplitHostPort ''10.0.0.9:4000'' = Some (''10.0.0.9'', ''4000'')" "validateMACAndIP (MacDashToColon ''06-66-de-ad-be-ef'') ''10.0.0.9'' = None"
    "MacDashToColon ''06-66-de-ad-be-ef'' = ''06:66:de:ad:be:ef''" by code_simp+
  then show ?thesis by (simp add: polling_host_def sample_poll_def sample_host_def)
qed

lemma sample_unreferenced:
  "RenderTemplate plain_engine (nv_Templates sample_ref_env) ''generated/motd'' (Some (query_variables sample_ref_env sample_poll)) [] = Inr ''hi''"
proof -
  let ?tr = "\<lparr>tr_Root = ListNode [TextNode ''hi''], tr_String = ''hi''\<rparr>"
  let ?e = "empty_environment\<lparr>te_templateObj := [(''generated/motd'', ?tr)]\<rparr>"
  let ?s = "NewTemplates\<lparr>st_envTemplates := [(defaultEnvironment, ?e)]\<rparr>"
  have no: "\<not> contains (tr_String ?tr) ''<no value>''" "params_provisioning (query_variables sample_ref_env sample_poll) = None"
    "ins_ExtraTemplate (pv_Installer (copyProvisioningConfig zero_provisioning)) = []" by code_simp+
  have "\<not> isEmbeddedTemplate ?s ''generated/motd'' defaultEnvironment" "''generated/motd'' \<notin> set debian_templates"
    by (simp_all add: isEmbeddedTemplate_def empty_environment_def flag_at_def defaultEnvironment_def debian_templates_def)
  note render = plain_render [OF this(2,1) _ _ no(1) _ no(3), where e = ?e]
  have "RenderTemplate plain_engine ?s ''generated/motd'' (Some (query_variables sample_ref_env sample_poll)) [] = Inr (tr_String ?tr)"
  proof (rule render)
    show "zero_provisioning = (case params_provisioning (query_variables sample_ref_env sample_poll) of None \<Rightarrow> zero_provisioning | Some q \<Rightarrow> q)"
      unfolding no(2) by simp
  qed simp_all
  moreover have "nv_Templates sample_ref_env = ?s" by (simp add: sample_ref_env_def)
  ultimately show ?thesis by simp
qed

subsection \<open>Properties\<close>

text \<open>
  C33. Every answer carries each security header exactly once, whatever handler gave it, and forbids caching; only an
  error of the file server below \<^verbatim>\<open>/static/\<close> drops the latter header, as the library does.
\<close>

theorem secure_headers:
  "header_values ''X-XSS-Protection'' (cn_writer (runServer a tk r w)) = [''1; mode=block'']
   \<and> header_values ''X-Content-Type-Options'' (cn_writer (runServer a tk r w)) = [''nosniff'']
   \<and> header_values ''X-Frame-Options'' (cn_writer (runServer a tk r w)) = [''DENY'']
   \<and> header_values ''Content-Security-Policy'' (cn_writer (runServer a tk r w)) = [''script-src '' @ [CHR 0x27] @ ''self'' @ [CHR 0x27]]
   \<and> (header_values ''Cache-Control'' (cn_writer (runServer a tk r w)) = [''no-cache, no-store, must-revalidate'']
      \<or> header_values ''Cache-Control'' (cn_writer (runServer a tk r w)) = []
        \<and> hasPrefix (routePath (environmentMiddleware r)) ''/static/''
        \<and> (\<exists>code e. fst (routed_answer a tk (environmentMiddleware r) w) = FileError code e))"
proof -
  obtain ans w' where ans: "routed_answer a tk (environmentMiddleware r) w = (ans, w')" by (cases "routed_answer a tk (environmentMiddleware r) w")
  have kept: "header_values k (cn_writer (runServer a tk r w)) = [v]"
    if "settled k v" "header_values k prepared = [v]" "k = ''Cache-Control'' \<longrightarrow> (\<forall>code e. ans \<noteq> FileError code e)" for k v
    unfolding runServer_answer(1) [OF ans] using that by (rule settled_answer)
  have dropped: "header_values ''Cache-Control'' (cn_writer (runServer a tk r w)) = [] \<and> hasPrefix (routePath (environmentMiddleware r)) ''/static/''"
    if "ans = FileError code e" for code e
    using file_error_route [OF ans [unfolded that]] unfolding runServer_answer(1) [OF ans] that by (simp add: serveError_def http_Error_def)
  note vals = settled_def header_values_def prepared_def
  show ?thesis
    using dropped by (cases "\<exists>code e. ans = FileError code e") (auto simp: ans intro!: kept, simp_all add: vals)
qed

text \<open>
  C18. Polling over HTTP ends: a machine whose target is left to an operator and that asks for its script twelve
  times gets the retry script eleven times and then the timeout script, each with status 200, and is forgotten.
\<close>

theorem http_poll_times_out:
  assumes "polling_host a r m srv" "sp_serverStates (ap_service a) = persistent_store" "needs_choice (ap_osenv a) (ap_service a) srv"
    and "ok_persistent (wd_states w)" "GetState persistent_store (sv_Mac srv) (wd_states w) = Inl NoRows" "length ticks = 12"
  shows "\<exists>w'. http_session a (map (\<lambda>tk. (tk, r)) ticks) w =
      (replicate 11 (Some 200, genRetryScript (ap_service a) (sv_Mac srv)) @ [(Some 200, timeoutScript)], w')
    \<and> GetState persistent_store (sv_Mac srv) (wd_states w') = Inl NoRows"
proof -
  obtain w' where w': "polls (ap_osenv a) (ap_service a) srv ticks w =
      (map Inr (replicate 11 (genRetryScript (ap_service a) (sv_Mac srv)) @ [timeoutScript]), w')"
      "GetState persistent_store (sv_Mac srv) (wd_states w') = Inl NoRows"
    using pstore.poll_until_timeout [OF assms(2-6)] by auto
  show ?thesis using http_polls [OF assms(1) w'(1)] w'(2) by auto
qed

theorem http_poll_times_out_witness:
  "last (fst (http_session sample_app (map (\<lambda>n. (sample_tick n, sample_poll)) [0..<12]) sample_world)) = (Some 200, timeoutScript)"
proof -
  have a: "sp_serverStates (ap_service sample_app) = persistent_store" "needs_choice (ap_osenv sample_app) (ap_service sample_app) sample_host"
    using sample_needs_choice by (simp_all add: sample_app_def)
  have w: "ok_persistent (wd_states sample_world)" "GetState persistent_store (sv_Mac sample_host) (wd_states sample_world) = Inl NoRows"
    by (simp_all add: get_new)
  from http_poll_times_out [OF sample_polling_host a w, of "map sample_tick [0..<12]"] show ?thesis by (auto simp: comp_def)
qed

text \<open>
  C32. The guard of generated files depends on the spelling of the path. Without a boot reference
  \<^verbatim>\<open>/configs/generated/name\<close> is refused, but \<^verbatim>\<open>/configs/./generated/name\<close> is routed to the plain templates, whose
  handler cleans the path to the same name: the file is rendered from the query alone and sent.
\<close>

theorem generated_guard_spelling:
  assumes "hr_Method r \<in> set chi_methods" "hr_RawPath r = []" "map_of (firstQueryValues r) QueryParam = None" "plain name"
    and "RenderTemplate (ap_engine a) (nv_Templates (ap_env a)) (''generated/'' @ name) (Some (query_variables (ap_env a) r)) [] = Inr text"
  shows "rw_sent (cn_writer (runServer a tk (r\<lparr>hr_Path := ''/configs/generated/'' @ name\<rparr>) w)) = Some 400
    \<and> seen (runServer a tk (r\<lparr>hr_Path := ''/configs/./generated/'' @ name\<rparr>) w) = (Some 200, text)"
proof -
  note n = clean_plain_name [OF assms(4)]
  let ?r = "\<lambda>p. r\<lparr>hr_Path := p\<rparr>" and ?e = "\<lambda>p. r\<lparr>hr_Path := p, hr_EnvName := []\<rparr>"
  have e: "environmentMiddleware (?r (''/configs/'' @ p)) = ?e (''/configs/'' @ p)" for p by (simp add: env_plain hasPrefix_def)
  have out: "render_response (ap_engine a) (nv_Templates (ap_env a)) (''generated/'' @ name) (query_variables (ap_env a) r, []) = HttpText text"
    using assms(5) by (simp add: render_response_text)
  have "routed_answer a tk (?e (''/configs/generated/'' @ name)) w = (Plain (HttpError 400 (Msg ''boot reference is required'')), w)"
    using assms(1-4) route_generated [OF assms(1), of name]
    by (simp add: routed_answer_def routePath_def stripped_def strip_prefix GeneratedConfigHandler_def Let_def n resolve_unreferenced plain_def)
  moreover have "routed_answer a tk (?e (''/configs/./generated/'' @ name)) w = (Plain (HttpText text), w)"
    using assms(1-4) route_template [OF assms(1), of "''./generated/'' @ name"] n(2) out
    by (simp add: routed_answer_def routePath_def stripped_def strip_prefix TemplateHandler_def Let_def resolve_unreferenced hasPrefix_def)
  ultimately show ?thesis
    using runServer_answer(1) [of a tk "?r (''/configs/generated/'' @ name)" w]
      runServer_answer(1) [of a tk "?r (''/configs/./generated/'' @ name)" w] e [of "''generated/'' @ name"] e [of "''./generated/'' @ name"]
    by (simp add: seen_def error_sent rec_Write_def)
qed

theorem generated_guard_spelling_witness:
  "seen (runServer sample_app (sample_tick 0) (sample_poll\<lparr>hr_Path := ''/configs/./generated/motd''\<rparr>) sample_world) = (Some 200, ''hi'')
   \<and> rw_sent (cn_writer (runServer sample_app (sample_tick 0) (sample_poll\<lparr>hr_Path := ''/configs/generated/motd''\<rparr>) sample_world)) = Some 400"
proof -
  have r: "hr_Method sample_poll \<in> set chi_methods" "hr_RawPath sample_poll = []" "map_of (firstQueryValues sample_poll) QueryParam = None"
    "plain ''motd''" by code_simp+
  have "RenderTemplate (ap_engine sample_app) (nv_Templates (ap_env sample_app)) (''generated/'' @ ''motd'')
      (Some (query_variables (ap_env sample_app) sample_poll)) [] = Inr ''hi''"
    using sample_unreferenced by (simp add: sample_app_def)
  from generated_guard_spelling [OF r this] show ?thesis by simp
qed

text \<open>
  C34. A path below \<^verbatim>\<open>/env/name\<close> is answered like the path without this prefix, in the environment of that name. A
  path with escapes is not: the router goes by the raw path, which still has the prefix, and finds nothing.
\<close>

theorem environment_prefix:
  assumes "name \<noteq> []" "list_all env_char name" "CHR 0x0A \<notin> set path" "hr_Method r \<in> set chi_methods"
    and "routed_answer a tk (r\<lparr>hr_Path := CHR ''/'' # path, hr_RawPath := [], hr_EnvName := name\<rparr>) w = (ans, w')"
  shows "cn_writer (runServer a tk (r\<lparr>hr_Path := ''/env/'' @ name @ CHR ''/'' # path, hr_RawPath := []\<rparr>) w) =
      write_answer (ap_encode a) (ap_message a) ans prepared
    \<and> cn_world (runServer a tk (r\<lparr>hr_Path := ''/env/'' @ name @ CHR ''/'' # path, hr_RawPath := []\<rparr>) w) = w'
    \<and> rw_sent (cn_writer (runServer a tk (r\<lparr>hr_Path := ''/env/'' @ name @ CHR ''/'' # path, hr_RawPath := ''/env/'' @ raw\<rparr>) w)) = Some 404"
proof -
  let ?r = "\<lambda>raw. r\<lparr>hr_Path := ''/env/'' @ name @ CHR ''/'' # path, hr_RawPath := raw\<rparr>"
  have e: "environmentMiddleware (?r raw) = r\<lparr>hr_Path := CHR ''/'' # path, hr_RawPath := raw, hr_EnvName := name\<rparr>" for raw
    using envRe_env [OF assms(1-3)] by (simp add: environmentMiddleware_def)
  have "routed_answer a tk (environmentMiddleware (?r (''/env/'' @ raw))) w = (not_found, w)"
    using route_env [OF assms(4), of raw] unfolding e by (simp add: routed_answer_def routePath_def)
  from runServer_answer(1) [OF this] runServer_answer [OF assms(5) [folded e]] show ?thesis
    by (simp add: not_found_def error_sent)
qed

theorem environment_prefix_witness:
  "seen (runServer sample_app (sample_tick 0) (sample_poll\<lparr>hr_Path := ''/env/prod/start''\<rparr>) sample_world) = (Some 200, genStartScript ''boot:8081'')
   \<and> rw_sent (cn_writer (runServer sample_app (sample_tick 0) (sample_poll\<lparr>hr_Path := ''/env/prod/start'', hr_RawPath := ''/env/prod/st%61rt''\<rparr>) sample_world))
      = Some 404"
proof -
  have r: "list_all env_char ''prod''" "hr_Method sample_poll \<in> set chi_methods" by code_simp+
  have "FindRoute shoelaces_routes ''GET'' ''/start'' = Found StartPollingEndpoint []" by code_simp
  then have "routed_answer sample_app (sample_tick 0) (sample_poll\<lparr>hr_Path := CHR ''/'' # ''start'', hr_RawPath := [], hr_EnvName := ''prod''\<rparr>) sample_world =
      (Plain (HttpText (genStartScript ''boot:8081'')), sample_world)"
    by (simp add: routed_answer_def routePath_def sample_poll_def StartPollingHandler_def StartScript_def sample_app_def sample_service_parts)
  from environment_prefix [OF _ r(1) _ r(2) this, of "''prod/st%61rt''"] show ?thesis
    by (simp add: seen_def rec_Write_def sample_poll_def)
qed

text \<open>
  The status of a page in the log is 500 exactly when one of its three templates failed; the status that is
  sent is 500 only when the first template that does anything fails before it writes. So the log shows an error
  for a page that was sent with status 200.
\<close>

theorem page_status:
  assumes "hr_Method r = ''GET''" "hr_RawPath r = []" "(hr_Path r, page) \<in> set [(''/'', ''index''), (''/events'', ''events''), (''/mappings'', ''mappings'')]"
    and "RenderDefaultTemplate (ap_html a) (ap_readDir a) page (ap_env a) = Page parts"
  shows "map le_status (cn_log (runServer a tk r w)) = [if list_all (\<lambda>part. snd part = None) parts then 200 else 500]
    \<and> rw_sent (cn_writer (runServer a tk r w)) =
        (case filter (\<lambda>part. fst part \<noteq> [] \<or> snd part \<noteq> None) parts of [] \<Rightarrow> None
         | part # _ \<Rightarrow> Some (if fst part \<noteq> [] then 200 else 500))"
proof -
  have e: "environmentMiddleware r = r\<lparr>hr_EnvName := []\<rparr>" using assms(3) by (intro env_plain) (auto simp: hasPrefix_def)
  have "FindRoute shoelaces_routes ''GET'' (hr_Path r) = Found (PageEndpoint page) []" using assms(3) route_pages by fastforce
  then have ans: "routed_answer a tk (environmentMiddleware r) w = (Page parts, w)"
    using assms by (auto simp: e routed_answer_def routePath_def)
  have "cn_panic (ShoelacesRouter a tk (environmentMiddleware r) \<lparr>cn_writer = prepared\<lparr>rw_status := 200, rw_bytes := 0\<rparr>, cn_world = w, cn_log = [], cn_panic = False\<rparr>) = False"
    using ans by (simp add: ShoelacesRouter_def)
  then have "map le_status (cn_log (runServer a tk r w)) = [rw_status (cn_writer (runServer a tk r w))]"
    by (simp add: runServer_eq loggingMiddleware_def Let_def) (simp add: ShoelacesRouter_def split: prod.splits)
  then show ?thesis by (simp add: runServer_answer [OF ans] parts_sent) (simp add: prepared_def new_writer_def)
qed

theorem page_status_witness:
  "map le_status (cn_log (runServer sample_app (sample_tick 0) (sample_poll\<lparr>hr_Path := ''/''\<rparr>) sample_world)) = [500]
   \<and> rw_sent (cn_writer (runServer sample_app (sample_tick 0) (sample_poll\<lparr>hr_Path := ''/''\<rparr>) sample_world)) = Some 200"
proof -
  have "RenderDefaultTemplate (ap_html sample_app) (ap_readDir sample_app) ''index'' (ap_env sample_app) =
      Page [([''header''], None), ([''<ul>''], Some ''no script''), ([''footer''], None)]"
    by (simp add: RenderDefaultTemplate_def Let_def sample_app_def sample_html_def)
  from page_status [OF _ _ _ this, of "sample_poll\<lparr>hr_Path := ''/''\<rparr>"] show ?thesis by (simp add: sample_poll_def)
qed

end
