(* ===== verification/Logging.thy ===== *)
theory Logging
  imports BootSession
begin

text \<open>
  Logging (package \<^verbatim>\<open>log\<close>): the choice of level and handler, and the handler for local use, which writes one line
  per record. The other handlers, levels as numbers and records belong to \<^verbatim>\<open>log/slog\<close>. The text of a time and the runes
  that \<^verbatim>\<open>strconv\<close> counts as printable are arguments.
\<close>

subsection \<open>Levels and handlers\<close>

datatype Handler = HandlerDev | HandlerJSON | HandlerText

datatype Level = LevelDebug | LevelInfo | LevelWarn | LevelError

definition slogLevel :: "Level \<Rightarrow> int" where
  "slogLevel l = (case l of LevelDebug \<Rightarrow> -4 | LevelWarn \<Rightarrow> 4 | LevelError \<Rightarrow> 8 | LevelInfo \<Rightarrow> 0)"

definition ParseLevel :: "string \<Rightarrow> Level" where
  "ParseLevel s =
     (let t = toLower (trimSpace s)
      in if t = ''debug'' then LevelDebug
         else if t = ''info'' \<or> t = [] then LevelInfo
         else if t = ''warn'' \<or> t = ''warning'' then LevelWarn
         else if t = ''error'' then LevelError
         else LevelInfo)"

definition normalizeHandler :: "string \<Rightarrow> Handler" where
  "normalizeHandler s =
     (let t = toLower (trimSpace s)
      in if t = ''json'' then HandlerJSON else if t = ''txt'' \<or> t = ''text'' then HandlerText else HandlerDev)"

definition handlerName :: "Handler \<Rightarrow> string" where
  "handlerName h = (case h of HandlerDev \<Rightarrow> ''dev'' | HandlerJSON \<Rightarrow> ''json'' | HandlerText \<Rightarrow> ''text'')"

record log_options =
  lo_level :: int
  lo_levelSet :: bool
  lo_handler :: Handler
  lo_handlerSet :: bool

type_synonym log_option = "log_options \<Rightarrow> log_options"

definition WithLevel :: "Level \<Rightarrow> log_option" where
  "WithLevel level opts = opts\<lparr>lo_level := slogLevel level, lo_levelSet := True\<rparr>"

definition WithLevelString :: "string \<Rightarrow> log_option" where
  "WithLevelString level opts =
     (if level = [] then opts else opts\<lparr>lo_level := slogLevel (ParseLevel level), lo_levelSet := True\<rparr>)"

definition WithHandler :: "Handler \<Rightarrow> log_option" where
  "WithHandler handler opts = opts\<lparr>lo_handler := normalizeHandler (handlerName handler), lo_handlerSet := True\<rparr>"

definition WithHandlerString :: "string \<Rightarrow> log_option" where
  "WithHandlerString handler opts =
     (if handler = [] then opts else opts\<lparr>lo_handler := normalizeHandler handler, lo_handlerSet := True\<rparr>)"

text \<open>\<open>getenv\<close> is \<^verbatim>\<open>os.Getenv\<close>, empty for an unset variable.\<close>

definition MakeLogger :: "(string \<Rightarrow> string) \<Rightarrow> log_option list \<Rightarrow> int \<times> Handler" where
  "MakeLogger getenv opts =
     (let s = fold (\<lambda>apply s. apply s) opts
                \<lparr>lo_level = slogLevel (ParseLevel (getenv ''LOG_LEVEL'')), lo_levelSet = False,
                 lo_handler = normalizeHandler (getenv ''LOG_HANDLER''), lo_handlerSet = False\<rparr>;
          level = (if \<not> lo_levelSet s \<and> getenv ''LOG_LEVEL'' = [] then slogLevel LevelInfo else lo_level s);
          handler = (if \<not> lo_handlerSet s \<and> getenv ''LOG_HANDLER'' = [] then HandlerDev else lo_handler s)
      in (level, handler))"

text \<open>The options a server passes (\<^verbatim>\<open>environment.New\<close>).\<close>

definition server_log_options :: "string \<Rightarrow> string \<Rightarrow> bool \<Rightarrow> log_option list" where
  "server_log_options logLevel logHandler debug =
     [WithLevelString logLevel, WithHandlerString logHandler] @ (if debug then [WithLevel LevelDebug] else [])"

subsection \<open>Quoting\<close>

text \<open>\<^verbatim>\<open>strconv.Quote\<close>, byte by byte for ASCII; \<open>isPrint\<close> tells the runes above it that stay.\<close>

definition lower_hex :: "nat \<Rightarrow> char" where
  "lower_hex n = ''0123456789abcdef'' ! n"

definition hex_digits :: "nat \<Rightarrow> nat \<Rightarrow> string" where
  "hex_digits width n = map (\<lambda>i. lower_hex (n div 16 ^ i mod 16)) (rev [0..<width])"

definition rune_value :: "string \<Rightarrow> nat" where
  "rune_value r =
     (case map of_char r of
        [a] \<Rightarrow> a
      | [a, b] \<Rightarrow> (a mod 32) * 64 + b mod 64
      | [a, b, c] \<Rightarrow> (a mod 16) * 4096 + (b mod 64) * 64 + c mod 64
      | [a, b, c, d] \<Rightarrow> (a mod 8) * 262144 + (b mod 64) * 4096 + (c mod 64) * 64 + d mod 64
      | _ \<Rightarrow> 0)"

definition quote_ascii :: "char \<Rightarrow> string" where
  "quote_ascii c =
     (if c = CHR 0x22 \<or> c = CHR 0x5C then [CHR 0x5C, c]
      else if CHR 0x20 \<le> c \<and> c < CHR 0x7F then [c]
      else case map_of (zip [CHR 0x07, CHR 0x08, CHR 0x0C, CHR 0x0A, CHR 0x0D, CHR 0x09, CHR 0x0B] ''abfnrtv'') c of
        Some e \<Rightarrow> [CHR 0x5C, e]
      | None \<Rightarrow> [CHR 0x5C, CHR ''x''] @ hex_digits 2 (of_char c))"

definition quote_rune :: "(string \<Rightarrow> bool) \<Rightarrow> string \<Rightarrow> string" where
  "quote_rune isPrint r =
     (if length r = 1 then quote_ascii (hd r)
      else if isPrint r then r
      else if rune_value r < 65536 then [CHR 0x5C, CHR ''u''] @ hex_digits 4 (rune_value r)
      else [CHR 0x5C, CHR ''U''] @ hex_digits 8 (rune_value r))"

function quote_body :: "(string \<Rightarrow> bool) \<Rightarrow> string \<Rightarrow> string" where
  "quote_body isPrint s =
     (if s = [] then []
      else if rune_len s = 0 then [CHR 0x5C, CHR ''x''] @ hex_digits 2 (of_char (hd s)) @ quote_body isPrint (tl s)
      else quote_rune isPrint (take (rune_len s) s) @ quote_body isPrint (drop (rune_len s) s))"
  by pat_completeness auto
termination
  by (relation "measure (length \<circ> snd)") auto

declare quote_body.simps [simp del]

definition Quote :: "(string \<Rightarrow> bool) \<Rightarrow> string \<Rightarrow> string" where
  "Quote isPrint s = [CHR 0x22] @ quote_body isPrint s @ [CHR 0x22]"

subsection \<open>The handler for local use\<close>

text \<open>The values of attributes: a nil of any kind, a text, an error or a stringer by its text, or another value.\<close>

datatype log_value = LNil | LText string | LError string | LStringer string | LOther val

type_synonym attr = "string \<times> log_value"

record devHandler =
  dh_level :: int
  dh_attrs :: "attr list"
  dh_group :: string
  dh_color :: bool

record log_record =
  rd_Time :: time
  rd_Level :: int
  rd_Message :: string
  rd_Attrs :: "attr list"

definition newDevHandler :: "bool \<Rightarrow> int \<Rightarrow> devHandler" where
  "newDevHandler isTerminal level = \<lparr>dh_level = level, dh_attrs = [], dh_group = [], dh_color = isTerminal\<rparr>"

definition Enabled :: "devHandler \<Rightarrow> int \<Rightarrow> bool" where
  "Enabled h level \<longleftrightarrow> level \<ge> dh_level h"

definition devStyleForLevel :: "int \<Rightarrow> string \<times> string" where
  "devStyleForLevel level =
     (if level \<le> slogLevel LevelDebug then (''DBG'', ''33'')
      else if level \<ge> slogLevel LevelError then (''ERR'', ''31'')
      else if level \<ge> slogLevel LevelWarn then (''WRN'', ''35'')
      else (''INF'', ''36''))"

definition levelName :: "devHandler \<Rightarrow> int \<Rightarrow> string" where
  "levelName h level =
     (let style = devStyleForLevel level
      in if \<not> dh_color h then fst style
         else [CHR 0x1B] @ ''['' @ snd style @ ''m'' @ fst style @ [CHR 0x1B] @ ''[0m'')"

definition formatValue :: "(string \<Rightarrow> bool) \<Rightarrow> log_value \<Rightarrow> string" where
  "formatValue isPrint v =
     (case v of
        LNil \<Rightarrow> ''<nil>''
      | LText s \<Rightarrow> if s = [] \<or> containsAny s [CHR '' '', CHR 0x09, CHR 0x0A, CHR 0x0D, CHR 0x22, CHR ''=''] then Quote isPrint s else s
      | LError s \<Rightarrow> Quote isPrint s
      | LStringer s \<Rightarrow> Quote isPrint s
      | LOther v \<Rightarrow> sprint v)"

definition writeAttr :: "(string \<Rightarrow> bool) \<Rightarrow> devHandler \<Rightarrow> attr \<Rightarrow> string" where
  "writeAttr isPrint h a =
     (if a = ([], LNil) then []
      else let key = (if dh_group h \<noteq> [] then dh_group h @ ''.'' @ fst a else fst a)
           in '' '' @ key @ ''='' @ formatValue isPrint (snd a))"

definition Handle :: "(time \<Rightarrow> string) \<Rightarrow> (string \<Rightarrow> bool) \<Rightarrow> devHandler \<Rightarrow> log_record \<Rightarrow> string" where
  "Handle clock isPrint h r =
     clock (rd_Time r) @ '' '' @ levelName h (rd_Level r) @ (if rd_Message r \<noteq> [] then '' '' @ rd_Message r else [])
       @ concat (map (writeAttr isPrint h) (dh_attrs h)) @ concat (map (writeAttr isPrint h) (rd_Attrs r)) @ newline"

definition WithAttrs :: "devHandler \<Rightarrow> attr list \<Rightarrow> devHandler" where
  "WithAttrs h attrs = h\<lparr>dh_attrs := dh_attrs h @ attrs\<rparr>"

definition WithGroup :: "devHandler \<Rightarrow> string \<Rightarrow> devHandler" where
  "WithGroup h name = h\<lparr>dh_group := (if dh_group h = [] then name else dh_group h @ ''.'' @ name)\<rparr>"

subsection \<open>Facts\<close>

text \<open>No newline survives quoting.\<close>

lemma lower_hex_lf: "n < 16 \<Longrightarrow> lower_hex n \<noteq> CHR 0x0A"
proof -
  have "list_all (\<lambda>n. lower_hex n \<noteq> CHR 0x0A) [0..<16]" by code_simp
  then show "n < 16 \<Longrightarrow> lower_hex n \<noteq> CHR 0x0A" by (simp add: list_all_iff)
qed

lemma hex_digits_lf: "CHR 0x0A \<notin> set (hex_digits width n)"
proof
  assume "CHR 0x0A \<in> set (hex_digits width n)"
  then obtain i where "lower_hex (n div 16 ^ i mod 16) = CHR 0x0A" by (auto simp: hex_digits_def)
  with lower_hex_lf [of "n div 16 ^ i mod 16"] show False by simp
qed

lemma quote_ascii_lf: "CHR 0x0A \<notin> set (quote_ascii c)"
  using hex_digits_lf by (auto simp: quote_ascii_def less_eq_char_def split: option.splits)

abbreviation high :: "char \<Rightarrow> bool" where
  "high c \<equiv> 0x80 \<le> (of_char c :: nat)"

lemma rune_ranges:
  "rune_len s = 2 \<Longrightarrow> in_range 0xC2 0xDF (s ! 0) \<and> in_range 0x80 0xBF (s ! 1)"
  "rune_len s = 3 \<Longrightarrow> (in_range 0xE0 0xE0 (s ! 0) \<or> in_range 0xE1 0xEC (s ! 0) \<or> in_range 0xED 0xED (s ! 0) \<or> in_range 0xEE 0xEF (s ! 0))
     \<and> (in_range 0xA0 0xBF (s ! 1) \<or> in_range 0x80 0xBF (s ! 1) \<or> in_range 0x80 0x9F (s ! 1)) \<and> in_range 0x80 0xBF (s ! 2)"
  "rune_len s = 4 \<Longrightarrow> (in_range 0xF0 0xF0 (s ! 0) \<or> in_range 0xF1 0xF3 (s ! 0) \<or> in_range 0xF4 0xF4 (s ! 0))
     \<and> (in_range 0x90 0xBF (s ! 1) \<or> in_range 0x80 0xBF (s ! 1) \<or> in_range 0x80 0x8F (s ! 1)) \<and> in_range 0x80 0xBF (s ! 2)
     \<and> in_range 0x80 0xBF (s ! 3)"
  unfolding rune_len_def Let_def by (simp_all split: if_split_asm)

lemma rune_bytes:
  "rune_len s = 2 \<Longrightarrow> high (s ! 0) \<and> high (s ! 1)"
  "rune_len s = 3 \<Longrightarrow> high (s ! 0) \<and> high (s ! 1) \<and> high (s ! 2)"
  "rune_len s = 4 \<Longrightarrow> high (s ! 0) \<and> high (s ! 1) \<and> high (s ! 2) \<and> high (s ! 3)"
  using rune_ranges [of s] by (auto simp: in_range_def)

lemma rune_len_cases: "rune_len s \<in> {0, 1, 2, 3, 4}"
  by (simp add: rune_len_def Let_def)

lemma rune_high:
  assumes "rune_len s \<noteq> 1" "c \<in> set (take (rune_len s) s)"
  shows "c \<noteq> CHR 0x0A"
proof -
  obtain i where i: "i < rune_len s" "c = s ! i" using assms(2) by (auto simp: in_set_conv_nth)
  have "rune_len s = 2 \<or> rune_len s = 3 \<or> rune_len s = 4" using rune_len_cases [of s] assms(1) i(1) by auto
  moreover have "i = 0 \<or> i = 1 \<or> i = 2 \<or> i = 3" using rune_len_cases [of s] i(1) by auto
  ultimately have "high c" using rune_bytes [of s] i by (elim disjE; simp)
  then show ?thesis by auto
qed

lemma quote_body_lf: "CHR 0x0A \<notin> set (quote_body isPrint s)"
proof (induction isPrint s rule: quote_body.induct)
  case (1 isPrint s)
  consider "s = []" | "s \<noteq> []" "rune_len s = 0" | "s \<noteq> []" "rune_len s \<noteq> 0" by blast
  then show ?case
  proof cases
    case 1
    then show ?thesis by (simp add: quote_body.simps)
  next
    case 2
    with "1.IH"(1) hex_digits_lf show ?thesis by (simp add: quote_body.simps [of isPrint s])
  next
    case 3
    let ?r = "take (rune_len s) s"
    have "CHR 0x0A \<notin> set (quote_rune isPrint ?r)"
    proof (cases "length ?r = 1")
      case True
      with quote_ascii_lf show ?thesis by (simp add: quote_rune_def)
    next
      case False
      then have "rune_len s \<noteq> 1" using 3(1) by (cases s) auto
      then have "CHR 0x0A \<notin> set ?r" using rune_high [of s "CHR 0x0A"] by blast
      with False hex_digits_lf show ?thesis by (simp add: quote_rune_def)
    qed
    with 3 "1.IH"(2) show ?thesis by (simp add: quote_body.simps [of isPrint s])
  qed
qed

lemma containsAny_lf: "\<not> containsAny s [CHR '' '', CHR 0x09, CHR 0x0A, CHR 0x0D, CHR 0x22, CHR ''=''] \<Longrightarrow> CHR 0x0A \<notin> set s"
  by (auto simp: containsAny_def list_ex_iff)

lemma formatValue_lf: "(\<forall>x. v = LOther x \<longrightarrow> CHR 0x0A \<notin> set (sprint x)) \<Longrightarrow> CHR 0x0A \<notin> set (formatValue isPrint v)"
  using quote_body_lf containsAny_lf by (auto simp: formatValue_def Quote_def split: log_value.split)

text \<open>
  The level of a server's log: the debug flag, else the configured level, else the variable, else info.
\<close>

lemma server_level:
  "fst (MakeLogger getenv (server_log_options logLevel logHandler debug)) =
     slogLevel (if debug then LevelDebug else if logLevel \<noteq> [] then ParseLevel logLevel else ParseLevel (getenv ''LOG_LEVEL''))"
proof -
  have "ParseLevel [] = LevelInfo" by code_simp
  then show ?thesis
    by (simp add: MakeLogger_def server_log_options_def WithLevel_def WithLevelString_def WithHandlerString_def Let_def)
qed

text \<open>A group qualifies the attributes that were attached before it too.\<close>

lemma group_qualifies_earlier:
  "Handle clock isPrint (WithGroup (WithAttrs (newDevHandler False 0) [(''a'', LText ''x'')]) ''g'') r =
     Handle clock isPrint (WithAttrs (WithGroup (newDevHandler False 0) ''g'') [(''a'', LText ''x'')]) r"
  by (simp add: WithGroup_def WithAttrs_def newDevHandler_def)

subsection \<open>Properties\<close>

text \<open>
  C40. A record is one line of the log, whatever its text, error and stringer values hold: nothing a request carries in
  them can start another line. Only values of other types are printed as they are.
\<close>

theorem log_line_single:
  assumes "CHR 0x0A \<notin> set (clock (rd_Time r))" "CHR 0x0A \<notin> set (rd_Message r)" "CHR 0x0A \<notin> set (dh_group h)"
    and "\<forall>(k, v) \<in> set (dh_attrs h @ rd_Attrs r). CHR 0x0A \<notin> set k \<and> (\<forall>x. v = LOther x \<longrightarrow> CHR 0x0A \<notin> set (sprint x))"
  shows "\<exists>line. Handle clock isPrint h r = line @ [CHR 0x0A] \<and> CHR 0x0A \<notin> set line"
proof -
  have attr: "CHR 0x0A \<notin> set (writeAttr isPrint h a)" if "a \<in> set (dh_attrs h @ rd_Attrs r)" for a
  proof -
    obtain k v where a: "a = (k, v)" by fastforce
    with assms(4) that have "CHR 0x0A \<notin> set k" "\<forall>x. v = LOther x \<longrightarrow> CHR 0x0A \<notin> set (sprint x)" by auto
    with formatValue_lf [of v isPrint] assms(3) show ?thesis by (simp add: writeAttr_def Let_def a)
  qed
  have "CHR 0x0A \<notin> set (levelName h (rd_Level r))" by (simp add: levelName_def devStyleForLevel_def Let_def)
  with assms(1,2) attr show ?thesis
    by (auto simp: Handle_def newline_def intro!: exI [of _ "clock (rd_Time r) @ '' '' @ levelName h (rd_Level r)
        @ (if rd_Message r \<noteq> [] then '' '' @ rd_Message r else []) @ concat (map (writeAttr isPrint h) (dh_attrs h))
        @ concat (map (writeAttr isPrint h) (rd_Attrs r))"])
qed

definition sample_record :: "log_value \<Rightarrow> log_record" where
  "sample_record v = \<lparr>rd_Time = 0, rd_Level = 0, rd_Message = ''poll'', rd_Attrs = [(''host'', v)]\<rparr>"

theorem log_line_single_witness:
  "\<exists>line. Handle (\<lambda>_. ''[00:00:00.000]'') (\<lambda>_. False) (newDevHandler False 0) (sample_record (LText (''a'' @ newline @ ''b''))) = line @ [CHR 0x0A]
     \<and> CHR 0x0A \<notin> set line"
  by (rule log_line_single) (simp_all add: sample_record_def newDevHandler_def)

text \<open>A map value prints the newlines it holds.\<close>

lemma map_value_breaks_line:
  "count_list (Handle (\<lambda>_. []) isPrint (newDevHandler False 0) (sample_record (LOther (VMap [(''k'', VStr newline)])))) (CHR 0x0A) = 2"
  by (simp add: Handle_def sample_record_def newDevHandler_def writeAttr_def formatValue_def levelName_def devStyleForLevel_def
      newline_def slogLevel_def Let_def)

end
