(* ===== verification/Tftp.thy ===== *)
theory Tftp
  imports Static
begin

text \<open>
  The TFTP server (\<^verbatim>\<open>tftpserver/tftpserver.go\<close>): reading and uploading files below a root. The protocol is a library;
  a transfer is an argument, what the client sends or whether it takes what is read; its statistics are what the hooks
  of the library log. The disk is that of static
  files; creating a file may fail for reasons of the system.
\<close>

record TFTPServer =
  ts_addr :: string
  ts_root :: string
  ts_readonly :: bool
  ts_timeout :: time

definition NewTFTPServer :: "string \<Rightarrow> string \<Rightarrow> bool \<Rightarrow> time \<Rightarrow> TFTPServer" where
  "NewTFTPServer addr root readonly timeout = \<lparr>ts_addr = addr, ts_root = root, ts_readonly = readonly, ts_timeout = timeout\<rparr>"

definition safeJoin :: "TFTPServer \<Rightarrow> string \<Rightarrow> string" where
  "safeJoin s name =
     (let clean = trimPrefix (path_clean (''/'' @ name)) ''/'' in path_join [ts_root s, clean])"

datatype tftp_error = Open fs_error | Transfer string | UploadsDisabled | RootEmpty

text \<open>\<open>transfer\<close> is the transfer to the client: it may fail. A directory can be opened but not read.\<close>

definition tftp_read :: "fs \<Rightarrow> (string \<Rightarrow> string option) \<Rightarrow> TFTPServer \<Rightarrow> string \<Rightarrow> tftp_error + string" where
  "tftp_read os transfer s filename =
     (case os (safeJoin s filename) of
        Inl e \<Rightarrow> Inl (Open e)
      | Inr (DirNode _) \<Rightarrow> Inl (Transfer ''is a directory'')
      | Inr (FileNode content) \<Rightarrow> (case transfer content of Some e \<Rightarrow> Inl (Transfer e) | None \<Rightarrow> Inr content))"

text \<open>
  An upload: the file is created with \<^verbatim>\<open>O_EXCL\<close>, and what arrived before an error stays. \<open>create\<close> is \<^const>\<open>None\<close> when the
  system lets a new file be made.
\<close>

definition tftp_write ::
    "(string \<Rightarrow> fs_error option) \<Rightarrow> string \<times> string option \<Rightarrow> TFTPServer \<Rightarrow> string \<Rightarrow> fs \<Rightarrow> tftp_error option \<times> fs" where
  "tftp_write create sent s filename os =
     (if ts_readonly s then (Some UploadsDisabled, os)
      else let path = safeJoin s filename
           in case os path of
                Inr _ \<Rightarrow> (Some (Open (FsError ''file exists'')), os)
              | Inl (FsError e) \<Rightarrow> (Some (Open (FsError e)), os)
              | Inl NotExist \<Rightarrow>
                  (case create path of
                     Some e \<Rightarrow> (Some (Open e), os)
                   | None \<Rightarrow> (map_option Transfer (snd sent), os(path := Inr (FileNode (fst sent))))))"

definition ListenAndServe :: "TFTPServer \<Rightarrow> tftp_error option" where
  "ListenAndServe s = (if ts_root s = [] then Some RootEmpty else None)"

definition isTFTPOptionNegotiationAbort :: "string option \<Rightarrow> bool" where
  "isTFTPOptionNegotiationAbort err =
     (case err of None \<Rightarrow> False
      | Some msg \<Rightarrow> contains msg ''sending block 0:'' \<and> contains msg ''code=8'' \<and> contains (toLower msg) ''user aborted'')"

subsection \<open>Starting and logging\<close>

text \<open>The server that \<^verbatim>\<open>runServer\<close> starts beside the HTTP server.\<close>

definition tftp_listener :: "'p Environment \<Rightarrow> TFTPServer option" where
  "tftp_listener env =
     (case nv_TFTP env of
        None \<Rightarrow> None
      | Some c \<Rightarrow> if tf_Enabled c then Some (NewTFTPServer (tf_Addr c) (tf_Root c) (tf_Readonly c) (tf_Timeout c)) else None)"

record TransferStats =
  tx_RemoteAddr :: string
  tx_Filename :: string
  tx_Mode :: string
  tx_Duration :: time
  tx_DatagramsSent :: int
  tx_DatagramsAcked :: int
  tx_Opts :: "val entries"

definition tftpTransferAttrs :: "TransferStats \<Rightarrow> val entries" where
  "tftpTransferAttrs stats =
     [(''remote_addr'', VStr (tx_RemoteAddr stats)), (''filename'', VStr (tx_Filename stats)), (''mode'', VStr (tx_Mode stats)),
      (''duration'', VInt (tx_Duration stats)), (''datagrams_sent'', VInt (tx_DatagramsSent stats)),
      (''datagrams_acked'', VInt (tx_DatagramsAcked stats))]
     @ (if tx_Opts stats \<noteq> [] then [(''options'', VMap (tx_Opts stats))] else [])"

text \<open>A record of the log: level, message and attributes.\<close>

definition OnSuccess :: "TransferStats \<Rightarrow> string \<times> string \<times> val entries" where
  "OnSuccess stats = (''INFO'', ''TFTP transfer succeeded'', tftpTransferAttrs stats)"

definition OnFailure :: "TransferStats \<Rightarrow> string \<Rightarrow> string \<times> string \<times> val entries" where
  "OnFailure stats err =
     (let args = tftpTransferAttrs stats @ [(''err'', VStr err)]
      in if isTFTPOptionNegotiationAbort (Some err)
         then (''DEBUG'', ''TFTP transfer aborted by client during option negotiation'', args)
         else (''WARN'', ''TFTP transfer failed'', args))"

subsection \<open>Facts\<close>

lemma safeJoin_below:
  assumes "ts_root s \<noteq> []"
  shows "below (ts_root s) (safeJoin s name)"
proof -
  obtain es where "list_all plain es" "trimPrefix (path_clean (''/'' @ name)) ''/'' = join ''/'' es" by (rule cleaned_plain)
  with join_below(1) [OF assms] show ?thesis by (simp add: safeJoin_def)
qed

text \<open>A server configured with the defaults starts no TFTP server, and one that is only switched on takes no uploads.\<close>

lemma default_tftp:
  "nv_TFTP env = Some DefaultTFTPConfig \<Longrightarrow> tftp_listener env = None"
  "nv_TFTP env = Some (DefaultTFTPConfig\<lparr>tf_Enabled := True\<rparr>) \<Longrightarrow> tftp_listener env = Some s \<Longrightarrow>
     fst (tftp_write create sent s filename os) = Some UploadsDisabled"
  by (auto simp: tftp_listener_def DefaultTFTPConfig_def NewTFTPServer_def tftp_write_def)

text \<open>The probe of a client that gives up a transfer while options are negotiated is no warning.\<close>

lemma negotiation_abort_quiet:
  "fst (OnFailure stats ''sending block 0: code=8, error: User aborted the transfer'') = ''DEBUG''"
  "fst (OnFailure stats ''sending block 1: timeout'') = ''WARN''"
proof -
  have "isTFTPOptionNegotiationAbort (Some ''sending block 0: code=8, error: User aborted the transfer'')"
    "\<not> isTFTPOptionNegotiationAbort (Some ''sending block 1: timeout'')" by code_simp+
  then show "fst (OnFailure stats ''sending block 0: code=8, error: User aborted the transfer'') = ''DEBUG''"
    "fst (OnFailure stats ''sending block 1: timeout'') = ''WARN''" by (simp_all add: OnFailure_def Let_def)
qed

subsection \<open>Properties\<close>

text \<open>
  C37. A server that listens never leaves its root: what it sends depends only on files at or below the root, and an
  upload changes at most one path, below the root, where nothing was before, and only when uploads are enabled.
\<close>

theorem tftp_confined:
  assumes "ListenAndServe s = None" "tftp_write create sent s filename os = (err, os')"
  shows "(agree os os2 {ts_root s} \<longrightarrow> tftp_read os transfer s filename = tftp_read os2 transfer s filename)
    \<and> (\<forall>p. os' p \<noteq> os p \<longrightarrow> p = safeJoin s filename \<and> below (ts_root s) p \<and> os p = Inl NotExist \<and> \<not> ts_readonly s)"
proof -
  have root: "ts_root s \<noteq> []" using assms(1) by (auto simp: ListenAndServe_def split: if_splits)
  have "tftp_read os transfer s filename = tftp_read os2 transfer s filename" if "agree os os2 {ts_root s}"
    using that safeJoin_below [OF root, of filename] by (simp add: agree_def tftp_read_def)
  moreover have "p = safeJoin s filename \<and> below (ts_root s) p \<and> os p = Inl NotExist \<and> \<not> ts_readonly s" if "os' p \<noteq> os p" for p
    using that assms(2) safeJoin_below [OF root, of filename]
    by (auto simp: tftp_write_def Let_def split: if_splits sum.splits fs_error.splits option.splits)
  ultimately show ?thesis by blast
qed

definition sample_tftp :: TFTPServer where
  "sample_tftp = NewTFTPServer '':69'' ''/srv/tftp'' False 5"

theorem tftp_confined_witness:
  "tftp_read secret_files (\<lambda>_. None) sample_tftp ''../../etc/shadow'' = tftp_read no_files (\<lambda>_. None) sample_tftp ''../../etc/shadow''
   \<and> snd (tftp_write (\<lambda>_. None) (''x'', None) sample_tftp ''../../etc/shadow'' secret_files) ''/etc/shadow'' = Inr (FileNode ''root'')"
proof -
  let ?w = "tftp_write (\<lambda>_. None) (''x'', None) sample_tftp ''../../etc/shadow'' secret_files"
  have l: "ListenAndServe sample_tftp = None" by code_simp
  have root: "ts_root sample_tftp = ''/srv/tftp''" by (simp add: sample_tftp_def NewTFTPServer_def)
  have "path_elems ''/etc/shadow'' = [''etc'', ''shadow''] \<and> path_elems ''/srv/tftp'' = [''srv'', ''tftp'']" by code_simp
  then have out: "\<not> below ''/srv/tftp'' ''/etc/shadow''" by (auto simp: below_def)
  then have same: "agree secret_files no_files {''/srv/tftp''}" by (auto simp: agree_def secret_files_def no_files_def)
  have w: "tftp_write (\<lambda>_. None) (''x'', None) sample_tftp ''../../etc/shadow'' secret_files = (fst ?w, snd ?w)" by simp
  note T = tftp_confined [OF l w, of no_files "\<lambda>_. None", unfolded root]
  have "tftp_read secret_files (\<lambda>_. None) sample_tftp ''../../etc/shadow'' =
      tftp_read no_files (\<lambda>_. None) sample_tftp ''../../etc/shadow''"
    by (rule conjunct1 [OF T, THEN mp, OF same])
  moreover have "snd ?w ''/etc/shadow'' = secret_files ''/etc/shadow''"
    using conjunct2 [OF T, THEN spec, of "''/etc/shadow''"] out by metis
  moreover have "secret_files ''/etc/shadow'' = Inr (FileNode ''root'')" by (simp add: secret_files_def)
  ultimately show ?thesis by metis
qed

end
