(* ===== verification/Spec2Isabelle.thy ===== *)
theory Spec2Isabelle
  imports Contract Flags HttpServer Logging Tftp
begin

text \<open>
  Shoelaces, a network boot server: a model of its Go sources and the theorems that make it correct.

  \<^bold>\<open>The program.\<close> A machine that boots over the network polls Shoelaces. A resolver built from the mappings file
  picks the boot target of the machine by its MAC address, its IP address, its host name or its network, and
  merges the layers of parameters, accounts and provisioning data of the target. A machine with an automatic
  target gets its boot script at once; any other waits, polling up to eleven times, until an operator chooses a
  target or the server gives up. Scripts and installer files are templates rendered with flat parameters that are
  projected from the structured data. Waiting states, events and boot sessions live in a backend behind small
  interfaces; secrets are redacted before anything is logged or shown.

  \<^bold>\<open>The theories.\<close>

  \<^descr> \<open>Prelude\<close> has maps, slices and strings of Go, and early returns. A map is the list of its entries in
    iteration order, so a theorem holds for every order; nil maps and slices are \<^const>\<open>None\<close>. Strings are bytes.
  \<^descr> \<open>Values\<close> has parameter values and environment references (\<^verbatim>\<open>mappings/resolver.go\<close>).
  \<^descr> \<open>Config\<close> and \<open>Layers\<close> have the structs of \<^verbatim>\<open>mappings/provisioning.go\<close>, the merge of a layer over another and
    the copies, with the algebra of the merge.
  \<^descr> \<open>Users\<close> has accounts (\<^verbatim>\<open>mappings/users.go\<close>): layers, resolution, and their projection for templates.
  \<^descr> \<open>GoNet\<close> has the parsers of MAC addresses, IP addresses and networks of the package \<^verbatim>\<open>net\<close>, at 8-bit words.
  \<^descr> \<open>Validate\<close> has every validator of the mappings file (\<^verbatim>\<open>mappings/parse.go\<close>, \<^verbatim>\<open>internal/validation\<close>).
  \<^descr> \<open>Resolver\<close> has the compiled rule tables, the choice of a target and the merge of layers
    (\<^verbatim>\<open>mappings/resolver.go\<close>, \<^verbatim>\<open>mappings/mappings.go\<close>).
  \<^descr> \<open>Projection\<close> has the flat parameters of the templates (\<^verbatim>\<open>mappings/provisioning.go\<close>, \<^verbatim>\<open>internal/storage\<close>).
  \<^descr> \<open>Json\<close> and \<open>GoPath\<close> have what the code uses of \<^verbatim>\<open>encoding/json\<close> and of \<^verbatim>\<open>path/filepath\<close>.
  \<^descr> \<open>Utils\<close> has the helpers and the redaction of secrets (\<^verbatim>\<open>utils\<close>).
  \<^descr> \<open>Persistence\<close> has the records and the interfaces of the backends, as records of functions, the memory
    backend, and the backend configuration (\<^verbatim>\<open>persistence\<close>, \<^verbatim>\<open>persistence/memory\<close>).
  \<^descr> \<open>ServerState\<close> has the two stores of waiting states, the map in memory and the adapter over a backend with its
    JSON columns, and the sweep of old states (\<^verbatim>\<open>server\<close>). The locale \<open>state_store\<close> is the contract of both.
  \<^descr> \<open>EventLog\<close> has the event log (\<^verbatim>\<open>event/event.go\<close>) over the locale \<open>event_backend\<close>.
  \<^descr> \<open>BootSession\<close> has boot references (\<^verbatim>\<open>bootsession/session.go\<close>) over the locale \<open>session_backend\<close>.
  \<^descr> \<open>Polling\<close> has the polling service (\<^verbatim>\<open>polling/polling.go\<close>), its lemmas proved for any \<open>state_store\<close>, and the
    step relation of a service whose hosts poll, whose operators choose and whose sweep runs in any order.
  \<^descr> \<open>Templates\<close> has the templates (\<^verbatim>\<open>templates/templates.go\<close>): index, loading, variables, checks and rendering;
    \<open>TemplateLoading\<close> and \<open>TemplateRendering\<close> have the facts on them.
  \<^descr> \<open>Sqlite\<close> has the SQLite backend (\<^verbatim>\<open>persistence/sqlite\<close>): the tables with their constraints, the queries and the
    store over them, shown to refine the memory backend. \<open>Contract\<close> has the contract every backend has to meet
    (\<^verbatim>\<open>persistence/persistencetest\<close>).
  \<^descr> \<open>Environment\<close> has options, startup and retention (\<^verbatim>\<open>environment\<close>).
  \<^descr> \<open>Requests\<close> has the HTTP handlers (\<^verbatim>\<open>handlers\<close>) and the list of iPXE scripts (\<^verbatim>\<open>ipxe\<close>).
  \<^descr> \<open>Paths\<close> has facts on cleaned paths, and \<open>Static\<close> the overlay of static files (\<^verbatim>\<open>handlers/static.go\<close>).
  \<^descr> \<open>HttpServer\<close> has the server as a client sees it: embedded files, pages (\<^verbatim>\<open>handlers/common.go\<close>), routes
    (\<^verbatim>\<open>router\<close>), the response writer and the middlewares (\<^verbatim>\<open>handlers/middleware.go\<close>), composed as \<^verbatim>\<open>runServer\<close> does.
  \<^descr> \<open>Tftp\<close> has the TFTP server (\<^verbatim>\<open>tftpserver\<close>).
  \<^descr> \<open>Commands\<close> has the configuration file and the command \<^verbatim>\<open>run\<close>, and \<open>Inspection\<close> the commands that inspect a
    database (\<^verbatim>\<open>cmd/shoelaces\<close>). \<open>Flags\<close> has the flags of \<^verbatim>\<open>run\<close> and where their values come from.
  \<^descr> \<open>Logging\<close> has the choice of level and handler and the handler for local use (\<^verbatim>\<open>log\<close>).

  \<^bold>\<open>What is shown.\<close> The resolver takes the first matching rule, selects only targets the rule allows and refuses
  others, gives every parameter the value of its strongest layer, and lets no incomplete RAID or encryption
  section through. Accounts resolve independently of map order. The projection keeps what the caller set and
  leaves no template key unset. Both state stores refine one specification; a state survives the store and is
  swept when its host is silent. A poll refines an abstract retry protocol, so a waiting host gets a bounded
  number of retries and then the timeout script, a choice boots exactly once, and a refused choice changes
  nothing. Boot references resolve until they expire and not after. Secrets do not reach events, records or the
  operator view. Templates are rendered only with safe parameters, quoted values are one shell word, and the
  listing of variables reaches every referenced template and ends. The two backends give the same answers and meet
  their contract. A server that starts is well formed; the handler of generated files, which may hold secrets, gives
  one only for a live boot reference and renders it from what was stored with it, but another spelling of the path
  gets around that handler, to a rendering from the query alone; no request path leaves the static directories, and no
  transfer the TFTP root. Every answer of the HTTP server has the security headers, a machine that polls it without a
  choice is told to stop, and a path in an environment is answered as the plain path. Inspection commands open the
  database of the server and print no secret, and no value of a request starts a line of the log.

  \<^bold>\<open>Choices.\<close> Errors are values of datatypes, one constructor for every error of the source; a panic is such a
  value too. The clock and generated identifiers are arguments. Every function is total: loops are structural or
  have a termination proof, and no fuel is used. Regular expressions, \<^verbatim>\<open>net/url\<close>, the YAML decoder, the template
  engine, the JSON encoding of responses and the files on disk are arguments of the definitions that use them. The
  choice of a route is that of the router the sources use, on the patterns the table has.

  \<^bold>\<open>Not modelled.\<close> Locks and goroutines (each operation of the stores holds its lock throughout, so operations are
  atomic steps; a tick of a cleaner is a call of its sweep), what is logged where, beside the request log, the headers
  and partial contents of served files, the TFTP protocol, executing HTML templates, splitting a command line into
  flags, the migrations of the database and the generated handle of it.
\<close>

end
